(* ===== verification/Prelude.thy ===== *)
theory Prelude
  imports Main "HOL-Library.Sublist"
begin

text \<open>
  Shared material of the development: the collections that carry the component proofs, the
  result type of the fallible operations, and generic lemmas on folds, lists and options.

  A Go function that returns \<open>(T, error)\<close> is modelled as \<open>'e + 't\<close>: \<open>Inl e\<close> is the
  non-nil error and \<open>Inr t\<close> the value returned with a nil error.  A pointer that may be nil
  is an \<open>option\<close>.  Strings and byte slices are lists of bytes, that is \<open>string\<close>.
\<close>

named_theorems go_eval \<open>equations that evaluate the models of the Go standard library\<close>
named_theorems step_inv \<open>preservation facts: one operation keeps an invariant\<close>

type_synonym bytes = string

abbreviation is_ok :: "'e + 'a \<Rightarrow> bool" where
  "is_ok r \<equiv> (\<exists>a. r = Inr a)"

section \<open>Folds\<close>

text \<open>
  Every line-oriented parser of the repository is a left fold of a step function over the
  lines of a response.  An invariant of the step is an invariant of the fold.
\<close>

lemma foldl_invariant:
  assumes "I s" and "\<And>s x. x \<in> set xs \<Longrightarrow> I s \<Longrightarrow> I (f s x)"
  shows "I (foldl f s xs)"
  using assms by (induction xs arbitrary: s) auto

lemma foldl_frame:
  assumes "\<And>s x. g (f s x) = g s"
  shows "g (foldl f s xs) = g s"
  using assms by (induction xs arbitrary: s) auto

lemma foldl_skip:
  assumes "\<And>s x. x \<in> set xs \<Longrightarrow> f s x = s"
  shows "foldl f s xs = s"
  using assms by (induction xs arbitrary: s) auto

lemma foldl_option_filter:
  "foldl (\<lambda>s x. case p x of None \<Rightarrow> s | Some y \<Rightarrow> g s y) s xs =
   foldl g s (List.map_filter p xs)"
  by (induction xs arbitrary: s) (auto simp: map_filter_simps split: option.splits)

lemma map_filter_SomeI:
  assumes "\<And>x. x \<in> set xs \<Longrightarrow> p (h x) = Some x"
  shows "List.map_filter p (map h xs) = xs"
  using assms by (induction xs) (auto simp: map_filter_simps)

section \<open>Lists\<close>

lemma find_append:
  "find p (xs @ ys) = (case find p xs of None \<Rightarrow> find p ys | Some x \<Rightarrow> Some x)"
  by (induction xs) auto

lemma takeWhile_dropWhile_all:
  assumes "\<forall>x \<in> set xs. p x"
  shows "takeWhile p xs = xs" "dropWhile p xs = []"
  using assms by (auto simp: takeWhile_eq_all_conv dropWhile_eq_Nil_conv)

text \<open>The elements of a list without later repetitions: Go's \<open>seen\<close> map idiom.\<close>

fun nub_from :: "'a set \<Rightarrow> 'a list \<Rightarrow> 'a list" where
  "nub_from seen [] = []"
| "nub_from seen (x # xs) =
     (if x \<in> seen then nub_from seen xs else x # nub_from (insert x seen) xs)"

lemma set_nub_from: "set (nub_from seen xs) = set xs - seen"
  by (induction xs arbitrary: seen) auto

lemma distinct_nub_from: "distinct (nub_from seen xs)"
  by (induction xs arbitrary: seen) (auto simp: set_nub_from)

lemma nub_from_Nil_iff: "nub_from seen xs = [] \<longleftrightarrow> set xs \<subseteq> seen"
  by (metis Diff_eq_empty_iff set_empty set_nub_from)

lemma nub_from_hd: "nub_from {} (x # xs) = x # nub_from {x} xs"
  by simp

section \<open>Maps\<close>

text \<open>Storing one value under every key of a list, in order.\<close>

fun map_upd_all :: "('k \<rightharpoonup> 'v) \<Rightarrow> 'k list \<Rightarrow> 'v \<Rightarrow> ('k \<rightharpoonup> 'v)" where
  "map_upd_all m [] v = m"
| "map_upd_all m (k # ks) v = map_upd_all (m(k \<mapsto> v)) ks v"

lemma map_upd_all_apply:
  "map_upd_all m ks v k = (if k \<in> set ks then Some v else m k)"
  by (induction ks arbitrary: m) auto

lemma dom_map_upd_all: "dom (map_upd_all m ks v) = dom m \<union> set ks"
  by (auto simp: dom_def map_upd_all_apply)

end
