(* ===== verification/GoErrors.thy ===== *)
theory GoErrors
  imports Prelude
begin

text \<open>
  The error values of the repository.  A package-level \<open>errors.New\<close> variable is a \<open>sentinel\<close>:
  it is compared by identity, which \<open>errors.Is\<close> does through every layer of wrapping
  (\<open>fmt.Errorf\<close> with \<open>%w\<close>, and the \<open>Unwrap\<close> method of \<open>whois.WHOISError\<close>).  An error
  made on the spot is \<open>OtherError\<close> with its text.
\<close>

datatype sentinel =
    Whois_ErrNoWHOISServer | Whois_ErrDiscoveryTimeout | Whois_ErrInvalidTLD
  | Whois_ErrQueryTimeout | Whois_ErrResponseTooLarge | Whois_ErrDomainNotFound
  | Whois_ErrServerNotAvailable
  | Bootstrap_ErrNotFound | Bootstrap_ErrInvalidInput | Bootstrap_ErrNotInitialized
  | Rdap_ErrNoServers | Rdap_ErrAllServersFailed | Rdap_ErrNotFound | Rdap_ErrRateLimited
  | Rdap_ErrServerError | Rdap_ErrInvalidResponse | Rdap_ErrRequestTimeout
  | Cache_ErrCacheMiss
  | Validate_ErrEmptyURL | Validate_ErrInvalidURL | Validate_ErrServerNotAllowed
  | Validate_ErrEmptyDomain | Validate_ErrDomainTooLong | Validate_ErrLabelTooLong
  | Validate_ErrInvalidDomainChar | Validate_ErrInvalidLabelStart
  | Validate_ErrEmptyIP | Validate_ErrInvalidIP
  | Validate_ErrInvalidASN | Validate_ErrASNOutOfRange
  | Validate_ErrEmptyHandle | Validate_ErrHandleTooLong | Validate_ErrInvalidHandleChar
  | Context_DeadlineExceeded | Context_Canceled
  | Bufio_ErrTooLong | Redis_Nil

datatype go_error =
    Sentinel sentinel
  | OtherError string
  | Wrapped string "go_error list"
  | WHOISError string string go_error

text \<open>\<open>errors.Is\<close> against a sentinel.\<close>

fun error_is :: "go_error \<Rightarrow> sentinel \<Rightarrow> bool" where
  "error_is (Sentinel s) t = (s = t)"
| "error_is (OtherError m) t = False"
| "error_is (Wrapped m es) t = list_ex (\<lambda>e. error_is e t) es"
| "error_is (WHOISError op sv e) t = error_is e t"

end
