(* ===== verification/GoUnicode.thy ===== *)
theory GoUnicode
  imports Prelude
begin

text \<open>
  Bytes, UTF-8 and the Unicode tables behind Go's \<open>strings\<close> and \<open>unicode\<close> packages.

  A Go string is a sequence of bytes, modelled as \<open>string\<close>: a \<open>char\<close> of Isabelle is a byte.
  \<open>decode_rune\<close> is \<open>utf8.DecodeRuneInString\<close>: the code point at the head of a string and
  the number of bytes it takes; an invalid byte decodes to U+FFFD with width 1.  The tables give
  the simple case mappings of Unicode beyond ASCII as ranges \<open>(first, last, stride, delta)\<close>.
\<close>

section \<open>ASCII bytes\<close>

definition byte :: "char \<Rightarrow> nat" where
  "byte c = of_char c"

text \<open>
  The classes are written over the eight bits of a byte, lowest bit first, so that they
  evaluate by boolean rewriting; the lemmas that follow give their meaning as byte ranges.
\<close>

fun is_high :: "char \<Rightarrow> bool" where
  "is_high (Char b0 b1 b2 b3 b4 b5 b6 b7) = b7"

fun is_upper :: "char \<Rightarrow> bool" where
  "is_upper (Char b0 b1 b2 b3 b4 b5 b6 b7) =
     (\<not> b7 \<and> b6 \<and> \<not> b5 \<and> (b0 \<or> b1 \<or> b2 \<or> b3 \<or> b4) \<and> \<not> (b4 \<and> b3 \<and> (b2 \<or> (b1 \<and> b0))))"

fun is_lower :: "char \<Rightarrow> bool" where
  "is_lower (Char b0 b1 b2 b3 b4 b5 b6 b7) =
     (\<not> b7 \<and> b6 \<and> b5 \<and> (b0 \<or> b1 \<or> b2 \<or> b3 \<or> b4) \<and> \<not> (b4 \<and> b3 \<and> (b2 \<or> (b1 \<and> b0))))"

fun is_digit :: "char \<Rightarrow> bool" where
  "is_digit (Char b0 b1 b2 b3 b4 b5 b6 b7) =
     (\<not> b7 \<and> \<not> b6 \<and> b5 \<and> b4 \<and> \<not> (b3 \<and> (b2 \<or> b1)))"

fun flip_case :: "char \<Rightarrow> char" where
  "flip_case (Char b0 b1 b2 b3 b4 b5 b6 b7) = Char b0 b1 b2 b3 b4 (\<not> b5) b6 b7"

definition ascii_lower :: "char \<Rightarrow> char" where
  "ascii_lower c = (if is_upper c then flip_case c else c)"

definition ascii_upper :: "char \<Rightarrow> char" where
  "ascii_upper c = (if is_lower c then flip_case c else c)"

fun digit_val :: "char \<Rightarrow> nat" where
  "digit_val (Char b0 b1 b2 b3 b4 b5 b6 b7) =
     of_bool b0 + 2 * of_bool b1 + 4 * of_bool b2 + 8 * of_bool b3"

declare ascii_lower_def [go_eval] ascii_upper_def [go_eval]

lemma byte_less [simp]: "byte c < 256"
  using range_nat_of_char by (auto simp: byte_def)

lemma byte_eq_iff [simp]: "byte c = byte d \<longleftrightarrow> c = d"
  by (simp add: byte_def)

lemma byte_Char [go_eval]:
  "byte (Char b0 b1 b2 b3 b4 b5 b6 b7) =
     of_bool b0 + 2 * (of_bool b1 + 2 * (of_bool b2 + 2 * (of_bool b3 +
     2 * (of_bool b4 + 2 * (of_bool b5 + 2 * (of_bool b6 + 2 * of_bool b7))))))"
  by (simp add: byte_def)

lemma is_high_iff: "is_high c \<longleftrightarrow> 128 \<le> byte c"
  by (cases c) (simp add: byte_Char split: bool.splits)

lemma is_upper_iff: "is_upper c \<longleftrightarrow> 65 \<le> byte c \<and> byte c \<le> 90"
  by (cases c; rename_tac b0 b1 b2 b3 b4 b5 b6 b7;
      case_tac b0; case_tac b1; case_tac b2; case_tac b3;
      case_tac b4; case_tac b5; case_tac b6; case_tac b7; simp add: byte_Char)

lemma is_lower_iff: "is_lower c \<longleftrightarrow> 97 \<le> byte c \<and> byte c \<le> 122"
  by (cases c; rename_tac b0 b1 b2 b3 b4 b5 b6 b7;
      case_tac b0; case_tac b1; case_tac b2; case_tac b3;
      case_tac b4; case_tac b5; case_tac b6; case_tac b7; simp add: byte_Char)

lemma is_digit_iff: "is_digit c \<longleftrightarrow> 48 \<le> byte c \<and> byte c \<le> 57"
  by (cases c; rename_tac b0 b1 b2 b3 b4 b5 b6 b7;
      case_tac b0; case_tac b1; case_tac b2; case_tac b3;
      case_tac b4; case_tac b5; case_tac b6; case_tac b7; simp add: byte_Char)

lemma byte_ascii_lower: "byte (ascii_lower c) = (if is_upper c then byte c + 32 else byte c)"
  by (cases c) (auto simp: ascii_lower_def byte_Char)

lemma byte_ascii_upper: "byte (ascii_upper c) = (if is_lower c then byte c - 32 else byte c)"
  by (cases c) (auto simp: ascii_upper_def byte_Char)

lemma digit_val_byte: "is_digit c \<Longrightarrow> digit_val c = byte c - 48"
  by (cases c) (auto simp: byte_Char)

lemma digit_val_le_9: "is_digit c \<Longrightarrow> digit_val c \<le> 9"
  using digit_val_byte [of c] is_digit_iff [of c] by linarith

lemma is_high_lower [simp]: "is_high (ascii_lower c) = is_high c"
  by (auto simp: is_high_iff byte_ascii_lower is_upper_iff)

lemma not_upper_lower [simp]: "\<not> is_upper (ascii_lower c)"
  by (auto simp: is_upper_iff byte_ascii_lower)

lemma ascii_lower_idem [simp]: "ascii_lower (ascii_lower c) = ascii_lower c"
  by (simp add: ascii_lower_def [of "ascii_lower c"])

lemma ascii_lower_id: "\<not> is_upper c \<Longrightarrow> ascii_lower c = c"
  by (simp add: ascii_lower_def)

definition is_ascii :: "string \<Rightarrow> bool" where
  "is_ascii s = (\<forall>c \<in> set s. \<not> is_high c)"

lemma is_ascii_Nil [simp]: "is_ascii []"
  and is_ascii_Cons [simp]: "is_ascii (c # s) \<longleftrightarrow> \<not> is_high c \<and> is_ascii s"
  and is_ascii_append [simp]: "is_ascii (s @ t) \<longleftrightarrow> is_ascii s \<and> is_ascii t"
  by (auto simp: is_ascii_def)

section \<open>UTF-8\<close>

definition rune_error :: nat where
  "rune_error = 0xFFFD"

definition is_cont :: "nat \<Rightarrow> bool" where
  "is_cont b = (0x80 \<le> b \<and> b \<le> 0xBF)"

text \<open>The permitted second byte after each leading byte of three or four byte sequences.\<close>

definition second_ok :: "nat \<Rightarrow> nat \<Rightarrow> bool" where
  "second_ok b0 b1 =
     (if b0 = 0xE0 then 0xA0 \<le> b1 \<and> b1 \<le> 0xBF
      else if b0 = 0xED then 0x80 \<le> b1 \<and> b1 \<le> 0x9F
      else if b0 = 0xF0 then 0x90 \<le> b1 \<and> b1 \<le> 0xBF
      else if b0 = 0xF4 then 0x80 \<le> b1 \<and> b1 \<le> 0x8F
      else is_cont b1)"

definition decode_rune :: "string \<Rightarrow> nat \<times> nat" where
  "decode_rune s =
     (case map byte (take 4 s) of
        [] \<Rightarrow> (rune_error, 0)
      | b0 # bs \<Rightarrow>
          if b0 < 0x80 then (b0, 1)
          else if 0xC2 \<le> b0 \<and> b0 \<le> 0xDF then
            (case bs of b1 # _ \<Rightarrow>
               if is_cont b1 then ((b0 - 0xC0) * 64 + (b1 - 0x80), 2) else (rune_error, 1)
             | _ \<Rightarrow> (rune_error, 1))
          else if 0xE0 \<le> b0 \<and> b0 \<le> 0xEF then
            (case bs of b1 # b2 # _ \<Rightarrow>
               if second_ok b0 b1 \<and> is_cont b2
               then ((b0 - 0xE0) * 4096 + (b1 - 0x80) * 64 + (b2 - 0x80), 3) else (rune_error, 1)
             | _ \<Rightarrow> (rune_error, 1))
          else if 0xF0 \<le> b0 \<and> b0 \<le> 0xF4 then
            (case bs of b1 # b2 # b3 # _ \<Rightarrow>
               if second_ok b0 b1 \<and> is_cont b2 \<and> is_cont b3
               then ((b0 - 0xF0) * 262144 + (b1 - 0x80) * 4096 + (b2 - 0x80) * 64 + (b3 - 0x80), 4)
               else (rune_error, 1)
             | _ \<Rightarrow> (rune_error, 1))
          else (rune_error, 1))"

text \<open>\<open>utf8.AppendRune\<close>: surrogates and values above U+10FFFF are written as U+FFFD.\<close>

definition encode_rune :: "nat \<Rightarrow> string" where
  "encode_rune r0 =
     (let r = (if 0x10FFFF < r0 \<or> (0xD800 \<le> r0 \<and> r0 \<le> 0xDFFF) then rune_error else r0) in
      map char_of
       (if r < 0x80 then [r]
        else if r < 0x800 then [0xC0 + r div 64, 0x80 + r mod 64]
        else if r < 0x10000 then [0xE0 + r div 4096, 0x80 + r div 64 mod 64, 0x80 + r mod 64]
        else [0xF0 + r div 262144, 0x80 + r div 4096 mod 64, 0x80 + r div 64 mod 64,
              0x80 + r mod 64]))"

lemma decode_rune_width: "s \<noteq> [] \<Longrightarrow> 1 \<le> snd (decode_rune s)"
  by (cases s) (auto simp: decode_rune_def Let_def split: list.splits)

lemma decode_rune_ascii: "\<not> is_high c \<Longrightarrow> decode_rune (c # s) = (byte c, 1)"
  by (simp add: decode_rune_def is_high_iff)

lemma encode_rune_nonempty [simp]: "encode_rune r \<noteq> []"
  by (simp add: encode_rune_def Let_def)

text \<open>The code points of a string, as \<open>for _, r := range s\<close> visits them.\<close>

function runes :: "string \<Rightarrow> nat list" where
  "runes s = (if s = [] then [] else fst (decode_rune s) # runes (drop (snd (decode_rune s)) s))"
  by pat_completeness auto
termination
proof (relation "measure length", goal_cases)
  case (2 s)
  then show ?case using decode_rune_width [of s] by (cases s) auto
qed simp

declare runes.simps [simp del]

lemma runes_Nil [simp]: "runes [] = []"
  by (simp add: runes.simps)

lemma runes_Cons_ascii [simp]: "\<not> is_high c \<Longrightarrow> runes (c # s) = byte c # runes s"
  by (simp add: runes.simps [of "c # s"] decode_rune_ascii)

lemma runes_eq_Nil [simp]: "runes s = [] \<longleftrightarrow> s = []"
  by (simp add: runes.simps [of s])

lemma runes_ascii: "is_ascii s \<Longrightarrow> runes s = map byte s"
  by (induction s) auto

section \<open>Case mapping\<close>

text \<open>
  Unicode's simple lower and upper case mappings of the code points above U+007F.  An entry
  \<open>(lo, hi, st, d)\<close> maps \<open>lo, lo + st, \<dots>, hi\<close> by adding \<open>d\<close>.
\<close>

definition lower_ranges :: "(nat \<times> nat \<times> nat \<times> int) list" where
  "lower_ranges = [
     (0xC0,0xD6,1,32), (0xD8,0xDE,1,32), (0x100,0x12E,2,1), (0x130,0x130,1,-199),
     (0x132,0x136,2,1), (0x139,0x147,2,1), (0x14A,0x176,2,1), (0x178,0x178,1,-121),
     (0x179,0x17D,2,1), (0x181,0x181,1,210), (0x182,0x184,2,1), (0x186,0x186,1,206),
     (0x187,0x187,1,1), (0x189,0x18A,1,205), (0x18B,0x18B,1,1), (0x18E,0x18E,1,79),
     (0x18F,0x18F,1,202), (0x190,0x190,1,203), (0x191,0x191,1,1), (0x193,0x193,1,205),
     (0x194,0x194,1,207), (0x196,0x196,1,211), (0x197,0x197,1,209), (0x198,0x198,1,1),
     (0x19C,0x19C,1,211), (0x19D,0x19D,1,213), (0x19F,0x19F,1,214), (0x1A0,0x1A4,2,1),
     (0x1A6,0x1A6,1,218), (0x1A7,0x1A7,1,1), (0x1A9,0x1A9,1,218), (0x1AC,0x1AC,1,1),
     (0x1AE,0x1AE,1,218), (0x1AF,0x1AF,1,1), (0x1B1,0x1B2,1,217), (0x1B3,0x1B5,2,1),
     (0x1B7,0x1B7,1,219), (0x1B8,0x1B8,1,1), (0x1BC,0x1BC,1,1), (0x1C4,0x1C4,1,2),
     (0x1C5,0x1C5,1,1), (0x1C7,0x1C7,1,2), (0x1C8,0x1C8,1,1), (0x1CA,0x1CA,1,2),
     (0x1CB,0x1DB,2,1), (0x1DE,0x1EE,2,1), (0x1F1,0x1F1,1,2), (0x1F2,0x1F4,2,1),
     (0x1F6,0x1F6,1,-97), (0x1F7,0x1F7,1,-56), (0x1F8,0x21E,2,1), (0x220,0x220,1,-130),
     (0x222,0x232,2,1), (0x23A,0x23A,1,10795), (0x23B,0x23B,1,1), (0x23D,0x23D,1,-163),
     (0x23E,0x23E,1,10792), (0x241,0x241,1,1), (0x243,0x243,1,-195), (0x244,0x244,1,69),
     (0x245,0x245,1,71), (0x246,0x24E,2,1), (0x370,0x372,2,1), (0x376,0x376,1,1),
     (0x37F,0x37F,1,116), (0x386,0x386,1,38), (0x388,0x38A,1,37), (0x38C,0x38C,1,64),
     (0x38E,0x38F,1,63), (0x391,0x3A1,1,32), (0x3A3,0x3AB,1,32), (0x3CF,0x3CF,1,8),
     (0x3D8,0x3EE,2,1), (0x3F4,0x3F4,1,-60), (0x3F7,0x3F7,1,1), (0x3F9,0x3F9,1,-7),
     (0x3FA,0x3FA,1,1), (0x3FD,0x3FF,1,-130), (0x400,0x40F,1,80), (0x410,0x42F,1,32),
     (0x460,0x480,2,1), (0x48A,0x4BE,2,1), (0x4C0,0x4C0,1,15), (0x4C1,0x4CD,2,1),
     (0x4D0,0x52E,2,1), (0x531,0x556,1,48), (0x10A0,0x10C5,1,7264), (0x10C7,0x10C7,1,7264),
     (0x10CD,0x10CD,1,7264), (0x13A0,0x13EF,1,38864), (0x13F0,0x13F5,1,8),
     (0x1C90,0x1CBA,1,-3008), (0x1CBD,0x1CBF,1,-3008), (0x1E00,0x1E94,2,1),
     (0x1E9E,0x1E9E,1,-7615), (0x1EA0,0x1EFE,2,1), (0x1F08,0x1F0F,1,-8), (0x1F18,0x1F1D,1,-8),
     (0x1F28,0x1F2F,1,-8), (0x1F38,0x1F3F,1,-8), (0x1F48,0x1F4D,1,-8), (0x1F59,0x1F5F,2,-8),
     (0x1F68,0x1F6F,1,-8), (0x1F88,0x1F8F,1,-8), (0x1F98,0x1F9F,1,-8), (0x1FA8,0x1FAF,1,-8),
     (0x1FB8,0x1FB9,1,-8), (0x1FBA,0x1FBB,1,-74), (0x1FBC,0x1FBC,1,-9), (0x1FC8,0x1FCB,1,-86),
     (0x1FCC,0x1FCC,1,-9), (0x1FD8,0x1FD9,1,-8), (0x1FDA,0x1FDB,1,-100), (0x1FE8,0x1FE9,1,-8),
     (0x1FEA,0x1FEB,1,-112), (0x1FEC,0x1FEC,1,-7), (0x1FF8,0x1FF9,1,-128),
     (0x1FFA,0x1FFB,1,-126), (0x1FFC,0x1FFC,1,-9), (0x2126,0x2126,1,-7517),
     (0x212A,0x212A,1,-8383), (0x212B,0x212B,1,-8262), (0x2132,0x2132,1,28),
     (0x2160,0x216F,1,16), (0x2183,0x2183,1,1), (0x24B6,0x24CF,1,26), (0x2C00,0x2C2F,1,48),
     (0x2C60,0x2C60,1,1), (0x2C62,0x2C62,1,-10743), (0x2C63,0x2C63,1,-3814),
     (0x2C64,0x2C64,1,-10727), (0x2C67,0x2C6B,2,1), (0x2C6D,0x2C6D,1,-10780),
     (0x2C6E,0x2C6E,1,-10749), (0x2C6F,0x2C6F,1,-10783), (0x2C70,0x2C70,1,-10782),
     (0x2C72,0x2C72,1,1), (0x2C75,0x2C75,1,1), (0x2C7E,0x2C7F,1,-10815), (0x2C80,0x2CE2,2,1),
     (0x2CEB,0x2CED,2,1), (0x2CF2,0x2CF2,1,1), (0xA640,0xA66C,2,1), (0xA680,0xA69A,2,1),
     (0xA722,0xA72E,2,1), (0xA732,0xA76E,2,1), (0xA779,0xA77B,2,1), (0xA77D,0xA77D,1,-35332),
     (0xA77E,0xA786,2,1), (0xA78B,0xA78B,1,1), (0xA78D,0xA78D,1,-42280), (0xA790,0xA792,2,1),
     (0xA796,0xA7A8,2,1), (0xA7AA,0xA7AA,1,-42308), (0xA7AB,0xA7AB,1,-42319),
     (0xA7AC,0xA7AC,1,-42315), (0xA7AD,0xA7AD,1,-42305), (0xA7AE,0xA7AE,1,-42308),
     (0xA7B0,0xA7B0,1,-42258), (0xA7B1,0xA7B1,1,-42282), (0xA7B2,0xA7B2,1,-42261),
     (0xA7B3,0xA7B3,1,928), (0xA7B4,0xA7C2,2,1), (0xA7C4,0xA7C4,1,-48),
     (0xA7C5,0xA7C5,1,-42307), (0xA7C6,0xA7C6,1,-35384), (0xA7C7,0xA7C9,2,1),
     (0xA7D0,0xA7D0,1,1), (0xA7D6,0xA7D8,2,1), (0xA7F5,0xA7F5,1,1), (0xFF21,0xFF3A,1,32),
     (0x10400,0x10427,1,40), (0x104B0,0x104D3,1,40), (0x10570,0x1057A,1,39),
     (0x1057C,0x1058A,1,39), (0x1058C,0x10592,1,39), (0x10594,0x10595,1,39),
     (0x10C80,0x10CB2,1,64), (0x118A0,0x118BF,1,32), (0x16E40,0x16E5F,1,32),
     (0x1E900,0x1E921,1,34)]"

definition upper_ranges :: "(nat \<times> nat \<times> nat \<times> int) list" where
  "upper_ranges = [
     (0xB5,0xB5,1,743), (0xE0,0xF6,1,-32), (0xF8,0xFE,1,-32), (0xFF,0xFF,1,121),
     (0x101,0x12F,2,-1), (0x131,0x131,1,-232), (0x133,0x137,2,-1), (0x13A,0x148,2,-1),
     (0x14B,0x177,2,-1), (0x17A,0x17E,2,-1), (0x17F,0x17F,1,-300), (0x180,0x180,1,195),
     (0x183,0x185,2,-1), (0x188,0x188,1,-1), (0x18C,0x18C,1,-1), (0x192,0x192,1,-1),
     (0x195,0x195,1,97), (0x199,0x199,1,-1), (0x19A,0x19A,1,163), (0x19E,0x19E,1,130),
     (0x1A1,0x1A5,2,-1), (0x1A8,0x1A8,1,-1), (0x1AD,0x1AD,1,-1), (0x1B0,0x1B0,1,-1),
     (0x1B4,0x1B6,2,-1), (0x1B9,0x1B9,1,-1), (0x1BD,0x1BD,1,-1), (0x1BF,0x1BF,1,56),
     (0x1C5,0x1C5,1,-1), (0x1C6,0x1C6,1,-2), (0x1C8,0x1C8,1,-1), (0x1C9,0x1C9,1,-2),
     (0x1CB,0x1CB,1,-1), (0x1CC,0x1CC,1,-2), (0x1CE,0x1DC,2,-1), (0x1DD,0x1DD,1,-79),
     (0x1DF,0x1EF,2,-1), (0x1F2,0x1F2,1,-1), (0x1F3,0x1F3,1,-2), (0x1F5,0x1F5,1,-1),
     (0x1F9,0x21F,2,-1), (0x223,0x233,2,-1), (0x23C,0x23C,1,-1), (0x23F,0x240,1,10815),
     (0x242,0x242,1,-1), (0x247,0x24F,2,-1), (0x250,0x250,1,10783), (0x251,0x251,1,10780),
     (0x252,0x252,1,10782), (0x253,0x253,1,-210), (0x254,0x254,1,-206), (0x256,0x257,1,-205),
     (0x259,0x259,1,-202), (0x25B,0x25B,1,-203), (0x25C,0x25C,1,42319), (0x260,0x260,1,-205),
     (0x261,0x261,1,42315), (0x263,0x263,1,-207), (0x265,0x265,1,42280), (0x266,0x266,1,42308),
     (0x268,0x268,1,-209), (0x269,0x269,1,-211), (0x26A,0x26A,1,42308), (0x26B,0x26B,1,10743),
     (0x26C,0x26C,1,42305), (0x26F,0x26F,1,-211), (0x271,0x271,1,10749), (0x272,0x272,1,-213),
     (0x275,0x275,1,-214), (0x27D,0x27D,1,10727), (0x280,0x280,1,-218), (0x282,0x282,1,42307),
     (0x283,0x283,1,-218), (0x287,0x287,1,42282), (0x288,0x288,1,-218), (0x289,0x289,1,-69),
     (0x28A,0x28B,1,-217), (0x28C,0x28C,1,-71), (0x292,0x292,1,-219), (0x29D,0x29D,1,42261),
     (0x29E,0x29E,1,42258), (0x345,0x345,1,84), (0x371,0x373,2,-1), (0x377,0x377,1,-1),
     (0x37B,0x37D,1,130), (0x3AC,0x3AC,1,-38), (0x3AD,0x3AF,1,-37), (0x3B1,0x3C1,1,-32),
     (0x3C2,0x3C2,1,-31), (0x3C3,0x3CB,1,-32), (0x3CC,0x3CC,1,-64), (0x3CD,0x3CE,1,-63),
     (0x3D0,0x3D0,1,-62), (0x3D1,0x3D1,1,-57), (0x3D5,0x3D5,1,-47), (0x3D6,0x3D6,1,-54),
     (0x3D7,0x3D7,1,-8), (0x3D9,0x3EF,2,-1), (0x3F0,0x3F0,1,-86), (0x3F1,0x3F1,1,-80),
     (0x3F2,0x3F2,1,7), (0x3F3,0x3F3,1,-116), (0x3F5,0x3F5,1,-96), (0x3F8,0x3F8,1,-1),
     (0x3FB,0x3FB,1,-1), (0x430,0x44F,1,-32), (0x450,0x45F,1,-80), (0x461,0x481,2,-1),
     (0x48B,0x4BF,2,-1), (0x4C2,0x4CE,2,-1), (0x4CF,0x4CF,1,-15), (0x4D1,0x52F,2,-1),
     (0x561,0x586,1,-48), (0x10D0,0x10FA,1,3008), (0x10FD,0x10FF,1,3008), (0x13F8,0x13FD,1,-8),
     (0x1C80,0x1C80,1,-6254), (0x1C81,0x1C81,1,-6253), (0x1C82,0x1C82,1,-6244),
     (0x1C83,0x1C84,1,-6242), (0x1C85,0x1C85,1,-6243), (0x1C86,0x1C86,1,-6236),
     (0x1C87,0x1C87,1,-6181), (0x1C88,0x1C88,1,35266), (0x1D79,0x1D79,1,35332),
     (0x1D7D,0x1D7D,1,3814), (0x1D8E,0x1D8E,1,35384), (0x1E01,0x1E95,2,-1),
     (0x1E9B,0x1E9B,1,-59), (0x1EA1,0x1EFF,2,-1), (0x1F00,0x1F07,1,8), (0x1F10,0x1F15,1,8),
     (0x1F20,0x1F27,1,8), (0x1F30,0x1F37,1,8), (0x1F40,0x1F45,1,8), (0x1F51,0x1F57,2,8),
     (0x1F60,0x1F67,1,8), (0x1F70,0x1F71,1,74), (0x1F72,0x1F75,1,86), (0x1F76,0x1F77,1,100),
     (0x1F78,0x1F79,1,128), (0x1F7A,0x1F7B,1,112), (0x1F7C,0x1F7D,1,126), (0x1F80,0x1F87,1,8),
     (0x1F90,0x1F97,1,8), (0x1FA0,0x1FA7,1,8), (0x1FB0,0x1FB1,1,8), (0x1FB3,0x1FB3,1,9),
     (0x1FBE,0x1FBE,1,-7205), (0x1FC3,0x1FC3,1,9), (0x1FD0,0x1FD1,1,8), (0x1FE0,0x1FE1,1,8),
     (0x1FE5,0x1FE5,1,7), (0x1FF3,0x1FF3,1,9), (0x214E,0x214E,1,-28), (0x2170,0x217F,1,-16),
     (0x2184,0x2184,1,-1), (0x24D0,0x24E9,1,-26), (0x2C30,0x2C5F,1,-48), (0x2C61,0x2C61,1,-1),
     (0x2C65,0x2C65,1,-10795), (0x2C66,0x2C66,1,-10792), (0x2C68,0x2C6C,2,-1),
     (0x2C73,0x2C73,1,-1), (0x2C76,0x2C76,1,-1), (0x2C81,0x2CE3,2,-1), (0x2CEC,0x2CEE,2,-1),
     (0x2CF3,0x2CF3,1,-1), (0x2D00,0x2D25,1,-7264), (0x2D27,0x2D27,1,-7264),
     (0x2D2D,0x2D2D,1,-7264), (0xA641,0xA66D,2,-1), (0xA681,0xA69B,2,-1), (0xA723,0xA72F,2,-1),
     (0xA733,0xA76F,2,-1), (0xA77A,0xA77C,2,-1), (0xA77F,0xA787,2,-1), (0xA78C,0xA78C,1,-1),
     (0xA791,0xA793,2,-1), (0xA794,0xA794,1,48), (0xA797,0xA7A9,2,-1), (0xA7B5,0xA7C3,2,-1),
     (0xA7C8,0xA7CA,2,-1), (0xA7D1,0xA7D1,1,-1), (0xA7D7,0xA7D9,2,-1), (0xA7F6,0xA7F6,1,-1),
     (0xAB53,0xAB53,1,-928), (0xAB70,0xABBF,1,-38864), (0xFF41,0xFF5A,1,-32),
     (0x10428,0x1044F,1,-40), (0x104D8,0x104FB,1,-40), (0x10597,0x105A1,1,-39),
     (0x105A3,0x105B1,1,-39), (0x105B3,0x105B9,1,-39), (0x105BB,0x105BC,1,-39),
     (0x10CC0,0x10CF2,1,-64), (0x118C0,0x118DF,1,-32), (0x16E60,0x16E7F,1,-32),
     (0x1E922,0x1E943,1,-34)]"

fun range_delta :: "(nat \<times> nat \<times> nat \<times> int) list \<Rightarrow> nat \<Rightarrow> int" where
  "range_delta [] r = 0"
| "range_delta ((lo, hi, st, d) # rs) r =
     (if lo \<le> r \<and> r \<le> hi \<and> (r - lo) mod st = 0 then d else range_delta rs r)"

definition uni_lower :: "nat \<Rightarrow> nat" where
  "uni_lower r =
     (if r < 0x80 then (if 65 \<le> r \<and> r \<le> 90 then r + 32 else r)
      else nat (int r + range_delta lower_ranges r))"

definition uni_upper :: "nat \<Rightarrow> nat" where
  "uni_upper r =
     (if r < 0x80 then (if 97 \<le> r \<and> r \<le> 122 then r - 32 else r)
      else nat (int r + range_delta upper_ranges r))"

text \<open>\<open>unicode.IsControl\<close> and the categories Cf, Co and Cs of Unicode 15.\<close>

definition in_ranges :: "(nat \<times> nat) list \<Rightarrow> nat \<Rightarrow> bool" where
  "in_ranges rs r = list_ex (\<lambda>(lo, hi). lo \<le> r \<and> r \<le> hi) rs"

definition is_control_rune :: "nat \<Rightarrow> bool" where
  "is_control_rune r = in_ranges [(0, 0x1F), (0x7F, 0x9F)] r"

definition is_format_rune :: "nat \<Rightarrow> bool" where
  "is_format_rune r = in_ranges
     [(0xAD, 0xAD), (0x600, 0x605), (0x61C, 0x61C), (0x6DD, 0x6DD), (0x70F, 0x70F),
      (0x890, 0x891), (0x8E2, 0x8E2), (0x180E, 0x180E), (0x200B, 0x200F), (0x202A, 0x202E),
      (0x2060, 0x2064), (0x2066, 0x206F), (0xFEFF, 0xFEFF), (0xFFF9, 0xFFFB),
      (0x110BD, 0x110BD), (0x110CD, 0x110CD), (0x13430, 0x1343F), (0x1BCA0, 0x1BCA3),
      (0x1D173, 0x1D17A), (0xE0001, 0xE0001), (0xE0020, 0xE007F)] r"

definition is_private_rune :: "nat \<Rightarrow> bool" where
  "is_private_rune r = in_ranges [(0xE000, 0xF8FF), (0xF0000, 0xFFFFD), (0x100000, 0x10FFFD)] r"

definition is_surrogate_rune :: "nat \<Rightarrow> bool" where
  "is_surrogate_rune r = in_ranges [(0xD800, 0xDFFF)] r"

end
