(* ===== verification/GoStrings.thy ===== *)
theory GoStrings
  imports GoUnicode
begin

text \<open>
  The functions of Go's \<open>strings\<close> and \<open>strconv\<close> packages that the repository calls, on byte
  strings.  Each one is executable; the lemmas give its contract in terms of list operations.
\<close>

section \<open>Case\<close>

text \<open>
  \<open>strings.ToLower\<close> and \<open>strings.ToUpper\<close>: byte-wise on ASCII strings, otherwise
  \<open>strings.Map\<close> over the code points (an invalid byte becomes U+FFFD).
\<close>

definition to_lower :: "string \<Rightarrow> string" where
  "to_lower s =
     (if is_ascii s then map ascii_lower s else concat (map (\<lambda>r. encode_rune (uni_lower r)) (runes s)))"

definition to_upper :: "string \<Rightarrow> string" where
  "to_upper s =
     (if is_ascii s then map ascii_upper s else concat (map (\<lambda>r. encode_rune (uni_upper r)) (runes s)))"

lemma to_lower_ascii: "is_ascii s \<Longrightarrow> to_lower s = map ascii_lower s"
  by (simp add: to_lower_def)

lemma to_lower_eq_Nil [simp]: "to_lower s = [] \<longleftrightarrow> s = []"
proof (cases "is_ascii s")
  case False
  then have "s \<noteq> []" by auto
  with False show ?thesis
    by (cases "runes s") (auto simp: to_lower_def)
qed (simp add: to_lower_def)

lemma to_lower_Nil [simp]: "to_lower [] = []"
  by simp

lemma is_ascii_map_lower [simp]: "is_ascii (map ascii_lower s) = is_ascii s"
  by (auto simp: is_ascii_def)

lemma to_lower_idem_ascii: "is_ascii s \<Longrightarrow> to_lower (to_lower s) = to_lower s"
  by (simp add: to_lower_ascii)

lemma to_lower_id: "is_ascii s \<Longrightarrow> \<forall>c \<in> set s. \<not> is_upper c \<Longrightarrow> to_lower s = s"
  by (auto simp: to_lower_ascii ascii_lower_id intro!: map_idI)

section \<open>Prefixes, suffixes and searching\<close>

text \<open>\<open>drop_prefix\<close> is the rest of a string after a prefix, if it has that prefix.\<close>

fun drop_prefix :: "string \<Rightarrow> string \<Rightarrow> string option" where
  "drop_prefix [] s = Some s"
| "drop_prefix (p # ps) [] = None"
| "drop_prefix (p # ps) (c # s) = (if p = c then drop_prefix ps s else None)"

definition has_prefix :: "string \<Rightarrow> string \<Rightarrow> bool" where
  "has_prefix s p = (drop_prefix p s \<noteq> None)"

definition has_suffix :: "string \<Rightarrow> string \<Rightarrow> bool" where
  "has_suffix s p = has_prefix (rev s) (rev p)"

definition trim_prefix :: "string \<Rightarrow> string \<Rightarrow> string" where
  "trim_prefix s p = (case drop_prefix p s of None \<Rightarrow> s | Some r \<Rightarrow> r)"

definition trim_suffix :: "string \<Rightarrow> string \<Rightarrow> string" where
  "trim_suffix s p = (case drop_prefix (rev p) (rev s) of None \<Rightarrow> s | Some r \<Rightarrow> rev r)"

lemma drop_prefix_Some: "drop_prefix p s = Some r \<longleftrightarrow> s = p @ r"
  by (induction p s rule: drop_prefix.induct) auto

lemma drop_prefix_append [simp]: "drop_prefix p (p @ r) = Some r"
  by (simp add: drop_prefix_Some)

lemma has_prefix_iff: "has_prefix s p \<longleftrightarrow> (\<exists>r. s = p @ r)"
  by (auto simp: has_prefix_def drop_prefix_Some)

lemma has_suffix_iff: "has_suffix s p \<longleftrightarrow> (\<exists>r. s = r @ p)"
  unfolding has_suffix_def has_prefix_iff by (metis rev_append rev_rev_ident)

lemma trim_suffix_append [simp]: "trim_suffix (r @ p) p = r"
  by (simp add: trim_suffix_def)

lemma trim_suffix_cases:
  obtains (suffix) "s = trim_suffix s p @ p" | (none) "trim_suffix s p = s" "\<not> has_suffix s p"
proof (cases "has_suffix s p")
  case True
  then obtain r where "s = r @ p" by (auto simp: has_suffix_iff)
  then show ?thesis using that(1) by simp
next
  case False
  then show ?thesis using that(2)
    by (auto simp: trim_suffix_def has_suffix_def has_prefix_def)
qed

lemma set_trim_suffix: "set (trim_suffix s p) \<subseteq> set s"
  by (cases s p rule: trim_suffix_cases) (metis set_append sup_ge1, simp)

lemma set_trim_prefix: "set (trim_prefix s p) \<subseteq> set s"
  by (auto simp: trim_prefix_def drop_prefix_Some split: option.splits)

text \<open>\<open>strings.Index\<close>: the first position of a substring.\<close>

fun index_of :: "string \<Rightarrow> string \<Rightarrow> nat option" where
  "index_of [] sub = (if sub = [] then Some 0 else None)"
| "index_of (c # s) sub =
     (if has_prefix (c # s) sub then Some 0 else map_option Suc (index_of s sub))"

definition contains :: "string \<Rightarrow> string \<Rightarrow> bool" where
  "contains s sub = (index_of s sub \<noteq> None)"

lemma index_of_Some_split:
  "index_of s sub = Some i \<Longrightarrow> \<exists>r. s = take i s @ sub @ r \<and> i \<le> length s"
proof (induction s arbitrary: i)
  case (Cons c s)
  show ?case
  proof (cases "has_prefix (c # s) sub")
    case True
    with Cons.prems show ?thesis by (auto simp: has_prefix_iff)
  next
    case False
    with Cons.prems obtain j where "index_of s sub = Some j" "i = Suc j" by auto
    with Cons.IH [of j] show ?thesis by simp
  qed
qed (simp split: if_splits)

lemma index_of_infix: "index_of (a @ sub @ b) sub \<noteq> None"
proof (induction a)
  case Nil
  show ?case
  proof (cases "sub @ b")
    case (Cons c s)
    then have "has_prefix (c # s) sub" by (metis has_prefix_iff)
    with Cons show ?thesis by simp
  qed simp
qed auto

lemma contains_iff: "contains s sub \<longleftrightarrow> (\<exists>a b. s = a @ sub @ b)"
  unfolding contains_def using index_of_infix index_of_Some_split by fastforce

definition contains_char :: "string \<Rightarrow> char \<Rightarrow> bool" where
  "contains_char s c = (c \<in> set s)"

text \<open>\<open>strings.ContainsAny\<close> for a set of ASCII characters.\<close>

definition contains_any :: "string \<Rightarrow> string \<Rightarrow> bool" where
  "contains_any s cs = list_ex (\<lambda>c. c \<in> set cs) s"

text \<open>The position of a byte, and the part after its last occurrence.\<close>

fun index_char :: "string \<Rightarrow> char \<Rightarrow> nat option" where
  "index_char [] d = None"
| "index_char (c # s) d = (if c = d then Some 0 else map_option Suc (index_char s d))"

definition last_index_char :: "string \<Rightarrow> char \<Rightarrow> nat option" where
  "last_index_char s d =
     (case index_char (rev s) d of None \<Rightarrow> None | Some i \<Rightarrow> Some (length s - Suc i))"

lemma index_char_None [simp]: "index_char s d = None \<longleftrightarrow> d \<notin> set s"
  by (induction s) auto

lemma index_char_append: "d \<notin> set a \<Longrightarrow> index_char (a @ d # b) d = Some (length a)"
  by (induction a) auto

lemma index_char_Some:
  "index_char s d = Some i \<Longrightarrow> s = take i s @ d # drop (Suc i) s \<and> d \<notin> set (take i s) \<and> i < length s"
  by (induction s arbitrary: i) (auto split: if_splits)

lemma last_index_char_append:
  "d \<notin> set b \<Longrightarrow> last_index_char (a @ d # b) d = Some (length a)"
  by (simp add: last_index_char_def index_char_append)

lemma last_index_char_None [simp]: "last_index_char s d = None \<longleftrightarrow> d \<notin> set s"
proof -
  have "index_char (rev s) d = None \<longleftrightarrow> d \<notin> set s" by simp
  then show ?thesis unfolding last_index_char_def
    by (cases "index_char (rev s) d") (simp_all del: index_char_None)
qed

lemma last_index_char_Some:
  assumes "last_index_char s d = Some i"
  shows "s = take i s @ d # drop (Suc i) s \<and> d \<notin> set (drop (Suc i) s) \<and> i < length s"
proof -
  from assms obtain j where j: "index_char (rev s) d = Some j" and i: "i = length s - Suc j"
    by (auto simp: last_index_char_def split: option.splits)
  from index_char_Some [OF j] have rs: "rev s = take j (rev s) @ d # drop (Suc j) (rev s)"
    and nin: "d \<notin> set (take j (rev s))" and lt: "j < length s" by simp_all
  from rs have "s = rev (drop (Suc j) (rev s)) @ d # rev (take j (rev s))"
    by (metis append.assoc append_Cons append_Nil rev.simps(2) rev_append rev_rev_ident)
  moreover have "length (rev (drop (Suc j) (rev s))) = i" using i by simp
  ultimately have "take i s = rev (drop (Suc j) (rev s))" "drop i s = d # rev (take j (rev s))"
    by (metis append_eq_conv_conj)+
  moreover from this have "drop (Suc i) s = rev (take j (rev s))"
    by (metis drop_Suc list.sel(3) tl_drop)
  ultimately show ?thesis using nin lt i
    by (metis append_take_drop_id diff_less length_greater_0_conv length_pos_if_in_set
        less_nat_zero_code neq0_conv set_rev zero_less_Suc)
qed

section \<open>Cutting and splitting\<close>

text \<open>\<open>strings.Cut\<close> at a one-byte separator: \<open>None\<close> when the separator does not occur.\<close>

fun cut_at :: "char \<Rightarrow> string \<Rightarrow> (string \<times> string) option" where
  "cut_at d [] = None"
| "cut_at d (c # s) =
     (if c = d then Some ([], s)
      else (case cut_at d s of None \<Rightarrow> None | Some (a, b) \<Rightarrow> Some (c # a, b)))"

lemma cut_at_Some: "cut_at d s = Some (a, b) \<longleftrightarrow> s = a @ d # b \<and> d \<notin> set a"
proof (induction s arbitrary: a)
  case (Cons c s)
  show ?case
  proof (cases a)
    case Nil
    then show ?thesis by (auto split: option.splits)
  next
    case (Cons x xs)
    then show ?thesis using Cons.IH [of xs] by (auto split: option.splits)
  qed
qed simp

lemma cut_at_None [simp]: "cut_at d s = None \<longleftrightarrow> d \<notin> set s"
  by (induction s) (auto split: option.splits)

lemma cut_at_append: "d \<notin> set a \<Longrightarrow> cut_at d (a @ d # b) = Some (a, b)"
  by (simp add: cut_at_Some)

text \<open>\<open>strings.Split\<close> and \<open>strings.SplitSeq\<close> at a one-byte separator.\<close>

fun split_on :: "char \<Rightarrow> string \<Rightarrow> string list" where
  "split_on d [] = [[]]"
| "split_on d (c # s) =
     (if c = d then [] # split_on d s
      else (case split_on d s of [] \<Rightarrow> [[c]] | w # ws \<Rightarrow> (c # w) # ws))"

text \<open>\<open>strings.Join\<close>.\<close>

fun join_with :: "string \<Rightarrow> string list \<Rightarrow> string" where
  "join_with sep [] = []"
| "join_with sep [w] = w"
| "join_with sep (w # v # ws) = w @ sep @ join_with sep (v # ws)"

lemma split_on_nonempty [simp]: "split_on d s \<noteq> []"
  by (cases s) (auto split: list.splits)

lemma split_on_no_sep: "w \<in> set (split_on d s) \<Longrightarrow> d \<notin> set w"
  by (induction s arbitrary: w) (auto split: if_splits list.splits)

lemma split_on_single: "d \<notin> set s \<Longrightarrow> split_on d s = [s]"
  by (induction s) auto

lemma split_on_append: "d \<notin> set a \<Longrightarrow> split_on d (a @ d # b) = a # split_on d b"
  by (induction a) auto

lemma join_with_Cons: "ws \<noteq> [] \<Longrightarrow> join_with sep (w # ws) = w @ sep @ join_with sep ws"
  by (cases ws) auto

lemma join_with_push: "join_with sep ((c # w) # ws) = c # join_with sep (w # ws)"
  by (cases ws) auto

lemma join_split: "join_with [d] (split_on d s) = s"
proof (induction s)
  case (Cons c s)
  obtain w ws where "split_on d s = w # ws" by (cases "split_on d s") auto
  with Cons show ?case by (simp add: join_with_push)
qed simp

lemma split_join:
  assumes "ws \<noteq> []" and "\<forall>w \<in> set ws. d \<notin> set w"
  shows "split_on d (join_with [d] ws) = ws"
  using assms
proof (induction ws)
  case (Cons w ws)
  then show ?case
    by (cases "ws = []") (simp_all add: split_on_single join_with_Cons split_on_append)
qed simp

lemma split_on_lines:
  assumes "\<forall>l \<in> set ls. d \<notin> set l"
  shows "split_on d (concat (map (\<lambda>l. l @ [d]) ls)) = ls @ [[]]"
  using assms by (induction ls) (auto simp: split_on_append)

lemma split_on_chars: "w \<in> set (split_on d s) \<Longrightarrow> set w \<subseteq> set s"
  by (induction s arbitrary: w) (fastforce split: if_splits list.splits)+

section \<open>White space\<close>

text \<open>
  The ASCII white space bytes, and the UTF-8 encodings of the other code points with the
  White Space property (U+0085, U+00A0, U+1680, U+2000 to U+200A, U+2028, U+2029, U+202F,
  U+205F, U+3000): what \<open>unicode.IsSpace\<close> accepts.
\<close>

definition ascii_space :: "char \<Rightarrow> bool" where
  "ascii_space c =
     (c = CHR '' '' \<or> c = CHR 0x0A \<or> c = CHR 0x0D \<or> c = CHR 0x09 \<or> c = CHR 0x0B \<or> c = CHR 0x0C)"

definition wide_spaces :: "string list" where
  "wide_spaces =
     [[CHR 0xC2, CHR 0x85], [CHR 0xC2, CHR 0xA0], [CHR 0xE1, CHR 0x9A, CHR 0x80],
      [CHR 0xE2, CHR 0x80, CHR 0x80], [CHR 0xE2, CHR 0x80, CHR 0x81],
      [CHR 0xE2, CHR 0x80, CHR 0x82], [CHR 0xE2, CHR 0x80, CHR 0x83],
      [CHR 0xE2, CHR 0x80, CHR 0x84], [CHR 0xE2, CHR 0x80, CHR 0x85],
      [CHR 0xE2, CHR 0x80, CHR 0x86], [CHR 0xE2, CHR 0x80, CHR 0x87],
      [CHR 0xE2, CHR 0x80, CHR 0x88], [CHR 0xE2, CHR 0x80, CHR 0x89],
      [CHR 0xE2, CHR 0x80, CHR 0x8A], [CHR 0xE2, CHR 0x80, CHR 0xA8],
      [CHR 0xE2, CHR 0x80, CHR 0xA9], [CHR 0xE2, CHR 0x80, CHR 0xAF],
      [CHR 0xE2, CHR 0x81, CHR 0x9F], [CHR 0xE3, CHR 0x80, CHR 0x80]]"

text \<open>One white space code point removed from the front, the wide ones being given.\<close>

fun drop_one_of :: "string list \<Rightarrow> string \<Rightarrow> string option" where
  "drop_one_of [] s = None"
| "drop_one_of (p # ps) s =
     (case drop_prefix p s of Some r \<Rightarrow> Some r | None \<Rightarrow> drop_one_of ps s)"

definition drop_space :: "string list \<Rightarrow> string \<Rightarrow> string option" where
  "drop_space wide s =
     (case s of
        [] \<Rightarrow> None
      | c # cs \<Rightarrow> if ascii_space c then Some cs else if is_high c then drop_one_of wide s else None)"

function trim_spaces :: "string list \<Rightarrow> string \<Rightarrow> string" where
  "trim_spaces wide s =
     (case drop_space wide s of
        None \<Rightarrow> s
      | Some r \<Rightarrow> if length r < length s then trim_spaces wide r else s)"
  by pat_completeness auto
termination by (relation "measure (\<lambda>(wide, s). length s)") auto

declare trim_spaces.simps [simp del]

text \<open>\<open>strings.TrimSpace\<close>; from the right, the encodings are matched backwards.\<close>

definition trim_space :: "string \<Rightarrow> string" where
  "trim_space s = rev (trim_spaces (map rev wide_spaces) (rev (trim_spaces wide_spaces s)))"

text \<open>A string that begins and ends with a byte that is neither ASCII space nor above 0x7F.\<close>

definition solid_char :: "char \<Rightarrow> bool" where
  "solid_char c = (\<not> ascii_space c \<and> \<not> is_high c)"

definition clean :: "string \<Rightarrow> bool" where
  "clean s = (s = [] \<or> (solid_char (hd s) \<and> solid_char (last s)))"

lemma trim_spaces_Nil [simp]: "trim_spaces w [] = []"
  by (simp add: trim_spaces.simps drop_space_def)

lemma trim_spaces_space: "ascii_space c \<Longrightarrow> trim_spaces w (c # s) = trim_spaces w s"
  by (simp add: trim_spaces.simps [of w "c # s"] drop_space_def)

lemma trim_spaces_solid: "solid_char c \<Longrightarrow> trim_spaces w (c # s) = c # s"
  by (simp add: trim_spaces.simps [of w "c # s"] drop_space_def solid_char_def)

lemma trim_spaces_hd_solid: "s = [] \<or> solid_char (hd s) \<Longrightarrow> trim_spaces w s = s"
  by (cases s) (auto simp: trim_spaces_solid)

lemma trim_spaces_suffix: "\<exists>p. s = p @ trim_spaces w s"
proof (induction w s rule: trim_spaces.induct)
  case (1 w s)
  show ?case
  proof (cases "drop_space w s")
    case None
    then show ?thesis by (simp add: trim_spaces.simps [of w s])
  next
    case (Some r)
    have suf: "\<exists>p. s = p @ r"
    proof -
      have "drop_one_of ps s = Some r \<Longrightarrow> \<exists>p. s = p @ r" for ps
        by (induction ps) (auto split: option.splits simp: drop_prefix_Some)
      with Some show ?thesis
        by (auto simp: drop_space_def split: list.splits if_splits)
    qed
    show ?thesis
    proof (cases "length r < length s")
      case True
      from 1 [OF Some True] suf obtain p q where "r = p @ trim_spaces w r" "s = q @ r" by blast
      then have "s = (q @ p) @ trim_spaces w r" by simp
      moreover from Some True have "trim_spaces w s = trim_spaces w r"
        by (simp add: trim_spaces.simps [of w s])
      ultimately show ?thesis by metis
    qed (simp add: Some trim_spaces.simps [of w s])
  qed
qed

lemma trim_space_infix: "\<exists>p q. s = p @ trim_space s @ q"
proof -
  obtain p where p: "s = p @ trim_spaces wide_spaces s" using trim_spaces_suffix by blast
  obtain q where "rev (trim_spaces wide_spaces s) =
      q @ trim_spaces (map rev wide_spaces) (rev (trim_spaces wide_spaces s))"
    using trim_spaces_suffix by blast
  then have "trim_spaces wide_spaces s = trim_space s @ rev q"
    by (metis rev_append rev_swap trim_space_def)
  with p show ?thesis by metis
qed

lemma set_trim_space: "set (trim_space s) \<subseteq> set s"
  using trim_space_infix [of s] by (metis UnCI set_append subsetI)

lemma trim_space_Nil [simp]: "trim_space [] = []"
  by (simp add: trim_space_def)

lemma trim_space_clean: "clean s \<Longrightarrow> trim_space s = s"
  by (auto simp: trim_space_def clean_def trim_spaces_hd_solid hd_rev)

lemma trim_space_left: "ascii_space c \<Longrightarrow> trim_space (c # s) = trim_space s"
  by (simp add: trim_space_def trim_spaces_space)

lemma trim_space_right_clean:
  assumes "clean s" "s \<noteq> []" "ascii_space c"
  shows "trim_space (s @ [c]) = s"
  using assms by (simp add: trim_space_def clean_def trim_spaces_hd_solid trim_spaces_space hd_rev)

lemma trim_space_space_run:
  "\<forall>c \<in> set p. ascii_space c \<Longrightarrow> trim_space (p @ s) = trim_space s"
  by (induction p) (auto simp: trim_space_left)

text \<open>\<open>strings.Fields\<close>: the words between runs of white space.\<close>

function fields_from :: "string \<Rightarrow> string \<Rightarrow> string list" where
  "fields_from w s =
     (case s of
        [] \<Rightarrow> (if w = [] then [] else [w])
      | c # cs \<Rightarrow>
          (case drop_space wide_spaces s of
             Some r \<Rightarrow>
               (if length r < length s then (if w = [] then [] else [w]) @ fields_from [] r
                else [])
           | None \<Rightarrow> fields_from (w @ [c]) cs))"
  by pat_completeness auto
termination by (relation "measure (\<lambda>(w, s). length s)") auto

declare fields_from.simps [simp del]

definition go_fields :: "string \<Rightarrow> string list" where
  "go_fields s = fields_from [] s"

lemma fields_from_nonempty: "[] \<notin> set (fields_from w s)"
proof (induction w s rule: fields_from.induct)
  case (1 w s)
  show ?case
  proof (cases s)
    case (Cons c cs)
    then show ?thesis using 1 [OF Cons]
      by (auto simp: fields_from.simps [of w "c # cs"] split: option.splits if_splits)
  qed (simp add: fields_from.simps)
qed

lemma go_fields_nonempty: "[] \<notin> set (go_fields s)"
  by (simp add: go_fields_def fields_from_nonempty)

text \<open>\<open>strings.Trim\<close>, \<open>TrimLeft\<close> and \<open>TrimRight\<close> with a set of ASCII characters.\<close>

definition trim_left_set :: "string \<Rightarrow> string \<Rightarrow> string" where
  "trim_left_set s cs = dropWhile (\<lambda>c. c \<in> set cs) s"

definition trim_right_set :: "string \<Rightarrow> string \<Rightarrow> string" where
  "trim_right_set s cs = rev (dropWhile (\<lambda>c. c \<in> set cs) (rev s))"

definition trim_set :: "string \<Rightarrow> string \<Rightarrow> string" where
  "trim_set s cs = trim_right_set (trim_left_set s cs) cs"

section \<open>Numbers\<close>

text \<open>The value of a string of decimal digits, most significant digit first.\<close>

fun dec_value :: "nat \<Rightarrow> string \<Rightarrow> nat" where
  "dec_value acc [] = acc"
| "dec_value acc (c # s) = dec_value (10 * acc + digit_val c) s"

definition all_digits :: "string \<Rightarrow> bool" where
  "all_digits s = (s \<noteq> [] \<and> list_all is_digit s)"

text \<open>\<open>strconv.ParseUint (s, 10, bits)\<close>; \<open>None\<close> is a syntax or a range error.\<close>

definition parse_uint :: "nat \<Rightarrow> string \<Rightarrow> nat option" where
  "parse_uint bits s =
     (if all_digits s \<and> dec_value 0 s < 2 ^ bits then Some (dec_value 0 s) else None)"

text \<open>\<open>strconv.ParseInt (s, 10, bits)\<close>: an optional sign, then digits.\<close>

definition parse_int :: "nat \<Rightarrow> string \<Rightarrow> int option" where
  "parse_int bits s =
     (let (neg, ds) =
        (case s of [] \<Rightarrow> (False, [])
         | c # cs \<Rightarrow> if c = CHR ''-'' then (True, cs) else if c = CHR ''+'' then (False, cs)
                    else (False, s));
        n = int (dec_value 0 ds)
      in if \<not> all_digits ds then None
         else if neg then (if n \<le> 2 ^ (bits - 1) then Some (- n) else None)
         else (if n < 2 ^ (bits - 1) then Some n else None))"

text \<open>\<open>strconv.FormatUint (n, 10)\<close>.\<close>

definition digit_char :: "nat \<Rightarrow> char" where
  "digit_char d = ''0123456789'' ! d"

fun show_nat :: "nat \<Rightarrow> string" where
  "show_nat n = (if n < 10 then [digit_char n] else show_nat (n div 10) @ [digit_char (n mod 10)])"

declare show_nat.simps [simp del]

lemma digit_char_props:
  assumes "d < 10"
  shows "is_digit (digit_char d)" "digit_val (digit_char d) = d"
proof -
  from assms have "d \<in> {0, 1, 2, 3, 4, 5, 6, 7, 8, 9}" by auto
  then show "is_digit (digit_char d)" "digit_val (digit_char d) = d"
    by (auto simp: digit_char_def)
qed

lemma dec_value_append: "dec_value a (s @ t) = dec_value (dec_value a s) t"
  by (induction s arbitrary: a) auto

lemma all_digits_show_nat: "all_digits (show_nat n)"
proof (induction n rule: show_nat.induct)
  case (1 n)
  then show ?case
    by (cases "n < 10") (auto simp: all_digits_def show_nat.simps [of n] digit_char_props)
qed

lemma dec_value_show_nat: "dec_value 0 (show_nat n) = n"
proof (induction n rule: show_nat.induct)
  case (1 n)
  then show ?case
    by (cases "n < 10") (auto simp: show_nat.simps [of n] digit_char_props dec_value_append)
qed

lemma parse_uint_show_nat: "n < 2 ^ bits \<Longrightarrow> parse_uint bits (show_nat n) = Some n"
  by (simp add: parse_uint_def all_digits_show_nat dec_value_show_nat)

lemma parse_uint_bound: "parse_uint bits s = Some n \<Longrightarrow> n < 2 ^ bits"
  by (auto simp: parse_uint_def split: if_splits)

end
