(* ===== verification/GoTime.thy ===== *)
theory GoTime
  imports GoStrings
begin

text \<open>
  The parts of Go's \<open>time\<close> package that the repository uses: \<open>time.Parse\<close> for the layouts that
  occur in the source, and formatting of an instant as RFC 3339 in UTC.

  An instant is a pair of seconds since 1970-01-01T00:00:00Z and nanoseconds within the second.
  A layout string is cut into chunks by \<open>next_std_chunk\<close> as the library does; the chunks are the
  ones that occur in the repository's layouts.
\<close>

type_synonym go_time = "int \<times> nat"

section \<open>The Gregorian calendar\<close>

definition is_leap :: "int \<Rightarrow> bool" where
  "is_leap y = (y mod 4 = 0 \<and> (y mod 100 \<noteq> 0 \<or> y mod 400 = 0))"

text \<open>Days from 0000-01-01 to the first day of year \<open>y\<close>.\<close>

definition days_before_year :: "int \<Rightarrow> int" where
  "days_before_year y = 365 * y + (y + 3) div 4 - (y + 99) div 100 + (y + 399) div 400"

definition days_in_month :: "int \<Rightarrow> nat \<Rightarrow> nat" where
  "days_in_month y m =
     (if m = 2 then (if is_leap y then 29 else 28)
      else if m = 4 \<or> m = 6 \<or> m = 9 \<or> m = 11 then 30 else 31)"

definition days_before_month :: "int \<Rightarrow> nat \<Rightarrow> int" where
  "days_before_month y m =
     (let l = (if is_leap y then 1 else 0) in
      if m = 1 then 0 else if m = 2 then 31 else if m = 3 then 59 + l else if m = 4 then 90 + l
      else if m = 5 then 120 + l else if m = 6 then 151 + l else if m = 7 then 181 + l
      else if m = 8 then 212 + l else if m = 9 then 243 + l else if m = 10 then 273 + l
      else if m = 11 then 304 + l else 334 + l)"

text \<open>Days from 1970-01-01 to a date; 719528 is the number of days before 1970.\<close>

definition days_of_date :: "int \<Rightarrow> nat \<Rightarrow> nat \<Rightarrow> int" where
  "days_of_date y m d = days_before_year y + days_before_month y m + int d - 1 - 719528"

definition valid_date :: "int \<Rightarrow> nat \<Rightarrow> nat \<Rightarrow> bool" where
  "valid_date y m d = (1 \<le> m \<and> m \<le> 12 \<and> 1 \<le> d \<and> d \<le> days_in_month y m)"

text \<open>The date of a day number, the inverse.\<close>

definition year_of_day :: "int \<Rightarrow> int" where
  "year_of_day n =
     (let y = 400 * n div 146097 in
      if n < days_before_year y then y - 1
      else if days_before_year (y + 1) \<le> n then y + 1 else y)"

definition month_of_day :: "int \<Rightarrow> int \<Rightarrow> nat" where
  "month_of_day y n =
     (let before = days_before_month y in
      if n < before 2 then 1 else if n < before 3 then 2 else if n < before 4 then 3
      else if n < before 5 then 4 else if n < before 6 then 5 else if n < before 7 then 6
      else if n < before 8 then 7 else if n < before 9 then 8 else if n < before 10 then 9
      else if n < before 11 then 10 else if n < before 12 then 11 else 12)"

definition date_of_days :: "int \<Rightarrow> int \<times> nat \<times> nat" where
  "date_of_days n0 =
     (let n = n0 + 719528; y = year_of_day n; yd = n - days_before_year y; m = month_of_day y yd
      in (y, m, nat (yd - days_before_month y m) + 1))"

lemma div_bounds:
  assumes "(0::int) < k"
  shows "k * (a div k) \<le> a \<and> a \<le> k * (a div k) + (k - 1)"
  using assms pos_mod_bound [of k a] pos_mod_sign [of k a] mult_div_mod_eq [of k a] by linarith

lemma ceil_step:
  assumes "(0::int) < k"
  shows "(y + k) div k = (y + k - 1) div k + (if y mod k = 0 then 1 else 0)"
proof -
  define q r where "q = y div k" and "r = y mod k"
  have y: "y = q * k + r" and r: "0 \<le> r" "r < k"
    using assms by (simp_all add: q_def r_def)
  have "(y + k - 1) div k = q + (if r = 0 then 0 else 1)"
  proof (cases "r = 0")
    case True
    then have "y + k - 1 = (k - 1) + q * k" using y by simp
    then show ?thesis using True assms by (simp only: div_mult_self1) simp
  next
    case False
    then have "y + k - 1 = (r - 1) + (q + 1) * k" using y by (simp add: algebra_simps)
    then show ?thesis using False r assms by (simp only: div_mult_self1) simp
  qed
  then show ?thesis using assms by (simp add: q_def r_def div_add_self2)
qed

lemma days_before_year_step:
  "days_before_year (y + 1) = days_before_year y + (if is_leap y then 366 else 365)"
proof -
  have dv: "y mod 400 = 0 \<Longrightarrow> y mod 100 = 0" "y mod 100 = 0 \<Longrightarrow> y mod 4 = 0"
    using mod_mod_cancel [of 100 400 y] mod_mod_cancel [of 4 100 y] by fastforce+
  have eqs: "y + 1 + 3 = y + 4" "y + 1 + 99 = y + 100" "y + 1 + 399 = y + 400"
    "y + 4 - 1 = y + 3" "y + 100 - 1 = y + 99" "y + 400 - 1 = y + 399" by simp_all
  note c = ceil_step [OF zero_less_numeral, where y = y]
  define A B C A' B' C' where "A = (y + 3) div 4" and "B = (y + 99) div 100"
    and "C = (y + 399) div 400" and "A' = (y + 1 + 3) div 4" and "B' = (y + 1 + 99) div 100"
    and "C' = (y + 1 + 399) div 400"
  have "A' = A + (if y mod 4 = 0 then 1 else 0)" "B' = B + (if y mod 100 = 0 then 1 else 0)"
    "C' = C + (if y mod 400 = 0 then 1 else 0)"
    unfolding A_def B_def C_def A'_def B'_def C'_def by (simp_all only: eqs c)
  moreover have "days_before_year y = 365 * y + A - B + C"
    "days_before_year (y + 1) = 365 * (y + 1) + A' - B' + C'"
    by (simp_all only: days_before_year_def A_def B_def C_def A'_def B'_def C'_def)
  ultimately show ?thesis using dv unfolding is_leap_def by (auto simp: algebra_simps split: if_splits)
qed

lemma days_before_year_mono:
  assumes "y \<le> y'"
  shows "days_before_year y \<le> days_before_year y'"
  using assms
proof (induction rule: int_ge_induct)
  case (step i)
  then show ?case using days_before_year_step [of i] by (simp split: if_splits)
qed simp

lemma year_of_day_bounds:
  "days_before_year (year_of_day n) \<le> n \<and> n < days_before_year (year_of_day n + 1)"
proof -
  define y where "y = 400 * n div 146097"
  have b: "146097 * y \<le> 400 * n" "400 * n < 146097 * y + 146097"
    using div_bounds [of 146097 "400 * n"] by (simp_all add: y_def)
  have lo: "400 * days_before_year (y - 1) \<le> 146097 * y"
    and hi: "146097 * y + 146097 \<le> 400 * days_before_year (y + 2)"
    unfolding days_before_year_def
    using div_bounds [of 4 "y + 2"] div_bounds [of 100 "y + 98"] div_bounds [of 400 "y + 398"]
      div_bounds [of 4 "y + 5"] div_bounds [of 100 "y + 101"] div_bounds [of 400 "y + 401"]
    by (simp_all add: algebra_simps)
  have "days_before_year (y - 1) \<le> n" using lo b by linarith
  moreover have "n < days_before_year (y + 2)" using hi b by linarith
  ultimately show ?thesis
    unfolding year_of_day_def y_def [symmetric] Let_def
    by (simp add: add.assoc)
qed

lemma year_of_day_unique:
  assumes "days_before_year y \<le> n" "n < days_before_year (y + 1)"
  shows "year_of_day n = y"
proof (rule antisym; rule ccontr)
  assume "\<not> year_of_day n \<le> y"
  then have "days_before_year (y + 1) \<le> days_before_year (year_of_day n)"
    by (intro days_before_year_mono) simp
  with year_of_day_bounds [of n] assms show False by linarith
next
  assume "\<not> y \<le> year_of_day n"
  then have "days_before_year (year_of_day n + 1) \<le> days_before_year y"
    by (intro days_before_year_mono) simp
  with year_of_day_bounds [of n] assms show False by linarith
qed

lemma days_in_month_pos: "1 \<le> days_in_month y m"
  by (simp add: days_in_month_def)

lemma month_cases:
  assumes "1 \<le> m" "m \<le> (12::nat)"
  shows "m \<in> {1, 2, 3, 4, 5, 6, 7, 8, 9, 10, 11, 12}"
proof -
  from assms have "m = 1 \<or> m = 2 \<or> m = 3 \<or> m = 4 \<or> m = 5 \<or> m = 6 \<or> m = 7 \<or> m = 8 \<or>
    m = 9 \<or> m = 10 \<or> m = 11 \<or> m = 12" by arith
  then show ?thesis by simp
qed

lemma date_offset_bound:
  assumes "valid_date y m d"
  shows "0 \<le> days_before_month y m + int d - 1 \<and>
         days_before_month y m + int d - 1 < (if is_leap y then 366 else 365)"
proof -
  from assms have m: "m \<in> {1, 2, 3, 4, 5, 6, 7, 8, 9, 10, 11, 12}"
    by (intro month_cases) (auto simp: valid_date_def)
  from assms have "1 \<le> d" "d \<le> days_in_month y m" by (auto simp: valid_date_def)
  with m show ?thesis
    by (auto simp: days_in_month_def days_before_month_def split: if_splits)
qed

lemma month_of_day_inverse:
  assumes "valid_date y m d"
  shows "month_of_day y (days_before_month y m + int d - 1) = m"
proof -
  from assms have m: "m \<in> {1, 2, 3, 4, 5, 6, 7, 8, 9, 10, 11, 12}"
    by (intro month_cases) (auto simp: valid_date_def)
  from assms have "1 \<le> d" "d \<le> days_in_month y m" by (auto simp: valid_date_def)
  with m show ?thesis
    by (cases "is_leap y"; elim insertE emptyE;
        simp add: days_in_month_def days_before_month_def month_of_day_def Let_def)
qed

text \<open>A valid date is recovered from its day number.\<close>

lemma date_of_days_of_date:
  assumes "valid_date y m d"
  shows "date_of_days (days_of_date y m d) = (y, m, d)"
proof -
  let ?o = "days_before_month y m + int d - 1"
  have n: "days_of_date y m d + 719528 = days_before_year y + ?o"
    by (simp add: days_of_date_def)
  have "year_of_day (days_before_year y + ?o) = y"
    using date_offset_bound [OF assms] by (intro year_of_day_unique) (auto simp: days_before_year_step)
  moreover have "Suc (nat (int d - 1)) = d" using assms by (cases d) (auto simp: valid_date_def)
  ultimately show ?thesis
    using month_of_day_inverse [OF assms] by (simp add: date_of_days_def n Let_def)
qed

section \<open>Instants\<close>

text \<open>\<open>time.Date\<close> in UTC, for fields that \<open>time.Parse\<close> has already checked.\<close>

definition utc_time :: "int \<Rightarrow> nat \<Rightarrow> nat \<Rightarrow> nat \<Rightarrow> nat \<Rightarrow> nat \<Rightarrow> nat \<Rightarrow> go_time" where
  "utc_time y m d h mi s ns =
     (days_of_date y m d * 86400 + int h * 3600 + int mi * 60 + int s, ns)"

text \<open>Zero padded numbers, and \<open>t.UTC().Format(time.RFC3339)\<close>.\<close>

definition pad :: "nat \<Rightarrow> nat \<Rightarrow> string" where
  "pad w n = (let ds = show_nat n in replicate (w - length ds) CHR ''0'' @ ds)"

definition show_year :: "int \<Rightarrow> string" where
  "show_year y = (if y < 0 then CHR ''-'' # pad 4 (nat (- y)) else pad 4 (nat y))"

definition format_rfc3339 :: "go_time \<Rightarrow> string" where
  "format_rfc3339 t =
     (let days = fst t div 86400; r = nat (fst t mod 86400); (y, m, d) = date_of_days days
      in show_year y @ ''-'' @ pad 2 m @ ''-'' @ pad 2 d @ ''T'' @
         pad 2 (r div 3600) @ '':'' @ pad 2 (r div 60 mod 60) @ '':'' @ pad 2 (r mod 60) @ ''Z'')"

section \<open>Layouts\<close>

datatype std_chunk =
    StdLongYear | StdZeroMonth | StdNumMonth | StdMonth | StdLongMonth | StdWeekDay
  | StdZeroDay | StdDay | StdHour | StdZeroMinute | StdZeroSecond
  | StdISO8601ColonTZ | StdISO8601TZ | StdNumColonTZ

datatype layout_item = Lit char | Std std_chunk

text \<open>
  \<open>nextStdChunk\<close>: the chunks of the reference time that the repository's layouts contain, tried
  in an order in which a longer spelling comes before its prefix.
\<close>

definition std_spellings :: "(string \<times> std_chunk) list" where
  "std_spellings =
     [(''January'', StdLongMonth), (''Jan'', StdMonth), (''Mon'', StdWeekDay),
      (''2006'', StdLongYear), (''01'', StdZeroMonth), (''02'', StdZeroDay),
      (''04'', StdZeroMinute), (''05'', StdZeroSecond), (''15'', StdHour),
      (''1'', StdNumMonth), (''2'', StdDay), (''Z07:00'', StdISO8601ColonTZ),
      (''Z0700'', StdISO8601TZ), (''-07:00'', StdNumColonTZ)]"

fun find_spelling :: "(string \<times> std_chunk) list \<Rightarrow> string \<Rightarrow> (std_chunk \<times> string) option" where
  "find_spelling [] s = None"
| "find_spelling ((p, k) # ps) s =
     (case drop_prefix p s of Some r \<Rightarrow> Some (k, r) | None \<Rightarrow> find_spelling ps s)"

fun layout_items_fuel :: "nat \<Rightarrow> string \<Rightarrow> layout_item list" where
  "layout_items_fuel 0 s = []"
| "layout_items_fuel (Suc n) s =
     (case s of
        [] \<Rightarrow> []
      | c # cs \<Rightarrow>
          (case find_spelling std_spellings s of
             Some (k, r) \<Rightarrow> Std k # layout_items_fuel n r
           | None \<Rightarrow> Lit c # layout_items_fuel n cs))"

text \<open>Every step consumes a character, so the length of the layout is enough fuel.\<close>

definition layout_items :: "string \<Rightarrow> layout_item list" where
  "layout_items s = layout_items_fuel (length s) s"

definition RFC3339 :: string where
  "RFC3339 = ''2006-01-02T15:04:05Z07:00''"

section \<open>Parsing\<close>

text \<open>The fields collected so far; \<open>tp_zone\<close> is the offset in seconds once one was read.\<close>

record time_fields =
  tp_year :: int
  tp_month :: nat
  tp_day :: nat
  tp_hour :: nat
  tp_min :: nat
  tp_sec :: nat
  tp_nsec :: nat
  tp_zone :: "int option"

definition empty_fields :: time_fields where
  "empty_fields = \<lparr>tp_year = 0, tp_month = 1, tp_day = 1, tp_hour = 0, tp_min = 0, tp_sec = 0,
     tp_nsec = 0, tp_zone = None\<rparr>"

text \<open>\<open>getnum\<close>: one or two digits, two of them when the layout is fixed width.\<close>

definition getnum :: "string \<Rightarrow> bool \<Rightarrow> (nat \<times> string) option" where
  "getnum s fixed =
     (case s of
        [] \<Rightarrow> None
      | c # cs \<Rightarrow>
          if \<not> is_digit c then None
          else (case cs of
                  d # ds \<Rightarrow>
                    if is_digit d then Some (digit_val c * 10 + digit_val d, ds)
                    else if fixed then None else Some (digit_val c, cs)
                | [] \<Rightarrow> if fixed then None else Some (digit_val c, cs)))"

text \<open>\<open>lookup\<close>: the index of the first name that is a prefix of the value, ignoring ASCII case.\<close>

fun fold_prefix :: "string \<Rightarrow> string \<Rightarrow> string option" where
  "fold_prefix [] s = Some s"
| "fold_prefix (p # ps) [] = None"
| "fold_prefix (p # ps) (c # s) =
     (if ascii_lower p = ascii_lower c then fold_prefix ps s else None)"

fun lookup_name :: "nat \<Rightarrow> string list \<Rightarrow> string \<Rightarrow> (nat \<times> string) option" where
  "lookup_name i [] s = None"
| "lookup_name i (n # ns) s =
     (case fold_prefix n s of Some r \<Rightarrow> Some (i, r) | None \<Rightarrow> lookup_name (Suc i) ns s)"

definition long_month_names :: "string list" where
  "long_month_names =
     [''January'', ''February'', ''March'', ''April'', ''May'', ''June'', ''July'', ''August'',
      ''September'', ''October'', ''November'', ''December'']"

definition short_month_names :: "string list" where
  "short_month_names =
     [''Jan'', ''Feb'', ''Mar'', ''Apr'', ''May'', ''Jun'', ''Jul'', ''Aug'', ''Sep'', ''Oct'',
      ''Nov'', ''Dec'']"

definition short_day_names :: "string list" where
  "short_day_names = [''Sun'', ''Mon'', ''Tue'', ''Wed'', ''Thu'', ''Fri'', ''Sat'']"

text \<open>
  A fractional second after the seconds is accepted although no layout of the repository has one:
  at most nine digits count, missing ones are zeros.
\<close>

definition parse_fraction :: "string \<Rightarrow> nat \<times> string" where
  "parse_fraction s =
     (case s of
        c # d # r \<Rightarrow>
          if (c = CHR ''.'' \<or> c = CHR '','') \<and> is_digit d
          then (let ds = takeWhile is_digit (d # r); ns = take 9 ds
                in (dec_value 0 ns * 10 ^ (9 - length ns), dropWhile is_digit (d # r)))
          else (0, s)
      | _ \<Rightarrow> (0, s))"

text \<open>A numeric zone: sign, two digit hour, two digit minute.\<close>

definition parse_offset :: "bool \<Rightarrow> string \<Rightarrow> (int \<times> string) option" where
  "parse_offset colon s =
     (case s of
        sg # h1 # h2 # r0 \<Rightarrow>
          (case (if colon then drop_prefix '':'' r0 else Some r0) of
             Some (m1 # m2 # r) \<Rightarrow>
               (case (getnum [h1, h2] True, getnum [m1, m2] True) of
                  (Some (hr, _), Some (mm, _)) \<Rightarrow>
                    if 24 < hr \<or> 60 < mm then None
                    else if sg = CHR ''+'' then Some (int ((hr * 60 + mm) * 60), r)
                    else if sg = CHR ''-'' then Some (- int ((hr * 60 + mm) * 60), r)
                    else None
                | _ \<Rightarrow> None)
           | _ \<Rightarrow> None)
      | _ \<Rightarrow> None)"

definition parse_iso_zone :: "bool \<Rightarrow> string \<Rightarrow> (int \<times> string) option" where
  "parse_iso_zone colon s =
     (case s of
        c # cs \<Rightarrow> if c = CHR ''Z'' then Some (0, cs) else parse_offset colon s
      | [] \<Rightarrow> None)"

definition parse_std :: "std_chunk \<Rightarrow> string \<Rightarrow> time_fields \<Rightarrow> (time_fields \<times> string) option" where
  "parse_std k s f =
     (case k of
        StdLongYear \<Rightarrow>
          if length s < 4 \<or> \<not> list_all is_digit (take 4 s) then None
          else Some (f\<lparr>tp_year := int (dec_value 0 (take 4 s))\<rparr>, drop 4 s)
      | StdZeroMonth \<Rightarrow>
          (case getnum s True of None \<Rightarrow> None
           | Some (n, r) \<Rightarrow> if n = 0 \<or> 12 < n then None else Some (f\<lparr>tp_month := n\<rparr>, r))
      | StdNumMonth \<Rightarrow>
          (case getnum s False of None \<Rightarrow> None
           | Some (n, r) \<Rightarrow> if n = 0 \<or> 12 < n then None else Some (f\<lparr>tp_month := n\<rparr>, r))
      | StdMonth \<Rightarrow>
          (case lookup_name 1 short_month_names s of None \<Rightarrow> None
           | Some (n, r) \<Rightarrow> Some (f\<lparr>tp_month := n\<rparr>, r))
      | StdLongMonth \<Rightarrow>
          (case lookup_name 1 long_month_names s of None \<Rightarrow> None
           | Some (n, r) \<Rightarrow> Some (f\<lparr>tp_month := n\<rparr>, r))
      | StdWeekDay \<Rightarrow>
          (case lookup_name 0 short_day_names s of None \<Rightarrow> None | Some (_, r) \<Rightarrow> Some (f, r))
      | StdZeroDay \<Rightarrow>
          (case getnum s True of None \<Rightarrow> None | Some (n, r) \<Rightarrow> Some (f\<lparr>tp_day := n\<rparr>, r))
      | StdDay \<Rightarrow>
          (case getnum s False of None \<Rightarrow> None | Some (n, r) \<Rightarrow> Some (f\<lparr>tp_day := n\<rparr>, r))
      | StdHour \<Rightarrow>
          (case getnum s False of None \<Rightarrow> None
           | Some (n, r) \<Rightarrow> if 24 \<le> n then None else Some (f\<lparr>tp_hour := n\<rparr>, r))
      | StdZeroMinute \<Rightarrow>
          (case getnum s True of None \<Rightarrow> None
           | Some (n, r) \<Rightarrow> if 60 \<le> n then None else Some (f\<lparr>tp_min := n\<rparr>, r))
      | StdZeroSecond \<Rightarrow>
          (case getnum s True of None \<Rightarrow> None
           | Some (n, r) \<Rightarrow>
               if 60 \<le> n then None
               else (let (ns, r') = parse_fraction r in Some (f\<lparr>tp_sec := n, tp_nsec := ns\<rparr>, r')))
      | StdISO8601ColonTZ \<Rightarrow>
          (case parse_iso_zone True s of None \<Rightarrow> None
           | Some (z, r) \<Rightarrow> Some (f\<lparr>tp_zone := Some z\<rparr>, r))
      | StdISO8601TZ \<Rightarrow>
          (case parse_iso_zone False s of None \<Rightarrow> None
           | Some (z, r) \<Rightarrow> Some (f\<lparr>tp_zone := Some z\<rparr>, r))
      | StdNumColonTZ \<Rightarrow>
          (case parse_offset True s of None \<Rightarrow> None
           | Some (z, r) \<Rightarrow> Some (f\<lparr>tp_zone := Some z\<rparr>, r)))"

text \<open>
  The main loop.  A blank of the layout stands for a run of blanks of the value (and for none at
  its end); a run of blanks of the layout counts as one.
\<close>

definition cut_space :: "string \<Rightarrow> string" where
  "cut_space s = dropWhile (\<lambda>c. c = CHR '' '') s"

fun parse_items :: "layout_item list \<Rightarrow> string \<Rightarrow> time_fields \<Rightarrow> time_fields option" where
  "parse_items [] s f = (if s = [] then Some f else None)"
| "parse_items (Lit c # is) s f =
     (if c = CHR '' '' then
        (case s of d # _ \<Rightarrow> if d = CHR '' '' then parse_items is (cut_space s) f else None
         | [] \<Rightarrow> parse_items is s f)
      else (case s of d # r \<Rightarrow> if d = c then parse_items is r f else None | [] \<Rightarrow> None))"
| "parse_items (Std k # is) s f =
     (case parse_std k s f of None \<Rightarrow> None | Some (f', r) \<Rightarrow> parse_items is r f')"

definition finish_time :: "time_fields \<Rightarrow> go_time option" where
  "finish_time f =
     (if tp_day f < 1 \<or> days_in_month (tp_year f) (tp_month f) < tp_day f then None
      else (let t = utc_time (tp_year f) (tp_month f) (tp_day f) (tp_hour f) (tp_min f) (tp_sec f)
                      (tp_nsec f)
            in case tp_zone f of None \<Rightarrow> Some t | Some z \<Rightarrow> Some (fst t - z, snd t)))"

text \<open>\<open>time.Parse\<close>: the instant, or \<open>None\<close> for an error.\<close>

definition time_parse :: "string \<Rightarrow> string \<Rightarrow> go_time option" where
  "time_parse layout s =
     (case parse_items (layout_items layout) s empty_fields of None \<Rightarrow> None | Some f \<Rightarrow> finish_time f)"

text \<open>
  The loop every date parser of the repository has: the first layout that parses wins, and the
  result is converted to UTC, which is the same instant.
\<close>

fun try_formats :: "string list \<Rightarrow> string \<Rightarrow> go_time option" where
  "try_formats [] s = None"
| "try_formats (l # ls) s =
     (case time_parse l s of Some t \<Rightarrow> Some t | None \<Rightarrow> try_formats ls s)"

text \<open>The layouts of the repository, cut into chunks.\<close>

lemma layout_items_eval [go_eval]:
  shows "layout_items ''2006-01-02T15:04:05Z07:00'' =
       [Std StdLongYear, Lit CHR ''-'', Std StdZeroMonth, Lit CHR ''-'', Std StdZeroDay,
        Lit CHR ''T'', Std StdHour, Lit CHR '':'', Std StdZeroMinute, Lit CHR '':'', Std
        StdZeroSecond, Std StdISO8601ColonTZ]"
  and "layout_items ''2006-01-02T15:04:05Z'' =
       [Std StdLongYear, Lit CHR ''-'', Std StdZeroMonth, Lit CHR ''-'', Std StdZeroDay,
        Lit CHR ''T'', Std StdHour, Lit CHR '':'', Std StdZeroMinute, Lit CHR '':'', Std
        StdZeroSecond, Lit CHR ''Z'']"
  and "layout_items ''2006-01-02T15:04:05-07:00'' =
       [Std StdLongYear, Lit CHR ''-'', Std StdZeroMonth, Lit CHR ''-'', Std StdZeroDay,
        Lit CHR ''T'', Std StdHour, Lit CHR '':'', Std StdZeroMinute, Lit CHR '':'', Std
        StdZeroSecond, Std StdNumColonTZ]"
  and "layout_items ''2006-01-02T15:04:05'' =
       [Std StdLongYear, Lit CHR ''-'', Std StdZeroMonth, Lit CHR ''-'', Std StdZeroDay,
        Lit CHR ''T'', Std StdHour, Lit CHR '':'', Std StdZeroMinute, Lit CHR '':'', Std
        StdZeroSecond]"
  and "layout_items ''2006-01-02 15:04:05'' =
       [Std StdLongYear, Lit CHR ''-'', Std StdZeroMonth, Lit CHR ''-'', Std StdZeroDay,
        Lit CHR '' '', Std StdHour, Lit CHR '':'', Std StdZeroMinute, Lit CHR '':'', Std
        StdZeroSecond]"
  and "layout_items ''2006-01-02 15:04:05Z'' =
       [Std StdLongYear, Lit CHR ''-'', Std StdZeroMonth, Lit CHR ''-'', Std StdZeroDay,
        Lit CHR '' '', Std StdHour, Lit CHR '':'', Std StdZeroMinute, Lit CHR '':'', Std
        StdZeroSecond, Lit CHR ''Z'']"
  and "layout_items ''2006-01-02 15:04:05-07:00'' =
       [Std StdLongYear, Lit CHR ''-'', Std StdZeroMonth, Lit CHR ''-'', Std StdZeroDay,
        Lit CHR '' '', Std StdHour, Lit CHR '':'', Std StdZeroMinute, Lit CHR '':'', Std
        StdZeroSecond, Std StdNumColonTZ]"
  and "layout_items ''2006-01-02'' =
       [Std StdLongYear, Lit CHR ''-'', Std StdZeroMonth, Lit CHR ''-'', Std StdZeroDay]"
  and "layout_items ''01/02/2006'' =
       [Std StdZeroMonth, Lit CHR ''/'', Std StdZeroDay, Lit CHR ''/'', Std StdLongYear]"
  and "layout_items ''01-02-2006'' =
       [Std StdZeroMonth, Lit CHR ''-'', Std StdZeroDay, Lit CHR ''-'', Std StdLongYear]"
  and "layout_items ''02-Jan-2006'' =
       [Std StdZeroDay, Lit CHR ''-'', Std StdMonth, Lit CHR ''-'', Std StdLongYear]"
  and "layout_items ''02 Jan 2006'' =
       [Std StdZeroDay, Lit CHR '' '', Std StdMonth, Lit CHR '' '', Std StdLongYear]"
  and "layout_items ''02/01/2006'' =
       [Std StdZeroDay, Lit CHR ''/'', Std StdZeroMonth, Lit CHR ''/'', Std StdLongYear]"
  and "layout_items ''02.01.2006'' =
       [Std StdZeroDay, Lit CHR ''.'', Std StdZeroMonth, Lit CHR ''.'', Std StdLongYear]"
  and "layout_items ''20060102'' =
       [Std StdLongYear, Std StdZeroMonth, Std StdZeroDay]"
  and "layout_items ''2006/01/02'' =
       [Std StdLongYear, Lit CHR ''/'', Std StdZeroMonth, Lit CHR ''/'', Std StdZeroDay]"
  and "layout_items ''January 2, 2006'' =
       [Std StdLongMonth, Lit CHR '' '', Std StdDay, Lit CHR '','', Lit CHR '' '', Std
        StdLongYear]"
  and "layout_items ''Jan 2, 2006'' =
       [Std StdMonth, Lit CHR '' '', Std StdDay, Lit CHR '','', Lit CHR '' '', Std
        StdLongYear]"
  and "layout_items ''2 January 2006'' =
       [Std StdDay, Lit CHR '' '', Std StdLongMonth, Lit CHR '' '', Std StdLongYear]"
  and "layout_items ''2 Jan 2006'' =
       [Std StdDay, Lit CHR '' '', Std StdMonth, Lit CHR '' '', Std StdLongYear]"
  and "layout_items ''2006-01-02 15:04:05 (UTC)'' =
       [Std StdLongYear, Lit CHR ''-'', Std StdZeroMonth, Lit CHR ''-'', Std StdZeroDay,
        Lit CHR '' '', Std StdHour, Lit CHR '':'', Std StdZeroMinute, Lit CHR '':'', Std
        StdZeroSecond, Lit CHR '' '', Lit CHR ''('', Lit CHR ''U'', Lit CHR ''T'',
        Lit CHR ''C'', Lit CHR '')'']"
  and "layout_items ''2006-01-02 15:04:05 UTC'' =
       [Std StdLongYear, Lit CHR ''-'', Std StdZeroMonth, Lit CHR ''-'', Std StdZeroDay,
        Lit CHR '' '', Std StdHour, Lit CHR '':'', Std StdZeroMinute, Lit CHR '':'', Std
        StdZeroSecond, Lit CHR '' '', Lit CHR ''U'', Lit CHR ''T'', Lit CHR ''C'']"
  and "layout_items ''2006.01.02'' =
       [Std StdLongYear, Lit CHR ''.'', Std StdZeroMonth, Lit CHR ''.'', Std StdZeroDay]"
  and "layout_items ''Mon Jan 2 15:04:05 2006'' =
       [Std StdWeekDay, Lit CHR '' '', Std StdMonth, Lit CHR '' '', Std StdDay,
        Lit CHR '' '', Std StdHour, Lit CHR '':'', Std StdZeroMinute, Lit CHR '':'', Std
        StdZeroSecond, Lit CHR '' '', Std StdLongYear]"
  and "layout_items ''2/1/2006'' =
       [Std StdDay, Lit CHR ''/'', Std StdNumMonth, Lit CHR ''/'', Std StdLongYear]"
  and "layout_items ''02-01-2006'' =
       [Std StdZeroDay, Lit CHR ''-'', Std StdZeroMonth, Lit CHR ''-'', Std StdLongYear]"
  and "layout_items ''2006/01/02 15:04:05'' =
       [Std StdLongYear, Lit CHR ''/'', Std StdZeroMonth, Lit CHR ''/'', Std StdZeroDay,
        Lit CHR '' '', Std StdHour, Lit CHR '':'', Std StdZeroMinute, Lit CHR '':'', Std
        StdZeroSecond]"
  and "layout_items ''2006-01-02T15:04:05Z0700'' =
       [Std StdLongYear, Lit CHR ''-'', Std StdZeroMonth, Lit CHR ''-'', Std StdZeroDay,
        Lit CHR ''T'', Std StdHour, Lit CHR '':'', Std StdZeroMinute, Lit CHR '':'', Std
        StdZeroSecond, Std StdISO8601TZ]"
  by code_simp+

lemmas time_eval =
  time_parse_def parse_std_def getnum_def empty_fields_def finish_time_def utc_time_def
  parse_fraction_def parse_offset_def parse_iso_zone_def cut_space_def days_in_month_def
  is_leap_def days_of_date_def days_before_year_def days_before_month_def Let_def
  layout_items_eval ascii_lower_def long_month_names_def short_month_names_def
  short_day_names_def RFC3339_def

end
