(* ===== verification/Whois_Types.thy ===== *)
theory Whois_Types
  imports GoErrors GoTime
begin

text \<open>
  The data of \<open>internal/whois/types.go\<close>: parsed domains and contacts, parse results, query
  results and the WHOIS error.  A pointer field is an \<open>option\<close>.
\<close>

record ParsedEntity =
  pe_Handle :: string
  pe_Name :: string
  pe_Organization :: string
  pe_Email :: string
  pe_Phone :: string
  pe_Fax :: string
  pe_Address :: string
  pe_Country :: string
  pe_Street :: string
  pe_City :: string
  pe_State :: string
  pe_PostalCode :: string

definition empty_entity :: ParsedEntity where
  "empty_entity = \<lparr>pe_Handle = [], pe_Name = [], pe_Organization = [], pe_Email = [], pe_Phone = [],
     pe_Fax = [], pe_Address = [], pe_Country = [], pe_Street = [], pe_City = [], pe_State = [],
     pe_PostalCode = []\<rparr>"

record ParsedDomain =
  pd_DomainName :: string
  pd_UnicodeName :: string
  pd_RegistryDomainID :: string
  pd_Status :: "string list"
  pd_Nameservers :: "string list"
  pd_CreatedDate :: "go_time option"
  pd_UpdatedDate :: "go_time option"
  pd_ExpirationDate :: "go_time option"
  pd_Registrar :: "ParsedEntity option"
  pd_Registrant :: "ParsedEntity option"
  pd_AdminContact :: "ParsedEntity option"
  pd_TechContact :: "ParsedEntity option"
  pd_DNSSECSigned :: "bool option"
  pd_WHOISServer :: string
  pd_RawResponse :: string

definition empty_domain :: ParsedDomain where
  "empty_domain = \<lparr>pd_DomainName = [], pd_UnicodeName = [], pd_RegistryDomainID = [], pd_Status = [],
     pd_Nameservers = [], pd_CreatedDate = None, pd_UpdatedDate = None, pd_ExpirationDate = None,
     pd_Registrar = None, pd_Registrant = None, pd_AdminContact = None, pd_TechContact = None,
     pd_DNSSECSigned = None, pd_WHOISServer = [], pd_RawResponse = []\<rparr>"

datatype Confidence = ConfidenceHigh | ConfidenceLow

fun confidence_string :: "Confidence \<Rightarrow> string" where
  "confidence_string ConfidenceHigh = ''high''"
| "confidence_string ConfidenceLow = ''low''"

record ParseResult =
  pr_Domain :: "ParsedDomain option"
  pr_Confidence :: Confidence
  pr_ParserName :: string
  pr_Errors :: "string list"

record QueryResult =
  qr_Server :: string
  qr_Response :: string
  qr_Duration :: int
  qr_Cached :: bool

datatype DataSource = DataSourceRDAP | DataSourceWHOIS

fun data_source_string :: "DataSource \<Rightarrow> string" where
  "data_source_string DataSourceRDAP = ''rdap''"
| "data_source_string DataSourceWHOIS = ''whois''"

text \<open>
  The parsers update a contact in place and allocate it first when it is nil.
\<close>

definition with_entity ::
  "ParsedEntity option \<Rightarrow> (ParsedEntity \<Rightarrow> ParsedEntity) \<Rightarrow> ParsedEntity option" where
  "with_entity e f = Some (f (case e of None \<Rightarrow> empty_entity | Some x \<Rightarrow> x))"

text \<open>\<open>WHOISError.Error\<close>; the text of the other errors is given by \<open>error_text\<close>'s argument.\<close>

fun whois_error_text :: "(go_error \<Rightarrow> string) \<Rightarrow> string \<Rightarrow> string \<Rightarrow> go_error \<Rightarrow> string" where
  "whois_error_text txt op server e =
     (if server \<noteq> [] then op @ '' '' @ server @ '': '' @ txt e else op @ '': '' @ txt e)"

end
