(* ===== verification/Whois_Names.thy ===== *)
theory Whois_Names
  imports GoErrors GoStrings
begin

text \<open>
  Names of domains and top-level domains as \<open>internal/whois/discovery.go\<close> normalises them.
\<close>

text \<open>\<open>isValidTLDChar\<close>: lower case letters, digits, hyphen and dot.\<close>

definition isValidTLDChar :: "nat \<Rightarrow> bool" where
  "isValidTLDChar r =
     ((97 \<le> r \<and> r \<le> 122) \<or> (48 \<le> r \<and> r \<le> 57) \<or> r = 45 \<or> r = 46)"

definition normalizeTLD :: "string \<Rightarrow> string" where
  "normalizeTLD tld0 =
     (let tld1 = trim_prefix tld0 ''.'';
          tld2 = to_lower tld1;
          tld = trim_space tld2
      in if tld = [] then []
         else if list_all isValidTLDChar (runes tld) then tld else [])"

definition ExtractTLD :: "string \<Rightarrow> string" where
  "ExtractTLD domain0 =
     (let domain = trim_space (trim_suffix domain0 ''.'')
      in if domain = [] then []
         else (case last_index_char domain CHR ''.'' of
                 None \<Rightarrow> domain
               | Some lastDot \<Rightarrow> drop (Suc lastDot) domain))"

text \<open>
  The statement \<open>if idx := strings.Index(s, sep); idx > 0 { s = s[:idx] }\<close>, for a one-byte
  separator: the part before its first occurrence, unless the string starts with it.
\<close>

definition cut_before :: "char \<Rightarrow> string \<Rightarrow> string" where
  "cut_before d s = (case index_char s d of Some idx \<Rightarrow> if 0 < idx then take idx s else s | None \<Rightarrow> s)"

lemma cut_before_absent [simp]: "d \<notin> set s \<Longrightarrow> cut_before d s = s"
  using index_char_None [of s d] by (simp add: cut_before_def del: index_char_None)

lemma cut_before_append: "a \<noteq> [] \<Longrightarrow> d \<notin> set a \<Longrightarrow> cut_before d (a @ d # b) = a"
  by (simp add: cut_before_def index_char_append)

lemma cut_before_no_sep:
  assumes "s = [] \<or> hd s \<noteq> d"
  shows "d \<notin> set (cut_before d s)"
proof (cases "index_char s d")
  case (Some i)
  then have "d \<notin> set (take i s)" and s: "s = take i s @ d # drop (Suc i) s"
    using index_char_Some by blast+
  moreover have "0 < i"
  proof (rule ccontr)
    assume "\<not> 0 < i"
    with s have "s = d # drop 1 s" by simp
    then have "s \<noteq> []" "hd s = d" by (metis list.distinct(1), metis list.sel(1))
    with assms show False by simp
  qed
  ultimately show ?thesis by (simp add: cut_before_def Some)
next
  case None
  then show ?thesis by (simp add: cut_before_def None flip: index_char_None)
qed

end
