(* ===== verification/Whois_Parser.thy ===== *)
theory Whois_Parser
  imports Whois_Types Whois_Names
begin

text \<open>
  \<open>internal/whois/parser.go\<close>: the parser interface, the registry that selects a parser by
  top-level domain, and the field extractor of the generic parser.  The interface is the locale
  \<open>parser_contract\<close>; every parser of the repository is an interpretation of it, and the
  registry's lemmas are proved once from its laws.
\<close>

section \<open>The interface\<close>

record whois_parser =
  wp_Name :: string
  wp_SupportsTLD :: "string \<Rightarrow> bool"
  wp_Parse :: "string \<Rightarrow> string \<Rightarrow> go_error + ParseResult"

text \<open>
  What the callers rely on in a parsed domain: the raw response is kept, no nameserver is empty,
  the WHOIS server is left for the caller to fill in, and a name is present whenever a name was
  asked for.
\<close>

definition parsed_ok :: "string \<Rightarrow> ParsedDomain \<Rightarrow> bool" where
  "parsed_ok resp pd \<longleftrightarrow>
     pd_RawResponse pd = resp \<and> [] \<notin> set (pd_Nameservers pd) \<and> pd_WHOISServer pd = []"

definition result_ok :: "string \<Rightarrow> string \<Rightarrow> ParseResult \<Rightarrow> bool" where
  "result_ok resp dmn r \<longleftrightarrow>
     (\<exists>pd. pr_Domain r = Some pd \<and> parsed_ok resp pd \<and> (dmn \<noteq> [] \<longrightarrow> pd_DomainName pd \<noteq> [])) \<and>
     (pr_Errors r \<noteq> [] \<longrightarrow> pr_Confidence r = ConfidenceLow)"

locale parser_contract =
  fixes P :: whois_parser
  assumes parse_total: "\<exists>r. wp_Parse P resp dmn = Inr r"
    and parse_name: "wp_Parse P resp dmn = Inr r \<Longrightarrow> pr_ParserName r = wp_Name P"
    and parse_ok: "wp_Parse P resp dmn = Inr r \<Longrightarrow> result_ok resp dmn r"

text \<open>How the parsers end: not found, or parsed with the requested name as the default.\<close>

definition not_found_result ::
  "string \<Rightarrow> string \<Rightarrow> ParsedDomain \<Rightarrow> string \<Rightarrow> ParseResult" where
  "not_found_result name msg pd domain =
     \<lparr>pr_Domain = Some (pd\<lparr>pd_DomainName := to_lower domain\<rparr>), pr_Confidence = ConfidenceLow,
      pr_ParserName = name, pr_Errors = [msg]\<rparr>"

definition found_result :: "string \<Rightarrow> ParsedDomain \<Rightarrow> string \<Rightarrow> ParseResult" where
  "found_result name pd domain =
     \<lparr>pr_Domain = Some (if pd_DomainName pd = [] then pd\<lparr>pd_DomainName := to_lower domain\<rparr> else pd),
      pr_Confidence = ConfidenceHigh, pr_ParserName = name, pr_Errors = []\<rparr>"

lemma not_found_result_ok [step_inv]:
  "parsed_ok resp pd \<Longrightarrow> result_ok resp dmn (not_found_result n m pd dmn)"
  by (simp add: result_ok_def not_found_result_def parsed_ok_def)

lemma found_result_ok [step_inv]:
  "parsed_ok resp pd \<Longrightarrow> result_ok resp dmn (found_result n pd dmn)"
  by (simp add: result_ok_def found_result_def parsed_ok_def)

lemma result_names [simp]:
  "pr_ParserName (not_found_result n m pd dmn) = n" "pr_ParserName (found_result n pd dmn) = n"
  by (simp_all add: not_found_result_def found_result_def)

lemma parsed_ok_start [step_inv]: "parsed_ok resp (empty_domain\<lparr>pd_RawResponse := resp\<rparr>)"
  by (simp add: parsed_ok_def empty_domain_def)

text \<open>
  Updates that keep \<open>parsed_ok\<close>: any field it does not read, and an appended nameserver that is
  not empty.
\<close>

lemma parsed_ok_update [simp]:
  "parsed_ok resp (pd\<lparr>pd_DomainName := x\<rparr>) = parsed_ok resp pd"
  "parsed_ok resp (pd\<lparr>pd_RegistryDomainID := x\<rparr>) = parsed_ok resp pd"
  "parsed_ok resp (pd\<lparr>pd_Status := xs\<rparr>) = parsed_ok resp pd"
  "parsed_ok resp (pd\<lparr>pd_CreatedDate := t\<rparr>) = parsed_ok resp pd"
  "parsed_ok resp (pd\<lparr>pd_UpdatedDate := t\<rparr>) = parsed_ok resp pd"
  "parsed_ok resp (pd\<lparr>pd_ExpirationDate := t\<rparr>) = parsed_ok resp pd"
  "parsed_ok resp (pd\<lparr>pd_Registrar := e\<rparr>) = parsed_ok resp pd"
  "parsed_ok resp (pd\<lparr>pd_Registrant := e\<rparr>) = parsed_ok resp pd"
  "parsed_ok resp (pd\<lparr>pd_AdminContact := e\<rparr>) = parsed_ok resp pd"
  "parsed_ok resp (pd\<lparr>pd_TechContact := e\<rparr>) = parsed_ok resp pd"
  "parsed_ok resp (pd\<lparr>pd_DNSSECSigned := b\<rparr>) = parsed_ok resp pd"
  by (simp_all add: parsed_ok_def)

text \<open>Appending a nameserver unless it normalised to the empty string.\<close>

definition add_nameserver :: "ParsedDomain \<Rightarrow> string \<Rightarrow> ParsedDomain" where
  "add_nameserver pd ns =
     (if ns \<noteq> [] then pd\<lparr>pd_Nameservers := pd_Nameservers pd @ [ns]\<rparr> else pd)"

lemma parsed_ok_add_nameserver [simp]: "parsed_ok resp pd \<Longrightarrow> parsed_ok resp (add_nameserver pd ns)"
  by (simp add: parsed_ok_def add_nameserver_def)

text \<open>A parsed date is stored, an unparsable one leaves the field as it was.\<close>

definition set_created :: "go_time option \<Rightarrow> ParsedDomain \<Rightarrow> ParsedDomain" where
  "set_created t pd = (case t of None \<Rightarrow> pd | Some _ \<Rightarrow> pd\<lparr>pd_CreatedDate := t\<rparr>)"

definition set_updated :: "go_time option \<Rightarrow> ParsedDomain \<Rightarrow> ParsedDomain" where
  "set_updated t pd = (case t of None \<Rightarrow> pd | Some _ \<Rightarrow> pd\<lparr>pd_UpdatedDate := t\<rparr>)"

definition set_expiration :: "go_time option \<Rightarrow> ParsedDomain \<Rightarrow> ParsedDomain" where
  "set_expiration t pd = (case t of None \<Rightarrow> pd | Some _ \<Rightarrow> pd\<lparr>pd_ExpirationDate := t\<rparr>)"

lemma parsed_ok_set_date [simp]:
  "parsed_ok resp (set_created t pd) = parsed_ok resp pd"
  "parsed_ok resp (set_updated t pd) = parsed_ok resp pd"
  "parsed_ok resp (set_expiration t pd) = parsed_ok resp pd"
  by (simp_all add: set_created_def set_updated_def set_expiration_def split: option.split)

section \<open>Key and value lines\<close>

text \<open>
  The statements every key-value parser repeats: cut the trimmed line at its first colon, trim
  both sides, and ignore the line when there is no colon or no value.
\<close>

definition kv_cut :: "string \<Rightarrow> (string \<times> string) option" where
  "kv_cut line =
     (case cut_at CHR '':'' line of
        None \<Rightarrow> None
      | Some (before, after) \<Rightarrow>
          (let key = trim_space before; value = trim_space after
           in if value = [] then None else Some (key, value)))"

definition kv_line :: "(string \<Rightarrow> bool) \<Rightarrow> string \<Rightarrow> (string \<times> string) option" where
  "kv_line comment line0 =
     (let line = trim_space line0
      in if line = [] \<or> comment line then None else kv_cut line)"

text \<open>
  Printing a key and a value the way the registries do; a clean pair is one that survives
  printing: no line break, no colon in the key, no blanks around either side.
\<close>

definition print_kv :: "string \<times> string \<Rightarrow> string" where
  "print_kv kv = fst kv @ '': '' @ snd kv"

definition print_lines :: "string list \<Rightarrow> string" where
  "print_lines ls = concat (map (\<lambda>l. l @ [CHR 0x0A]) ls)"

definition clean_kv :: "(string \<Rightarrow> bool) \<Rightarrow> string \<times> string \<Rightarrow> bool" where
  "clean_kv comment kv =
     (fst kv \<noteq> [] \<and> snd kv \<noteq> [] \<and> clean (fst kv) \<and> clean (snd kv) \<and> CHR '':'' \<notin> set (fst kv) \<and>
      CHR 0x0A \<notin> set (fst kv) \<and> CHR 0x0A \<notin> set (snd kv) \<and> \<not> comment (print_kv kv))"

lemma kv_cut_print:
  assumes "clean (k :: string)" "clean v" "v \<noteq> []" "CHR '':'' \<notin> set k"
  shows "kv_cut (k @ '': '' @ v) = Some (k, v)"
proof -
  have "cut_at CHR '':'' (k @ '': '' @ v) = Some (k, CHR '' '' # v)"
    using assms(4) by (simp add: cut_at_append)
  then show ?thesis using assms
    by (simp add: kv_cut_def trim_space_clean trim_space_left ascii_space_def)
qed

lemma kv_line_print:
  assumes "clean_kv comment kv"
  shows "kv_line comment (print_kv kv) = Some kv"
proof -
  have "clean (print_kv kv)" using assms
    by (cases "fst kv"; cases "snd kv") (auto simp: clean_kv_def print_kv_def clean_def)
  then show ?thesis using assms kv_cut_print [of "fst kv" "snd kv"]
    by (simp add: kv_line_def trim_space_clean clean_kv_def print_kv_def)
qed

lemma kv_line_blank [simp]: "kv_line comment [] = None"
  by (simp add: kv_line_def)

text \<open>Parsing the lines of a printed record gives the record back, pair by pair.\<close>

lemma kv_lines_print:
  assumes "\<forall>kv \<in> set kvs. clean_kv comment kv"
  shows "List.map_filter (kv_line comment) (split_on CHR 0x0A (print_lines (map print_kv kvs))) = kvs"
proof -
  have "\<forall>l \<in> set (map print_kv kvs). CHR 0x0A \<notin> set l"
    using assms by (auto simp: clean_kv_def print_kv_def)
  then have "split_on CHR 0x0A (print_lines (map print_kv kvs)) = map print_kv kvs @ [[]]"
    unfolding print_lines_def by (rule split_on_lines)
  moreover have "List.map_filter (kv_line comment) (map print_kv kvs) = kvs"
    by (rule map_filter_SomeI) (use assms in \<open>auto simp: kv_line_print\<close>)
  moreover have "List.map_filter (kv_line comment) (xs @ [[]]) = List.map_filter (kv_line comment) xs" for xs
    by (induction xs) (auto simp: map_filter_simps split: option.splits)
  ultimately show ?thesis by simp
qed

text \<open>
  The loop of the key-value parsers, and the contract of the field functions it is run with: they
  keep \<open>parsed_ok\<close> and read the key without regard to case.  A printed record is then parsed to
  the fold of its fields, in whatever case its keys are written.
\<close>

definition parse_kv_lines ::
  "(string \<Rightarrow> bool) \<Rightarrow> (ParsedDomain \<Rightarrow> string \<Rightarrow> string \<Rightarrow> ParsedDomain) \<Rightarrow> ParsedDomain \<Rightarrow> string \<Rightarrow>
   ParsedDomain" where
  "parse_kv_lines comment field pd response =
     foldl (\<lambda>pd line. case kv_line comment line of
                        None \<Rightarrow> pd | Some kv \<Rightarrow> field pd (fst kv) (snd kv))
       pd (split_on CHR 0x0A response)"

definition fold_fields ::
  "(ParsedDomain \<Rightarrow> string \<Rightarrow> string \<Rightarrow> ParsedDomain) \<Rightarrow> ParsedDomain \<Rightarrow> (string \<times> string) list \<Rightarrow>
   ParsedDomain" where
  "fold_fields field pd kvs = foldl (\<lambda>pd kv. field pd (fst kv) (snd kv)) pd kvs"

lemma parse_kv_lines_filter:
  "parse_kv_lines comment field pd response =
     fold_fields field pd (List.map_filter (kv_line comment) (split_on CHR 0x0A response))"
  unfolding parse_kv_lines_def fold_fields_def
  by (rule foldl_option_filter [where g = "\<lambda>pd kv. field pd (fst kv) (snd kv)"])

definition same_record :: "(string \<times> string) list \<Rightarrow> (string \<times> string) list \<Rightarrow> bool" where
  "same_record = list_all2 (\<lambda>a b. to_lower (fst a) = to_lower (fst b) \<and> snd a = snd b)"

locale kv_parser =
  fixes comment :: "string \<Rightarrow> bool"
    and field :: "ParsedDomain \<Rightarrow> string \<Rightarrow> string \<Rightarrow> ParsedDomain"
  assumes field_ok: "parsed_ok resp pd \<Longrightarrow> parsed_ok resp (field pd k v)"
    and field_case: "to_lower k = to_lower k' \<Longrightarrow> field pd k v = field pd k' v"
begin

lemma lines_ok: "parsed_ok resp pd \<Longrightarrow> parsed_ok resp (parse_kv_lines comment field pd response)"
  unfolding parse_kv_lines_def
  by (rule foldl_invariant) (auto simp: field_ok split: option.split)

lemma lines_print:
  assumes "\<forall>kv \<in> set kvs. clean_kv comment kv"
  shows "parse_kv_lines comment field pd (print_lines (map print_kv kvs)) = fold_fields field pd kvs"
  using assms by (simp add: parse_kv_lines_filter kv_lines_print)

lemma fields_case: "same_record kvs kvs' \<Longrightarrow> fold_fields field pd kvs = fold_fields field pd kvs'"
  unfolding same_record_def
proof (induction arbitrary: pd rule: list_all2_induct)
  case (Cons a as b bs)
  then show ?case using field_case [of "fst a" "fst b"] by (simp add: fold_fields_def)
qed simp

lemma print_case:
  assumes "\<forall>kv \<in> set kvs. clean_kv comment kv" "\<forall>kv \<in> set kvs'. clean_kv comment kv"
    and "same_record kvs kvs'"
  shows "parse_kv_lines comment field pd (print_lines (map print_kv kvs)) =
         parse_kv_lines comment field pd (print_lines (map print_kv kvs'))"
  using assms by (simp add: lines_print fields_case)

end

section \<open>The registry\<close>

record parser_registry =
  rg_parsers :: "string \<rightharpoonup> whois_parser"
  rg_generic :: whois_parser

definition Register :: "parser_registry \<Rightarrow> whois_parser \<Rightarrow> string list \<Rightarrow> parser_registry" where
  "Register r parser tlds =
     r\<lparr>rg_parsers := map_upd_all (rg_parsers r) (map normalizeTLD tlds) parser\<rparr>"

definition GetParser :: "parser_registry \<Rightarrow> string \<Rightarrow> whois_parser" where
  "GetParser r tld0 =
     (let tld = normalizeTLD tld0
      in case rg_parsers r tld of Some parser \<Rightarrow> parser | None \<Rightarrow> rg_generic r)"

definition registry_Parse :: "parser_registry \<Rightarrow> string \<Rightarrow> string \<Rightarrow> go_error + ParseResult" where
  "registry_Parse r response domain =
     (let tld = ExtractTLD domain; parser = GetParser r tld in wp_Parse parser response domain)"

text \<open>\<open>RegisteredTLDs\<close> lists the keys of the map in no particular order: a set.\<close>

definition RegisteredTLDs :: "parser_registry \<Rightarrow> string set" where
  "RegisteredTLDs r = dom (rg_parsers r)"

lemma GetParser_Register:
  "GetParser (Register r p tlds) tld =
     (if normalizeTLD tld \<in> normalizeTLD ` set tlds then p else GetParser r tld)"
  by (auto simp: GetParser_def Register_def map_upd_all_apply Let_def split: option.splits)

lemma RegisteredTLDs_Register:
  "RegisteredTLDs (Register r p tlds) = RegisteredTLDs r \<union> normalizeTLD ` set tlds"
  by (simp add: RegisteredTLDs_def Register_def dom_map_upd_all)

lemma rg_generic_Register [simp]: "rg_generic (Register r p tlds) = rg_generic r"
  by (simp add: Register_def)

text \<open>
  The contract of a registry: its fallback and every registered parser honour the parser
  interface.  Whatever domain is asked for, the selected parser then delivers a sound result.
\<close>

locale registry_contract =
  fixes R :: parser_registry
  assumes generic_contract: "parser_contract (rg_generic R)"
    and parsers_contract: "rg_parsers R t = Some p \<Longrightarrow> parser_contract p"
begin

lemma GetParser_contract: "parser_contract (GetParser R tld)"
  unfolding GetParser_def Let_def
  by (cases "rg_parsers R (normalizeTLD tld)") (auto intro: generic_contract parsers_contract)

lemma registry_Parse_ok: "\<exists>r. registry_Parse R resp dmn = Inr r \<and> result_ok resp dmn r"
proof -
  let ?P = "GetParser R (ExtractTLD dmn)"
  obtain r where r: "wp_Parse ?P resp dmn = Inr r"
    using parser_contract.parse_total [OF GetParser_contract] by blast
  moreover have "result_ok resp dmn r"
    using parser_contract.parse_ok [OF GetParser_contract r] .
  ultimately show ?thesis by (simp add: registry_Parse_def)
qed

lemma Register_contract:
  assumes "parser_contract p"
  shows "registry_contract (Register R p tlds)"
proof (rule registry_contract.intro)
  show "parser_contract (rg_generic (Register R p tlds))" by (simp add: generic_contract)
next
  fix t q
  assume "rg_parsers (Register R p tlds) t = Some q"
  then have "q = p \<or> rg_parsers R t = Some q"
    by (auto simp: Register_def map_upd_all_apply split: if_splits)
  then show "parser_contract q" using assms parsers_contract by blast
qed

end

section \<open>The field extractor\<close>

record fieldExtractor =
  fe_patterns :: "string list"

definition newFieldExtractor :: "string list \<Rightarrow> fieldExtractor" where
  "newFieldExtractor ps = \<lparr>fe_patterns = ps\<rparr>"

definition fe_comment :: "string \<Rightarrow> bool" where
  "fe_comment line = (line = [] \<or> has_prefix line ''%'' \<or> has_prefix line ''#'')"

text \<open>The value one pattern finds in one line; it is cut at the line's first colon.\<close>

definition pattern_value :: "string \<Rightarrow> string \<Rightarrow> string option" where
  "pattern_value line pattern =
     (if index_of (to_lower line) (to_lower pattern @ '':'') \<noteq> None then
        (case cut_at CHR '':'' line of
           None \<Rightarrow> None
         | Some (_, v) \<Rightarrow> (let value = trim_space v in if value \<noteq> [] then Some value else None))
      else None)"

fun extract_patterns :: "string list \<Rightarrow> string \<Rightarrow> string option" where
  "extract_patterns [] line = None"
| "extract_patterns (p # ps) line =
     (case pattern_value line p of Some v \<Rightarrow> Some v | None \<Rightarrow> extract_patterns ps line)"

fun extract_lines :: "string list \<Rightarrow> string list \<Rightarrow> string" where
  "extract_lines ps [] = []"
| "extract_lines ps (l # ls) =
     (let line = trim_space l
      in if fe_comment line then extract_lines ps ls
         else (case extract_patterns ps line of Some v \<Rightarrow> v | None \<Rightarrow> extract_lines ps ls))"

definition Extract :: "fieldExtractor \<Rightarrow> string \<Rightarrow> string" where
  "Extract f response = extract_lines (fe_patterns f) (split_on CHR 0x0A response)"

text \<open>
  \<open>ExtractAll\<close>: the loops over lines and patterns; \<open>seen\<close> is always the set of the values
  collected so far.
\<close>

definition collect_value :: "string \<Rightarrow> string list \<Rightarrow> string \<Rightarrow> string list" where
  "collect_value line values pattern =
     (case pattern_value line pattern of
        None \<Rightarrow> values
      | Some v \<Rightarrow> if v \<in> set values then values else values @ [v])"

definition collect_line :: "string list \<Rightarrow> string list \<Rightarrow> string \<Rightarrow> string list" where
  "collect_line ps values l =
     (let line = trim_space l
      in if fe_comment line then values else foldl (collect_value line) values ps)"

definition ExtractAll :: "fieldExtractor \<Rightarrow> string \<Rightarrow> string list" where
  "ExtractAll f response = foldl (collect_line (fe_patterns f)) [] (split_on CHR 0x0A response)"

text \<open>The specification of both: the values of all matching lines, pattern by pattern.\<close>

definition line_values :: "string list \<Rightarrow> string \<Rightarrow> string list" where
  "line_values ps l =
     (let line = trim_space l
      in if fe_comment line then [] else List.map_filter (pattern_value line) ps)"

definition all_values :: "fieldExtractor \<Rightarrow> string \<Rightarrow> string list" where
  "all_values f response = concat (map (line_values (fe_patterns f)) (split_on CHR 0x0A response))"

lemma pattern_value_nonempty: "pattern_value line p = Some v \<Longrightarrow> v \<noteq> []"
  by (auto simp: pattern_value_def Let_def split: if_splits option.splits)

lemma all_values_nonempty: "[] \<notin> set (all_values f response)"
  using pattern_value_nonempty
  by (fastforce simp: all_values_def line_values_def Let_def map_filter_def split: if_splits)

lemma extract_patterns_hd:
  "extract_patterns ps line =
     (case List.map_filter (pattern_value line) ps of [] \<Rightarrow> None | v # _ \<Rightarrow> Some v)"
  by (induction ps) (auto simp: map_filter_simps split: option.splits)

lemma extract_lines_Cons:
  "extract_lines ps (l # ls) = (case line_values ps l of [] \<Rightarrow> extract_lines ps ls | v # _ \<Rightarrow> v)"
  by (simp add: Let_def line_values_def extract_patterns_hd split: list.split)

lemma extract_lines_hd:
  "extract_lines ps ls = (case concat (map (line_values ps) ls) of [] \<Rightarrow> [] | v # _ \<Rightarrow> v)"
proof (induction ls)
  case (Cons l ls)
  then show ?case
    by (cases "line_values ps l") (simp_all add: extract_lines_Cons del: extract_lines.simps)
qed simp

lemma Extract_eq_hd_values:
  "Extract f response = (case all_values f response of [] \<Rightarrow> [] | v # _ \<Rightarrow> v)"
  by (simp add: Extract_def all_values_def extract_lines_hd)

lemma foldl_collect_nub:
  "foldl (\<lambda>vs v. if v \<in> set vs then vs else vs @ [v]) acc xs = acc @ nub_from (set acc) xs"
  by (induction xs arbitrary: acc) auto

lemma foldl_collect_value:
  "foldl (collect_value line) acc ps =
     foldl (\<lambda>vs v. if v \<in> set vs then vs else vs @ [v]) acc (List.map_filter (pattern_value line) ps)"
  by (induction ps arbitrary: acc) (auto simp: collect_value_def map_filter_simps split: option.splits)

lemma foldl_collect_line:
  "foldl (collect_line ps) acc ls =
     foldl (\<lambda>vs v. if v \<in> set vs then vs else vs @ [v]) acc (concat (map (line_values ps) ls))"
  by (induction ls arbitrary: acc)
     (auto simp: collect_line_def line_values_def Let_def foldl_collect_value)

lemma ExtractAll_eq_nub: "ExtractAll f response = nub_from {} (all_values f response)"
  by (simp add: ExtractAll_def all_values_def foldl_collect_line foldl_collect_nub)

end
