(* ===== verification/Whois_Generic.thy ===== *)
theory Whois_Generic
  imports Whois_Parser
begin

text \<open>
  \<open>internal/whois/parser_generic.go\<close>: the fallback parser for unknown top-level domains, built
  from thirteen field extractors.
\<close>

record GenericParser =
  domainNameExtractor :: fieldExtractor
  statusExtractor :: fieldExtractor
  nameserverExtractor :: fieldExtractor
  createdDateExtractor :: fieldExtractor
  updatedDateExtractor :: fieldExtractor
  expirationDateExtractor :: fieldExtractor
  registrarExtractor :: fieldExtractor
  registrantExtractor :: fieldExtractor
  registrantOrgExtractor :: fieldExtractor
  registrantEmailExtractor :: fieldExtractor
  adminEmailExtractor :: fieldExtractor
  techEmailExtractor :: fieldExtractor
  dnssecExtractor :: fieldExtractor

definition NewGenericParser :: GenericParser where
  "NewGenericParser = \<lparr>
     domainNameExtractor = newFieldExtractor [''Domain Name'', ''Domain'', ''domain name''],
     statusExtractor = newFieldExtractor [''Domain Status'', ''Status'', ''state''],
     nameserverExtractor =
       newFieldExtractor [''Name Server'', ''Nameserver'', ''nserver'', ''NS'', ''Nserver''],
     createdDateExtractor =
       newFieldExtractor
         [''Creation Date'', ''Created Date'', ''Created'', ''created on'', ''Registration Date'',
          ''Registration Time'', ''Registered Date'', ''Registered on'',
          ''Domain Registration Date''],
     updatedDateExtractor =
       newFieldExtractor
         [''Updated Date'', ''Last Updated'', ''Last Modified'', ''Modified'', ''Changed'',
          ''changed'', ''Last Update''],
     expirationDateExtractor =
       newFieldExtractor
         [''Registry Expiry Date'', ''Expiration Date'', ''Expiry Date'', ''Expiration Time'',
          ''Expires'', ''Expires on'', ''paid-till''],
     registrarExtractor =
       newFieldExtractor [''Registrar'', ''Sponsoring Registrar'', ''Registrar Name''],
     registrantExtractor =
       newFieldExtractor [''Registrant Name'', ''Registrant'', ''Holder'', ''Owner''],
     registrantOrgExtractor =
       newFieldExtractor
         [''Registrant Organization'', ''Registrant Organisation'', ''Registrant Org'',
          ''Organization'', ''Organisation''],
     registrantEmailExtractor =
       newFieldExtractor [''Registrant Email'', ''Registrant Contact Email''],
     adminEmailExtractor = newFieldExtractor [''Admin Email'', ''Administrative Contact Email''],
     techEmailExtractor = newFieldExtractor [''Tech Email'', ''Technical Contact Email''],
     dnssecExtractor = newFieldExtractor [''DNSSEC'', ''dnssec'']\<rparr>"

definition generic_SupportsTLD :: "string \<Rightarrow> bool" where
  "generic_SupportsTLD tld = True"

section \<open>Dates, nameservers, DNSSEC, countries\<close>

definition generic_formats :: "string list" where
  "generic_formats =
     [RFC3339, ''2006-01-02T15:04:05Z'', ''2006-01-02T15:04:05-07:00'', ''2006-01-02T15:04:05'',
      ''2006-01-02 15:04:05'', ''2006-01-02 15:04:05Z'', ''2006-01-02 15:04:05-07:00'',
      ''2006-01-02'', ''01/02/2006'', ''01-02-2006'', ''02-Jan-2006'', ''02 Jan 2006'',
      ''02/01/2006'', ''02.01.2006'', ''20060102'', ''2006/01/02'', ''January 2, 2006'',
      ''Jan 2, 2006'', ''2 January 2006'', ''2 Jan 2006'', ''2006-01-02 15:04:05 (UTC)'',
      ''2006-01-02 15:04:05 UTC'']"

lemma trim_space_length: "length (trim_space s) \<le> length s"
proof -
  obtain p q where "s = p @ trim_space s @ q" using trim_space_infix by blast
  then have "length s = length p + length (trim_space s) + length q"
    by (metis length_append add.assoc)
  then show ?thesis by simp
qed

text \<open>
  \<open>parseDate\<close> calls itself on the part before a \<open>" ("\<close>, which is shorter.
\<close>

lemma index_of_length: "index_of s sub = Some idx \<Longrightarrow> idx + length sub \<le> length s"
  using index_of_Some_split [of s sub idx]
  by (metis add_le_mono1 append_assoc le_add1 length_append length_take min.absorb2)

function parseDate :: "string \<Rightarrow> go_time option" where
  "parseDate s0 =
     (let s = trim_space s0
      in if s = [] then None
         else (case try_formats generic_formats s of
                 Some t \<Rightarrow> Some t
               | None \<Rightarrow>
                   (case index_of s '' ('' of
                      Some idx \<Rightarrow> if 0 < idx then parseDate (trim_space (take idx s)) else None
                    | None \<Rightarrow> None)))"
  by pat_completeness auto

termination
proof (relation "measure length")
  fix s0 s idx
  assume s: "s = trim_space s0" and "index_of s '' ('' = Some idx"
  then have "idx + 2 \<le> length s" using index_of_length by fastforce
  moreover have "length s \<le> length s0" using s trim_space_length by simp
  moreover have "length (trim_space (take idx s)) \<le> idx" using trim_space_length [of "take idx s"] by simp
  ultimately show "(trim_space (take idx s), s0) \<in> measure length" by simp
qed simp

declare parseDate.simps [simp del]

definition normalizeNameserver :: "string \<Rightarrow> string" where
  "normalizeNameserver ns0 =
     (let ns1 = to_lower (trim_space ns0); ns = cut_before CHR '' '' ns1
      in trim_suffix ns ''.'')"

definition isDNSSECSigned :: "string \<Rightarrow> bool" where
  "isDNSSECSigned value0 =
     (let value = to_lower (trim_space value0)
      in if value = ''signed'' \<or> value = ''yes'' \<or> value = ''signeddelegation'' then True
         else if value = ''unsigned'' \<or> value = ''no'' \<or> value = ''inactive'' then False
         else if contains value ''ds'' \<or> contains value ''dnskey'' then True
         else False)"

text \<open>
  The regular expression \<open>\b([A-Z]{2})\b\s*$\<close>: two upper-case letters that end the text, up
  to white space, and do not follow a word character.
\<close>

definition re_space :: "char \<Rightarrow> bool" where
  "re_space c = (c \<in> {CHR 0x09, CHR 0x0A, CHR 0x0C, CHR 0x0D, CHR '' ''})"

definition re_word :: "char \<Rightarrow> bool" where
  "re_word c = (is_upper c \<or> is_lower c \<or> is_digit c \<or> c = CHR ''_'')"

definition trailing_country :: "string \<Rightarrow> string option" where
  "trailing_country value =
     (case dropWhile re_space (rev value) of
        b # a # before \<Rightarrow>
          if is_upper a \<and> is_upper b \<and> (before = [] \<or> \<not> re_word (hd before)) then Some [a, b] else None
      | _ \<Rightarrow> None)"

definition extractCountry :: "string \<Rightarrow> string" where
  "extractCountry response =
     (let value = Extract (newFieldExtractor
            [''Registrant Country'', ''Country'', ''country'', ''Registrant State/Province'']) response
      in if length value = 2 then to_upper value
         else (case trailing_country value of Some m \<Rightarrow> m | None \<Rightarrow> []))"

section \<open>Parsing\<close>

text \<open>The body of \<open>Parse\<close>, in its order: name, status, nameservers, dates, contacts, DNSSEC.\<close>

definition generic_name :: "GenericParser \<Rightarrow> string \<Rightarrow> string \<Rightarrow> string" where
  "generic_name p response domain =
     (let name = Extract (domainNameExtractor p) response
      in to_lower (if name = [] then to_lower domain else name))"

definition generic_date :: "fieldExtractor \<Rightarrow> string \<Rightarrow> go_time option" where
  "generic_date e response =
     (let value = Extract e response in if value \<noteq> [] then parseDate value else None)"

definition generic_registrar :: "GenericParser \<Rightarrow> string \<Rightarrow> ParsedEntity option" where
  "generic_registrar p response =
     (let registrar = Extract (registrarExtractor p) response
      in if registrar \<noteq> [] then Some (empty_entity\<lparr>pe_Name := registrar\<rparr>) else None)"

definition generic_registrant :: "GenericParser \<Rightarrow> string \<Rightarrow> ParsedEntity option" where
  "generic_registrant p response =
     (let registrantName = Extract (registrantExtractor p) response;
          registrantOrg = Extract (registrantOrgExtractor p) response;
          registrantEmail = Extract (registrantEmailExtractor p) response
      in if registrantName \<noteq> [] \<or> registrantOrg \<noteq> [] \<or> registrantEmail \<noteq> [] then
           Some (empty_entity\<lparr>pe_Name := registrantName, pe_Organization := registrantOrg,
             pe_Email := registrantEmail\<rparr>)
         else None)"

definition generic_dnssec :: "GenericParser \<Rightarrow> string \<Rightarrow> bool option" where
  "generic_dnssec p response =
     (let dnssec = Extract (dnssecExtractor p) response
      in if dnssec \<noteq> [] then Some (isDNSSECSigned dnssec) else None)"

definition generic_Parse :: "GenericParser \<Rightarrow> string \<Rightarrow> string \<Rightarrow> go_error + ParseResult" where
  "generic_Parse p response domain =
     (let pd = empty_domain\<lparr>
            pd_DomainName := generic_name p response domain,
            pd_Status := ExtractAll (statusExtractor p) response,
            pd_Nameservers := filter (\<lambda>n. n \<noteq> [])
              (map normalizeNameserver (ExtractAll (nameserverExtractor p) response)),
            pd_CreatedDate := generic_date (createdDateExtractor p) response,
            pd_UpdatedDate := generic_date (updatedDateExtractor p) response,
            pd_ExpirationDate := generic_date (expirationDateExtractor p) response,
            pd_Registrar := generic_registrar p response,
            pd_Registrant := generic_registrant p response,
            pd_DNSSECSigned := generic_dnssec p response,
            pd_RawResponse := response\<rparr>
      in Inr \<lparr>pr_Domain = Some pd, pr_Confidence = ConfidenceLow, pr_ParserName = ''generic'',
             pr_Errors = []\<rparr>)"

definition generic_parser :: "GenericParser \<Rightarrow> whois_parser" where
  "generic_parser p =
     \<lparr>wp_Name = ''generic'', wp_SupportsTLD = generic_SupportsTLD, wp_Parse = generic_Parse p\<rparr>"

section \<open>Lemmas\<close>

lemma parsed_ok_generic:
  "parsed_ok resp (empty_domain\<lparr>pd_DomainName := n, pd_Status := st,
     pd_Nameservers := filter (\<lambda>n. n \<noteq> []) ns, pd_CreatedDate := c, pd_UpdatedDate := u,
     pd_ExpirationDate := e, pd_Registrar := r, pd_Registrant := h, pd_DNSSECSigned := d,
     pd_RawResponse := resp\<rparr>)"
  by (simp add: parsed_ok_def empty_domain_def)

interpretation generic: parser_contract "generic_parser p" for p
proof
  fix resp dmn r
  show "\<exists>r. wp_Parse (generic_parser p) resp dmn = Inr r"
    by (simp add: generic_parser_def generic_Parse_def Let_def)
  assume r: "wp_Parse (generic_parser p) resp dmn = Inr r"
  then show "pr_ParserName r = wp_Name (generic_parser p)"
    by (auto simp: generic_parser_def generic_Parse_def Let_def)
  show "result_ok resp dmn r" using r
    by (auto simp: generic_parser_def generic_Parse_def Let_def result_ok_def parsed_ok_generic
        generic_name_def)
qed

text \<open>
  On a printed record an extractor returns the value of the first field whose line holds one of
  its patterns followed by a colon.
\<close>

definition fe_matches :: "fieldExtractor \<Rightarrow> string \<times> string \<Rightarrow> bool" where
  "fe_matches f kv =
     list_ex (\<lambda>p. contains (to_lower (print_kv kv)) (to_lower p @ '':'')) (fe_patterns f)"

lemma clean_print_kv:
  "clean_kv comment kv \<Longrightarrow> clean (print_kv kv) \<and> print_kv kv \<noteq> []"
  by (cases "fst kv"; cases "snd kv") (auto simp: clean_kv_def print_kv_def clean_def)

lemma pattern_value_print:
  assumes "clean_kv comment kv"
  shows "pattern_value (print_kv kv) p =
    (if contains (to_lower (print_kv kv)) (to_lower p @ '':'') then Some (snd kv) else None)"
proof -
  have "cut_at CHR '':'' (print_kv kv) = Some (fst kv, CHR '' '' # snd kv)"
    using assms by (simp add: print_kv_def clean_kv_def cut_at_append)
  then show ?thesis using assms
    by (simp add: pattern_value_def contains_def clean_kv_def trim_space_left ascii_space_def
        trim_space_clean)
qed

lemma extract_patterns_print:
  assumes "clean_kv comment kv"
  shows "extract_patterns ps (print_kv kv) =
    (if list_ex (\<lambda>p. contains (to_lower (print_kv kv)) (to_lower p @ '':'')) ps
     then Some (snd kv) else None)"
  by (induction ps) (auto simp: pattern_value_print [OF assms])

lemma extract_lines_print:
  assumes "\<forall>kv \<in> set kvs. clean_kv fe_comment kv"
  shows "extract_lines (fe_patterns f) (map print_kv kvs @ [[]]) =
    (case find (fe_matches f) kvs of None \<Rightarrow> [] | Some kv \<Rightarrow> snd kv)"
  using assms
proof (induction kvs)
  case (Cons kv kvs)
  then have kv: "clean_kv fe_comment kv" by simp
  then have "trim_space (print_kv kv) = print_kv kv" "\<not> fe_comment (print_kv kv)"
    using clean_print_kv [OF kv] trim_space_clean kv by (blast, simp add: clean_kv_def)
  with Cons kv show ?case
    by (auto simp: extract_patterns_print fe_matches_def Let_def)
qed (simp add: fe_comment_def)

lemma Extract_print_lines:
  assumes "\<forall>kv \<in> set kvs. clean_kv fe_comment kv"
  shows "Extract f (print_lines (map print_kv kvs)) =
    (case find (fe_matches f) kvs of None \<Rightarrow> [] | Some kv \<Rightarrow> snd kv)"
proof -
  have "\<forall>l \<in> set (map print_kv kvs). CHR 0x0A \<notin> set l"
    using assms by (auto simp: clean_kv_def print_kv_def)
  then have "split_on CHR 0x0A (print_lines (map print_kv kvs)) = map print_kv kvs @ [[]]"
    unfolding print_lines_def by (rule split_on_lines)
  then show ?thesis using extract_lines_print [OF assms] by (simp add: Extract_def)
qed

text \<open>A date followed by a comment in parentheses is the date, when the whole has no format.\<close>

lemma parseDate_direct:
  "trim_space s = s \<Longrightarrow> s \<noteq> [] \<Longrightarrow> try_formats generic_formats s = Some t \<Longrightarrow> parseDate s = Some t"
  by (simp add: parseDate.simps [of s])

lemma parseDate_comment:
  assumes "clean s" "s \<noteq> []" "index_of (s @ '' ('' @ c) '' ('' = Some (length s)"
    and "trim_space (s @ '' ('' @ c) = s @ '' ('' @ c"
    and "try_formats generic_formats (s @ '' ('' @ c) = None"
  shows "parseDate (s @ '' ('' @ c) = parseDate s"
proof -
  have "trim_space (take (length s) (s @ '' ('' @ c)) = s"
    using assms(1) by (simp add: trim_space_clean)
  then show ?thesis using assms
    by (subst parseDate.simps) (simp add: Let_def)
qed

end
