(* ===== verification/Parser_DE.thy ===== *)
theory Parser_DE
  imports Whois_Parser
begin

text \<open>
  \<open>internal/whois/parsers/de.go\<close>: the DENIC (.de) parser.  The loop over the lines keeps the
  current section header; keys are interpreted in the main section or as contact fields.
\<close>

definition DE_SupportsTLD :: "string \<Rightarrow> bool" where
  "DE_SupportsTLD tld = (to_lower tld = ''de'')"

definition parseDEDate :: "string \<Rightarrow> go_time option" where
  "parseDEDate s0 =
     (let s = trim_space s0
      in if s = [] then None
         else try_formats
           [RFC3339, ''2006-01-02T15:04:05-07:00'', ''2006-01-02T15:04:05Z'',
            ''2006-01-02T15:04:05'', ''2006-01-02 15:04:05'', ''2006-01-02''] s)"

text \<open>\<open>normalizeNameserver\<close> of package \<open>parsers\<close>.\<close>

definition parsers_normalizeNameserver :: "string \<Rightarrow> string" where
  "parsers_normalizeNameserver ns0 =
     (let ns1 = to_lower (trim_space ns0); ns = cut_before CHR '' '' ns1
      in trim_suffix ns ''.'')"

definition DE_parseMainSection :: "ParsedDomain \<Rightarrow> string \<Rightarrow> string \<Rightarrow> ParsedDomain" where
  "DE_parseMainSection pd key value =
     (let k = to_lower key in
      if k = ''domain'' then pd\<lparr>pd_DomainName := to_lower value\<rparr>
      else if k = ''nserver'' then add_nameserver pd (parsers_normalizeNameserver value)
      else if k = ''status'' then pd\<lparr>pd_Status := pd_Status pd @ [value]\<rparr>
      else if k = ''changed'' then set_updated (parseDEDate value) pd
      else if k = ''regcreateddate'' then set_created (parseDEDate value) pd
      else if k = ''dnskey'' then pd\<lparr>pd_DNSSECSigned := Some True\<rparr>
      else if k = ''dnssec'' then
        pd\<lparr>pd_DNSSECSigned := Some (value \<noteq> ''N'' \<and> value \<noteq> ''unsigned'')\<rparr>
      else pd)"

definition DE_parseContact :: "ParsedEntity \<Rightarrow> string \<Rightarrow> string \<Rightarrow> ParsedEntity" where
  "DE_parseContact e key value =
     (let k = to_lower key in
      if k = ''name'' then e\<lparr>pe_Name := value\<rparr>
      else if k = ''organisation'' \<or> k = ''organization'' then e\<lparr>pe_Organization := value\<rparr>
      else if k = ''address'' then
        (if pe_Address e = [] then e\<lparr>pe_Address := value\<rparr>
         else e\<lparr>pe_Address := pe_Address e @ '', '' @ value\<rparr>)
      else if k = ''city'' then e\<lparr>pe_City := value\<rparr>
      else if k = ''postalcode'' then e\<lparr>pe_PostalCode := value\<rparr>
      else if k = ''countrycode'' \<or> k = ''country'' then e\<lparr>pe_Country := to_upper value\<rparr>
      else if k = ''email'' then e\<lparr>pe_Email := value\<rparr>
      else if k = ''phone'' then e\<lparr>pe_Phone := value\<rparr>
      else if k = ''fax'' then e\<lparr>pe_Fax := value\<rparr>
      else e)"

text \<open>The \<open>switch currentSection\<close> of the loop.\<close>

definition DE_dispatch :: "string \<Rightarrow> ParsedDomain \<Rightarrow> string \<Rightarrow> string \<Rightarrow> ParsedDomain" where
  "DE_dispatch section pd key value =
     (if section = [] then DE_parseMainSection pd key value
      else if section = ''holder'' then
        pd\<lparr>pd_Registrant := with_entity (pd_Registrant pd) (\<lambda>e. DE_parseContact e key value)\<rparr>
      else if section = ''admin-c'' then
        pd\<lparr>pd_AdminContact := with_entity (pd_AdminContact pd) (\<lambda>e. DE_parseContact e key value)\<rparr>
      else if section = ''tech-c'' then
        pd\<lparr>pd_TechContact := with_entity (pd_TechContact pd) (\<lambda>e. DE_parseContact e key value)\<rparr>
      else if section = ''zone-c'' then
        pd\<lparr>pd_TechContact := with_entity (pd_TechContact pd) (\<lambda>e. DE_parseContact e key value)\<rparr>
      else pd)"

definition DE_line :: "string \<times> ParsedDomain \<Rightarrow> string \<Rightarrow> string \<times> ParsedDomain" where
  "DE_line st line0 =
     (let (section, pd) = st; line = trim_space line0 in
      if line = [] \<or> has_prefix line ''%'' then st
      else if has_prefix line ''['' \<and> has_suffix line '']'' then
        (to_lower (trim_set line ''[]''), pd)
      else (case kv_cut line of
              None \<Rightarrow> st
            | Some (key, value) \<Rightarrow> (section, DE_dispatch section pd key value)))"

definition DE_not_found :: "string \<Rightarrow> bool" where
  "DE_not_found response =
     (let responseLower = to_lower response in
      contains response ''Status: free'' \<or> contains responseLower ''object not found'' \<or>
      contains responseLower ''no entries found'')"

definition DE_Parse :: "string \<Rightarrow> string \<Rightarrow> go_error + ParseResult" where
  "DE_Parse response domain =
     (let pd0 = empty_domain\<lparr>pd_RawResponse := response\<rparr> in
      if DE_not_found response
      then Inr (not_found_result ''de'' ''domain not found or free'' pd0 domain)
      else (let (section, pd) = foldl DE_line ([], pd0) (split_on CHR 0x0A response)
            in Inr (found_result ''de'' pd domain)))"

definition NewDEParser :: whois_parser where
  "NewDEParser = \<lparr>wp_Name = ''de'', wp_SupportsTLD = DE_SupportsTLD, wp_Parse = DE_Parse\<rparr>"

section \<open>The parser honours the interface\<close>

lemma DE_dispatch_ok [step_inv]: "parsed_ok resp pd \<Longrightarrow> parsed_ok resp (DE_dispatch sec pd k v)"
  by (simp add: DE_dispatch_def DE_parseMainSection_def Let_def)

lemma DE_line_ok [step_inv]: "parsed_ok resp (snd st) \<Longrightarrow> parsed_ok resp (snd (DE_line st l))"
  by (cases st) (auto simp: DE_line_def Let_def DE_dispatch_ok split: option.split)

interpretation de: parser_contract NewDEParser
proof
  fix resp dmn r
  show "\<exists>r. wp_Parse NewDEParser resp dmn = Inr r"
    by (simp add: NewDEParser_def DE_Parse_def Let_def split: prod.split)
  assume r: "wp_Parse NewDEParser resp dmn = Inr r"
  then show "pr_ParserName r = wp_Name NewDEParser"
    by (auto simp: NewDEParser_def DE_Parse_def Let_def split: if_splits prod.splits)
  have "parsed_ok resp (snd (foldl DE_line ([], empty_domain\<lparr>pd_RawResponse := resp\<rparr>)
          (split_on CHR 0x0A resp)))"
    by (rule foldl_invariant) (simp_all add: step_inv)
  with r show "result_ok resp dmn r"
    by (auto simp: NewDEParser_def DE_Parse_def Let_def step_inv split: if_splits prod.splits)
qed

end
