(* ===== verification/Parser_CN.thy ===== *)
theory Parser_CN
  imports Whois_Parser
begin

text \<open>
  \<open>internal/whois/parsers/cn.go\<close>: the CNNIC (.cn) parser, a loop over key-value lines.
\<close>

definition CN_SupportsTLD :: "string \<Rightarrow> bool" where
  "CN_SupportsTLD tld0 =
     (let tld = to_lower tld0 in tld = ''cn'' \<or> has_suffix tld ''.cn'')"

definition parseCNDate :: "string \<Rightarrow> go_time option" where
  "parseCNDate s0 =
     (let s = trim_space s0
      in if s = [] then None
         else try_formats
           [''2006-01-02 15:04:05'', ''2006-01-02T15:04:05Z'', ''2006-01-02T15:04:05'',
            ''2006-01-02'', ''2006/01/02''] s)"

definition normalizeCNNameserver :: "string \<Rightarrow> string" where
  "normalizeCNNameserver ns = trim_suffix (to_lower (trim_space ns)) ''.''"

definition CN_parseField :: "ParsedDomain \<Rightarrow> string \<Rightarrow> string \<Rightarrow> ParsedDomain" where
  "CN_parseField pd key value =
     (let k = to_lower key in
      if k = ''domain name'' then pd\<lparr>pd_DomainName := to_lower value\<rparr>
      else if k = ''roid'' then pd\<lparr>pd_RegistryDomainID := value\<rparr>
      else if k = ''domain status'' then pd\<lparr>pd_Status := pd_Status pd @ [value]\<rparr>
      else if k = ''name server'' then add_nameserver pd (normalizeCNNameserver value)
      else if k = ''registration time'' \<or> k = ''registration date'' then
        set_created (parseCNDate value) pd
      else if k = ''expiration time'' \<or> k = ''expiration date'' \<or> k = ''expiry date'' then
        set_expiration (parseCNDate value) pd
      else if k = ''sponsoring registrar'' \<or> k = ''registrar'' then
        pd\<lparr>pd_Registrar := with_entity (pd_Registrar pd) (\<lambda>e. e\<lparr>pe_Name := value\<rparr>)\<rparr>
      else if k = ''registrant'' \<or> k = ''registrant name'' then
        pd\<lparr>pd_Registrant := with_entity (pd_Registrant pd) (\<lambda>e. e\<lparr>pe_Name := value\<rparr>)\<rparr>
      else if k = ''registrant id'' then
        pd\<lparr>pd_Registrant := with_entity (pd_Registrant pd) (\<lambda>e. e\<lparr>pe_Handle := value\<rparr>)\<rparr>
      else if k = ''registrant contact email'' \<or> k = ''registrant email'' then
        pd\<lparr>pd_Registrant := with_entity (pd_Registrant pd) (\<lambda>e. e\<lparr>pe_Email := value\<rparr>)\<rparr>
      else if k = ''dnssec'' then
        pd\<lparr>pd_DNSSECSigned := Some (to_lower value \<noteq> ''unsigned'' \<and> to_lower value \<noteq> ''no'')\<rparr>
      else pd)"

definition CN_comment :: "string \<Rightarrow> bool" where
  "CN_comment line = (has_prefix line ''%'' \<or> has_prefix line ''>'')"

definition CN_not_found :: "string \<Rightarrow> bool" where
  "CN_not_found response =
     (let responseLower = to_lower response in
      contains responseLower ''no matching record'' \<or> contains responseLower ''no entries found'' \<or>
      contains responseLower ''not found'')"

definition CN_Parse :: "string \<Rightarrow> string \<Rightarrow> go_error + ParseResult" where
  "CN_Parse response domain =
     (let pd0 = empty_domain\<lparr>pd_RawResponse := response\<rparr> in
      if CN_not_found response
      then Inr (not_found_result ''cn'' ''domain not found'' pd0 domain)
      else Inr (found_result ''cn'' (parse_kv_lines CN_comment CN_parseField pd0 response) domain))"

definition NewCNParser :: whois_parser where
  "NewCNParser = \<lparr>wp_Name = ''cn'', wp_SupportsTLD = CN_SupportsTLD, wp_Parse = CN_Parse\<rparr>"

section \<open>The parser honours its interfaces\<close>

interpretation cn_kv: kv_parser CN_comment CN_parseField
proof
  fix resp pd k v
  assume "parsed_ok resp pd"
  then show "parsed_ok resp (CN_parseField pd k v)"
    by (simp add: CN_parseField_def Let_def)
next
  fix k k' pd v
  assume "to_lower k = to_lower k'"
  then show "CN_parseField pd k v = CN_parseField pd k' v"
    by (simp add: CN_parseField_def Let_def)
qed

interpretation cn: parser_contract NewCNParser
proof
  fix resp dmn r
  show "\<exists>r. wp_Parse NewCNParser resp dmn = Inr r"
    by (simp add: NewCNParser_def CN_Parse_def Let_def)
  assume r: "wp_Parse NewCNParser resp dmn = Inr r"
  then show "pr_ParserName r = wp_Name NewCNParser"
    by (auto simp: NewCNParser_def CN_Parse_def Let_def split: if_splits)
  show "result_ok resp dmn r" using r
    by (auto simp: NewCNParser_def CN_Parse_def Let_def step_inv cn_kv.lines_ok split: if_splits)
qed

end
