(* ===== verification/Parser_RU.thy ===== *)
theory Parser_RU
  imports Whois_Parser
begin

text \<open>
  \<open>internal/whois/parsers/ru.go\<close>: the TCINET (.ru) parser, a loop over key-value lines with
  comma-separated states.
\<close>

definition RU_SupportsTLD :: "string \<Rightarrow> bool" where
  "RU_SupportsTLD tld0 =
     (let tld = to_lower tld0 in tld = ''ru'' \<or> tld = ''su'' \<or> tld = ''rf'' \<or> tld = ''xn--p1ai'')"

definition parseRUDate :: "string \<Rightarrow> go_time option" where
  "parseRUDate s0 =
     (let s = trim_space s0
      in if s = [] then None
         else try_formats
           [RFC3339, ''2006-01-02T15:04:05Z'', ''2006-01-02T15:04:05'', ''2006-01-02'',
            ''2006.01.02''] s)"

definition normalizeRUNameserver :: "string \<Rightarrow> string" where
  "normalizeRUNameserver ns0 =
     (let ns = trim_suffix (to_lower (trim_space ns0)) ''.'' in cut_before CHR '' '' ns)"

definition RU_states :: "string \<Rightarrow> string list" where
  "RU_states value = filter (\<lambda>s. s \<noteq> []) (map trim_space (split_on CHR '','' value))"

definition RU_parseField :: "ParsedDomain \<Rightarrow> string \<Rightarrow> string \<Rightarrow> ParsedDomain" where
  "RU_parseField pd key value =
     (let k = to_lower key in
      if k = ''domain'' then pd\<lparr>pd_DomainName := to_lower value\<rparr>
      else if k = ''nserver'' then add_nameserver pd (normalizeRUNameserver value)
      else if k = ''state'' then pd\<lparr>pd_Status := pd_Status pd @ RU_states value\<rparr>
      else if k = ''org'' \<or> k = ''organization'' then
        pd\<lparr>pd_Registrant := with_entity (pd_Registrant pd) (\<lambda>e. e\<lparr>pe_Organization := value\<rparr>)\<rparr>
      else if k = ''registrar'' then
        pd\<lparr>pd_Registrar := with_entity (pd_Registrar pd) (\<lambda>e. e\<lparr>pe_Name := value\<rparr>)\<rparr>
      else if k = ''created'' then set_created (parseRUDate value) pd
      else if k = ''paid-till'' \<or> k = ''expiration-date'' then
        set_expiration (parseRUDate value) pd
      else if k = ''last-updated'' then set_updated (parseRUDate value) pd
      else if k = ''person'' then
        pd\<lparr>pd_Registrant := with_entity (pd_Registrant pd) (\<lambda>e. e\<lparr>pe_Name := value\<rparr>)\<rparr>
      else if k = ''e-mail'' then
        pd\<lparr>pd_Registrant := with_entity (pd_Registrant pd) (\<lambda>e. e\<lparr>pe_Email := value\<rparr>)\<rparr>
      else if k = ''phone'' then
        pd\<lparr>pd_Registrant := with_entity (pd_Registrant pd) (\<lambda>e. e\<lparr>pe_Phone := value\<rparr>)\<rparr>
      else pd)"

definition RU_comment :: "string \<Rightarrow> bool" where
  "RU_comment line = (has_prefix line ''%'')"

definition RU_not_found :: "string \<Rightarrow> bool" where
  "RU_not_found response =
     (let responseLower = to_lower response in
      contains responseLower ''no entries found'' \<or> contains responseLower ''no object found'' \<or>
      contains responseLower ''object not found'')"

definition RU_Parse :: "string \<Rightarrow> string \<Rightarrow> go_error + ParseResult" where
  "RU_Parse response domain =
     (let pd0 = empty_domain\<lparr>pd_RawResponse := response\<rparr> in
      if RU_not_found response
      then Inr (not_found_result ''ru'' ''domain not found'' pd0 domain)
      else Inr (found_result ''ru'' (parse_kv_lines RU_comment RU_parseField pd0 response) domain))"

definition NewRUParser :: whois_parser where
  "NewRUParser = \<lparr>wp_Name = ''ru'', wp_SupportsTLD = RU_SupportsTLD, wp_Parse = RU_Parse\<rparr>"

section \<open>The parser honours its interfaces\<close>

interpretation ru_kv: kv_parser RU_comment RU_parseField
proof
  fix resp pd k v
  assume "parsed_ok resp pd"
  then show "parsed_ok resp (RU_parseField pd k v)"
    by (simp add: RU_parseField_def Let_def)
next
  fix k k' pd v
  assume "to_lower k = to_lower k'"
  then show "RU_parseField pd k v = RU_parseField pd k' v"
    by (simp add: RU_parseField_def Let_def)
qed

interpretation ru: parser_contract NewRUParser
proof
  fix resp dmn r
  show "\<exists>r. wp_Parse NewRUParser resp dmn = Inr r"
    by (simp add: NewRUParser_def RU_Parse_def Let_def)
  assume r: "wp_Parse NewRUParser resp dmn = Inr r"
  then show "pr_ParserName r = wp_Name NewRUParser"
    by (auto simp: NewRUParser_def RU_Parse_def Let_def split: if_splits)
  show "result_ok resp dmn r" using r
    by (auto simp: NewRUParser_def RU_Parse_def Let_def step_inv ru_kv.lines_ok split: if_splits)
qed

end
