(* ===== verification/Parser_AU.thy ===== *)
theory Parser_AU
  imports Whois_Parser
begin

text \<open>
  \<open>internal/whois/parsers/au.go\<close>: the auDA (.au) parser, a loop over key-value lines with
  blank-separated statuses.
\<close>

definition AU_SupportsTLD :: "string \<Rightarrow> bool" where
  "AU_SupportsTLD tld0 =
     (let tld = to_lower tld0 in tld = ''au'' \<or> has_suffix tld ''.au'')"

definition parseAUDate :: "string \<Rightarrow> go_time option" where
  "parseAUDate s0 =
     (let s1 = trim_space s0
      in if s1 = [] then None
         else (let s = (case index_char s1 CHR ''('' of
                          Some idx \<Rightarrow> if 0 < idx then trim_space (take idx s1) else s1
                        | None \<Rightarrow> s1)
               in try_formats
           [RFC3339, ''2006-01-02T15:04:05Z'', ''2006-01-02T15:04:05-07:00'',
            ''2006-01-02T15:04:05'', ''2006-01-02 15:04:05'', ''2006-01-02'',
            ''02-Jan-2006'', ''02 Jan 2006''] s))"

definition normalizeAUNameserver :: "string \<Rightarrow> string" where
  "normalizeAUNameserver ns0 =
     (let ns = trim_suffix (to_lower (trim_space ns0)) ''.'' in cut_before CHR '' '' ns)"

definition AU_statuses :: "string \<Rightarrow> string list" where
  "AU_statuses value = filter (\<lambda>s. \<not> has_prefix s ''http'') (go_fields value)"

definition AU_parseField :: "ParsedDomain \<Rightarrow> string \<Rightarrow> string \<Rightarrow> ParsedDomain" where
  "AU_parseField pd key value =
     (let k = to_lower key in
      if k = ''domain name'' then pd\<lparr>pd_DomainName := to_lower value\<rparr>
      else if k = ''registry domain id'' then pd\<lparr>pd_RegistryDomainID := value\<rparr>
      else if k = ''status'' \<or> k = ''domain status'' then
        pd\<lparr>pd_Status := pd_Status pd @ AU_statuses value\<rparr>
      else if k = ''name server'' then add_nameserver pd (normalizeAUNameserver value)
      else if k = ''registrar'' \<or> k = ''sponsoring registrar'' then
        pd\<lparr>pd_Registrar := with_entity (pd_Registrar pd) (\<lambda>e. e\<lparr>pe_Name := value\<rparr>)\<rparr>
      else if k = ''registrar abuse contact email'' then
        pd\<lparr>pd_Registrar := with_entity (pd_Registrar pd) (\<lambda>e. e\<lparr>pe_Email := value\<rparr>)\<rparr>
      else if k = ''registrar abuse contact phone'' then
        pd\<lparr>pd_Registrar := with_entity (pd_Registrar pd) (\<lambda>e. e\<lparr>pe_Phone := value\<rparr>)\<rparr>
      else if k = ''registrant contact id'' \<or> k = ''registrant id'' then
        pd\<lparr>pd_Registrant := with_entity (pd_Registrant pd) (\<lambda>e. e\<lparr>pe_Handle := value\<rparr>)\<rparr>
      else if k = ''registrant contact name'' \<or> k = ''registrant name'' \<or> k = ''registrant'' then
        pd\<lparr>pd_Registrant := with_entity (pd_Registrant pd) (\<lambda>e. e\<lparr>pe_Name := value\<rparr>)\<rparr>
      else if k = ''registrant contact email'' \<or> k = ''registrant email'' then
        pd\<lparr>pd_Registrant := with_entity (pd_Registrant pd) (\<lambda>e. e\<lparr>pe_Email := value\<rparr>)\<rparr>
      else if k = ''tech contact id'' then
        pd\<lparr>pd_TechContact := with_entity (pd_TechContact pd) (\<lambda>e. e\<lparr>pe_Handle := value\<rparr>)\<rparr>
      else if k = ''tech contact name'' then
        pd\<lparr>pd_TechContact := with_entity (pd_TechContact pd) (\<lambda>e. e\<lparr>pe_Name := value\<rparr>)\<rparr>
      else if k = ''tech contact email'' then
        pd\<lparr>pd_TechContact := with_entity (pd_TechContact pd) (\<lambda>e. e\<lparr>pe_Email := value\<rparr>)\<rparr>
      else if k = ''admin contact id'' then
        pd\<lparr>pd_AdminContact := with_entity (pd_AdminContact pd) (\<lambda>e. e\<lparr>pe_Handle := value\<rparr>)\<rparr>
      else if k = ''admin contact name'' then
        pd\<lparr>pd_AdminContact := with_entity (pd_AdminContact pd) (\<lambda>e. e\<lparr>pe_Name := value\<rparr>)\<rparr>
      else if k = ''creation date'' \<or> k = ''created'' \<or> k = ''registration date'' then
        set_created (parseAUDate value) pd
      else if k = ''last modified'' \<or> k = ''updated date'' \<or> k = ''updated'' then
        set_updated (parseAUDate value) pd
      else if k = ''registry expiry date'' \<or> k = ''expiration date'' \<or> k = ''expires'' then
        set_expiration (parseAUDate value) pd
      else if k = ''dnssec'' then
        pd\<lparr>pd_DNSSECSigned := Some (to_lower value \<noteq> ''unsigned'' \<and> to_lower value \<noteq> ''no'' \<and>
          to_lower value \<noteq> ''n'')\<rparr>
      else pd)"

definition AU_comment :: "string \<Rightarrow> bool" where
  "AU_comment line = (has_prefix line ''%'' \<or> has_prefix line ''#'')"

definition AU_not_found :: "string \<Rightarrow> bool" where
  "AU_not_found response =
     (let responseLower = to_lower response in
      contains responseLower ''no data found'' \<or> contains responseLower ''not found'' \<or>
      contains responseLower ''no entries found'' \<or> contains responseLower ''no match'')"

definition AU_Parse :: "string \<Rightarrow> string \<Rightarrow> go_error + ParseResult" where
  "AU_Parse response domain =
     (let pd0 = empty_domain\<lparr>pd_RawResponse := response\<rparr> in
      if AU_not_found response
      then Inr (not_found_result ''au'' ''domain not found'' pd0 domain)
      else Inr (found_result ''au'' (parse_kv_lines AU_comment AU_parseField pd0 response) domain))"

definition NewAUParser :: whois_parser where
  "NewAUParser = \<lparr>wp_Name = ''au'', wp_SupportsTLD = AU_SupportsTLD, wp_Parse = AU_Parse\<rparr>"

section \<open>The parser honours its interfaces\<close>

interpretation au_kv: kv_parser AU_comment AU_parseField
proof
  fix resp pd k v
  assume "parsed_ok resp pd"
  then show "parsed_ok resp (AU_parseField pd k v)"
    by (simp add: AU_parseField_def Let_def)
next
  fix k k' pd v
  assume "to_lower k = to_lower k'"
  then show "AU_parseField pd k v = AU_parseField pd k' v"
    by (simp add: AU_parseField_def Let_def)
qed

interpretation au: parser_contract NewAUParser
proof
  fix resp dmn r
  show "\<exists>r. wp_Parse NewAUParser resp dmn = Inr r"
    by (simp add: NewAUParser_def AU_Parse_def Let_def)
  assume r: "wp_Parse NewAUParser resp dmn = Inr r"
  then show "pr_ParserName r = wp_Name NewAUParser"
    by (auto simp: NewAUParser_def AU_Parse_def Let_def split: if_splits)
  show "result_ok resp dmn r" using r
    by (auto simp: NewAUParser_def AU_Parse_def Let_def step_inv au_kv.lines_ok split: if_splits)
qed

end
