(* ===== verification/Parser_EU.thy ===== *)
theory Parser_EU
  imports Whois_Parser
begin

text \<open>
  \<open>internal/whois/parsers/eu.go\<close>: the EURid (.eu) parser.  Sections are headed by a line that
  ends in its only colon; a line that is not indented ends the section.
\<close>

definition EU_SupportsTLD :: "string \<Rightarrow> bool" where
  "EU_SupportsTLD tld = (to_lower tld = ''eu'')"

definition parseEUDate :: "string \<Rightarrow> go_time option" where
  "parseEUDate s0 =
     (let s = trim_space s0
      in if s = [] then None
         else try_formats
           [RFC3339, ''2006-01-02T15:04:05Z'', ''2006-01-02T15:04:05'', ''2006-01-02'',
            ''02.01.2006'', ''Mon Jan 2 15:04:05 2006''] s)"

definition normalizeEUNameserver :: "string \<Rightarrow> string" where
  "normalizeEUNameserver ns0 =
     (let ns = trim_suffix (to_lower (trim_space ns0)) ''.''
      in if contains_any ns '' ='' then []
         else if \<not> contains ns ''.'' then []
         else ns)"

definition EU_parseTopLevel :: "ParsedDomain \<Rightarrow> string \<Rightarrow> string \<Rightarrow> ParsedDomain" where
  "EU_parseTopLevel pd key value =
     (let k = to_lower key in
      if k = ''domain'' then pd\<lparr>pd_DomainName := to_lower value\<rparr>
      else if k = ''status'' then pd\<lparr>pd_Status := pd_Status pd @ [value]\<rparr>
      else if k = ''registered'' then set_created (parseEUDate value) pd
      else pd)"

definition EU_parseContact :: "ParsedEntity \<Rightarrow> string \<Rightarrow> string \<Rightarrow> ParsedEntity" where
  "EU_parseContact e key value =
     (let k = to_lower key in
      if k = ''name'' then e\<lparr>pe_Name := value\<rparr>
      else if k = ''organisation'' \<or> k = ''organization'' then e\<lparr>pe_Organization := value\<rparr>
      else if k = ''email'' then e\<lparr>pe_Email := value\<rparr>
      else if k = ''phone'' then e\<lparr>pe_Phone := value\<rparr>
      else if k = ''fax'' then e\<lparr>pe_Fax := value\<rparr>
      else e)"

definition EU_parseRegistrar :: "ParsedEntity \<Rightarrow> string \<Rightarrow> string \<Rightarrow> ParsedEntity" where
  "EU_parseRegistrar e key value =
     (let k = to_lower key in
      if k = ''name'' then e\<lparr>pe_Name := value\<rparr>
      else if k = ''website'' then e\<lparr>pe_Address := value\<rparr>
      else e)"

definition EU_parseDNSSEC :: "ParsedDomain \<Rightarrow> string \<Rightarrow> ParsedDomain" where
  "EU_parseDNSSEC pd value =
     (let valueLower = to_lower value in
      pd\<lparr>pd_DNSSECSigned := Some (valueLower = ''signeddelegation'' \<or> valueLower = ''yes'' \<or>
        valueLower = ''signed'')\<rparr>)"

definition EU_sections :: "string list" where
  "EU_sections = [''registrant'', ''technical'', ''tech'', ''registrar'', ''name servers'',
     ''nameservers'', ''keys'', ''dnssec'']"

definition EU_is_header :: "string \<Rightarrow> bool" where
  "EU_is_header line = (has_suffix line '':'' \<and> \<not> contains (butlast line) '':'')"

text \<open>The indentation test of the loop, on the line before it is trimmed.\<close>

definition is_indented :: "string \<Rightarrow> bool" where
  "is_indented line = (line \<noteq> [] \<and> (hd line = CHR 0x09 \<or> hd line = CHR '' ''))"

text \<open>The last \<open>switch currentSection\<close> of the loop, and the one of lines without a colon.\<close>

definition EU_dispatch :: "string \<Rightarrow> ParsedDomain \<Rightarrow> string \<Rightarrow> string \<Rightarrow> ParsedDomain" where
  "EU_dispatch section pd key value =
     (if section = [] then EU_parseTopLevel pd key value
      else if section = ''registrant'' then
        pd\<lparr>pd_Registrant := with_entity (pd_Registrant pd) (\<lambda>e. EU_parseContact e key value)\<rparr>
      else if section = ''technical'' \<or> section = ''tech'' then
        pd\<lparr>pd_TechContact := with_entity (pd_TechContact pd) (\<lambda>e. EU_parseContact e key value)\<rparr>
      else if section = ''registrar'' then
        pd\<lparr>pd_Registrar := with_entity (pd_Registrar pd) (\<lambda>e. EU_parseRegistrar e key value)\<rparr>
      else if section = ''dnssec'' then EU_parseDNSSEC pd value
      else pd)"

definition EU_bare :: "string \<Rightarrow> ParsedDomain \<Rightarrow> string \<Rightarrow> ParsedDomain" where
  "EU_bare section pd line =
     (if section = ''name servers'' \<or> section = ''nameservers'' then
        add_nameserver pd (normalizeEUNameserver line)
      else if section = ''dnssec'' then EU_parseDNSSEC pd line
      else pd)"

definition EU_line :: "string \<times> ParsedDomain \<Rightarrow> string \<Rightarrow> string \<times> ParsedDomain" where
  "EU_line st line =
     (let (section0, pd) = st; trimmedLine = trim_space line in
      if trimmedLine = [] \<or> has_prefix trimmedLine ''%'' then st
      else if EU_is_header trimmedLine then
        (let sectionName = to_lower (trim_suffix trimmedLine '':'')
         in (if sectionName \<in> set EU_sections then sectionName else [], pd))
      else
        (let section = (if is_indented line then section0 else []) in
         case cut_at CHR '':'' trimmedLine of
           None \<Rightarrow> (section, EU_bare section pd trimmedLine)
         | Some (before, after) \<Rightarrow>
             (let key = trim_space before; value = trim_space after in
              if value = [] \<or> contains (to_lower value) ''not disclosed'' then (section, pd)
              else (section, EU_dispatch section pd key value))))"

definition EU_not_found :: "string \<Rightarrow> bool" where
  "EU_not_found response =
     (let responseLower = to_lower response in
      contains responseLower ''status: available'' \<or> contains responseLower ''not found'' \<or>
      contains responseLower ''no entries found'')"

definition EU_Parse :: "string \<Rightarrow> string \<Rightarrow> go_error + ParseResult" where
  "EU_Parse response domain =
     (let pd0 = empty_domain\<lparr>pd_RawResponse := response\<rparr> in
      if EU_not_found response
      then Inr (not_found_result ''eu'' ''domain not found or available'' pd0 domain)
      else (let (section, pd) = foldl EU_line ([], pd0) (split_on CHR 0x0A response)
            in Inr (found_result ''eu'' pd domain)))"

definition NewEUParser :: whois_parser where
  "NewEUParser = \<lparr>wp_Name = ''eu'', wp_SupportsTLD = EU_SupportsTLD, wp_Parse = EU_Parse\<rparr>"

section \<open>The parser honours the interface\<close>

lemma EU_dispatch_ok [step_inv]: "parsed_ok resp pd \<Longrightarrow> parsed_ok resp (EU_dispatch sec pd k v)"
  by (simp add: EU_dispatch_def EU_parseTopLevel_def EU_parseDNSSEC_def Let_def)

lemma EU_bare_ok [step_inv]: "parsed_ok resp pd \<Longrightarrow> parsed_ok resp (EU_bare sec pd l)"
  by (simp add: EU_bare_def EU_parseDNSSEC_def Let_def)

lemma EU_line_ok [step_inv]: "parsed_ok resp (snd st) \<Longrightarrow> parsed_ok resp (snd (EU_line st l))"
  by (cases st) (auto simp: EU_line_def Let_def EU_dispatch_ok EU_bare_ok split: option.split)

interpretation eu: parser_contract NewEUParser
proof
  fix resp dmn r
  show "\<exists>r. wp_Parse NewEUParser resp dmn = Inr r"
    by (simp add: NewEUParser_def EU_Parse_def Let_def split: prod.split)
  assume r: "wp_Parse NewEUParser resp dmn = Inr r"
  then show "pr_ParserName r = wp_Name NewEUParser"
    by (auto simp: NewEUParser_def EU_Parse_def Let_def split: if_splits prod.splits)
  have "parsed_ok resp (snd (foldl EU_line ([], empty_domain\<lparr>pd_RawResponse := resp\<rparr>)
          (split_on CHR 0x0A resp)))"
    by (rule foldl_invariant) (simp_all add: step_inv)
  with r show "result_ok resp dmn r"
    by (auto simp: NewEUParser_def EU_Parse_def Let_def step_inv split: if_splits prod.splits)
qed

end
