(* ===== verification/Parser_IT.thy ===== *)
theory Parser_IT
  imports Parser_EU
begin

text \<open>
  \<open>internal/whois/parsers/it.go\<close>: the NIC.it (.it) parser.  Section headers are fixed lines; a
  line that is not indented and has a colon is a top-level field.
\<close>

definition IT_SupportsTLD :: "string \<Rightarrow> bool" where
  "IT_SupportsTLD tld = (to_lower tld = ''it'')"

definition parseITDate :: "string \<Rightarrow> go_time option" where
  "parseITDate s0 =
     (let s = trim_space s0
      in if s = [] then None
         else try_formats
           [''2006-01-02 15:04:05'', ''2006-01-02'', RFC3339, ''2006-01-02T15:04:05Z''] s)"

text \<open>\<open>normalizeITNameserver\<close>; the function of \<open>es.go\<close> has the same body.\<close>

definition normalizeITNameserver :: "string \<Rightarrow> string" where
  "normalizeITNameserver ns0 =
     (let ns = trim_suffix (to_lower (trim_space ns0)) ''.''
      in if \<not> contains ns ''.'' then [] else ns)"

definition IT_parseTopLevel :: "ParsedDomain \<Rightarrow> string \<Rightarrow> string \<Rightarrow> ParsedDomain" where
  "IT_parseTopLevel pd key value =
     (let k = to_lower key in
      if k = ''domain'' then pd\<lparr>pd_DomainName := to_lower value\<rparr>
      else if k = ''status'' then pd\<lparr>pd_Status := pd_Status pd @ [value]\<rparr>
      else if k = ''created'' then set_created (parseITDate value) pd
      else if k = ''last update'' then set_updated (parseITDate value) pd
      else if k = ''expire date'' then set_expiration (parseITDate value) pd
      else if k = ''dnssec'' then
        pd\<lparr>pd_DNSSECSigned := Some (to_lower value \<noteq> ''no'' \<and> to_lower value \<noteq> ''unsigned'')\<rparr>
      else pd)"

definition IT_parseContact :: "ParsedEntity \<Rightarrow> string \<Rightarrow> string \<Rightarrow> ParsedEntity" where
  "IT_parseContact e key value =
     (let k = to_lower key in
      if k = ''name'' then e\<lparr>pe_Name := value\<rparr>
      else if k = ''organization'' \<or> k = ''organisation'' then e\<lparr>pe_Organization := value\<rparr>
      else if k = ''address'' then
        (if pe_Address e = [] then e\<lparr>pe_Address := value\<rparr>
         else e\<lparr>pe_Address := pe_Address e @ '', '' @ value\<rparr>)
      else if k = ''entityid'' then e\<lparr>pe_Handle := value\<rparr>
      else e)"

definition IT_parseRegistrar :: "ParsedEntity \<Rightarrow> string \<Rightarrow> string \<Rightarrow> ParsedEntity" where
  "IT_parseRegistrar e key value =
     (let k = to_lower key in
      if k = ''organization'' \<or> k = ''organisation'' then e\<lparr>pe_Organization := value\<rparr>
      else if k = ''name'' then e\<lparr>pe_Name := value\<rparr>
      else if k = ''web'' then e\<lparr>pe_Address := value\<rparr>
      else e)"

text \<open>The \<open>switch sectionLower\<close> of the loop.\<close>

definition IT_header :: "string \<Rightarrow> string option" where
  "IT_header s =
     (if s = ''registrant'' then Some ''registrant''
      else if s = ''admin contact'' \<or> s = ''admin'' then Some ''admin''
      else if s = ''technical contacts'' \<or> s = ''technical contact'' \<or> s = ''tech contact'' \<or>
              s = ''tech'' then Some ''tech''
      else if s = ''registrar'' then Some ''registrar''
      else if s = ''nameservers'' then Some ''nameservers''
      else None)"

definition IT_dispatch :: "string \<Rightarrow> ParsedDomain \<Rightarrow> string \<Rightarrow> string \<Rightarrow> ParsedDomain" where
  "IT_dispatch section pd key value =
     (if section = [] then IT_parseTopLevel pd key value
      else if section = ''registrant'' then
        pd\<lparr>pd_Registrant := with_entity (pd_Registrant pd) (\<lambda>e. IT_parseContact e key value)\<rparr>
      else if section = ''admin'' then
        pd\<lparr>pd_AdminContact := with_entity (pd_AdminContact pd) (\<lambda>e. IT_parseContact e key value)\<rparr>
      else if section = ''tech'' then
        pd\<lparr>pd_TechContact := with_entity (pd_TechContact pd) (\<lambda>e. IT_parseContact e key value)\<rparr>
      else if section = ''registrar'' then
        pd\<lparr>pd_Registrar := with_entity (pd_Registrar pd) (\<lambda>e. IT_parseRegistrar e key value)\<rparr>
      else pd)"

definition IT_line :: "string \<times> ParsedDomain \<Rightarrow> string \<Rightarrow> string \<times> ParsedDomain" where
  "IT_line st line =
     (let (section0, pd) = st; trimmedLine = trim_space line in
      if trimmedLine = [] \<or> has_prefix trimmedLine ''*'' then st
      else case IT_header (to_lower trimmedLine) of
        Some sec \<Rightarrow> (sec, pd)
      | None \<Rightarrow>
          (let section = (if \<not> is_indented line \<and> contains trimmedLine '':'' then [] else section0) in
           case cut_at CHR '':'' trimmedLine of
             None \<Rightarrow>
               (section,
                if section = ''nameservers'' then add_nameserver pd (normalizeITNameserver trimmedLine)
                else pd)
           | Some (before, after) \<Rightarrow>
               (let key = trim_space before; value = trim_space after in
                if value = [] then (section, pd)
                else (section, IT_dispatch section pd key value))))"

definition IT_not_found :: "string \<Rightarrow> bool" where
  "IT_not_found response =
     (let responseLower = to_lower response in
      contains responseLower ''status:             available'' \<or>
      contains responseLower ''object not found'' \<or> contains responseLower ''no entries found'')"

definition IT_Parse :: "string \<Rightarrow> string \<Rightarrow> go_error + ParseResult" where
  "IT_Parse response domain =
     (let pd0 = empty_domain\<lparr>pd_RawResponse := response\<rparr> in
      if IT_not_found response
      then Inr (not_found_result ''it'' ''domain not found or available'' pd0 domain)
      else (let (section, pd) = foldl IT_line ([], pd0) (split_on CHR 0x0A response)
            in Inr (found_result ''it'' pd domain)))"

definition NewITParser :: whois_parser where
  "NewITParser = \<lparr>wp_Name = ''it'', wp_SupportsTLD = IT_SupportsTLD, wp_Parse = IT_Parse\<rparr>"

section \<open>The parser honours the interface\<close>

lemma IT_dispatch_ok [step_inv]: "parsed_ok resp pd \<Longrightarrow> parsed_ok resp (IT_dispatch sec pd k v)"
  by (simp add: IT_dispatch_def IT_parseTopLevel_def Let_def)

lemma IT_line_ok [step_inv]: "parsed_ok resp (snd st) \<Longrightarrow> parsed_ok resp (snd (IT_line st l))"
  by (cases st) (auto simp: IT_line_def Let_def IT_dispatch_ok split: option.split)

interpretation it: parser_contract NewITParser
proof
  fix resp dmn r
  show "\<exists>r. wp_Parse NewITParser resp dmn = Inr r"
    by (simp add: NewITParser_def IT_Parse_def Let_def split: prod.split)
  assume r: "wp_Parse NewITParser resp dmn = Inr r"
  then show "pr_ParserName r = wp_Name NewITParser"
    by (auto simp: NewITParser_def IT_Parse_def Let_def split: if_splits prod.splits)
  have "parsed_ok resp (snd (foldl IT_line ([], empty_domain\<lparr>pd_RawResponse := resp\<rparr>)
          (split_on CHR 0x0A resp)))"
    by (rule foldl_invariant) (simp_all add: step_inv)
  with r show "result_ok resp dmn r"
    by (auto simp: NewITParser_def IT_Parse_def Let_def step_inv split: if_splits prod.splits)
qed

end
