(* ===== verification/Parser_ES.thy ===== *)
theory Parser_ES
  imports Parser_IT
begin

text \<open>
  \<open>internal/whois/parsers/es.go\<close>: the Red.es (.es) parser, with bilingual keys and a list of
  nameservers on indented lines.  The accented literals of the source are UTF-8 bytes.
\<close>

definition ES_SupportsTLD :: "string \<Rightarrow> bool" where
  "ES_SupportsTLD tld0 = (let tld = to_lower tld0 in tld = ''es'' \<or> has_suffix tld ''.es'')"

definition es_informacion :: string where
  "es_informacion = ''informaci'' @ [CHR 0xC3, CHR 0xB3] @ ''n''"

definition es_tecnica :: string where
  "es_tecnica = ''t'' @ [CHR 0xC3, CHR 0xA9] @ ''cnica''"

definition es_creacion :: string where
  "es_creacion = ''fecha de creaci'' @ [CHR 0xC3, CHR 0xB3] @ ''n''"

definition parseESDate :: "string \<Rightarrow> go_time option" where
  "parseESDate s0 =
     (let s = trim_space s0
      in if s = [] then None
         else try_formats
           [''02/01/2006'', ''2/1/2006'', ''2006-01-02'', ''02-01-2006'', RFC3339] s)"

definition normalizeESNameserver :: "string \<Rightarrow> string" where
  "normalizeESNameserver ns0 =
     (let ns = trim_suffix (to_lower (trim_space ns0)) ''.''
      in if \<not> contains ns ''.'' then [] else ns)"

text \<open>The status and date cases that the top level and the technical section share.\<close>

definition ES_status_or_date :: "ParsedDomain \<Rightarrow> string \<Rightarrow> string \<Rightarrow> ParsedDomain" where
  "ES_status_or_date pd keyLower value =
     (if contains keyLower ''domain status'' \<or> contains keyLower ''estado'' then
        pd\<lparr>pd_Status := pd_Status pd @ [value]\<rparr>
      else if contains keyLower ''creation date'' \<or> contains keyLower es_creacion then
        set_created (parseESDate value) pd
      else if contains keyLower ''expiration date'' \<or> contains keyLower ''fecha de caducidad'' then
        set_expiration (parseESDate value) pd
      else pd)"

definition ES_parseField :: "ParsedDomain \<Rightarrow> string \<Rightarrow> string \<Rightarrow> string \<Rightarrow> ParsedDomain" where
  "ES_parseField pd section key value =
     (let keyLower = to_lower key in
      if section = [] then
        (if contains keyLower ''domain name'' \<or> contains keyLower ''nombre de dominio'' then
           pd\<lparr>pd_DomainName := to_lower value\<rparr>
         else ES_status_or_date pd keyLower value)
      else if section = ''holder'' then
        pd\<lparr>pd_Registrant := with_entity (pd_Registrant pd) (\<lambda>e.
          if contains keyLower ''name'' then e\<lparr>pe_Name := value\<rparr>
          else if contains keyLower ''organization'' then e\<lparr>pe_Organization := value\<rparr>
          else e)\<rparr>
      else if section = ''registrar'' then
        pd\<lparr>pd_Registrar := with_entity (pd_Registrar pd) (\<lambda>e.
          if contains keyLower ''name'' then e\<lparr>pe_Name := value\<rparr>
          else if keyLower = ''url'' then e\<lparr>pe_Address := value\<rparr>
          else e)\<rparr>
      else if section = ''technical'' then ES_status_or_date pd keyLower value
      else pd)"

text \<open>The section headers, in the order the loop tests them.\<close>

definition ES_header :: "string \<Rightarrow> string option" where
  "ES_header lineLower =
     (if contains lineLower (es_informacion @ '' del titular'') \<or>
         contains lineLower ''holder information'' then Some ''holder''
      else if contains lineLower (es_informacion @ '' del agente'') \<or>
              contains lineLower ''registrar information'' then Some ''registrar''
      else if contains lineLower (es_informacion @ '' '' @ es_tecnica) \<or>
              contains lineLower ''technical information'' then Some ''technical''
      else None)"

text \<open>
  The key-value part of the loop's body.  \<open>slashIdx > 0\<close> cuts a bilingual key after its first
  slash, unless the key starts with it.
\<close>

definition ES_english_key :: "string \<Rightarrow> string" where
  "ES_english_key key =
     (case index_char key CHR ''/'' of
        Some slashIdx \<Rightarrow> if 0 < slashIdx then trim_space (drop (Suc slashIdx) key) else key
      | None \<Rightarrow> key)"

definition ES_kv :: "string \<Rightarrow> ParsedDomain \<Rightarrow> string \<Rightarrow> ParsedDomain" where
  "ES_kv section pd trimmedLine =
     (case cut_at CHR '':'' trimmedLine of
        None \<Rightarrow> pd
      | Some (before, after) \<Rightarrow>
          (let key = trim_space before; value = trim_space after in
           if value = [] \<or> value = ''***'' \<or> has_prefix value ''***'' then pd
           else ES_parseField pd section (ES_english_key key) value))"

text \<open>The loop's state: current section, \<open>inDNSSection\<close> and the parsed domain.\<close>

definition ES_line :: "string \<times> bool \<times> ParsedDomain \<Rightarrow> string \<Rightarrow> string \<times> bool \<times> ParsedDomain" where
  "ES_line st line =
     (let (section, inDNS, pd) = st; trimmedLine = trim_space line; lineLower = to_lower trimmedLine in
      if trimmedLine = [] then st
      else case ES_header lineLower of
        Some sec \<Rightarrow> (sec, inDNS, pd)
      | None \<Rightarrow>
          if contains lineLower ''servidores dns'' \<or> contains lineLower ''dns servers'' then
            (section, True, pd)
          else if inDNS \<and> is_indented line then
            (section, inDNS, add_nameserver pd (normalizeESNameserver trimmedLine))
          else (section, False, ES_kv section pd trimmedLine))"

definition ES_not_found :: "string \<Rightarrow> bool" where
  "ES_not_found response =
     (let responseLower = to_lower response in
      contains responseLower ''no existe'' \<or> contains responseLower ''does not exist'' \<or>
      contains responseLower ''not found'' \<or> contains responseLower ''no match'')"

definition ES_Parse :: "string \<Rightarrow> string \<Rightarrow> go_error + ParseResult" where
  "ES_Parse response domain =
     (let pd0 = empty_domain\<lparr>pd_RawResponse := response\<rparr> in
      if ES_not_found response
      then Inr (not_found_result ''es'' ''domain not found'' pd0 domain)
      else (let (section, inDNS, pd) = foldl ES_line ([], False, pd0) (split_on CHR 0x0A response)
            in Inr (found_result ''es'' pd domain)))"

definition NewESParser :: whois_parser where
  "NewESParser = \<lparr>wp_Name = ''es'', wp_SupportsTLD = ES_SupportsTLD, wp_Parse = ES_Parse\<rparr>"

section \<open>The parser honours the interface\<close>

lemma ES_parseField_ok [step_inv]: "parsed_ok resp pd \<Longrightarrow> parsed_ok resp (ES_parseField pd sec k v)"
  by (simp add: ES_parseField_def ES_status_or_date_def Let_def)

lemma ES_kv_ok [step_inv]: "parsed_ok resp pd \<Longrightarrow> parsed_ok resp (ES_kv sec pd l)"
  by (simp add: ES_kv_def Let_def ES_parseField_ok split: option.split prod.split)

lemma ES_line_ok [step_inv]:
  "parsed_ok resp (snd (snd st)) \<Longrightarrow> parsed_ok resp (snd (snd (ES_line st l)))"
  by (cases st) (auto simp: ES_line_def Let_def ES_kv_ok split: option.split)

interpretation es: parser_contract NewESParser
proof
  fix resp dmn r
  show "\<exists>r. wp_Parse NewESParser resp dmn = Inr r"
    by (simp add: NewESParser_def ES_Parse_def Let_def split: prod.split)
  assume r: "wp_Parse NewESParser resp dmn = Inr r"
  then show "pr_ParserName r = wp_Name NewESParser"
    by (auto simp: NewESParser_def ES_Parse_def Let_def split: if_splits prod.splits)
  have "parsed_ok resp (snd (snd (foldl ES_line ([], False, empty_domain\<lparr>pd_RawResponse := resp\<rparr>)
          (split_on CHR 0x0A resp))))"
    by (rule foldl_invariant) (simp_all add: step_inv)
  with r show "result_ok resp dmn r"
    by (auto simp: NewESParser_def ES_Parse_def Let_def step_inv split: if_splits prod.splits)
qed

end
