(* ===== verification/Parser_JP.thy ===== *)
theory Parser_JP
  imports Whois_Parser
begin

text \<open>
  \<open>internal/whois/parsers/jp.go\<close>: the JPRS (.jp) parser, with lettered and bracketed keys.  The
  Japanese literals of the source are UTF-8 bytes.
\<close>

definition jp_domain :: string where
  "jp_domain =
     [CHR 0xE3, CHR 0x83, CHR 0x89, CHR 0xE3, CHR 0x83, CHR 0xA1, CHR 0xE3, CHR 0x82, CHR 0xA4,
     CHR 0xE3, CHR 0x83, CHR 0xB3]"

definition jp_state :: string where
  "jp_state =
     [CHR 0xE7, CHR 0x8A, CHR 0xB6, CHR 0xE6, CHR 0x85, CHR 0x8B]"

definition jp_registered :: string where
  "jp_registered =
     [CHR 0xE7, CHR 0x99, CHR 0xBB, CHR 0xE9, CHR 0x8C, CHR 0xB2, CHR 0xE5, CHR 0xB9, CHR 0xB4,
     CHR 0xE6, CHR 0x9C, CHR 0x88, CHR 0xE6, CHR 0x97, CHR 0xA5]"

definition jp_expiry :: string where
  "jp_expiry =
     [CHR 0xE6, CHR 0x9C, CHR 0x89, CHR 0xE5, CHR 0x8A, CHR 0xB9, CHR 0xE6, CHR 0x9C, CHR 0x9F,
     CHR 0xE9, CHR 0x99, CHR 0x90]"

definition jp_updated :: string where
  "jp_updated =
     [CHR 0xE6, CHR 0x9C, CHR 0x80, CHR 0xE7, CHR 0xB5, CHR 0x82, CHR 0xE6, CHR 0x9B, CHR 0xB4,
     CHR 0xE6, CHR 0x96, CHR 0xB0]"

definition jp_nameserver :: string where
  "jp_nameserver =
     [CHR 0xE3, CHR 0x83, CHR 0x8D, CHR 0xE3, CHR 0x83, CHR 0xBC, CHR 0xE3, CHR 0x83, CHR 0xA0,
     CHR 0xE3, CHR 0x82, CHR 0xB5, CHR 0xE3, CHR 0x83, CHR 0xBC, CHR 0xE3, CHR 0x83, CHR
     0x90]"

definition JP_SupportsTLD :: "string \<Rightarrow> bool" where
  "JP_SupportsTLD tld0 = (let tld = to_lower tld0 in tld = ''jp'' \<or> has_suffix tld ''.jp'')"

definition parseJPDate :: "string \<Rightarrow> go_time option" where
  "parseJPDate s0 =
     (let s1 = trim_space s0
      in if s1 = [] then None
         else (let s = (case index_char s1 CHR ''('' of
                          Some idx \<Rightarrow> if 0 < idx then trim_space (take idx s1) else s1
                        | None \<Rightarrow> s1)
               in try_formats
           [''2006/01/02 15:04:05'', ''2006/01/02'', ''2006-01-02 15:04:05'', ''2006-01-02'',
            RFC3339] s))"

definition normalizeJPNameserver :: "string \<Rightarrow> string" where
  "normalizeJPNameserver ns0 =
     (let ns = trim_suffix (to_lower (trim_space ns0)) ''.''
      in if \<not> contains ns ''.'' then [] else cut_before CHR '' '' ns)"

definition parseLetterKey :: "ParsedDomain \<Rightarrow> string \<Rightarrow> string \<Rightarrow> ParsedDomain" where
  "parseLetterKey pd key value =
     (let k = to_lower key in
      if value = [] then pd
      else if k = ''a'' then pd\<lparr>pd_DomainName := to_lower value\<rparr>
      else if k = ''g'' then
        pd\<lparr>pd_Registrant := with_entity (pd_Registrant pd) (\<lambda>e. e\<lparr>pe_Organization := value\<rparr>)\<rparr>
      else if k = ''m'' then
        pd\<lparr>pd_Registrant := with_entity (pd_Registrant pd) (\<lambda>e. e\<lparr>pe_Handle := value\<rparr>)\<rparr>
      else if k = ''n'' then
        pd\<lparr>pd_TechContact := with_entity (pd_TechContact pd) (\<lambda>e. e\<lparr>pe_Handle := value\<rparr>)\<rparr>
      else if k = ''p'' then add_nameserver pd (normalizeJPNameserver value)
      else if k = ''s'' then pd\<lparr>pd_DNSSECSigned := Some True\<rparr>
      else pd)"

definition parseBracketKey :: "ParsedDomain \<Rightarrow> string \<Rightarrow> string \<Rightarrow> ParsedDomain" where
  "parseBracketKey pd key value =
     (let keyLower = to_lower key in
      if contains keyLower jp_state \<or> contains keyLower ''state'' \<or> contains keyLower ''status'' then
        pd\<lparr>pd_Status := pd_Status pd @ [value]\<rparr>
      else if contains keyLower jp_registered \<or> contains keyLower ''registered date'' \<or>
              contains keyLower ''created'' then set_created (parseJPDate value) pd
      else if contains keyLower jp_expiry \<or> contains keyLower ''expiration'' \<or>
              contains keyLower ''expires'' then set_expiration (parseJPDate value) pd
      else if contains keyLower jp_updated \<or> contains keyLower ''last update'' \<or>
              contains keyLower ''updated'' then set_updated (parseJPDate value) pd
      else if contains keyLower jp_nameserver \<or> contains keyLower ''name server'' then
        add_nameserver pd (normalizeJPNameserver value)
      else pd)"

text \<open>
  \<open>parseLine\<close>: \<open>X. [label] value\<close>, or \<open>[label] value\<close>.  \<open>string(line[0])\<close> is the
  encoding of the code point with the first byte's number.
\<close>

definition jp_skip_label :: "string \<Rightarrow> string" where
  "jp_skip_label rest =
     (case index_char rest CHR '']'' of
        Some idx \<Rightarrow> if 0 < idx \<and> has_prefix rest ''['' then trim_space (drop (Suc idx) rest) else rest
      | None \<Rightarrow> rest)"

definition parseLine :: "ParsedDomain \<Rightarrow> string \<Rightarrow> ParsedDomain" where
  "parseLine pd line =
     (if 2 < length line \<and> line ! 1 = CHR ''.'' then
        parseLetterKey pd (encode_rune (of_char (line ! 0))) (jp_skip_label (trim_space (drop 2 line)))
      else if has_prefix line ''['' then
        (case index_char line CHR '']'' of
           None \<Rightarrow> pd
         | Some closeBracket \<Rightarrow>
             if 0 < closeBracket \<and> closeBracket < length line - 1 then
               (let key = take (closeBracket - 1) (drop 1 line);
                    value = trim_space (drop (Suc closeBracket) line)
                in if value \<noteq> [] then parseBracketKey pd key value else pd)
             else pd)
      else pd)"

definition JP_line :: "ParsedDomain \<Rightarrow> string \<Rightarrow> ParsedDomain" where
  "JP_line pd line =
     (let trimmedLine = trim_space line in
      if trimmedLine = [] \<or>
         has_prefix trimmedLine ''['' \<and> has_suffix trimmedLine '']'' \<and>
         \<not> contains trimmedLine jp_domain \<and> \<not> contains trimmedLine jp_state
      then pd else parseLine pd trimmedLine)"

definition JP_not_found :: "string \<Rightarrow> bool" where
  "JP_not_found response =
     (let responseLower = to_lower response in
      contains responseLower ''no match'' \<or> contains responseLower ''not found'' \<or>
      contains responseLower ''no entries found'')"

definition JP_Parse :: "string \<Rightarrow> string \<Rightarrow> go_error + ParseResult" where
  "JP_Parse response domain =
     (let pd0 = empty_domain\<lparr>pd_RawResponse := response\<rparr> in
      if JP_not_found response
      then Inr (not_found_result ''jp'' ''domain not found'' pd0 domain)
      else Inr (found_result ''jp'' (foldl JP_line pd0 (split_on CHR 0x0A response)) domain))"

definition NewJPParser :: whois_parser where
  "NewJPParser = \<lparr>wp_Name = ''jp'', wp_SupportsTLD = JP_SupportsTLD, wp_Parse = JP_Parse\<rparr>"

section \<open>The parser honours the interface\<close>

lemma parseLine_ok [step_inv]: "parsed_ok resp pd \<Longrightarrow> parsed_ok resp (parseLine pd l)"
  by (simp add: parseLine_def parseLetterKey_def parseBracketKey_def Let_def split: option.split)

lemma JP_line_ok [step_inv]: "parsed_ok resp pd \<Longrightarrow> parsed_ok resp (JP_line pd l)"
  by (simp add: JP_line_def Let_def parseLine_ok)

interpretation jp: parser_contract NewJPParser
proof
  fix resp dmn r
  show "\<exists>r. wp_Parse NewJPParser resp dmn = Inr r"
    by (simp add: NewJPParser_def JP_Parse_def Let_def)
  assume r: "wp_Parse NewJPParser resp dmn = Inr r"
  then show "pr_ParserName r = wp_Name NewJPParser"
    by (auto simp: NewJPParser_def JP_Parse_def Let_def split: if_splits)
  have "parsed_ok resp (foldl JP_line (empty_domain\<lparr>pd_RawResponse := resp\<rparr>) (split_on CHR 0x0A resp))"
    by (rule foldl_invariant) (simp_all add: step_inv)
  with r show "result_ok resp dmn r"
    by (auto simp: NewJPParser_def JP_Parse_def Let_def step_inv split: if_splits)
qed

end
