(* ===== verification/Parsers_Registry.thy ===== *)
theory Parsers_Registry
  imports Whois_Generic Parser_DE Parser_CN Parser_RU Parser_AU Parser_EU Parser_IT Parser_ES Parser_JP
begin

text \<open>
  \<open>internal/whois/parsers/registry.go\<close>: the registration of the built-in parsers, and the
  registry the program runs with.
\<close>

definition NewParserRegistry :: parser_registry where
  "NewParserRegistry = \<lparr>rg_parsers = Map.empty, rg_generic = generic_parser NewGenericParser\<rparr>"

text \<open>The calls of \<open>RegisterAll\<close>, in order.\<close>

definition builtin_parsers :: "(whois_parser \<times> string list) list" where
  "builtin_parsers =
     [(NewDEParser, [''de'']), (NewCNParser, [''cn'']), (NewRUParser, [''ru'']),
      (NewAUParser, [''au'', ''com.au'', ''net.au'', ''org.au'']),
      (NewEUParser, [''eu'']), (NewITParser, [''it'']),
      (NewESParser, [''es'', ''com.es'', ''org.es'', ''nom.es'', ''gob.es'', ''edu.es'']),
      (NewJPParser, [''jp'', ''co.jp'', ''or.jp'', ''ne.jp'', ''ac.jp'', ''ad.jp'', ''ed.jp'',
        ''go.jp'', ''gr.jp'', ''lg.jp''])]"

definition RegisterAll :: "parser_registry \<Rightarrow> parser_registry" where
  "RegisterAll registry = foldl (\<lambda>r (p, tlds). Register r p tlds) registry builtin_parsers"

definition DefaultRegistry :: parser_registry where
  "DefaultRegistry = RegisterAll NewParserRegistry"

section \<open>The default registry honours the registry contract\<close>

lemma builtin_contract: "(p, tlds) \<in> set builtin_parsers \<Longrightarrow> parser_contract p"
  by (auto simp: builtin_parsers_def intro: de.parser_contract_axioms cn.parser_contract_axioms
      ru.parser_contract_axioms au.parser_contract_axioms eu.parser_contract_axioms
      it.parser_contract_axioms es.parser_contract_axioms jp.parser_contract_axioms)

lemma NewParserRegistry_contract: "registry_contract NewParserRegistry"
  by (rule registry_contract.intro)
     (simp_all add: NewParserRegistry_def generic.parser_contract_axioms)

lemma RegisterAll_contract:
  assumes "registry_contract r"
  shows "registry_contract (RegisterAll r)"
  unfolding RegisterAll_def
  by (rule foldl_invariant [where I = registry_contract])
     (use assms builtin_contract in \<open>auto intro: registry_contract.Register_contract\<close>)

interpretation default: registry_contract DefaultRegistry
  unfolding DefaultRegistry_def by (intro RegisterAll_contract NewParserRegistry_contract)

section \<open>Which parser serves which name\<close>

definition builtin_tlds :: "string list" where
  "builtin_tlds = concat (map snd builtin_parsers)"

lemma normalizeTLD_builtin:
  "list_all (\<lambda>t. normalizeTLD t = t) builtin_tlds"
  unfolding builtin_tlds_def builtin_parsers_def by code_simp

lemma RegisteredTLDs_fold:
  "RegisteredTLDs (foldl (\<lambda>r (p, tlds). Register r p tlds) r ps) =
     RegisteredTLDs r \<union> normalizeTLD ` set (concat (map snd ps))"
  by (induction ps arbitrary: r) (auto simp: RegisteredTLDs_Register)

lemma RegisteredTLDs_default: "RegisteredTLDs DefaultRegistry = set builtin_tlds"
proof -
  have "RegisteredTLDs NewParserRegistry = {}"
    by (simp add: RegisteredTLDs_def NewParserRegistry_def)
  moreover have "normalizeTLD ` set builtin_tlds = set builtin_tlds"
    using normalizeTLD_builtin by (auto simp: list_all_iff image_iff)
  ultimately show ?thesis
    by (simp add: DefaultRegistry_def RegisterAll_def RegisteredTLDs_fold flip: builtin_tlds_def)
qed

end
