(* ===== verification/Whois_Records.thy ===== *)
theory Whois_Records
  imports Parsers_Registry
begin

text \<open>
  Records as the registries print them, and what the key-value parsers make of them.  The lemmas
  rest on the contract \<open>kv_parser\<close>, through its interpretations for the CNNIC, RU and auDA parsers.
\<close>

section \<open>Host names and values that survive printing\<close>

definition plain_host :: "string \<Rightarrow> bool" where
  "plain_host h \<longleftrightarrow>
     h \<noteq> [] \<and> clean h \<and> to_lower h = h \<and> CHR '' '' \<notin> set h \<and> CHR 0x0A \<notin> set h \<and>
     \<not> has_suffix h ''.''"

definition plain_value :: "string \<Rightarrow> bool" where
  "plain_value v \<longleftrightarrow> v \<noteq> [] \<and> clean v \<and> CHR 0x0A \<notin> set v"

lemma plain_host_value: "plain_host h \<Longrightarrow> plain_value h"
  by (simp add: plain_host_def plain_value_def)

lemma plain_host_trim: "plain_host h \<Longrightarrow> trim_space h = h"
  by (simp add: plain_host_def trim_space_clean)

lemma trim_suffix_none: "\<not> has_suffix s p \<Longrightarrow> trim_suffix s p = s"
  by (cases s p rule: trim_suffix_cases) (metis has_suffix_iff, simp)

lemma normalize_plain_host:
  assumes "plain_host h"
  shows "normalizeAUNameserver h = h" "normalizeCNNameserver h = h" "parsers_normalizeNameserver h = h"
  using assms
  by (simp_all add: normalizeAUNameserver_def normalizeCNNameserver_def parsers_normalizeNameserver_def
      plain_host_trim trim_suffix_none Let_def) (simp_all add: plain_host_def trim_suffix_none)

text \<open>A key the registries use: not empty, no colon, no blanks at its ends, no comment mark.\<close>

definition plain_key :: "(string \<Rightarrow> bool) \<Rightarrow> string \<Rightarrow> bool" where
  "plain_key comment k \<longleftrightarrow>
     k \<noteq> [] \<and> clean k \<and> CHR '':'' \<notin> set k \<and> CHR 0x0A \<notin> set k \<and> (\<forall>v. \<not> comment (k @ '': '' @ v))"

lemma clean_kv_plain: "plain_key comment k \<Longrightarrow> plain_value v \<Longrightarrow> clean_kv comment (k, v)"
  by (simp add: plain_key_def plain_value_def clean_kv_def print_kv_def)

section \<open>A record of the .au registry\<close>

definition AU_record :: "string \<Rightarrow> string \<Rightarrow> string list \<Rightarrow> string \<Rightarrow> string \<Rightarrow> (string \<times> string) list" where
  "AU_record name roid nss registrar holder =
     [(''Domain Name'', name), (''Registry Domain ID'', roid), (''Registrar'', registrar),
      (''Registrant'', holder)] @ map (\<lambda>ns. (''Name Server'', ns)) nss"

lemma AU_plain_keys:
  "k \<in> {''Domain Name'', ''Registry Domain ID'', ''Registrar'', ''Registrant'', ''Name Server''} \<Longrightarrow>
   plain_key AU_comment k"
  by (elim insertE emptyE) (auto simp: plain_key_def AU_comment_def has_prefix_def clean_def solid_char_def
      ascii_space_def)

lemma AU_record_clean:
  assumes "plain_host name" "plain_value roid" "\<forall>n \<in> set nss. plain_host n" "plain_value registrar"
    "plain_value holder"
  shows "\<forall>kv \<in> set (AU_record name roid nss registrar holder). clean_kv AU_comment kv"
  using assms by (auto simp: AU_record_def intro!: clean_kv_plain AU_plain_keys plain_host_value)

lemma AU_keys_lower:
  "to_lower ''Domain Name'' = ''domain name''" "to_lower ''Registry Domain ID'' = ''registry domain id''"
  "to_lower ''Registrar'' = ''registrar''" "to_lower ''Registrant'' = ''registrant''"
  "to_lower ''Name Server'' = ''name server''"
  by (simp_all add: to_lower_def is_ascii_def ascii_lower_def)

lemma fold_nameservers:
  assumes "\<forall>n \<in> set nss. plain_host n"
  shows "fold_fields AU_parseField pd (map (\<lambda>ns. (''Name Server'', ns)) nss) =
    pd\<lparr>pd_Nameservers := pd_Nameservers pd @ nss\<rparr>"
  using assms
proof (induction nss arbitrary: pd)
  case (Cons n nss)
  then have "n \<noteq> []" "normalizeAUNameserver n = n"
    by (simp_all add: normalize_plain_host) (simp add: plain_host_def)
  then show ?case using Cons
    by (simp add: fold_fields_def AU_parseField_def AU_keys_lower add_nameserver_def Let_def)
qed (simp add: fold_fields_def)

lemma AU_Parse_record:
  assumes "plain_host name" "plain_value roid" "\<forall>n \<in> set nss. plain_host n" "plain_value registrar"
    "plain_value holder"
  defines "response \<equiv> print_lines (map print_kv (AU_record name roid nss registrar holder))"
  assumes "\<not> AU_not_found response"
  shows "AU_Parse response dmn = Inr
    \<lparr>pr_Domain = Some (empty_domain\<lparr>pd_DomainName := name, pd_RegistryDomainID := roid,
        pd_Registrar := Some (empty_entity\<lparr>pe_Name := registrar\<rparr>),
        pd_Registrant := Some (empty_entity\<lparr>pe_Name := holder\<rparr>),
        pd_Nameservers := nss, pd_RawResponse := response\<rparr>),
     pr_Confidence = ConfidenceHigh, pr_ParserName = ''au'', pr_Errors = []\<rparr>"
proof -
  let ?pd0 = "empty_domain\<lparr>pd_RawResponse := response\<rparr>"
  have name: "to_lower name = name" "name \<noteq> []" using assms(1) by (simp_all add: plain_host_def)
  have "parse_kv_lines AU_comment AU_parseField ?pd0 response =
      fold_fields AU_parseField ?pd0 (AU_record name roid nss registrar holder)"
    unfolding response_def by (rule au_kv.lines_print [OF AU_record_clean [OF assms(1-5)]])
  also have "\<dots> = fold_fields AU_parseField
      (?pd0\<lparr>pd_DomainName := name, pd_RegistryDomainID := roid,
        pd_Registrar := Some (empty_entity\<lparr>pe_Name := registrar\<rparr>),
        pd_Registrant := Some (empty_entity\<lparr>pe_Name := holder\<rparr>)\<rparr>)
      (map (\<lambda>ns. (''Name Server'', ns)) nss)"
    by (simp add: AU_record_def fold_fields_def AU_parseField_def AU_keys_lower Let_def name
        with_entity_def empty_domain_def)
  finally show ?thesis using assms(7) name
    by (simp add: AU_Parse_def Let_def fold_nameservers [OF assms(3)] found_result_def empty_domain_def)
qed

end
