(* ===== verification/GoIO.thy ===== *)
theory GoIO
  imports GoErrors "HOL-Library.Word" "HOL-Library.Multiset"
begin

text \<open>
  Readers and searches of Go's \<open>io\<close> and \<open>sort\<close> packages, as the repository uses them.
\<close>

section \<open>Limited readers\<close>

text \<open>
  A reader is the chunks that its reads deliver and the error that ends them (\<open>None\<close> is
  \<open>io.EOF\<close>).  The bytes an \<open>io.LimitReader\<close> delivers and how it ends: a read error is seen only
  before the limit is reached.
\<close>

definition limit_reader :: "nat \<Rightarrow> string list \<times> go_error option \<Rightarrow> string \<times> go_error option" where
  "limit_reader limit reply =
     (let data = concat (fst reply)
      in if limit \<le> length data then (take limit data, None) else (data, snd reply))"

lemma limit_reader_length: "length (fst (limit_reader n r)) \<le> n"
  by (simp add: limit_reader_def Let_def)

section \<open>Binary search\<close>

text \<open>The loop of \<open>sort.Search\<close>, with its two indices.\<close>

function search_between :: "(nat \<Rightarrow> bool) \<Rightarrow> nat \<Rightarrow> nat \<Rightarrow> nat" where
  "search_between f i j =
     (if i < j then
        (let h = (i + j) div 2 in if \<not> f h then search_between f (h + 1) j else search_between f i h)
      else i)"
  by pat_completeness auto

termination
  by (relation "measure (\<lambda>(f, i, j). j - i)") auto

declare search_between.simps [simp del]

definition Search :: "nat \<Rightarrow> (nat \<Rightarrow> bool) \<Rightarrow> nat" where
  "Search n f = search_between f 0 n"

text \<open>
  For a predicate that is monotone below \<open>n\<close> the search returns the boundary: the predicate fails
  before the result and holds from it on.
\<close>

lemma search_between_boundary:
  assumes "i \<le> j" "j \<le> n" "\<And>x y. x \<le> y \<Longrightarrow> y < n \<Longrightarrow> f x \<Longrightarrow> f y"
    and "\<And>k. k < i \<Longrightarrow> \<not> f k" "\<And>k. j \<le> k \<Longrightarrow> k < n \<Longrightarrow> f k"
  shows "search_between f i j \<le> n \<and> (\<forall>k < n. f k \<longleftrightarrow> search_between f i j \<le> k)"
  using assms
proof (induction f i j rule: search_between.induct)
  case (1 f i j)
  show ?case
  proof (cases "i < j")
    case False
    then have "search_between f i j = i" by (simp add: search_between.simps)
    with False 1(3-7) show ?thesis by (metis le_antisym not_le order_trans)
  next
    case True
    let ?h = "(i + j) div 2"
    have h: "i \<le> ?h" "?h < j" using True by auto
    show ?thesis
    proof (cases "f ?h")
      case fh: True
      have eq: "search_between f i j = search_between f i ?h"
        using True fh by (simp add: search_between.simps [of f i j])
      have above: "f k" if "?h \<le> k" "k < n" for k using 1(5) [OF that fh] .
      show ?thesis unfolding eq
        by (rule 1(2)) (use True fh h 1(4-6) above in auto)
    next
      case fh: False
      have eq: "search_between f i j = search_between f (?h + 1) j"
        using True fh by (simp add: search_between.simps [of f i j])
      have below: "\<not> f k" if "k < ?h + 1" for k
        using 1(5) [of k ?h] that fh h(2) 1(4) by auto
      show ?thesis unfolding eq
        by (rule 1(1)) (use True fh h 1(4,5,7) below in auto)
    qed
  qed
qed

lemma Search_boundary:
  assumes "\<And>x y. x \<le> y \<Longrightarrow> y < n \<Longrightarrow> f x \<Longrightarrow> f y"
  shows "Search n f \<le> n" "k < n \<Longrightarrow> f k \<longleftrightarrow> Search n f \<le> k"
  using search_between_boundary [of 0 n n f] assms unfolding Search_def by auto

end
