(* ===== verification/Whois_Discovery.thy ===== *)
theory Whois_Discovery
  imports Whois_Types Whois_Names GoIO
begin

text \<open>
  \<open>internal/whois/discovery.go\<close>: finding the WHOIS server of a top-level domain, with a cache in
  front of a query to IANA.  The network is a parameter: what a connection to an address does
  within a timeout.  Times and durations are integers (nanoseconds).  The interface of the cache
  is the locale \<open>ttl_store\<close>.
\<close>

section \<open>The network\<close>

text \<open>
  A connection: the error of dialling, of setting the deadline, of writing given bytes, and the
  reply to them, as the chunks the reads deliver and the error that ends them (\<open>None\<close> is
  \<open>io.EOF\<close>).
\<close>

record tcp_conn =
  cn_dial :: "go_error option"
  cn_deadline :: "go_error option"
  cn_write :: "string \<Rightarrow> go_error option"
  cn_reply :: "string \<Rightarrow> string list \<times> go_error option"

type_synonym network = "string \<Rightarrow> int \<Rightarrow> tcp_conn"

text \<open>\<open>ctx.Deadline()\<close>, as the time that remains, and the timeout of a query under it.\<close>

definition effective_timeout :: "int \<Rightarrow> int option \<Rightarrow> int" where
  "effective_timeout timeout ctx_remaining =
     (case ctx_remaining of
        None \<Rightarrow> timeout
      | Some remaining \<Rightarrow> if remaining < timeout then remaining else timeout)"

section \<open>State\<close>

definition IANAWHOISServer :: string where "IANAWHOISServer = ''whois.iana.org''"
definition DefaultDiscoveryTimeout :: int where "DefaultDiscoveryTimeout = 10 * 10 ^ 9"
definition MaxIANAResponseSize :: nat where "MaxIANAResponseSize = 16 * 1024"

record WHOISServerEntry =
  se_Server :: string
  se_CachedAt :: int

record Discovery =
  d_cache :: "string \<rightharpoonup> WHOISServerEntry"
  d_timeout :: int
  d_cacheTTL :: int

definition NewDiscovery :: "(Discovery \<Rightarrow> Discovery) list \<Rightarrow> Discovery" where
  "NewDiscovery opts =
     foldl (\<lambda>d opt. opt d)
       \<lparr>d_cache = Map.empty, d_timeout = DefaultDiscoveryTimeout,
        d_cacheTTL = 24 * 3600 * 10 ^ 9\<rparr> opts"

definition WithDiscoveryTimeout :: "int \<Rightarrow> Discovery \<Rightarrow> Discovery" where
  "WithDiscoveryTimeout timeout d = d\<lparr>d_timeout := timeout\<rparr>"

definition WithDiscoveryCacheTTL :: "int \<Rightarrow> Discovery \<Rightarrow> Discovery" where
  "WithDiscoveryCacheTTL ttl d = d\<lparr>d_cacheTTL := ttl\<rparr>"

section \<open>The cache\<close>

text \<open>\<open>getCached\<close> at a time; the empty string stands for a miss, as in the code.\<close>

definition getCached :: "Discovery \<Rightarrow> int \<Rightarrow> string \<Rightarrow> string" where
  "getCached d now tld =
     (case d_cache d tld of
        None \<Rightarrow> []
      | Some entry \<Rightarrow> if now - se_CachedAt entry > d_cacheTTL d then [] else se_Server entry)"

definition setCached :: "Discovery \<Rightarrow> int \<Rightarrow> string \<Rightarrow> string \<Rightarrow> Discovery" where
  "setCached d now tld server =
     d\<lparr>d_cache := (d_cache d)(tld \<mapsto> \<lparr>se_Server = server, se_CachedAt = now\<rparr>)\<rparr>"

definition ClearCache :: "Discovery \<Rightarrow> Discovery" where
  "ClearCache d = d\<lparr>d_cache := Map.empty\<rparr>"

definition CacheSize :: "Discovery \<Rightarrow> nat" where
  "CacheSize d = card (dom (d_cache d))"

section \<open>The IANA response\<close>

text \<open>
  \<open>bufio.Scanner\<close> with a 4096-byte buffer and \<open>ScanLines\<close>: a line that does not fit with its
  line break ends the scan with \<open>bufio.ErrTooLong\<close>; a final line needs no line break; one
  carriage return is dropped from the end of a line.
\<close>

definition scan_buffer :: nat where "scan_buffer = 4096"

definition drop_cr :: "string \<Rightarrow> string" where
  "drop_cr line = trim_suffix line [CHR 0x0D]"

text \<open>The server a line names: \<open>strings.SplitN(line, ":", 2)\<close> after the prefix test.\<close>

definition iana_server :: "string \<Rightarrow> string option" where
  "iana_server line =
     (if has_prefix (to_lower line) ''whois:'' then
        (case cut_at CHR '':'' line of
           None \<Rightarrow> None
         | Some (_, rest) \<Rightarrow> (let server = trim_space rest in if server \<noteq> [] then Some server else None))
      else None)"

fun iana_scan :: "string list \<Rightarrow> go_error option \<Rightarrow> go_error + string" where
  "iana_scan [] end =
     (case end of Some err \<Rightarrow> Inl (WHOISError ''read'' IANAWHOISServer err)
      | None \<Rightarrow> Inl (Sentinel Whois_ErrNoWHOISServer))"
| "iana_scan (l # ls) end =
     (if scan_buffer \<le> length l then
        Inl (WHOISError ''read'' IANAWHOISServer (Sentinel Bufio_ErrTooLong))
      else (case iana_server (drop_cr l) of Some server \<Rightarrow> Inr server | None \<Rightarrow> iana_scan ls end))"

definition parseIANAResponse :: "string \<times> go_error option \<Rightarrow> go_error + string" where
  "parseIANAResponse reader = iana_scan (split_on CHR 0x0A (fst reader)) (snd reader)"

definition queryIANA :: "network \<Rightarrow> int option \<Rightarrow> Discovery \<Rightarrow> string \<Rightarrow> go_error + string" where
  "queryIANA net ctx_remaining d tld =
     (let timeout = effective_timeout (d_timeout d) ctx_remaining;
          conn = net (IANAWHOISServer @ '':43'') timeout
      in case cn_dial conn of
           Some err \<Rightarrow>
             if error_is err Context_DeadlineExceeded then Inl (Sentinel Whois_ErrDiscoveryTimeout)
             else Inl (WHOISError ''dial'' IANAWHOISServer err)
         | None \<Rightarrow>
           (case cn_deadline conn of
              Some err \<Rightarrow> Inl (WHOISError ''set deadline'' IANAWHOISServer err)
            | None \<Rightarrow>
                (let query = tld @ [CHR 0x0D, CHR 0x0A] in
                 case cn_write conn query of
                   Some err \<Rightarrow> Inl (WHOISError ''write'' IANAWHOISServer err)
                 | None \<Rightarrow> parseIANAResponse (limit_reader MaxIANAResponseSize (cn_reply conn query)))))"

text \<open>
  \<open>DiscoverServer\<close>: the clock is read for the cache lookup (\<open>now\<close>) and for the store
  (\<open>later\<close>).
\<close>

definition DiscoverServer ::
  "network \<Rightarrow> int option \<Rightarrow> int \<Rightarrow> int \<Rightarrow> Discovery \<Rightarrow> string \<Rightarrow> (go_error + string) \<times> Discovery" where
  "DiscoverServer net ctx_remaining now later d tld0 =
     (let tld = normalizeTLD tld0 in
      if tld = [] then (Inl (Sentinel Whois_ErrInvalidTLD), d)
      else (let server = getCached d now tld in
        if server \<noteq> [] then (Inr server, d)
        else (case queryIANA net ctx_remaining d tld of
                Inl err \<Rightarrow> (Inl err, d)
              | Inr server \<Rightarrow> (Inr server, setCached d later tld server))))"

section \<open>The cache as a store with a lifetime\<close>

text \<open>
  What a client of such a store relies on: a storable value is found again until its lifetime has
  passed, and not after; other keys are not affected.
\<close>

locale ttl_store =
  fixes get :: "'s \<Rightarrow> int \<Rightarrow> 'k \<Rightarrow> 'v option"
    and put :: "'s \<Rightarrow> int \<Rightarrow> 'k \<Rightarrow> 'v \<Rightarrow> 's"
    and ttl :: "'s \<Rightarrow> int"
    and storable :: "'v \<Rightarrow> bool"
  assumes get_put_fresh: "storable v \<Longrightarrow> t' - t \<le> ttl s \<Longrightarrow> get (put s t k v) t' k = Some v"
    and get_put_expired: "ttl s < t' - t \<Longrightarrow> get (put s t k v) t' k = None"
    and get_put_other: "k \<noteq> k' \<Longrightarrow> get (put s t k v) t' k' = get s t' k'"
    and ttl_put: "ttl (put s t k v) = ttl s"
begin

text \<open>A history of stores, the earliest first, and the last store to a key in it.\<close>

definition puts :: "'s \<Rightarrow> (int \<times> 'k \<times> 'v) list \<Rightarrow> 's" where
  "puts = foldl (\<lambda>s (t, k, v). put s t k v)"

lemma ttl_puts: "ttl (puts s ops) = ttl s"
  unfolding puts_def by (rule foldl_frame) (auto simp: ttl_put)

lemma get_puts_other:
  "\<forall>(t, k', v) \<in> set ops. k' \<noteq> k \<Longrightarrow> get (puts s ops) now k = get s now k"
  unfolding puts_def by (induction ops arbitrary: s) (auto simp: get_put_other)

lemma get_last_put:
  assumes "storable v" "\<forall>(t, k', v) \<in> set rest. k' \<noteq> k"
  shows "get (puts s (ops @ (t, k, v) # rest)) now k = (if now - t \<le> ttl s then Some v else None)"
proof -
  let ?s = "puts s ops"
  have "puts s (ops @ (t, k, v) # rest) = puts (put ?s t k v) rest" by (simp add: puts_def)
  then have "get (puts s (ops @ (t, k, v) # rest)) now k = get (put ?s t k v) now k"
    using get_puts_other [OF assms(2)] by simp
  then show ?thesis
    using get_put_fresh [OF assms(1)] get_put_expired ttl_puts by (simp add: not_le)
qed

end

definition cache_lookup :: "Discovery \<Rightarrow> int \<Rightarrow> string \<Rightarrow> string option" where
  "cache_lookup d now tld = (let s = getCached d now tld in if s = [] then None else Some s)"

interpretation servers: ttl_store cache_lookup setCached d_cacheTTL "\<lambda>s. s \<noteq> []"
  by unfold_locales (auto simp: cache_lookup_def getCached_def setCached_def Let_def split: option.splits)

lemma cache_lookup_None: "cache_lookup d now tld = None \<longleftrightarrow> getCached d now tld = []"
  by (simp add: cache_lookup_def Let_def)

section \<open>Invariant and behaviour\<close>

text \<open>No cached server is empty, and the keys are normalised, valid names.\<close>

definition valid_tld :: "string \<Rightarrow> bool" where
  "valid_tld t = (t \<noteq> [] \<and> list_all isValidTLDChar (runes t))"

definition discovery_ok :: "Discovery \<Rightarrow> bool" where
  "discovery_ok d = (\<forall>t e. d_cache d t = Some e \<longrightarrow> se_Server e \<noteq> [] \<and> valid_tld t)"

lemma normalizeTLD_valid [intro]: "normalizeTLD t \<noteq> [] \<Longrightarrow> valid_tld (normalizeTLD t)"
  by (auto simp: normalizeTLD_def valid_tld_def Let_def)

lemma iana_server_nonempty: "iana_server l = Some s \<Longrightarrow> s \<noteq> []"
  by (auto simp: iana_server_def Let_def split: if_splits option.splits)

lemma iana_scan_nonempty: "iana_scan ls e = Inr s \<Longrightarrow> s \<noteq> []"
  by (induction ls e rule: iana_scan.induct)
     (auto simp: iana_server_nonempty split: option.splits if_splits)

lemma queryIANA_nonempty: "queryIANA net c d t = Inr s \<Longrightarrow> s \<noteq> []"
  by (auto simp: queryIANA_def parseIANAResponse_def Let_def iana_scan_nonempty
      split: option.splits if_splits)

lemma discovery_ok_New: "discovery_ok (NewDiscovery [])"
  by (simp add: discovery_ok_def NewDiscovery_def)

lemma discovery_ok_setCached [step_inv]:
  "discovery_ok d \<Longrightarrow> s \<noteq> [] \<Longrightarrow> valid_tld t \<Longrightarrow> discovery_ok (setCached d now t s)"
  by (simp add: discovery_ok_def setCached_def)

lemma discovery_ok_ClearCache [step_inv]: "discovery_ok (ClearCache d)"
  by (simp add: discovery_ok_def ClearCache_def)

lemma DiscoverServer_cases:
  obtains (invalid) "normalizeTLD t = []"
      "DiscoverServer net c now later d t = (Inl (Sentinel Whois_ErrInvalidTLD), d)"
  | (hit) s where "normalizeTLD t \<noteq> []" "cache_lookup d now (normalizeTLD t) = Some s"
      "DiscoverServer net c now later d t = (Inr s, d)"
  | (failed) e where "normalizeTLD t \<noteq> []" "cache_lookup d now (normalizeTLD t) = None"
      "queryIANA net c d (normalizeTLD t) = Inl e"
      "DiscoverServer net c now later d t = (Inl e, d)"
  | (found) s where "normalizeTLD t \<noteq> []" "cache_lookup d now (normalizeTLD t) = None"
      "queryIANA net c d (normalizeTLD t) = Inr s" "s \<noteq> []"
      "DiscoverServer net c now later d t = (Inr s, setCached d later (normalizeTLD t) s)"
proof (cases "normalizeTLD t = []")
  case True
  then show ?thesis using invalid by (simp add: DiscoverServer_def)
next
  case nonempty: False
  show ?thesis
  proof (cases "getCached d now (normalizeTLD t) = []")
    case False
    then show ?thesis using hit nonempty by (simp add: DiscoverServer_def cache_lookup_def)
  next
    case miss: True
    then have none: "cache_lookup d now (normalizeTLD t) = None"
      by (simp add: cache_lookup_None)
    show ?thesis
    proof (cases "queryIANA net c d (normalizeTLD t)")
      case (Inl e)
      then show ?thesis using failed [OF nonempty none Inl] nonempty miss
        by (simp add: DiscoverServer_def)
    next
      case (Inr s)
      then show ?thesis using found [OF nonempty none Inr queryIANA_nonempty [OF Inr]] nonempty miss
        by (simp add: DiscoverServer_def)
    qed
  qed
qed

lemma DiscoverServer_ok [step_inv]:
  "discovery_ok d \<Longrightarrow> discovery_ok (snd (DiscoverServer net c now later d t))"
  by (rule DiscoverServer_cases [where t = t and net = net and c = c and now = now and later = later and d = d]) (auto simp: discovery_ok_setCached normalizeTLD_valid)

lemma DiscoverServer_nonempty:
  "discovery_ok d \<Longrightarrow> fst (DiscoverServer net c now later d t) = Inr s \<Longrightarrow> s \<noteq> []"
  by (rule DiscoverServer_cases [where t = t and net = net and c = c and now = now and later = later and d = d])
     (auto simp: cache_lookup_def Let_def split: if_splits)

text \<open>A response is searched line by line: the first line that names a server decides.\<close>

lemma iana_scan_first:
  assumes "\<forall>l \<in> set before. length l < scan_buffer \<and> iana_server (drop_cr l) = None"
    and "length l < scan_buffer" "iana_server (drop_cr l) = Some s"
  shows "iana_scan (before @ l # after) e = Inr s"
  using assms by (induction before) auto

lemma iana_scan_none:
  assumes "\<forall>l \<in> set ls. length l < scan_buffer \<and> iana_server (drop_cr l) = None"
  shows "iana_scan ls e =
    (case e of Some err \<Rightarrow> Inl (WHOISError ''read'' IANAWHOISServer err)
     | None \<Rightarrow> Inl (Sentinel Whois_ErrNoWHOISServer))"
  using assms by (induction ls) auto

end
