(* ===== verification/GoDuration.thy ===== *)
theory GoDuration
  imports GoStrings
begin

text \<open>
  \<open>time.Duration\<close>: rounding, its text and \<open>time.ParseDuration\<close>.  A duration is an integer number of
  nanoseconds.  The one step in floating point is a parameter where its result is not exact.
\<close>

section \<open>Rounding\<close>

text \<open>\<open>Round\<close>: to the nearest multiple, halves away from zero, saturating.\<close>

definition duration_round :: "int \<Rightarrow> int \<Rightarrow> int" where
  "duration_round m d =
     (if m \<le> 0 then d
      else if d < 0 then (let r = (- d) mod m in if r + r < m then d + r else max (d - m + r) (- (2 ^ 63)))
      else (let r = d mod m in if r + r < m then d - r else min (d + m - r) (2 ^ 63 - 1)))"

section \<open>The text of a duration\<close>

text \<open>
  \<open>fmtFrac\<close>: the last \<open>prec\<close> digits of a number as a fraction without trailing zeros, in front of \<open>acc\<close>, and the
  number without them.
\<close>

fun fmt_frac :: "nat \<Rightarrow> nat \<Rightarrow> bool \<Rightarrow> string \<Rightarrow> string \<times> nat" where
  "fmt_frac 0 v print acc = (if print then CHR ''.'' # acc else acc, v)"
| "fmt_frac (Suc prec) v print acc =
     (let print1 = (print \<or> v mod 10 \<noteq> 0) in
      fmt_frac prec (v div 10) print1 (if print1 then digit_char (v mod 10) # acc else acc))"

definition micro_sign :: string where "micro_sign = [CHR 0xC2, CHR 0xB5]"

text \<open>A part of the text: a number, a fraction of \<open>prec\<close> digits and a unit.\<close>

definition duration_part :: "nat \<Rightarrow> nat \<Rightarrow> string \<Rightarrow> string" where
  "duration_part prec u unit = (case fmt_frac prec u False [] of (frac, n) \<Rightarrow> show_nat n @ frac @ unit)"

definition show_seconds :: "nat \<Rightarrow> string" where
  "show_seconds u =
     (let s = u div 10 ^ 9; m = s div 60; h = m div 60;
          secs = duration_part 9 (s mod 60 * 10 ^ 9 + u mod 10 ^ 9) ''s'' in
      if m = 0 then secs
      else if h = 0 then show_nat (m mod 60) @ ''m'' @ secs
      else show_nat h @ ''h'' @ show_nat (m mod 60) @ ''m'' @ secs)"

definition show_duration :: "nat \<Rightarrow> string" where
  "show_duration u =
     (if u = 0 then ''0s''
      else if u < 10 ^ 3 then show_nat u @ ''ns''
      else if u < 10 ^ 6 then duration_part 3 u (micro_sign @ ''s'')
      else if u < 10 ^ 9 then duration_part 6 u ''ms''
      else show_seconds u)"

definition Duration_String :: "int \<Rightarrow> string" where
  "Duration_String d = (if d < 0 then CHR ''-'' # show_duration (nat (- d)) else show_duration (nat d))"

section \<open>Parsing\<close>

definition duration_units :: "(string \<times> nat) list" where
  "duration_units =
     [(''ns'', 1), (''us'', 10 ^ 3), (micro_sign @ ''s'', 10 ^ 3), ([CHR 0xCE, CHR 0xBC] @ ''s'', 10 ^ 3),
      (''ms'', 10 ^ 6), (''s'', 10 ^ 9), (''m'', 60 * 10 ^ 9), (''h'', 3600 * 10 ^ 9)]"

fun leading_int :: "nat \<Rightarrow> string \<Rightarrow> (nat \<times> string) option" where
  "leading_int x [] = Some (x, [])"
| "leading_int x (c # s) =
     (if \<not> is_digit c then Some (x, c # s)
      else if x > 2 ^ 63 div 10 then None
      else (let y = x * 10 + digit_val c in if y > 2 ^ 63 then None else leading_int y s))"

text \<open>Digits of a fraction that no longer fit are dropped.\<close>

fun leading_fraction :: "nat \<Rightarrow> nat \<Rightarrow> bool \<Rightarrow> string \<Rightarrow> nat \<times> nat \<times> string" where
  "leading_fraction x scale overflow [] = (x, scale, [])"
| "leading_fraction x scale overflow (c # s) =
     (if \<not> is_digit c then (x, scale, c # s)
      else if overflow \<or> x > (2 ^ 63 - 1) div 10 then leading_fraction x scale True s
      else (let y = x * 10 + digit_val c in
            if y > 2 ^ 63 then leading_fraction x scale True s else leading_fraction y (scale * 10) False s))"

text \<open>
  \<open>uint64 (float64 (f) * (float64 (unit) / scale))\<close>.  Integers below \<open>2 ^ 53\<close> are exact in a \<open>float64\<close>; what the
  hardware returns otherwise is the parameter.
\<close>

type_synonym float_fraction = "nat \<Rightarrow> nat \<Rightarrow> nat \<Rightarrow> nat"

definition fraction_ns :: "float_fraction \<Rightarrow> nat \<Rightarrow> nat \<Rightarrow> nat \<Rightarrow> nat" where
  "fraction_ns fl f unit scale =
     (if scale dvd unit \<and> f < 2 ^ 53 \<and> f * (unit div scale) < 2 ^ 53 then f * (unit div scale) else fl f unit scale)"

definition unit_char :: "char \<Rightarrow> bool" where
  "unit_char c \<longleftrightarrow> c \<noteq> CHR ''.'' \<and> \<not> is_digit c"

definition split_fraction :: "string \<Rightarrow> (nat \<times> nat \<times> string) \<times> bool" where
  "split_fraction s =
     (case s of
        c # s1 \<Rightarrow>
          if c = CHR ''.'' then
            (case leading_fraction 0 1 False s1 of (f, scale, r) \<Rightarrow> ((f, scale, r), length r \<noteq> length s1))
          else ((0, 1, s), False)
      | [] \<Rightarrow> ((0, 1, []), False))"

text \<open>One number with its unit, and what follows.\<close>

definition duration_item :: "float_fraction \<Rightarrow> string \<Rightarrow> (nat \<times> string) option" where
  "duration_item fl s =
     (case leading_int 0 s of
        None \<Rightarrow> None
      | Some (v, s1) \<Rightarrow>
          (case split_fraction s1 of ((f, scale, s2), post) \<Rightarrow>
             if length s1 = length s \<and> \<not> post then None
             else (case map_of duration_units (takeWhile unit_char s2) of
                     None \<Rightarrow> None
                   | Some unit \<Rightarrow>
                       if v > 2 ^ 63 div unit then None
                       else (let n = v * unit + (if f > 0 then fraction_ns fl f unit scale else 0) in
                             if f > 0 \<and> n > 2 ^ 63 then None else Some (n, dropWhile unit_char s2)))))"

lemma length_leading_int: "leading_int x s = Some (v, r) \<Longrightarrow> length r \<le> length s"
  by (induction x s rule: leading_int.induct) (auto simp: Let_def split: if_splits)

lemma length_leading_fraction: "leading_fraction x scale ov s = (f, sc, r) \<Longrightarrow> length r \<le> length s"
  by (induction x scale ov s rule: leading_fraction.induct) (auto simp: Let_def split: if_splits)

lemma length_split_fraction: "split_fraction s = ((f, sc, r), post) \<Longrightarrow> length r \<le> length s"
  by (auto simp: split_fraction_def dest!: length_leading_fraction split: list.splits if_splits prod.splits)

lemma unit_nonempty: "map_of duration_units u = Some n \<Longrightarrow> u \<noteq> [] \<and> n > 0"
  by (auto simp: duration_units_def micro_sign_def split: if_splits)

lemma dropWhile_shorter: "takeWhile P s \<noteq> [] \<Longrightarrow> length (dropWhile P s) < length s"
  by (cases s) (auto simp: length_dropWhile_le less_Suc_eq_le split: if_splits)

lemma length_duration_item: "duration_item fl s = Some (n, r) \<Longrightarrow> length r < length s"
  by (auto simp: duration_item_def Let_def split: option.splits prod.splits if_splits
      dest!: length_leading_int length_split_fraction unit_nonempty dest: dropWhile_shorter [of unit_char] less_le_trans)

text \<open>The sum, in 64 bits without a sign.\<close>

function duration_items :: "float_fraction \<Rightarrow> nat \<Rightarrow> string \<Rightarrow> nat option" where
  "duration_items fl d s =
     (if s = [] then Some d
      else (case duration_item fl s of
              None \<Rightarrow> None
            | Some (n, r) \<Rightarrow> (let d1 = (d + n) mod 2 ^ 64 in if d1 > 2 ^ 63 then None else duration_items fl d1 r)))"
  by pat_completeness auto

termination
  by (relation "measure (\<lambda>(fl, d, s). length s)") (auto dest: length_duration_item)

declare duration_items.simps [simp del]

definition ParseDuration :: "float_fraction \<Rightarrow> string \<Rightarrow> int option" where
  "ParseDuration fl s =
     (let (neg, r) =
        (case s of c # cs \<Rightarrow> if c = CHR ''-'' \<or> c = CHR ''+'' then (c = CHR ''-'', cs) else (False, s) | [] \<Rightarrow> (False, []))
      in if r = ''0'' then Some 0
         else if r = [] then None
         else (case duration_items fl 0 r of
                 None \<Rightarrow> None
               | Some d \<Rightarrow> if neg then Some (- int d) else if d > 2 ^ 63 - 1 then None else Some (int d)))"

section \<open>Every text is read back\<close>

text \<open>\<open>k\<close> digits of a number, the last ones, with leading zeros.\<close>

fun fixed_digits :: "nat \<Rightarrow> nat \<Rightarrow> string" where
  "fixed_digits 0 f = []"
| "fixed_digits (Suc k) f = fixed_digits k (f div 10) @ [digit_char (f mod 10)]"

lemma mod_pow10: "v mod 10 ^ Suc p = 10 * (v div 10 mod 10 ^ p) + v mod (10 :: nat)"
  using mod_mult2_eq [of v 10 "10 ^ p"] by simp

lemma div_pow10: "v div 10 ^ Suc p = v div 10 div (10 :: nat) ^ p"
  by (simp add: div_mult2_eq)

lemma fixed_digits_mod: "fixed_digits k (f mod 10 ^ k) = fixed_digits k f"
proof (induction k arbitrary: f)
  case (Suc k)
  have "f mod 10 ^ Suc k div 10 = f div 10 mod 10 ^ k" "f mod 10 ^ Suc k mod 10 = f mod 10"
    by (simp_all only: mod_pow10) simp_all
  then show ?case using Suc.IH [of "f div 10"] by (simp del: power_Suc)
qed simp

lemma fmt_frac_digits: "fmt_frac p v True acc = (CHR ''.'' # fixed_digits p v @ acc, v div 10 ^ p)"
  by (induction p arbitrary: v acc) (simp_all add: div_pow10 del: power_Suc)

text \<open>The digits that \<open>fmt_frac\<close> writes: \<open>k\<close> of them, for the same fraction.\<close>

lemma fmt_frac_cases:
  "\<exists>k f. k \<le> p \<and> f < 10 ^ k \<and> f * 10 ^ (p - k) = v mod 10 ^ p \<and> (k = 0 \<longleftrightarrow> v mod 10 ^ p = 0) \<and>
     fmt_frac p v False [] = (if k = 0 then [] else CHR ''.'' # fixed_digits k f, v div 10 ^ p)"
proof (induction p arbitrary: v)
  case (Suc p)
  show ?case
  proof (cases "v mod 10 = 0")
    case True
    obtain k f where kf: "k \<le> p" "f < 10 ^ k" "f * 10 ^ (p - k) = v div 10 mod 10 ^ p"
      "k = 0 \<longleftrightarrow> v div 10 mod 10 ^ p = 0"
      "fmt_frac p (v div 10) False [] = (if k = 0 then [] else CHR ''.'' # fixed_digits k f, v div 10 div 10 ^ p)"
      using Suc.IH [of "v div 10"] by (elim exE conjE) (rule that)
    moreover have "f * 10 ^ (Suc p - k) = v mod 10 ^ Suc p"
    proof -
      have "(10 :: nat) ^ (Suc p - k) = 10 * 10 ^ (p - k)" using kf(1) by (simp add: Suc_diff_le)
      then show ?thesis unfolding mod_pow10 kf(3) [symmetric] True by simp
    qed
    moreover have "k = 0 \<longleftrightarrow> v mod 10 ^ Suc p = 0"
      unfolding mod_pow10 using kf(4) True by simp
    moreover have "fmt_frac (Suc p) v False [] =
        (if k = 0 then [] else CHR ''.'' # fixed_digits k f, v div 10 ^ Suc p)"
      using True kf(5) by (simp add: div_pow10 del: power_Suc)
    ultimately show ?thesis
      using kf(2) le_SucI [OF kf(1)] by (intro exI [of _ k] exI [of _ f] conjI)
  next
    case False
    have "v mod 10 ^ Suc p \<noteq> 0" unfolding mod_pow10 using False by simp
    moreover have "fmt_frac (Suc p) v False [] = (CHR ''.'' # fixed_digits (Suc p) (v mod 10 ^ Suc p), v div 10 ^ Suc p)"
      unfolding fixed_digits_mod using False by (simp add: fmt_frac_digits div_pow10 del: power_Suc)
    ultimately show ?thesis
      by (intro exI [of _ "Suc p"] exI [of _ "v mod 10 ^ Suc p"]) (simp del: power_Suc fmt_frac.simps fixed_digits.simps)
  qed
qed simp

text \<open>Reading numbers and fractions back.\<close>

definition stops :: "string \<Rightarrow> bool" where
  "stops r \<longleftrightarrow> (case r of [] \<Rightarrow> True | c # _ \<Rightarrow> \<not> is_digit c)"

lemma leading_int_stop: "stops r \<Longrightarrow> leading_int x r = Some (x, r)"
  by (cases r) (auto simp: stops_def)

lemma dec_value_ge: "x \<le> dec_value x ds"
proof (induction ds arbitrary: x)
  case (Cons c ds)
  show ?case using order_trans [OF _ Cons.IH [of "10 * x + digit_val c"], of x] by simp
qed simp

lemma leading_int_digits:
  "\<lbrakk>\<forall>c \<in> set ds. is_digit c; dec_value x ds \<le> 2 ^ 63; stops r\<rbrakk> \<Longrightarrow> leading_int x (ds @ r) = Some (dec_value x ds, r)"
proof (induction ds arbitrary: x)
  case (Cons c ds)
  have "x * 10 + digit_val c \<le> 2 ^ 63"
    using Cons.prems(2) dec_value_ge [of "x * 10 + digit_val c" ds] by (simp add: mult.commute)
  then show ?case using Cons by (auto simp: mult.commute Let_def)
qed (simp add: leading_int_stop)

lemma leading_int_show: "\<lbrakk>n \<le> 2 ^ 63; stops r\<rbrakk> \<Longrightarrow> leading_int 0 (show_nat n @ r) = Some (n, r)"
  using leading_int_digits [of "show_nat n" 0 r] all_digits_show_nat [of n]
  by (auto simp: all_digits_def dec_value_show_nat list_all_iff)

lemma ten_times_less: "\<lbrakk>y < b; b * 10 \<le> c\<rbrakk> \<Longrightarrow> y * 10 + 9 < (c :: nat)"
  by linarith

lemma leading_fraction_digit:
  "\<lbrakk>is_digit c; x * 10 + digit_val c < 10 ^ 18\<rbrakk> \<Longrightarrow>
   leading_fraction x scale False (c # s) = leading_fraction (x * 10 + digit_val c) (scale * 10) False s"
  by (simp add: Let_def)

lemma leading_fraction_digits:
  "(x + 1) * 10 ^ k \<le> 10 ^ 18 \<Longrightarrow>
   leading_fraction x scale False (fixed_digits k f @ r) =
   leading_fraction (x * 10 ^ k + f mod 10 ^ k) (scale * 10 ^ k) False r"
proof (induction k arbitrary: f r)
  case (Suc k)
  let ?y = "x * 10 ^ k + f div 10 mod 10 ^ k"
  let ?b = "(x + 1) * 10 ^ k"
  have "f div 10 mod 10 ^ k < 10 ^ k" by simp
  then have small: "?y < ?b" by simp
  have bound: "?b * 10 \<le> 10 ^ 18" using Suc.prems by simp
  have y: "?y * 10 + 9 < 10 ^ 18" by (rule ten_times_less [OF small bound])
  have "leading_fraction x scale False (fixed_digits (Suc k) f @ r) =
      leading_fraction ?y (scale * 10 ^ k) False (digit_char (f mod 10) # r)"
    using Suc.IH [of "f div 10"] bound by simp
  also have "\<dots> = leading_fraction (?y * 10 + f mod 10) (scale * 10 ^ Suc k) False r"
  proof -
    have d: "is_digit (digit_char (f mod 10))" "digit_val (digit_char (f mod 10)) = f mod 10"
      by (simp_all add: digit_char_props)
    have "f mod 10 \<le> 9" by (simp add: less_Suc_eq_le [symmetric])
    then have "?y * 10 + digit_val (digit_char (f mod 10)) < 10 ^ 18" using y d(2) by linarith
    from leading_fraction_digit [OF d(1) this] show ?thesis
      by (simp only: d(2) power_Suc mult.assoc mult.commute [of "10 ^ k" 10])
  qed
  also have "?y * 10 + f mod 10 = x * 10 ^ Suc k + f mod 10 ^ Suc k"
    unfolding mod_pow10 by simp
  finally show ?case .
qed simp

text \<open>A unit, followed by the next number or nothing.\<close>

definition is_unit :: "string \<Rightarrow> nat \<Rightarrow> bool" where
  "is_unit u n \<longleftrightarrow> map_of duration_units u = Some n \<and> (\<forall>c \<in> set u. unit_char c)"

definition number_or_end :: "string \<Rightarrow> bool" where
  "number_or_end r \<longleftrightarrow> (case r of [] \<Rightarrow> True | c # _ \<Rightarrow> is_digit c)"

lemma is_unit_split:
  assumes "is_unit u n" "number_or_end r"
  shows "takeWhile unit_char (u @ r) = u" "dropWhile unit_char (u @ r) = r" "stops (u @ r)" "n > 0"
proof -
  have "takeWhile unit_char r = [] \<and> dropWhile unit_char r = r"
    using assms(2) by (cases r) (auto simp: number_or_end_def unit_char_def)
  then show "takeWhile unit_char (u @ r) = u" "dropWhile unit_char (u @ r) = r"
    using assms(1) by (auto simp: is_unit_def)
  show "stops (u @ r)" "n > 0"
    using assms(1) unit_nonempty [of u n] by (cases u; auto simp: is_unit_def stops_def unit_char_def)+
qed

lemma show_nat_nonempty [simp]: "show_nat n \<noteq> []"
  using all_digits_show_nat [of n] by (auto simp: all_digits_def)

lemma split_fraction_none: "stops s \<Longrightarrow> s = [] \<or> hd s \<noteq> CHR ''.'' \<Longrightarrow> split_fraction s = ((0, 1, s), False)"
  by (cases s) (auto simp: split_fraction_def)

lemma duration_item_int:
  assumes u: "is_unit u unit" and r: "number_or_end r" and n: "n * unit \<le> 2 ^ 63"
  shows "duration_item fl (show_nat n @ u @ r) = Some (n * unit, r)"
proof -
  note split = is_unit_split [OF u r]
  have "n \<le> n * unit" using split(4) by simp
  then have "leading_int 0 (show_nat n @ u @ r) = Some (n, u @ r)"
    using n by (intro leading_int_show split(3)) (rule order_trans)
  moreover have "split_fraction (u @ r) = ((0, 1, u @ r), False)"
    using split(3) u unit_nonempty [of u unit]
    by (intro split_fraction_none) (cases u; auto simp: is_unit_def unit_char_def)+
  moreover have "n \<le> 2 ^ 63 div unit" using div_le_mono [OF n, of unit] split(4) by simp
  ultimately show ?thesis
    using split u by (simp add: duration_item_def is_unit_def not_less)
qed

lemma duration_item_part:
  assumes u: "is_unit u (10 ^ p)" and r: "number_or_end r" and p: "p \<le> 9" and n: "n \<le> 2 ^ 63"
  shows "duration_item fl (duration_part p n u @ r) = Some (n, r)"
proof -
  note split = is_unit_split [OF u r]
  obtain k f where kf: "k \<le> p" "f < 10 ^ k" "f * 10 ^ (p - k) = n mod 10 ^ p" "k = 0 \<longleftrightarrow> n mod 10 ^ p = 0"
    "fmt_frac p n False [] = (if k = 0 then [] else CHR ''.'' # fixed_digits k f, n div 10 ^ p)"
    using fmt_frac_cases [of p n] by (elim exE conjE) (rule that)
  have sum: "n div 10 ^ p * 10 ^ p + n mod 10 ^ p = n" by (rule div_mult_mod_eq)
  show ?thesis
  proof (cases "k = 0")
    case True
    have "n div 10 ^ p * 10 ^ p = n" using sum kf(4) True by simp
    then show ?thesis
      using duration_item_int [OF u r, of "n div 10 ^ p" fl] n kf(5) True by (simp add: duration_part_def)
  next
    case False
    let ?t = "fixed_digits k f @ u @ r"
    have "(10 :: nat) ^ k \<le> 10 ^ 9" using kf(1) p by (intro power_increasing) auto
    then have k18: "(0 + 1) * 10 ^ k \<le> (10 :: nat) ^ 18" by simp
    have "leading_fraction 0 1 False ?t = leading_fraction f (10 ^ k) False (u @ r)"
      using leading_fraction_digits [OF k18, of 1 f "u @ r"] kf(2) by simp
    also have "\<dots> = (f, 10 ^ k, u @ r)"
      using split(3) by (cases "u @ r") (auto simp: stops_def)
    finally obtain post where fr: "split_fraction (CHR ''.'' # ?t) = ((f, 10 ^ k, u @ r), post)"
      by (simp add: split_fraction_def)
    have li: "leading_int 0 (show_nat (n div 10 ^ p) @ CHR ''.'' # ?t) = Some (n div 10 ^ p, CHR ''.'' # ?t)"
      by (rule leading_int_show [OF order_trans [OF div_le_dividend n]]) (simp add: stops_def)
    have "f * 10 ^ (p - k) < 2 ^ 53"
    proof -
      have "n mod 10 ^ p < 10 ^ p" by simp
      also have "(10 :: nat) ^ p \<le> 10 ^ 9" using p by (intro power_increasing) auto
      also have "(10 :: nat) ^ 9 < 2 ^ 53" by simp
      finally show ?thesis unfolding kf(3) .
    qed
    moreover have "f < 2 ^ 53"
      using kf(2) \<open>(10 :: nat) ^ k \<le> 10 ^ 9\<close> by simp
    moreover have "(10 :: nat) ^ p div 10 ^ k = 10 ^ (p - k)" "(10 :: nat) ^ k dvd 10 ^ p"
      using kf(1) by (simp_all add: power_diff le_imp_power_dvd)
    ultimately have ns: "fraction_ns fl f (10 ^ p) (10 ^ k) = n mod 10 ^ p"
      using kf(3) by (simp add: fraction_ns_def)
    have "f > 0" using kf(3,4) False by (cases f) auto
    then show ?thesis
      using li fr ns kf(5) False split u n sum div_le_mono [OF n, of "10 ^ p"]
      by (simp add: duration_part_def duration_item_def is_unit_def not_less)
  qed
qed

lemma number_show [simp]: "number_or_end (show_nat n @ r)"
  using all_digits_show_nat [of n] by (cases "show_nat n") (auto simp: all_digits_def number_or_end_def)

lemma number_part [simp]: "number_or_end (duration_part p n u @ r)"
  by (simp add: duration_part_def split: prod.split)

lemma number_Nil [simp]: "number_or_end []"
  by (simp add: number_or_end_def)

lemma duration_items_step:
  assumes "duration_item fl s = Some (n, r)" "d + n \<le> 2 ^ 63"
  shows "duration_items fl d s = duration_items fl (d + n) r"
proof -
  have "s \<noteq> []" using length_duration_item [OF assms(1)] by auto
  then show ?thesis using assms by (simp add: duration_items.simps [of fl d s] Let_def)
qed

lemma duration_items_Nil [simp]: "duration_items fl d [] = Some d"
  by (simp add: duration_items.simps)

lemma units:
  "is_unit ''ns'' 1" "is_unit (micro_sign @ ''s'') (10 ^ 3)" "is_unit ''ms'' (10 ^ 6)" "is_unit ''s'' (10 ^ 9)"
  "is_unit ''m'' (60 * 10 ^ 9)" "is_unit ''h'' (3600 * 10 ^ 9)"
  by (simp_all add: is_unit_def duration_units_def micro_sign_def unit_char_def)

lemma duration_items_part:
  "\<lbrakk>is_unit u (10 ^ p); p \<le> 9; d + n \<le> 2 ^ 63\<rbrakk> \<Longrightarrow> duration_items fl d (duration_part p n u) = Some (d + n)"
  using duration_items_step [OF duration_item_part [of u p "[]" n fl], of d] by simp

lemma duration_items_int:
  "\<lbrakk>is_unit u k; number_or_end r; d + n * k \<le> 2 ^ 63\<rbrakk> \<Longrightarrow>
   duration_items fl d (show_nat n @ u @ r) = duration_items fl (d + n * k) r"
  using duration_items_step [OF duration_item_int [of u k r n fl], of d] by simp

lemma clock_parts:
  "\<lbrakk>s * B + r = u; m * 60 + ss = s; h * 60 + mm = m\<rbrakk> \<Longrightarrow> h * (3600 * B) + mm * (60 * B) + (ss * B + r) = (u :: nat)"
  by (auto simp: algebra_simps)

lemma number_part' [simp]: "number_or_end (duration_part p n u)"
  using number_part [of p n u "[]"] by simp

lemma duration_items_minutes:
  assumes "d + mi * (60 * 10 ^ 9) + w \<le> 2 ^ 63"
  shows "duration_items fl d (show_nat mi @ ''m'' @ duration_part 9 w ''s'') = Some (d + mi * (60 * 10 ^ 9) + w)"
proof -
  have "d + mi * (60 * 10 ^ 9) \<le> 2 ^ 63" using assms by linarith
  from duration_items_int [OF units(5) number_part' this] duration_items_part [OF units(4) _ assms]
  show ?thesis by simp
qed

lemma duration_items_hours:
  assumes "h * (3600 * 10 ^ 9) + mi * (60 * 10 ^ 9) + w \<le> 2 ^ 63"
  shows "duration_items fl 0 (show_nat h @ ''h'' @ show_nat mi @ ''m'' @ duration_part 9 w ''s'') =
    Some (h * (3600 * 10 ^ 9) + mi * (60 * 10 ^ 9) + w)"
proof -
  have "0 + h * (3600 * 10 ^ 9) \<le> 2 ^ 63" using assms by linarith
  from duration_items_int [OF units(6) number_show this] duration_items_minutes [OF assms]
  show ?thesis by simp
qed

lemma duration_items_seconds:
  assumes "u \<le> 2 ^ 63"
  shows "duration_items fl 0 (show_seconds u) = Some u"
proof -
  define s m h where "s = u div 10 ^ 9" and "m = s div 60" and "h = m div 60"
  define w where "w = s mod 60 * 10 ^ 9 + u mod 10 ^ 9"
  have sum: "h * (3600 * 10 ^ 9) + m mod 60 * (60 * 10 ^ 9) + w = u"
    unfolding w_def by (rule clock_parts [where s = s and m = m]) (simp_all only: s_def m_def h_def div_mult_mod_eq)
  have "duration_items fl 0 (show_nat h @ ''h'' @ show_nat (m mod 60) @ ''m'' @ duration_part 9 w ''s'') = Some u"
    using duration_items_hours [of h "m mod 60" w fl] sum assms by simp
  moreover have "duration_items fl 0 (show_nat (m mod 60) @ ''m'' @ duration_part 9 w ''s'') = Some u" if "h = 0"
    using duration_items_minutes [of 0 "m mod 60" w fl] sum assms that by simp
  moreover have "duration_items fl 0 (duration_part 9 w ''s'') = Some u" if "m = 0"
    using duration_items_part [OF units(4), of 0 w fl] sum assms that by (simp add: h_def)
  ultimately show ?thesis
    unfolding show_seconds_def Let_def s_def [symmetric] m_def [symmetric] h_def [symmetric] w_def [symmetric] by simp
qed

lemma duration_items_show:
  assumes "0 < u" "u \<le> 2 ^ 63"
  shows "duration_items fl 0 (show_duration u) = Some u"
proof -
  have "duration_items fl 0 (show_nat u @ ''ns'' @ []) = Some u"
    using duration_items_int [OF units(1) number_Nil, of 0 u fl] assms by simp
  moreover have "duration_items fl 0 (duration_part 3 u (micro_sign @ ''s'')) = Some u"
    "duration_items fl 0 (duration_part 6 u ''ms'') = Some u"
    using duration_items_part [OF units(2), of 0 u fl] duration_items_part [OF units(3), of 0 u fl] assms by simp_all
  ultimately show ?thesis
    using duration_items_seconds [OF assms(2)] assms(1) by (simp add: show_duration_def)
qed

lemma show_duration_digit: "\<exists>c s. show_duration u = c # s \<and> is_digit c \<and> s \<noteq> []"
proof -
  have show_first: "\<exists>c s. show_nat n @ t = c # s \<and> is_digit c \<and> s \<noteq> []" if "t \<noteq> []" for n t
    using all_digits_show_nat [of n] that by (cases "show_nat n") (auto simp: all_digits_def)
  have part: "\<exists>c s. duration_part p n t = c # s \<and> is_digit c \<and> s \<noteq> []" if "t \<noteq> []" for p n t
    unfolding duration_part_def using that by (auto intro!: show_first split: prod.split)
  show ?thesis
    unfolding show_duration_def show_seconds_def Let_def
    using show_first part by (simp add: micro_sign_def)
qed

text \<open>The text of every duration is parsed to that duration, whatever the floating point unit does.\<close>

lemma ParseDuration_String:
  assumes "- (2 ^ 63) \<le> d" "d < 2 ^ 63"
  shows "ParseDuration fl (Duration_String d) = Some d"
proof (cases "d = 0")
  case False
  let ?u = "nat \<bar>d\<bar>"
  obtain c s where t: "show_duration ?u = c # s" "is_digit c" "s \<noteq> []" using show_duration_digit by blast
  then have c: "c \<noteq> CHR ''-'' \<and> c \<noteq> CHR ''+''" by auto
  have "duration_items fl 0 (c # s) = Some ?u"
    using duration_items_show [of ?u fl] t(1) False assms by simp
  then show ?thesis
    using assms False c t by (cases "d < 0") (auto simp: ParseDuration_def Duration_String_def Let_def)
next
  case True
  have "show_nat 0 = ''0''" by code_simp
  then have "duration_items fl 0 ''0s'' = Some 0"
    using duration_items_int [OF units(4) number_Nil, of 0 0 fl] by simp
  then show ?thesis using True by (simp add: ParseDuration_def Duration_String_def show_duration_def)
qed

end
