(* ===== verification/Config.thy ===== *)
theory Config
  imports GoErrors GoDuration
begin

text \<open>
  \<open>internal/config/config.go\<close>: the configuration and its loading from the environment.
  \<open>strconv.ParseFloat\<close> is a parameter, as the inexact products of \<open>time.ParseDuration\<close> are;
  durations are integers (nanoseconds) and sizes wrap at 64 bits.
\<close>

section \<open>The configuration\<close>

record WHOISConfig =
  wh_Enabled :: bool
  wh_Timeout :: int
  wh_MaxResponseSize :: int

record ServerConfig =
  sv_ListenAddr :: string
  sv_ReadTimeout :: int
  sv_WriteTimeout :: int
  sv_ShutdownTimeout :: int
  sv_TrustProxy :: bool
  sv_BodyLimit :: string

record RAMCacheConfig =
  ram_Enabled :: bool
  ram_MaxSize :: int

record RedisConfig =
  rd_Enabled :: bool
  rd_Addr :: string
  rd_Password :: string
  rd_DB :: int

record CacheConfig =
  ca_TTL :: int
  ca_NegativeTTL :: int
  ca_RAM :: RAMCacheConfig
  ca_Redis :: RedisConfig

record 'f RateLimitConfig =
  rl_Enabled :: bool
  rl_RPS :: 'f
  rl_Burst :: int

record BatchConfig =
  ba_Concurrency :: int
  ba_Timeout :: int

record 'f Config =
  cg_Server :: ServerConfig
  cg_Cache :: CacheConfig
  cg_RDAPTimeout :: int
  cg_MaxRetries :: int
  cg_RefreshInterval :: int
  cg_LogLevel :: string
  cg_LogFormat :: string
  cg_RateLimit :: "'f RateLimitConfig"
  cg_Batch :: BatchConfig
  cg_WHOIS :: WHOISConfig

section \<open>The environment\<close>

text \<open>\<open>ev_get\<close> is \<open>os.Getenv\<close>: an unset variable is empty.\<close>

record 'f environment =
  ev_get :: "string \<Rightarrow> string"
  ev_float :: float_fraction
  ev_ParseFloat :: "string \<Rightarrow> 'f option"

definition ParseBool :: "string \<Rightarrow> bool option" where
  "ParseBool s =
     (if s \<in> {''1'', ''t'', ''T'', ''true'', ''TRUE'', ''True''} then Some True
      else if s \<in> {''0'', ''f'', ''F'', ''false'', ''FALSE'', ''False''} then Some False
      else None)"

definition getEnv :: "'f environment \<Rightarrow> string \<Rightarrow> string \<Rightarrow> string" where
  "getEnv env key defaultValue =
     (let v = ev_get env key in if v \<noteq> [] then v else defaultValue)"

text \<open>The readers of typed values differ in the parser only: an empty or malformed value is ignored.\<close>

definition env_or :: "(string \<Rightarrow> 'v option) \<Rightarrow> 'f environment \<Rightarrow> string \<Rightarrow> 'v \<Rightarrow> 'v" where
  "env_or parse env key defaultValue =
     (let v = ev_get env key in
      if v = [] then defaultValue
      else (case parse v of None \<Rightarrow> defaultValue | Some x \<Rightarrow> x))"

definition getBoolEnv :: "'f environment \<Rightarrow> string \<Rightarrow> bool \<Rightarrow> bool" where
  "getBoolEnv = env_or ParseBool"

definition getIntEnv :: "'f environment \<Rightarrow> string \<Rightarrow> int \<Rightarrow> int" where
  "getIntEnv = env_or (parse_int 64)"

definition getFloatEnv :: "'f environment \<Rightarrow> string \<Rightarrow> 'f \<Rightarrow> 'f" where
  "getFloatEnv env = env_or (ev_ParseFloat env) env"

definition getDurationEnv :: "'f environment \<Rightarrow> string \<Rightarrow> int \<Rightarrow> int" where
  "getDurationEnv env = env_or (ParseDuration (ev_float env)) env"

text \<open>Arithmetic of \<open>int64\<close>.\<close>

definition int64 :: "int \<Rightarrow> int" where
  "int64 n = (n + 2 ^ 63) mod 2 ^ 64 - 2 ^ 63"

lemma int64_id: "- (2 ^ 63) \<le> n \<Longrightarrow> n < 2 ^ 63 \<Longrightarrow> int64 n = n"
  by (simp add: int64_def)

definition size_suffix :: "string \<Rightarrow> (string \<times> int) option" where
  "size_suffix v =
     (if has_suffix v ''GB'' \<or> has_suffix v ''gb'' then Some (take (length v - 2) v, 1024 * 1024 * 1024)
      else if has_suffix v ''MB'' \<or> has_suffix v ''mb'' then Some (take (length v - 2) v, 1024 * 1024)
      else if has_suffix v ''KB'' \<or> has_suffix v ''kb'' then Some (take (length v - 2) v, 1024)
      else if has_suffix v ''B'' \<or> has_suffix v ''b'' then Some (take (length v - 1) v, 1)
      else None)"

definition parse_size :: "string \<Rightarrow> int option" where
  "parse_size v =
     (case parse_int 64 v of
        Some sz \<Rightarrow> Some sz
      | None \<Rightarrow>
          (case size_suffix v of
             None \<Rightarrow> None
           | Some (numStr, multiplier) \<Rightarrow>
               map_option (\<lambda>sz. int64 (sz * multiplier)) (parse_int 64 numStr)))"

definition getSizeEnv :: "'f environment \<Rightarrow> string \<Rightarrow> int \<Rightarrow> int" where
  "getSizeEnv = env_or parse_size"

section \<open>Loading\<close>

definition seconds :: "int \<Rightarrow> int" where "seconds n = n * 10 ^ 9"

definition hours :: "int \<Rightarrow> int" where "hours n = seconds (3600 * n)"

text \<open>\<open>rps\<close> is the number 1000 as a \<open>float64\<close>.\<close>

definition read_config :: "'f \<Rightarrow> 'f environment \<Rightarrow> 'f Config" where
  "read_config rps env =
     \<lparr>cg_Server =
        \<lparr>sv_ListenAddr = getEnv env ''RDAP_LISTEN_ADDR'' '':8080'',
         sv_ReadTimeout = getDurationEnv env ''RDAP_READ_TIMEOUT'' (seconds 30),
         sv_WriteTimeout = getDurationEnv env ''RDAP_WRITE_TIMEOUT'' (seconds 30),
         sv_ShutdownTimeout = getDurationEnv env ''RDAP_SHUTDOWN_TIMEOUT'' (seconds 30),
         sv_TrustProxy = getBoolEnv env ''RDAP_TRUST_PROXY'' False,
         sv_BodyLimit = getEnv env ''RDAP_BODY_LIMIT'' ''1MB''\<rparr>,
      cg_Cache =
        \<lparr>ca_TTL = getDurationEnv env ''RDAP_CACHE_TTL'' (hours 24),
         ca_NegativeTTL = getDurationEnv env ''RDAP_CACHE_NEGATIVE_TTL'' (hours 1),
         ca_RAM =
           \<lparr>ram_Enabled = getBoolEnv env ''RDAP_CACHE_RAM_ENABLED'' True,
            ram_MaxSize = getSizeEnv env ''RDAP_CACHE_RAM_MAX_SIZE'' (100 * 1024 * 1024)\<rparr>,
         ca_Redis =
           \<lparr>rd_Enabled = getBoolEnv env ''RDAP_CACHE_REDIS_ENABLED'' False,
            rd_Addr = getEnv env ''RDAP_CACHE_REDIS_ADDR'' [],
            rd_Password = getEnv env ''RDAP_CACHE_REDIS_PASSWORD'' [],
            rd_DB = getIntEnv env ''RDAP_CACHE_REDIS_DB'' 0\<rparr>\<rparr>,
      cg_RDAPTimeout = getDurationEnv env ''RDAP_CLIENT_TIMEOUT'' (seconds 10),
      cg_MaxRetries = getIntEnv env ''RDAP_CLIENT_MAX_RETRIES'' 2,
      cg_RefreshInterval = getDurationEnv env ''RDAP_BOOTSTRAP_REFRESH'' (hours 24),
      cg_LogLevel = getEnv env ''RDAP_LOG_LEVEL'' ''info'',
      cg_LogFormat = getEnv env ''RDAP_LOG_FORMAT'' ''json'',
      cg_RateLimit =
        \<lparr>rl_Enabled = getBoolEnv env ''RDAP_RATE_LIMIT_ENABLED'' True,
         rl_RPS = getFloatEnv env ''RDAP_RATE_LIMIT_RPS'' rps,
         rl_Burst = getIntEnv env ''RDAP_RATE_LIMIT_BURST'' 2000\<rparr>,
      cg_Batch =
        \<lparr>ba_Concurrency = getIntEnv env ''RDAP_BATCH_CONCURRENCY'' 10,
         ba_Timeout = getDurationEnv env ''RDAP_BATCH_TIMEOUT'' (seconds 30)\<rparr>,
      cg_WHOIS =
        \<lparr>wh_Enabled = getBoolEnv env ''RDAP_WHOIS_ENABLED'' False,
         wh_Timeout = getDurationEnv env ''RDAP_WHOIS_TIMEOUT'' (seconds 10),
         wh_MaxResponseSize = getSizeEnv env ''RDAP_WHOIS_MAX_RESPONSE_SIZE'' (64 * 1024)\<rparr>\<rparr>"

text \<open>The checks, in order, with the text of the error.\<close>

definition config_checks :: "'f Config \<Rightarrow> (bool \<times> string) list" where
  "config_checks c =
     [(sv_ListenAddr (cg_Server c) = [], ''listen address cannot be empty''),
      (sv_ReadTimeout (cg_Server c) \<le> 0, ''read timeout must be positive''),
      (sv_WriteTimeout (cg_Server c) \<le> 0, ''write timeout must be positive''),
      (sv_ShutdownTimeout (cg_Server c) \<le> 0, ''shutdown timeout must be positive''),
      (ca_TTL (cg_Cache c) \<le> 0, ''cache TTL must be positive''),
      (ca_NegativeTTL (cg_Cache c) \<le> 0, ''negative cache TTL must be positive''),
      (ram_Enabled (ca_RAM (cg_Cache c)) \<and> ram_MaxSize (ca_RAM (cg_Cache c)) \<le> 0,
       ''RAM cache max size must be positive''),
      (rd_Enabled (ca_Redis (cg_Cache c)) \<and> rd_Addr (ca_Redis (cg_Cache c)) = [],
       ''redis address required when redis cache is enabled''),
      (cg_RDAPTimeout c \<le> 0, ''RDAP timeout must be positive''),
      (cg_MaxRetries c < 0, ''RDAP max retries cannot be negative''),
      (cg_RefreshInterval c \<le> 0, ''bootstrap refresh interval must be positive''),
      (cg_LogLevel c \<notin> {''debug'', ''info'', ''warn'', ''error''},
       ''invalid log level: '' @ cg_LogLevel c @ '' (valid: debug, info, warn, error)''),
      (cg_LogFormat c \<notin> {''json'', ''text''},
       ''invalid log format: '' @ cg_LogFormat c @ '' (valid: json, text)''),
      (ba_Concurrency (cg_Batch c) \<le> 0, ''batch concurrency must be positive''),
      (ba_Timeout (cg_Batch c) \<le> 0, ''batch timeout must be positive''),
      (wh_Enabled (cg_WHOIS c) \<and> wh_Timeout (cg_WHOIS c) \<le> 0, ''WHOIS timeout must be positive''),
      (wh_Enabled (cg_WHOIS c) \<and> wh_MaxResponseSize (cg_WHOIS c) \<le> 0,
       ''WHOIS max response size must be positive'')]"

definition Validate :: "'f Config \<Rightarrow> go_error option" where
  "Validate c = map_option (\<lambda>(_, msg). OtherError msg) (find fst (config_checks c))"

definition Load :: "'f \<Rightarrow> 'f environment \<Rightarrow> go_error + 'f Config" where
  "Load rps env =
     (let cfg = read_config rps env in case Validate cfg of Some err \<Rightarrow> Inl err | None \<Rightarrow> Inr cfg)"

section \<open>What is loaded\<close>

lemma Validate_None_iff: "Validate c = None \<longleftrightarrow> (\<forall>p \<in> set (config_checks c). \<not> fst p)"
  by (auto simp: Validate_def find_None_iff)

lemma Load_valid: "Load rps env = Inr cfg \<Longrightarrow> cfg = read_config rps env \<and> Validate cfg = None"
  by (auto simp: Load_def Let_def split: option.splits)

lemma env_or_empty: "ev_get env key = [] \<Longrightarrow> env_or parse env key d = d"
  by (simp add: env_or_def)

lemma env_or_ignored: "parse (ev_get env key) = None \<Longrightarrow> env_or parse env key d = d"
  by (simp add: env_or_def Let_def)

lemmas env_readers =
  getEnv_def getBoolEnv_def getIntEnv_def getFloatEnv_def getDurationEnv_def getSizeEnv_def

text \<open>The defaults: what is read when every variable is unset.\<close>

lemma Load_defaults:
  assumes "\<And>key. ev_get env key = []"
  shows "\<exists>cfg. Load rps env = Inr cfg \<and> sv_ListenAddr (cg_Server cfg) = '':8080'' \<and>
    ca_TTL (cg_Cache cfg) = hours 24 \<and> ca_NegativeTTL (cg_Cache cfg) = hours 1 \<and>
    cg_MaxRetries cfg = 2 \<and> ba_Concurrency (cg_Batch cfg) = 10 \<and> \<not> wh_Enabled (cg_WHOIS cfg)"
  using assms
  by (auto simp: Load_def Validate_None_iff config_checks_def read_config_def env_readers env_or_def
      hours_def seconds_def Let_def split: option.split dest!: sym [of "Some _" "Validate _"])

text \<open>A number with a suffix in upper or lower case stands for the product, modulo 64 bits.\<close>

lemma parse_int_last:
  assumes "parse_int bits s = Some n"
  shows "is_digit (last s)"
proof -
  have digits: "list_all is_digit ds \<Longrightarrow> ds \<noteq> [] \<Longrightarrow> is_digit (last ds)" for ds
    by (simp add: list_all_iff)
  show ?thesis
    using assms digits [of s] digits [of "tl s"]
    by (cases s) (auto simp: parse_int_def all_digits_def Let_def split: if_splits)
qed

lemma parse_size_suffix:
  assumes "parse_int 64 ds = Some n" and "(sfx, m) \<in> {(''KB'', 1024), (''kb'', 1024), (''MB'', 1024 * 1024),
      (''mb'', 1024 * 1024), (''GB'', 1024 * 1024 * 1024), (''gb'', 1024 * 1024 * 1024)}"
  shows "parse_size (ds @ sfx) = Some (int64 (n * m))"
proof -
  have "\<exists>a b. sfx = [a, b] \<and> \<not> is_digit b"
    using assms(2) by (elim insertE emptyE) simp_all
  then have "parse_int 64 (ds @ sfx) = None"
    using parse_int_last [of 64 "ds @ sfx"] by (cases "parse_int 64 (ds @ sfx)") auto
  moreover have "size_suffix (ds @ sfx) = Some (ds, m)"
    using assms(2) by (elim insertE emptyE) (simp_all add: size_suffix_def has_suffix_def has_prefix_def)
  ultimately show ?thesis using assms(1) by (simp add: parse_size_def)
qed

end
