(* ===== verification/Whois_Client.thy ===== *)
theory Whois_Client
  imports Whois_Discovery Config
begin

text \<open>
  \<open>internal/whois/client.go\<close>: the WHOIS protocol client.  A response is read in a loop over a
  limited reader; the theorem \<open>read_loop_spec\<close> shows that the result depends on the bytes sent
  and not on how they are cut into chunks.
\<close>

definition DefaultQueryTimeout :: int where "DefaultQueryTimeout = 10 * 10 ^ 9"
definition DefaultMaxResponseSize :: int where "DefaultMaxResponseSize = 64 * 1024"
definition ReadBufferSize :: nat where "ReadBufferSize = 4096"

record whois_client =
  wc_discovery :: Discovery
  wc_timeout :: int
  wc_maxResponseSize :: int
  wc_closed :: bool

text \<open>
  \<open>NewClient\<close> for an optional custom discovery; the default one inherits the timeout.
\<close>

definition NewClient :: "int \<Rightarrow> int \<Rightarrow> Discovery option \<Rightarrow> whois_client" where
  "NewClient timeout maxSize discovery =
     \<lparr>wc_discovery = (case discovery of Some d \<Rightarrow> d
        | None \<Rightarrow> NewDiscovery [WithDiscoveryTimeout timeout]),
      wc_timeout = timeout, wc_maxResponseSize = maxSize, wc_closed = False\<rparr>"

definition NewClientFromConfig :: "WHOISConfig \<Rightarrow> whois_client" where
  "NewClientFromConfig cfg = NewClient (wh_Timeout cfg) (wh_MaxResponseSize cfg) None"

definition whois_normalizeDomain :: "string \<Rightarrow> string" where
  "whois_normalizeDomain domain0 =
     (let domain = trim_suffix (to_lower (trim_space domain0)) ''.''
      in if domain = [] then [] else if \<not> contains domain ''.'' then [] else domain)"

definition crlf :: string where "crlf = [CHR 0x0D, CHR 0x0A]"

definition buildServerQuery :: "string \<Rightarrow> string \<Rightarrow> string" where
  "buildServerQuery domain server =
     (if has_suffix server ''.denic.de'' \<or> server = ''whois.denic.de'' then
        ''-T dn '' @ domain @ crlf
      else if has_suffix server ''.jprs.jp'' \<or> server = ''whois.jprs.jp'' then
        ''DOM '' @ domain @ ''/e'' @ crlf
      else if has_suffix server ''.nic.ad.jp'' \<or> server = ''whois.nic.ad.jp'' then
        domain @ ''/e'' @ crlf
      else if contains server ''whois.verisign'' then ''domain '' @ domain @ crlf
      else if server = ''whois.arin.net'' then ''n + '' @ domain @ crlf
      else domain @ crlf)"

section \<open>Reading a response\<close>

text \<open>
  One \<open>Read\<close> into a buffer of \<open>ReadBufferSize\<close> bytes, through the \<open>bufio.Reader\<close> (which
  passes a read of its own buffer's size on) and the \<open>io.LimitReader\<close> with \<open>N\<close> bytes left: it
  takes at most \<open>min N ReadBufferSize\<close> bytes of the chunk that is pending.
\<close>

definition read_chunk :: "int \<Rightarrow> string \<Rightarrow> string list \<Rightarrow> string \<times> string list" where
  "read_chunk N c cs =
     (let k = min (nat N) ReadBufferSize
      in if length c \<le> k then (c, cs) else (take k c, drop k c # cs))"

function read_loop ::
  "string \<Rightarrow> int \<Rightarrow> int \<Rightarrow> int \<Rightarrow> string \<Rightarrow> string list \<Rightarrow> go_error option \<Rightarrow> go_error + string" where
  "read_loop server maxSize N totalRead built [] end =
     (if N \<le> 0 then Inr built
      else (case end of None \<Rightarrow> Inr built | Some err \<Rightarrow> Inl (WHOISError ''read'' server err)))"
| "read_loop server maxSize N totalRead built (c # cs) end =
     (if N \<le> 0 then Inr built
      else (let (buf, rest) = read_chunk N c cs; n = int (length buf) in
            if n > 0 then
              (if totalRead + n > maxSize then Inl (Sentinel Whois_ErrResponseTooLarge)
               else read_loop server maxSize (N - n) (totalRead + n) (built @ buf) rest end)
            else read_loop server maxSize N totalRead built rest end))"
  by pat_completeness auto

termination
  by (relation "measure (\<lambda>(_, _, _, _, _, cs, _). length (concat cs) + length cs)")
     (auto simp: read_chunk_def Let_def ReadBufferSize_def split: if_splits)

declare read_loop.simps [simp del]

definition readResponse ::
  "whois_client \<Rightarrow> string list \<times> go_error option \<Rightarrow> string \<Rightarrow> go_error + string" where
  "readResponse c reply server =
     read_loop server (wc_maxResponseSize c) (int64 (wc_maxResponseSize c + 1)) 0 [] (fst reply) (snd reply)"

section \<open>Queries\<close>

definition JoinHostPort :: "string \<Rightarrow> string \<Rightarrow> string" where
  "JoinHostPort host port =
     (if CHR '':'' \<in> set host then ''['' @ host @ '']:'' @ port else host @ '':'' @ port)"

definition doQueryAddr ::
  "network \<Rightarrow> int option \<Rightarrow> whois_client \<Rightarrow> string \<Rightarrow> string \<Rightarrow> string \<Rightarrow> go_error + string" where
  "doQueryAddr net ctx_remaining c domain server addr =
     (let conn = net addr (effective_timeout (wc_timeout c) ctx_remaining) in
      case cn_dial conn of
        Some err \<Rightarrow>
          if error_is err Context_DeadlineExceeded then Inl (Sentinel Whois_ErrQueryTimeout)
          else Inl (WHOISError ''dial'' server err)
      | None \<Rightarrow>
          (case cn_deadline conn of
             Some err \<Rightarrow> Inl (WHOISError ''set deadline'' server err)
           | None \<Rightarrow>
               (let query = buildServerQuery domain server in
                case cn_write conn query of
                  Some err \<Rightarrow> Inl (WHOISError ''write'' server err)
                | None \<Rightarrow> readResponse c (cn_reply conn query) server)))"

definition doQuery ::
  "network \<Rightarrow> int option \<Rightarrow> whois_client \<Rightarrow> string \<Rightarrow> string \<Rightarrow> go_error + string" where
  "doQuery net ctx_remaining c domain server =
     doQueryAddr net ctx_remaining c domain server (JoinHostPort server ''43'')"

text \<open>\<open>QueryServer\<close>; \<open>duration\<close> is the time the query took.\<close>

definition QueryServer ::
  "network \<Rightarrow> int option \<Rightarrow> int \<Rightarrow> whois_client \<Rightarrow> string \<Rightarrow> string \<Rightarrow> go_error + QueryResult" where
  "QueryServer net ctx_remaining duration c domain server =
     (if wc_closed c then Inl (WHOISError ''query'' server (OtherError ''client closed''))
      else (case doQuery net ctx_remaining c domain server of
              Inl err \<Rightarrow> Inl err
            | Inr response \<Rightarrow>
                Inr \<lparr>qr_Server = server, qr_Response = response, qr_Duration = duration,
                  qr_Cached = False\<rparr>))"

definition Query ::
  "network \<Rightarrow> int option \<Rightarrow> int \<Rightarrow> int \<Rightarrow> int \<Rightarrow> whois_client \<Rightarrow> string \<Rightarrow>
   (go_error + QueryResult) \<times> whois_client" where
  "Query net ctx_remaining now later duration c domain0 =
     (if wc_closed c then (Inl (WHOISError ''query'' [] (OtherError ''client closed'')), c)
      else (let domain = whois_normalizeDomain domain0 in
        if domain = [] then (Inl (WHOISError ''query'' [] (OtherError ''invalid domain'')), c)
        else (let tld = ExtractTLD domain in
          if tld = [] then
            (Inl (WHOISError ''query'' [] (OtherError ''cannot extract TLD from domain'')), c)
          else (let (server, d) = DiscoverServer net ctx_remaining now later (wc_discovery c) tld;
                    c' = c\<lparr>wc_discovery := d\<rparr>
                in case server of
                     Inl err \<Rightarrow> (Inl (WHOISError ''discover'' [] err), c')
                   | Inr s \<Rightarrow> (QueryServer net ctx_remaining duration c' domain s, c')))))"

text \<open>The status label of \<open>recordQueryMetrics\<close>.\<close>

definition query_status :: "go_error option \<Rightarrow> string" where
  "query_status err =
     (case err of
        None \<Rightarrow> ''success''
      | Some e \<Rightarrow>
          if error_is e Whois_ErrQueryTimeout \<or> error_is e Context_DeadlineExceeded then ''timeout''
          else ''error'')"

definition whois_Close :: "whois_client \<Rightarrow> whois_client" where
  "whois_Close c =
     (if wc_closed c then c
      else c\<lparr>wc_closed := True, wc_discovery := ClearCache (wc_discovery c)\<rparr>)"

section \<open>Lemmas\<close>

text \<open>What a response of given bytes and ending gives: no chunk appears.\<close>

definition response_spec :: "string \<Rightarrow> int \<Rightarrow> string \<Rightarrow> go_error option \<Rightarrow> go_error + string" where
  "response_spec server maxSize data end =
     (if int (length data) > maxSize then Inl (Sentinel Whois_ErrResponseTooLarge)
      else (case end of None \<Rightarrow> Inr data | Some err \<Rightarrow> Inl (WHOISError ''read'' server err)))"

lemma read_chunk_concat:
  "read_chunk N c cs = (buf, rest) \<Longrightarrow> buf @ concat rest = concat (c # cs)"
  by (auto simp: read_chunk_def Let_def split: if_splits)

lemma read_chunk_length:
  "read_chunk N c cs = (buf, rest) \<Longrightarrow> 0 < N \<Longrightarrow> int (length buf) \<le> N \<and> (buf = [] \<longrightarrow> c = [] \<and> rest = cs)"
  by (auto simp: read_chunk_def Let_def ReadBufferSize_def split: if_splits)

lemma read_loop_spec:
  assumes "N = maxSize + 1 - int (length built)" "tot = int (length built)" "tot \<le> maxSize"
  shows "read_loop server maxSize N tot built cs end =
    response_spec server maxSize (built @ concat cs) end"
  using assms
proof (induction server maxSize N tot built cs "end" rule: read_loop.induct)
  case (1 server maxSize N tot built "end")
  then show ?case
    by (simp add: read_loop.simps response_spec_def split: option.split)
next
  case (2 server maxSize N tot built c cs "end")
  obtain buf rest where r: "read_chunk N c cs = (buf, rest)" by fastforce
  from 2(3-5) have N: "0 < N" by simp
  have cat: "buf @ concat rest = concat (c # cs)" using read_chunk_concat [OF r] .
  show ?case
  proof (cases "buf = []")
    case True
    then show ?thesis using 2(2) [of "(buf, rest)" buf rest "int (length buf)"] 2(3-5) N r cat
      by (simp add: read_loop.simps(2))
  next
    case False
    show ?thesis
    proof (cases "tot + int (length buf) > maxSize")
      case True
      then have "int (length (built @ concat (c # cs))) > maxSize"
        using 2(4) cat [symmetric] by simp
      then show ?thesis using True False N r
        by (simp add: read_loop.simps(2) response_spec_def)
    next
      case ok: False
      have "read_loop server maxSize (N - int (length buf)) (tot + int (length buf)) (built @ buf) rest end =
        response_spec server maxSize ((built @ buf) @ concat rest) end"
        by (rule 2(1) [of "(buf, rest)" buf rest "int (length buf)"])
           (use 2(3-5) N r False ok in auto)
      then show ?thesis using ok False N r cat by (simp add: read_loop.simps(2))
    qed
  qed
qed

lemma readResponse_spec:
  assumes "0 \<le> wc_maxResponseSize c" "wc_maxResponseSize c < 2 ^ 63 - 1"
  shows "readResponse c reply server =
    response_spec server (wc_maxResponseSize c) (concat (fst reply)) (snd reply)"
  unfolding readResponse_def using assms
  by (subst read_loop_spec) (simp_all add: int64_id)

text \<open>At the largest size the limit wraps around and every response reads as empty.\<close>

lemma readResponse_wraps:
  assumes "wc_maxResponseSize c = 2 ^ 63 - 1"
  shows "readResponse c reply server = Inr []"
proof -
  have "int64 (wc_maxResponseSize c + 1) \<le> 0" using assms by (simp add: int64_def)
  then show ?thesis unfolding readResponse_def
    by (cases "fst reply") (simp_all add: read_loop.simps)
qed

lemma whois_normalizeDomain_dot:
  "whois_normalizeDomain s \<noteq> [] \<Longrightarrow> CHR ''.'' \<in> set (whois_normalizeDomain s)"
  by (auto simp: whois_normalizeDomain_def Let_def contains_iff split: if_splits)

text \<open>The prefix and the suffix a server's dialect puts around the domain.\<close>

definition query_parts :: "string \<Rightarrow> string \<times> string" where
  "query_parts server =
     (if has_suffix server ''.denic.de'' \<or> server = ''whois.denic.de'' then (''-T dn '', [])
      else if has_suffix server ''.jprs.jp'' \<or> server = ''whois.jprs.jp'' then (''DOM '', ''/e'')
      else if has_suffix server ''.nic.ad.jp'' \<or> server = ''whois.nic.ad.jp'' then ([], ''/e'')
      else if contains server ''whois.verisign'' then (''domain '', [])
      else if server = ''whois.arin.net'' then (''n + '', [])
      else ([], []))"

lemma buildServerQuery_form:
  "buildServerQuery domain server = fst (query_parts server) @ domain @ snd (query_parts server) @ crlf"
  unfolding buildServerQuery_def query_parts_def by (simp split: if_split)

lemma query_parts_no_break: "CHR 0x0A \<notin> set (fst (query_parts server)) \<union> set (snd (query_parts server))"
  unfolding query_parts_def by (simp split: if_split)

lemma whois_Close_closed: "wc_closed (whois_Close c)"
  by (simp add: whois_Close_def)

lemma Query_ok [step_inv]:
  "discovery_ok (wc_discovery c) \<Longrightarrow> discovery_ok (wc_discovery (snd (Query net ctx now later dur c s)))"
  using DiscoverServer_ok [of "wc_discovery c" net ctx now later "ExtractTLD (whois_normalizeDomain s)"]
  by (auto simp: Query_def Let_def split: prod.splits sum.splits)

end
