(* ===== verification/Schema.thy ===== *)
theory Schema
  imports GoTime "HOL-Library.Word"
begin

text \<open>
  \<open>internal/schema\<close>: the simplified responses and their construction from RDAP responses.

  The RDAP responses are values of the \<open>openrdap\<close> package, which is not part of the repository.
  The records below hold the fields the code reads, and for a vCard the results of the accessors
  the code calls (\<open>Name\<close>, \<open>Email\<close>, \<open>Tel\<close>, \<open>Country\<close>, the address parts, and the values of the
  first \<open>org\<close> property), so every statement is about arbitrary responses and arbitrary results
  of these accessors.
\<close>

section \<open>RDAP responses\<close>

record VCard =
  vc_Name :: string
  vc_Org :: "string list option"
  vc_Email :: string
  vc_Tel :: string
  vc_Country :: string
  vc_StreetAddress :: string
  vc_Locality :: string
  vc_Region :: string
  vc_PostalCode :: string

record rdap_event =
  ev_Action :: string
  ev_Date :: string

text \<open>The scalar fields of a network and of an autonomous system, wherever they occur.\<close>

record network_info =
  ni_Handle :: string
  ni_StartAddress :: string
  ni_EndAddress :: string
  ni_Name :: string
  ni_Country :: string

record autnum_info =
  ai_Handle :: string
  ai_StartAutnum :: "32 word option"
  ai_EndAutnum :: "32 word option"
  ai_Name :: string
  ai_Country :: string

datatype rdap_entity =
  RdapEntity (en_Handle: string) (en_Roles: "string list") (en_VCard: "VCard option")
    (en_Status: "string list") (en_Events: "rdap_event list") (en_Networks: "network_info list")
    (en_Autnums: "autnum_info list") (en_Entities: "rdap_entity list")

record rdap_nameserver =
  rn_LDHName :: string
  rn_UnicodeName :: string
  rn_IPAddresses :: "(string list \<times> string list) option"

record rdap_domain =
  rd_LDHName :: string
  rd_UnicodeName :: string
  rd_Status :: "string list"
  rd_Events :: "rdap_event list"
  rd_Entities :: "rdap_entity list"
  rd_Nameservers :: "rdap_nameserver list"
  rd_SecureDNS :: "(bool option \<times> bool option) option"

record rdap_network = network_info +
  in_IPVersion :: string
  in_Type :: string
  in_ParentHandle :: string
  in_Status :: "string list"
  in_Events :: "rdap_event list"
  in_Entities :: "rdap_entity list"

record rdap_autnum = autnum_info +
  an_Type :: string
  an_Status :: "string list"
  an_Events :: "rdap_event list"
  an_Entities :: "rdap_entity list"

section \<open>Simplified responses\<close>

record SimpleEntity =
  se_Handle :: string
  se_Name :: string
  se_Organization :: string
  se_Email :: string
  se_Phone :: string
  se_Address :: string
  se_Country :: string
  se_Roles :: "string list"

record SimpleNS =
  ns_Name :: string
  ns_UnicodeName :: string
  ns_IPv4 :: "string list"
  ns_IPv6 :: "string list"

record SimpleDNSSEC =
  ds_Signed :: bool
  ds_DelegationSigned :: bool

record SimpleDomain =
  sd_Name :: string
  sd_UnicodeName :: string
  sd_Status :: "string list"
  sd_Registrar :: "SimpleEntity option"
  sd_Registrant :: "SimpleEntity option"
  sd_AdminContact :: "SimpleEntity option"
  sd_TechContact :: "SimpleEntity option"
  sd_Nameservers :: "SimpleNS list"
  sd_CreatedDate :: string
  sd_UpdatedDate :: string
  sd_ExpirationDate :: string
  sd_DNSSEC :: "SimpleDNSSEC option"
  sd_DataSource :: string
  sd_RDAPServer :: string
  sd_WHOISServer :: string
  sd_Confidence :: string
  sd_Raw :: "rdap_domain option"

record SimpleIP =
  si_StartAddress :: string
  si_EndAddress :: string
  si_CIDR :: "string list"
  si_IPVersion :: string
  si_Name :: string
  si_Type :: string
  si_Country :: string
  si_Handle :: string
  si_ParentHandle :: string
  si_Status :: "string list"
  si_Registrant :: "SimpleEntity option"
  si_AdminContact :: "SimpleEntity option"
  si_TechContact :: "SimpleEntity option"
  si_AbuseContact :: "SimpleEntity option"
  si_CreatedDate :: string
  si_UpdatedDate :: string
  si_RDAPServer :: string
  si_Raw :: "rdap_network option"

record SimpleASN =
  sa_ASN :: "32 word"
  sa_StartASN :: "32 word"
  sa_EndASN :: "32 word"
  sa_Name :: string
  sa_Type :: string
  sa_Country :: string
  sa_Handle :: string
  sa_Status :: "string list"
  sa_Registrant :: "SimpleEntity option"
  sa_AdminContact :: "SimpleEntity option"
  sa_TechContact :: "SimpleEntity option"
  sa_AbuseContact :: "SimpleEntity option"
  sa_CreatedDate :: string
  sa_UpdatedDate :: string
  sa_RDAPServer :: string
  sa_Raw :: "rdap_autnum option"

record SimpleIPSummary =
  su_Handle :: string
  su_StartAddress :: string
  su_EndAddress :: string
  su_Name :: string
  su_Country :: string

record SimpleASNSummary =
  sn_ASN :: "32 word"
  sn_Handle :: string
  sn_Name :: string
  sn_Country :: string

record SimpleEntityFull =
  sf_Handle :: string
  sf_Name :: string
  sf_Organization :: string
  sf_Email :: string
  sf_Phone :: string
  sf_Address :: string
  sf_Country :: string
  sf_Roles :: "string list"
  sf_Status :: "string list"
  sf_CreatedDate :: string
  sf_UpdatedDate :: string
  sf_RelatedIPNets :: "SimpleIPSummary list"
  sf_RelatedASNs :: "SimpleASNSummary list"
  sf_RDAPServer :: string
  sf_Raw :: "rdap_entity option"

section \<open>Helpers\<close>

text \<open>\<open>formatEventDate\<close>: the text itself when no format fits.\<close>

definition formatEventDate :: "string \<Rightarrow> string" where
  "formatEventDate dateStr =
     (if dateStr = [] then []
      else (case try_formats
              [RFC3339, ''2006-01-02T15:04:05Z0700'', ''2006-01-02T15:04:05'', ''2006-01-02''] dateStr of
              None \<Rightarrow> dateStr
            | Some t \<Rightarrow> format_rfc3339 t))"

text \<open>
  The address builders of \<open>schema\<close> and \<open>whois\<close>: the parts that are not empty, joined with a
  comma.
\<close>

definition join_parts :: "string list \<Rightarrow> string" where
  "join_parts all =
     (let parts = filter (\<lambda>p. p \<noteq> []) all
      in if parts = [] then []
         else hd parts @ foldl (\<lambda>b p. b @ '', '' @ p) [] (tl parts))"

definition schema_buildAddress :: "VCard \<Rightarrow> string" where
  "schema_buildAddress vcard =
     join_parts [vc_StreetAddress vcard, vc_Locality vcard, vc_Region vcard, vc_PostalCode vcard,
       vc_Country vcard]"

text \<open>\<open>getVCardFirstValue(vcard, "org")\<close>.\<close>

definition vcard_first_org :: "VCard \<Rightarrow> string" where
  "vcard_first_org vcard =
     (case vc_Org vcard of None \<Rightarrow> [] | Some [] \<Rightarrow> [] | Some (v # _) \<Rightarrow> v)"

definition schema_transformEntity :: "rdap_entity \<Rightarrow> SimpleEntity" where
  "schema_transformEntity e =
     (case en_VCard e of
        None \<Rightarrow>
          \<lparr>se_Handle = en_Handle e, se_Name = [], se_Organization = [], se_Email = [], se_Phone = [],
           se_Address = [], se_Country = [], se_Roles = en_Roles e\<rparr>
      | Some vc \<Rightarrow>
          \<lparr>se_Handle = en_Handle e, se_Name = vc_Name vc, se_Organization = vcard_first_org vc,
           se_Email = vc_Email vc, se_Phone = vc_Tel vc, se_Address = schema_buildAddress vc,
           se_Country = vc_Country vc, se_Roles = en_Roles e\<rparr>)"

section \<open>Domains\<close>

definition domain_event :: "SimpleDomain \<Rightarrow> rdap_event \<Rightarrow> SimpleDomain" where
  "domain_event d ev =
     (if ev_Action ev = ''registration'' then d\<lparr>sd_CreatedDate := formatEventDate (ev_Date ev)\<rparr>
      else if ev_Action ev = ''last changed'' \<or> ev_Action ev = ''last update of RDAP database'' then
        (if sd_UpdatedDate d = [] then d\<lparr>sd_UpdatedDate := formatEventDate (ev_Date ev)\<rparr> else d)
      else if ev_Action ev = ''expiration'' then d\<lparr>sd_ExpirationDate := formatEventDate (ev_Date ev)\<rparr>
      else d)"

definition domain_role :: "SimpleEntity \<Rightarrow> SimpleDomain \<Rightarrow> string \<Rightarrow> SimpleDomain" where
  "domain_role entity d role =
     (if role = ''registrar'' then d\<lparr>sd_Registrar := Some entity\<rparr>
      else if role = ''registrant'' then d\<lparr>sd_Registrant := Some entity\<rparr>
      else if role = ''administrative'' then d\<lparr>sd_AdminContact := Some entity\<rparr>
      else if role = ''technical'' then d\<lparr>sd_TechContact := Some entity\<rparr>
      else d)"

definition domain_entity :: "SimpleDomain \<Rightarrow> rdap_entity \<Rightarrow> SimpleDomain" where
  "domain_entity d e = foldl (domain_role (schema_transformEntity e)) d (en_Roles e)"

definition transform_ns :: "rdap_nameserver \<Rightarrow> SimpleNS" where
  "transform_ns ns =
     \<lparr>ns_Name = rn_LDHName ns, ns_UnicodeName = rn_UnicodeName ns,
      ns_IPv4 = (case rn_IPAddresses ns of None \<Rightarrow> [] | Some (v4, _) \<Rightarrow> v4),
      ns_IPv6 = (case rn_IPAddresses ns of None \<Rightarrow> [] | Some (_, v6) \<Rightarrow> v6)\<rparr>"

definition transform_dnssec :: "bool option \<times> bool option \<Rightarrow> SimpleDNSSEC" where
  "transform_dnssec s =
     \<lparr>ds_Signed = (case fst s of None \<Rightarrow> False | Some b \<Rightarrow> b),
      ds_DelegationSigned = (case snd s of None \<Rightarrow> False | Some b \<Rightarrow> b)\<rparr>"

definition initial_domain :: "rdap_domain \<Rightarrow> string \<Rightarrow> SimpleDomain" where
  "initial_domain resp rdapServer =
     \<lparr>sd_Name = rd_LDHName resp, sd_UnicodeName = rd_UnicodeName resp, sd_Status = rd_Status resp,
      sd_Registrar = None, sd_Registrant = None, sd_AdminContact = None, sd_TechContact = None,
      sd_Nameservers = [], sd_CreatedDate = [], sd_UpdatedDate = [], sd_ExpirationDate = [],
      sd_DNSSEC = None, sd_DataSource = ''rdap'', sd_RDAPServer = rdapServer, sd_WHOISServer = [],
      sd_Confidence = [], sd_Raw = Some resp\<rparr>"

definition TransformDomain :: "rdap_domain option \<Rightarrow> string \<Rightarrow> SimpleDomain option" where
  "TransformDomain r rdapServer =
     (case r of
        None \<Rightarrow> None
      | Some resp \<Rightarrow>
          (let d1 = foldl domain_event (initial_domain resp rdapServer) (rd_Events resp);
               d2 = foldl domain_entity d1 (rd_Entities resp);
               d3 = d2\<lparr>sd_Nameservers := sd_Nameservers d2 @ map transform_ns (rd_Nameservers resp)\<rparr>
           in Some (case rd_SecureDNS resp of
                      None \<Rightarrow> d3
                    | Some s \<Rightarrow> d3\<lparr>sd_DNSSEC := Some (transform_dnssec s)\<rparr>)))"

section \<open>IP networks\<close>

definition ip_event :: "SimpleIP \<Rightarrow> rdap_event \<Rightarrow> SimpleIP" where
  "ip_event d ev =
     (if ev_Action ev = ''registration'' then d\<lparr>si_CreatedDate := formatEventDate (ev_Date ev)\<rparr>
      else if ev_Action ev = ''last changed'' then d\<lparr>si_UpdatedDate := formatEventDate (ev_Date ev)\<rparr>
      else d)"

definition ip_role :: "SimpleEntity \<Rightarrow> SimpleIP \<Rightarrow> string \<Rightarrow> SimpleIP" where
  "ip_role entity d role =
     (if role = ''registrant'' then d\<lparr>si_Registrant := Some entity\<rparr>
      else if role = ''administrative'' then d\<lparr>si_AdminContact := Some entity\<rparr>
      else if role = ''technical'' then d\<lparr>si_TechContact := Some entity\<rparr>
      else if role = ''abuse'' then d\<lparr>si_AbuseContact := Some entity\<rparr>
      else d)"

definition ip_entity :: "SimpleIP \<Rightarrow> rdap_entity \<Rightarrow> SimpleIP" where
  "ip_entity d e =
     (let entity = schema_transformEntity e;
          d1 = foldl (ip_role entity) d (en_Roles e)
      in if si_Country d1 = [] \<and> se_Country entity \<noteq> [] then d1\<lparr>si_Country := se_Country entity\<rparr>
         else d1)"

definition TransformIP :: "rdap_network option \<Rightarrow> string \<Rightarrow> SimpleIP option" where
  "TransformIP r rdapServer =
     (case r of
        None \<Rightarrow> None
      | Some resp \<Rightarrow>
          (let d0 =
             \<lparr>si_StartAddress = ni_StartAddress resp, si_EndAddress = ni_EndAddress resp,
              si_CIDR = [],
              si_IPVersion = in_IPVersion resp, si_Name = ni_Name resp, si_Type = in_Type resp,
              si_Country = ni_Country resp, si_Handle = ni_Handle resp,
              si_ParentHandle = in_ParentHandle resp, si_Status = in_Status resp,
              si_Registrant = None, si_AdminContact = None, si_TechContact = None,
              si_AbuseContact = None, si_CreatedDate = [], si_UpdatedDate = [],
              si_RDAPServer = rdapServer, si_Raw = Some resp\<rparr>
           in Some (foldl ip_entity (foldl ip_event d0 (in_Events resp)) (in_Entities resp))))"

section \<open>Autonomous systems\<close>

definition asn_event :: "SimpleASN \<Rightarrow> rdap_event \<Rightarrow> SimpleASN" where
  "asn_event d ev =
     (if ev_Action ev = ''registration'' then d\<lparr>sa_CreatedDate := formatEventDate (ev_Date ev)\<rparr>
      else if ev_Action ev = ''last changed'' then d\<lparr>sa_UpdatedDate := formatEventDate (ev_Date ev)\<rparr>
      else d)"

definition asn_role :: "SimpleEntity \<Rightarrow> SimpleASN \<Rightarrow> string \<Rightarrow> SimpleASN" where
  "asn_role entity d role =
     (if role = ''registrant'' then d\<lparr>sa_Registrant := Some entity\<rparr>
      else if role = ''administrative'' then d\<lparr>sa_AdminContact := Some entity\<rparr>
      else if role = ''technical'' then d\<lparr>sa_TechContact := Some entity\<rparr>
      else if role = ''abuse'' then d\<lparr>sa_AbuseContact := Some entity\<rparr>
      else d)"

definition asn_entity :: "SimpleASN \<Rightarrow> rdap_entity \<Rightarrow> SimpleASN" where
  "asn_entity d e =
     (let entity = schema_transformEntity e;
          d1 = foldl (asn_role entity) d (en_Roles e)
      in if sa_Country d1 = [] \<and> se_Country entity \<noteq> [] then d1\<lparr>sa_Country := se_Country entity\<rparr>
         else d1)"

text \<open>The start and end numbers: a missing pointer leaves zero, a single number clears the range.\<close>

definition asn_range :: "32 word option \<Rightarrow> 32 word option \<Rightarrow> 32 word \<times> 32 word \<times> 32 word" where
  "asn_range start end =
     (let s = (case start of None \<Rightarrow> 0 | Some n \<Rightarrow> n); e = (case end of None \<Rightarrow> 0 | Some n \<Rightarrow> n)
      in if s = e then (s, 0, 0) else (s, s, e))"

definition TransformASN :: "rdap_autnum option \<Rightarrow> string \<Rightarrow> SimpleASN option" where
  "TransformASN r rdapServer =
     (case r of
        None \<Rightarrow> None
      | Some resp \<Rightarrow>
          (let (asn, startASN, endASN) = asn_range (ai_StartAutnum resp) (ai_EndAutnum resp);
               d0 =
             \<lparr>sa_ASN = asn, sa_StartASN = startASN, sa_EndASN = endASN, sa_Name = ai_Name resp,
              sa_Type = an_Type resp, sa_Country = ai_Country resp, sa_Handle = ai_Handle resp,
              sa_Status = an_Status resp, sa_Registrant = None, sa_AdminContact = None,
              sa_TechContact = None, sa_AbuseContact = None, sa_CreatedDate = [],
              sa_UpdatedDate = [], sa_RDAPServer = rdapServer, sa_Raw = Some resp\<rparr>
           in Some (foldl asn_entity (foldl asn_event d0 (an_Events resp)) (an_Entities resp))))"

section \<open>Entities\<close>

definition entity_event :: "SimpleEntityFull \<Rightarrow> rdap_event \<Rightarrow> SimpleEntityFull" where
  "entity_event d ev =
     (if ev_Action ev = ''registration'' then d\<lparr>sf_CreatedDate := formatEventDate (ev_Date ev)\<rparr>
      else if ev_Action ev = ''last changed'' then d\<lparr>sf_UpdatedDate := formatEventDate (ev_Date ev)\<rparr>
      else d)"

definition ip_summary :: "network_info \<Rightarrow> SimpleIPSummary" where
  "ip_summary n =
     \<lparr>su_Handle = ni_Handle n, su_StartAddress = ni_StartAddress n, su_EndAddress = ni_EndAddress n,
      su_Name = ni_Name n, su_Country = ni_Country n\<rparr>"

definition asn_summary :: "autnum_info \<Rightarrow> SimpleASNSummary" where
  "asn_summary a =
     \<lparr>sn_ASN = (case ai_StartAutnum a of None \<Rightarrow> 0 | Some n \<Rightarrow> n), sn_Handle = ai_Handle a,
      sn_Name = ai_Name a, sn_Country = ai_Country a\<rparr>"

definition TransformEntityResponse :: "rdap_entity option \<Rightarrow> string \<Rightarrow> SimpleEntityFull option" where
  "TransformEntityResponse r rdapServer =
     (case r of
        None \<Rightarrow> None
      | Some resp \<Rightarrow>
          (let contact = schema_transformEntity resp;
               d0 =
             \<lparr>sf_Handle = en_Handle resp, sf_Name = se_Name contact,
              sf_Organization = se_Organization contact, sf_Email = se_Email contact,
              sf_Phone = se_Phone contact, sf_Address = se_Address contact,
              sf_Country = se_Country contact, sf_Roles = en_Roles resp,
              sf_Status = en_Status resp, sf_CreatedDate = [], sf_UpdatedDate = [],
              sf_RelatedIPNets = map ip_summary (en_Networks resp),
              sf_RelatedASNs = map asn_summary (en_Autnums resp),
              sf_RDAPServer = rdapServer, sf_Raw = Some resp\<rparr>
           in Some (foldl entity_event d0 (en_Events resp))))"

section \<open>Contacts by role\<close>

text \<open>
  The contact of a role is the last entity that has it.  The lemma is about any such loop: a
  field \<open>get\<close> that a role step sets exactly for one role.
\<close>

definition last_with_role :: "string \<Rightarrow> rdap_entity list \<Rightarrow> rdap_entity option" where
  "last_with_role role es = find (\<lambda>e. role \<in> set (en_Roles e)) (rev es)"

lemma foldl_role_set:
  assumes "\<And>d r. get (step d r) = (if r = role then Some x else get d)"
  shows "get (foldl step d roles) = (if role \<in> set roles then Some x else get d)"
  using assms by (induction roles arbitrary: d) auto

lemma foldl_last_role:
  assumes "\<And>d e. get (step d e) =
    (if role \<in> set (en_Roles e) then Some (schema_transformEntity e) else get d)"
  shows "get (foldl step d es) =
    (case last_with_role role es of Some e \<Rightarrow> Some (schema_transformEntity e) | None \<Rightarrow> get d)"
proof (induction es rule: rev_induct)
  case (snoc e es)
  then show ?case using assms by (simp add: last_with_role_def)
qed (simp add: last_with_role_def)

lemma domain_entity_roles:
  "sd_Registrar (domain_entity d e) =
     (if ''registrar'' \<in> set (en_Roles e) then Some (schema_transformEntity e) else sd_Registrar d)"
  "sd_Registrant (domain_entity d e) =
     (if ''registrant'' \<in> set (en_Roles e) then Some (schema_transformEntity e) else sd_Registrant d)"
  "sd_AdminContact (domain_entity d e) =
     (if ''administrative'' \<in> set (en_Roles e) then Some (schema_transformEntity e)
      else sd_AdminContact d)"
  "sd_TechContact (domain_entity d e) =
     (if ''technical'' \<in> set (en_Roles e) then Some (schema_transformEntity e) else sd_TechContact d)"
  unfolding domain_entity_def by (rule foldl_role_set, simp add: domain_role_def)+

lemma domain_event_contacts [simp]:
  "sd_Registrar (domain_event d ev) = sd_Registrar d"
  "sd_Registrant (domain_event d ev) = sd_Registrant d"
  "sd_AdminContact (domain_event d ev) = sd_AdminContact d"
  "sd_TechContact (domain_event d ev) = sd_TechContact d"
  by (simp_all add: domain_event_def)

lemma domain_events_contacts [simp]:
  "sd_Registrar (foldl domain_event d evs) = sd_Registrar d"
  "sd_Registrant (foldl domain_event d evs) = sd_Registrant d"
  "sd_AdminContact (foldl domain_event d evs) = sd_AdminContact d"
  "sd_TechContact (foldl domain_event d evs) = sd_TechContact d"
  by (rule foldl_frame, simp)+

definition role_contact :: "string \<Rightarrow> rdap_entity list \<Rightarrow> SimpleEntity option" where
  "role_contact role es = map_option schema_transformEntity (last_with_role role es)"

lemma TransformDomain_contacts:
  assumes "TransformDomain (Some resp) server = Some d"
  shows "sd_Registrar d = role_contact ''registrar'' (rd_Entities resp)"
    "sd_Registrant d = role_contact ''registrant'' (rd_Entities resp)"
    "sd_AdminContact d = role_contact ''administrative'' (rd_Entities resp)"
    "sd_TechContact d = role_contact ''technical'' (rd_Entities resp)"
proof -
  let ?d1 = "foldl domain_event (initial_domain resp server) (rd_Events resp)"
  let ?d2 = "foldl domain_entity ?d1 (rd_Entities resp)"
  have d: "sd_Registrar d = sd_Registrar ?d2" "sd_Registrant d = sd_Registrant ?d2"
    "sd_AdminContact d = sd_AdminContact ?d2" "sd_TechContact d = sd_TechContact ?d2"
    using assms by (auto simp: TransformDomain_def Let_def split: option.splits)
  have none: "sd_Registrar ?d1 = None" "sd_Registrant ?d1 = None" "sd_AdminContact ?d1 = None"
    "sd_TechContact ?d1 = None"
    by (simp_all add: initial_domain_def)
  note eqs = d none role_contact_def
  show "sd_Registrar d = role_contact ''registrar'' (rd_Entities resp)"
    using foldl_last_role [OF domain_entity_roles(1), of ?d1 "rd_Entities resp"]
    unfolding eqs by (simp split: option.splits)
  show "sd_Registrant d = role_contact ''registrant'' (rd_Entities resp)"
    using foldl_last_role [OF domain_entity_roles(2), of ?d1 "rd_Entities resp"]
    unfolding eqs by (simp split: option.splits)
  show "sd_AdminContact d = role_contact ''administrative'' (rd_Entities resp)"
    using foldl_last_role [OF domain_entity_roles(3), of ?d1 "rd_Entities resp"]
    unfolding eqs by (simp split: option.splits)
  show "sd_TechContact d = role_contact ''technical'' (rd_Entities resp)"
    using foldl_last_role [OF domain_entity_roles(4), of ?d1 "rd_Entities resp"]
    unfolding eqs by (simp split: option.splits)
qed

lemma join_with_append_hd: "join_with sep ((a @ w) # ws) = a @ join_with sep (w # ws)"
  by (cases ws) auto

lemma foldl_join: "foldl (\<lambda>b p. b @ sep @ p) a qs = join_with sep (a # qs)"
proof (induction qs arbitrary: a)
  case (Cons q qs)
  then show ?case using join_with_append_hd [of sep "a @ sep" q qs] by simp
qed simp

lemma join_parts_eq: "join_parts ps = join_with '', '' (filter (\<lambda>p. p \<noteq> []) ps)"
proof (cases "filter (\<lambda>p. p \<noteq> []) ps")
  case (Cons q qs)
  then show ?thesis using join_with_append_hd [of "'', ''" q "[]" qs]
    unfolding join_parts_def foldl_join by simp
qed (simp add: join_parts_def)

end
