(* ===== verification/Whois_Transform.thy ===== *)
theory Whois_Transform
  imports Whois_Parser Schema
begin

text \<open>
  \<open>internal/whois/transformer.go\<close>: WHOIS results in the format of the RDAP responses.
\<close>

definition formatTime :: "go_time option \<Rightarrow> string" where
  "formatTime t = (case t of None \<Rightarrow> [] | Some u \<Rightarrow> format_rfc3339 u)"

definition whois_buildAddress :: "ParsedEntity \<Rightarrow> string" where
  "whois_buildAddress pe =
     join_parts [pe_Street pe, pe_City pe, pe_State pe, pe_PostalCode pe, pe_Country pe]"

definition whois_transformEntity :: "ParsedEntity \<Rightarrow> SimpleEntity" where
  "whois_transformEntity pe =
     \<lparr>se_Handle = pe_Handle pe, se_Name = pe_Name pe, se_Organization = pe_Organization pe,
      se_Email = pe_Email pe, se_Phone = pe_Phone pe,
      se_Address = (if pe_Address pe \<noteq> [] then pe_Address pe else whois_buildAddress pe),
      se_Country = pe_Country pe, se_Roles = []\<rparr>"

definition TransformToSimpleDomain :: "ParseResult option \<Rightarrow> SimpleDomain option" where
  "TransformToSimpleDomain r =
     (case r of
        None \<Rightarrow> None
      | Some result \<Rightarrow>
          (case pr_Domain result of
             None \<Rightarrow> None
           | Some pd \<Rightarrow>
               Some \<lparr>sd_Name = pd_DomainName pd, sd_UnicodeName = pd_UnicodeName pd,
                 sd_Status = pd_Status pd,
                 sd_Registrar = map_option whois_transformEntity (pd_Registrar pd),
                 sd_Registrant = map_option whois_transformEntity (pd_Registrant pd),
                 sd_AdminContact = map_option whois_transformEntity (pd_AdminContact pd),
                 sd_TechContact = map_option whois_transformEntity (pd_TechContact pd),
                 sd_Nameservers =
                   map (\<lambda>n. \<lparr>ns_Name = n, ns_UnicodeName = [], ns_IPv4 = [], ns_IPv6 = []\<rparr>)
                     (pd_Nameservers pd),
                 sd_CreatedDate = formatTime (pd_CreatedDate pd),
                 sd_UpdatedDate = formatTime (pd_UpdatedDate pd),
                 sd_ExpirationDate = formatTime (pd_ExpirationDate pd),
                 sd_DNSSEC = map_option (\<lambda>b. \<lparr>ds_Signed = b, ds_DelegationSigned = b\<rparr>)
                   (pd_DNSSECSigned pd),
                 sd_DataSource = data_source_string DataSourceWHOIS, sd_RDAPServer = [],
                 sd_WHOISServer = pd_WHOISServer pd,
                 sd_Confidence = confidence_string (pr_Confidence result), sd_Raw = None\<rparr>))"

end
