(* ===== verification/Schema_Country.thy ===== *)
theory Schema_Country
  imports Schema
begin

text \<open>
  \<open>internal/schema/country.go\<close>: country codes, and the search for a country in the entities of a
  response with its depth limit.
\<close>

definition countryNameToCode :: "(string \<times> string) list" where
  "countryNameToCode =
     [(''UNITED STATES'', ''US''), (''UNITED STATES OF AMERICA'', ''US''), (''USA'', ''US''),
      (''UNITED KINGDOM'', ''GB''), (''GREAT BRITAIN'', ''GB''), (''GERMANY'', ''DE''),
      (''DEUTSCHLAND'', ''DE''), (''FRANCE'', ''FR''), (''JAPAN'', ''JP''),
      (''CHINA'', ''CN''), (''AUSTRALIA'', ''AU''), (''CANADA'', ''CA''), (''BRAZIL'', ''BR''),
      (''INDIA'', ''IN''), (''RUSSIA'', ''RU''), (''RUSSIAN FEDERATION'', ''RU''),
      (''NETHERLANDS'', ''NL''), (''THE NETHERLANDS'', ''NL''), (''SPAIN'', ''ES''),
      (''ITALY'', ''IT''), (''SWEDEN'', ''SE''), (''SWITZERLAND'', ''CH''),
      (''POLAND'', ''PL''), (''SOUTH KOREA'', ''KR''), (''KOREA, REPUBLIC OF'', ''KR''),
      (''REPUBLIC OF KOREA'', ''KR''), (''SINGAPORE'', ''SG''), (''HONG KONG'', ''HK''),
      (''TAIWAN'', ''TW''), (''MEXICO'', ''MX''), (''IRELAND'', ''IE''), (''BELGIUM'', ''BE''),
      (''AUSTRIA'', ''AT''), (''NORWAY'', ''NO''), (''DENMARK'', ''DK''),
      (''FINLAND'', ''FI''), (''NEW ZEALAND'', ''NZ''), (''PORTUGAL'', ''PT''),
      (''CZECH REPUBLIC'', ''CZ''), (''CZECHIA'', ''CZ''), (''ISRAEL'', ''IL''),
      (''SOUTH AFRICA'', ''ZA''), (''ARGENTINA'', ''AR''), (''CHILE'', ''CL''),
      (''COLOMBIA'', ''CO''), (''VIETNAM'', ''VN''), (''VIET NAM'', ''VN''),
      (''THAILAND'', ''TH''), (''INDONESIA'', ''ID''), (''MALAYSIA'', ''MY''),
      (''PHILIPPINES'', ''PH''), (''UKRAINE'', ''UA''), (''ROMANIA'', ''RO''),
      (''GREECE'', ''GR''), (''HUNGARY'', ''HU''), (''TURKEY'', ''TR''), (''EGYPT'', ''EG''),
      (''UNITED ARAB EMIRATES'', ''AE''), (''UAE'', ''AE''), (''SAUDI ARABIA'', ''SA'')]"

definition normalizeCountry :: "string \<Rightarrow> string" where
  "normalizeCountry country0 =
     (let country = to_upper (trim_space country0)
      in if length country = 2 then country
         else (case map_of countryNameToCode country of Some code \<Rightarrow> code | None \<Rightarrow> country))"

text \<open>A loop that returns the first result that is not the empty string.\<close>

fun first_found :: "('a \<Rightarrow> string) \<Rightarrow> 'a list \<Rightarrow> string" where
  "first_found f [] = []"
| "first_found f (x # xs) = (if f x \<noteq> [] then f x else first_found f xs)"

lemma first_found_cong [fundef_cong]:
  "xs = ys \<Longrightarrow> (\<And>x. x \<in> set ys \<Longrightarrow> f x = g x) \<Longrightarrow> first_found f xs = first_found g ys"
  by (induction xs arbitrary: ys) auto

definition maxEntityDepth :: nat where "maxEntityDepth = 10"

fun extractCountryFromEntityWithDepth :: "rdap_entity \<Rightarrow> nat \<Rightarrow> string" where
  "extractCountryFromEntityWithDepth (RdapEntity h roles vc st evs nets asns es) depth =
     (if depth > maxEntityDepth then []
      else (case vc of
              Some v \<Rightarrow>
                if vc_Country v \<noteq> [] then normalizeCountry (vc_Country v)
                else first_found (\<lambda>e. extractCountryFromEntityWithDepth e (depth + 1)) es
            | None \<Rightarrow> first_found (\<lambda>e. extractCountryFromEntityWithDepth e (depth + 1)) es))"

definition extractCountryFromEntity :: "rdap_entity \<Rightarrow> string" where
  "extractCountryFromEntity e = extractCountryFromEntityWithDepth e 0"

text \<open>The three nested loops over priorities, entities and roles.\<close>

definition country_by_priority :: "string list \<Rightarrow> rdap_entity list \<Rightarrow> string" where
  "country_by_priority priorities es =
     first_found (\<lambda>priority.
       first_found (\<lambda>e.
         first_found (\<lambda>role. if role = priority then extractCountryFromEntity e else []) (en_Roles e))
       es) priorities"

definition ExtractCountryFromDomain :: "rdap_domain option \<Rightarrow> string" where
  "ExtractCountryFromDomain r =
     (case r of
        None \<Rightarrow> []
      | Some resp \<Rightarrow>
          country_by_priority [''registrant'', ''administrative'', ''technical''] (rd_Entities resp))"

definition ExtractCountryFromIP :: "rdap_network option \<Rightarrow> string" where
  "ExtractCountryFromIP r =
     (case r of
        None \<Rightarrow> []
      | Some resp \<Rightarrow>
          if ni_Country resp \<noteq> [] then normalizeCountry (ni_Country resp)
          else country_by_priority [''registrant'', ''abuse'', ''administrative'', ''technical'']
                 (in_Entities resp))"

definition ExtractCountryFromASN :: "rdap_autnum option \<Rightarrow> string" where
  "ExtractCountryFromASN r =
     (case r of
        None \<Rightarrow> []
      | Some resp \<Rightarrow>
          if ai_Country resp \<noteq> [] then normalizeCountry (ai_Country resp)
          else country_by_priority [''registrant'', ''administrative'', ''technical'', ''abuse'']
                 (an_Entities resp))"

text \<open>
  The last two loops return at the first country that is not empty, whatever it normalises to.
\<close>

definition ExtractCountryFromEntityResponse :: "rdap_entity option \<Rightarrow> string" where
  "ExtractCountryFromEntityResponse r =
     (case r of
        None \<Rightarrow> []
      | Some resp \<Rightarrow>
          let own = (case en_VCard resp of None \<Rightarrow> [] | Some v \<Rightarrow> vc_Country v) in
          if own \<noteq> [] then normalizeCountry own
          else let nested = first_found extractCountryFromEntity (en_Entities resp) in
            if nested \<noteq> [] then nested
            else (case find (\<lambda>n. ni_Country n \<noteq> []) (en_Networks resp) of
                    Some n \<Rightarrow> normalizeCountry (ni_Country n)
                  | None \<Rightarrow>
                      (case find (\<lambda>a. ai_Country a \<noteq> []) (en_Autnums resp) of
                         Some a \<Rightarrow> normalizeCountry (ai_Country a)
                       | None \<Rightarrow> [])))"

section \<open>The search as a list of candidates\<close>

text \<open>
  The candidate countries of an entity in the order they are met: an entity with a country hides
  the ones below it, and nothing lies deeper than the fuel.
\<close>

fun visible_countries :: "nat \<Rightarrow> rdap_entity \<Rightarrow> string list" where
  "visible_countries 0 e = []"
| "visible_countries (Suc n) e =
     (let own = (case en_VCard e of None \<Rightarrow> [] | Some v \<Rightarrow> vc_Country v)
      in if own \<noteq> [] then [normalizeCountry own]
         else concat (map (visible_countries n) (en_Entities e)))"

definition first_nonempty :: "string list \<Rightarrow> string" where
  "first_nonempty = first_found (\<lambda>c. c)"

lemma first_found_map: "first_found f xs = first_nonempty (map f xs)"
  by (induction xs) (auto simp: first_nonempty_def)

lemma first_nonempty_append:
  "first_nonempty (xs @ ys) = (if first_nonempty xs \<noteq> [] then first_nonempty xs else first_nonempty ys)"
  by (induction xs) (auto simp: first_nonempty_def)

lemma first_nonempty_concat:
  "first_nonempty (concat xss) = first_nonempty (map first_nonempty xss)"
proof (induction xss)
  case (Cons xs xss)
  then show ?case by (auto simp: first_nonempty_append) (simp_all add: first_nonempty_def)
qed (simp add: first_nonempty_def)

lemma first_found_iff:
  "first_found f xs = (case find (\<lambda>x. f x \<noteq> []) xs of None \<Rightarrow> [] | Some x \<Rightarrow> f x)"
  by (induction xs) auto

lemma extract_depth_visible:
  assumes "depth \<le> Suc maxEntityDepth"
  shows "extractCountryFromEntityWithDepth e depth =
    first_nonempty (visible_countries (Suc maxEntityDepth - depth) e)"
  using assms
proof (induction e depth rule: extractCountryFromEntityWithDepth.induct)
  case (1 h roles vc st evs nets asns es depth)
  show ?case
  proof (cases "depth > maxEntityDepth")
    case True
    then show ?thesis by (simp add: first_nonempty_def)
  next
    case False
    then obtain n where n: "Suc maxEntityDepth - depth = Suc n" "Suc maxEntityDepth - (depth + 1) = n"
      by (cases "Suc maxEntityDepth - depth") auto
    show ?thesis
    proof (cases "\<exists>v. vc = Some v \<and> vc_Country v \<noteq> []")
      case True
      with False n show ?thesis by (auto simp: first_nonempty_def)
    next
      case hidden: False
      have "extractCountryFromEntityWithDepth e (depth + 1) = first_nonempty (visible_countries n e)"
        if "e \<in> set es" for e
        using 1 False hidden that n(2) by (cases vc) auto
      then have "first_found (\<lambda>e. extractCountryFromEntityWithDepth e (depth + 1)) es =
        first_nonempty (concat (map (visible_countries n) es))"
        by (simp add: first_found_map first_nonempty_concat comp_def cong: map_cong)
      then show ?thesis using False hidden n by (auto split: option.split)
    qed
  qed
qed

lemma country_by_priority_entity:
  "first_found (\<lambda>role. if role = p then extractCountryFromEntity e else []) (en_Roles e) =
     (if p \<in> set (en_Roles e) then extractCountryFromEntity e else [])"
proof -
  have "first_found (\<lambda>role. if role = p then c else []) rs = (if p \<in> set rs then c else [])" for c rs
    by (induction rs) auto
  then show ?thesis .
qed

end
