(* ===== verification/GoNet.thy ===== *)
theory GoNet
  imports GoStrings
begin

text \<open>
  IP addresses as Go's \<open>net\<close> and \<open>net/netip\<close> packages parse them: \<open>netip.ParseAddr\<close>,
  \<open>netip.ParsePrefix\<close>, \<open>net.ParseIP\<close>.  An address is its version and its bytes.
\<close>

datatype ip_addr = IPv4 "nat list" | IPv6 "nat list" (ip_zone: string)
  where "ip_zone (IPv4 _) = []"

section \<open>IPv4\<close>

text \<open>One octet: digits without a leading zero, at most 255.\<close>

definition parse_octet :: "string \<Rightarrow> nat option" where
  "parse_octet s =
     (if all_digits s \<and> (length s > 1 \<longrightarrow> hd s \<noteq> CHR ''0'') \<and> dec_value 0 s \<le> 255
      then Some (dec_value 0 s) else None)"

fun parse_octets :: "string list \<Rightarrow> nat list option" where
  "parse_octets [] = Some []"
| "parse_octets (s # ss) =
     (case parse_octet s of None \<Rightarrow> None
      | Some n \<Rightarrow> (case parse_octets ss of None \<Rightarrow> None | Some ns \<Rightarrow> Some (n # ns)))"

definition parse_ipv4 :: "string \<Rightarrow> nat list option" where
  "parse_ipv4 s =
     (let parts = split_on CHR ''.'' s in if length parts = 4 then parse_octets parts else None)"

section \<open>IPv6\<close>

definition is_hex :: "char \<Rightarrow> bool" where
  "is_hex c = (is_digit c \<or> c \<in> set ''abcdefABCDEF'')"

definition hex_digit_val :: "char \<Rightarrow> nat" where
  "hex_digit_val c =
     (if is_digit c then digit_val c
      else if is_lower c then of_char c - 87 else of_char c - 55)"

fun hex_value :: "nat \<Rightarrow> string \<Rightarrow> nat" where
  "hex_value acc [] = acc"
| "hex_value acc (c # s) = hex_value (16 * acc + hex_digit_val c) s"

text \<open>
  One round of the loop over the groups, from the text left, the bytes so far and the position of
  the ellipsis: the end of the loop (\<open>Inl\<close>), its next state (\<open>Inr\<close>), or an error.  A group is at
  most four hexadecimal digits; a group followed by a dot starts an embedded IPv4 address.
\<close>

type_synonym ipv6_state = "string \<times> nat list \<times> nat option"

definition ipv6_step :: "ipv6_state \<Rightarrow> (nat list \<times> nat option + ipv6_state) option" where
  "ipv6_step st =
     (let (s, ip, ellipsis) = st; ds = takeWhile is_hex s; r = dropWhile is_hex s;
          acc = hex_value 0 ds; ip' = ip @ [acc div 256, acc mod 256] in
      if ds = [] \<or> length ds > 4 then None
      else if r \<noteq> [] \<and> hd r = CHR ''.'' then
        (if ellipsis = None \<and> length ip \<noteq> 12 then None
         else if length ip + 4 > 16 then None
         else (case parse_ipv4 s of None \<Rightarrow> None | Some f \<Rightarrow> Some (Inl (ip @ f, ellipsis))))
      else if r = [] then Some (Inl (ip', ellipsis))
      else if hd r \<noteq> CHR '':'' \<or> tl r = [] then None
      else if hd (tl r) = CHR '':'' then
        (if ellipsis \<noteq> None then None
         else if tl (tl r) = [] then Some (Inl (ip', Some (length ip')))
         else Some (Inr (tl (tl r), ip', Some (length ip'))))
      else Some (Inr (tl r, ip', ellipsis)))"

lemma ipv6_step_shorter:
  assumes "ipv6_step (s, ip, e) = Some (Inr (s', ip', e'))"
  shows "length s' < length s"
proof -
  have "length (dropWhile is_hex s) \<le> length s" by (rule length_dropWhile_le)
  moreover have "dropWhile is_hex s \<noteq> []" "s' = tl (dropWhile is_hex s) \<or> s' = tl (tl (dropWhile is_hex s))"
    using assms by (auto simp: ipv6_step_def Let_def split: if_splits option.splits)
  ultimately show ?thesis by (cases "dropWhile is_hex s") auto
qed

function ipv6_groups :: "string \<Rightarrow> nat list \<Rightarrow> nat option \<Rightarrow> (nat list \<times> nat option) option" where
  "ipv6_groups s ip ellipsis =
     (if length ip \<ge> 16 then (if s = [] then Some (ip, ellipsis) else None)
      else (case ipv6_step (s, ip, ellipsis) of
              None \<Rightarrow> None
            | Some (Inl p) \<Rightarrow> Some p
            | Some (Inr (s', ip', ellipsis')) \<Rightarrow> ipv6_groups s' ip' ellipsis'))"
  by pat_completeness auto

termination
  by (relation "measure (\<lambda>(s, _, _). length s)") (auto dest: ipv6_step_shorter)

declare ipv6_groups.simps [simp del]

definition ipv6_expand :: "nat list \<times> nat option \<Rightarrow> nat list option" where
  "ipv6_expand p =
     (let (ip, ellipsis) = p in
      if length ip < 16 then
        (case ellipsis of
           None \<Rightarrow> None
         | Some e \<Rightarrow> Some (take e ip @ replicate (16 - length ip) 0 @ drop e ip))
      else if ellipsis \<noteq> None then None else Some ip)"

definition parse_ipv6 :: "string \<Rightarrow> nat list option" where
  "parse_ipv6 s =
     (case drop_prefix ''::'' s of
        Some [] \<Rightarrow> Some (replicate 16 0)
      | Some r \<Rightarrow> (case ipv6_groups r [] (Some 0) of None \<Rightarrow> None | Some p \<Rightarrow> ipv6_expand p)
      | None \<Rightarrow> (case ipv6_groups s [] None of None \<Rightarrow> None | Some p \<Rightarrow> ipv6_expand p))"

section \<open>Addresses\<close>

text \<open>
  \<open>netip.ParseAddr\<close>: the first of dot, colon and percent decides; an IPv6 zone follows a percent
  sign and is not empty.
\<close>

definition ParseAddr :: "string \<Rightarrow> ip_addr option" where
  "ParseAddr s =
     (case find (\<lambda>c. c \<in> {CHR ''.'', CHR '':'', CHR ''%''}) s of
        None \<Rightarrow> None
      | Some c \<Rightarrow>
          if c = CHR ''.'' then map_option IPv4 (parse_ipv4 s)
          else if c = CHR '':'' then
            (case cut_at CHR ''%'' s of
               None \<Rightarrow> map_option (\<lambda>b. IPv6 b []) (parse_ipv6 s)
             | Some (a, zone) \<Rightarrow>
                 if zone = [] then None else map_option (\<lambda>b. IPv6 b zone) (parse_ipv6 a))
          else None)"

definition is4 :: "ip_addr \<Rightarrow> bool" where
  "is4 a = (case a of IPv4 _ \<Rightarrow> True | IPv6 _ _ \<Rightarrow> False)"

definition ip_bytes :: "ip_addr \<Rightarrow> nat list" where
  "ip_bytes a = (case a of IPv4 b \<Rightarrow> b | IPv6 b _ \<Rightarrow> b)"

text \<open>\<open>net.ParseIP (s) != nil\<close>: an address without a zone.\<close>

definition ParseIP :: "string \<Rightarrow> ip_addr option" where
  "ParseIP s =
     (case ParseAddr s of None \<Rightarrow> None | Some a \<Rightarrow> if ip_zone a = [] then Some a else None)"

section \<open>Well-formedness\<close>

definition ip_ok :: "ip_addr \<Rightarrow> bool" where
  "ip_ok a = (length (ip_bytes a) = (if is4 a then 4 else 16) \<and> (\<forall>b \<in> set (ip_bytes a). b < 256))"

lemma parse_octets_ok:
  "parse_octets ss = Some ns \<Longrightarrow> length ns = length ss \<and> (\<forall>n \<in> set ns. n < 256)"
  by (induction ss arbitrary: ns) (auto simp: parse_octet_def split: option.splits if_splits)

lemma parse_ipv4_ok: "parse_ipv4 s = Some ns \<Longrightarrow> length ns = 4 \<and> (\<forall>n \<in> set ns. n < 256)"
  by (auto simp: parse_ipv4_def Let_def dest!: parse_octets_ok split: if_splits)

lemma hex_digit_val_less: "is_hex c \<Longrightarrow> hex_digit_val c < 16"
  using digit_val_le_9 [of c] unfolding is_hex_def hex_digit_val_def by auto

lemma hex_value_less:
  "\<forall>c \<in> set s. is_hex c \<Longrightarrow> hex_value acc s < (acc + 1) * 16 ^ length s"
proof (induction s arbitrary: acc)
  case (Cons c s)
  have "hex_value (16 * acc + hex_digit_val c) s < (16 * acc + hex_digit_val c + 1) * 16 ^ length s"
    using Cons by simp
  also have "\<dots> \<le> (16 * (acc + 1)) * 16 ^ length s"
    using hex_digit_val_less [of c] Cons.prems by (intro mult_right_mono) auto
  finally show ?case by (simp add: algebra_simps)
qed simp

definition ipv6_bytes_ok :: "nat list \<Rightarrow> bool" where
  "ipv6_bytes_ok ip = (length ip \<le> 16 \<and> even (length ip) \<and> (\<forall>b \<in> set ip. b < 256))"

lemma ipv6_group_ok:
  assumes "ipv6_bytes_ok ip" "length ip < 16" "length (takeWhile is_hex s) \<le> 4"
  shows "ipv6_bytes_ok (ip @ [hex_value 0 (takeWhile is_hex s) div 256,
    hex_value 0 (takeWhile is_hex s) mod 256])"
proof -
  let ?ds = "takeWhile is_hex s"
  have "\<forall>c \<in> set ?ds. is_hex c" by (auto dest: set_takeWhileD)
  then have "hex_value 0 ?ds < 16 ^ length ?ds" using hex_value_less [of ?ds 0] by simp
  also have "(16 :: nat) ^ length ?ds \<le> 16 ^ 4" using assms(3) by (intro power_increasing) auto
  finally have "hex_value 0 ?ds div 256 < 256" by simp
  moreover obtain k where "length ip = 2 * k" using assms(1) by (auto simp: ipv6_bytes_ok_def)
  then have "length ip \<le> 14" using assms(2) by presburger
  ultimately show ?thesis using assms(1) by (auto simp: ipv6_bytes_ok_def)
qed

lemma ipv6_step_ok:
  assumes "ipv6_bytes_ok ip" "length ip < 16"
  shows "ipv6_step (s, ip, e) = Some (Inl (ip', e')) \<Longrightarrow> ipv6_bytes_ok ip'"
    and "ipv6_step (s, ip, e) = Some (Inr (s', ip', e')) \<Longrightarrow> ipv6_bytes_ok ip'"
proof -
  have v4: "parse_ipv4 s = Some f \<Longrightarrow> length ip + 4 \<le> 16 \<Longrightarrow> ipv6_bytes_ok (ip @ f)" for f
    using assms(1) parse_ipv4_ok [of s f] by (auto simp: ipv6_bytes_ok_def)
  note group = ipv6_group_ok [OF assms, of s]
  show "ipv6_step (s, ip, e) = Some (Inl (ip', e')) \<Longrightarrow> ipv6_bytes_ok ip'"
    using v4 group by (auto simp: ipv6_step_def Let_def split: if_splits option.splits)
  show "ipv6_step (s, ip, e) = Some (Inr (s', ip', e')) \<Longrightarrow> ipv6_bytes_ok ip'"
    using group by (auto simp: ipv6_step_def Let_def split: if_splits option.splits)
qed

lemma ipv6_groups_ok:
  "ipv6_groups s ip e = Some (ip', e') \<Longrightarrow> ipv6_bytes_ok ip \<Longrightarrow> ipv6_bytes_ok ip'"
proof (induction s ip e rule: ipv6_groups.induct)
  case (1 s ip e)
  show ?case
  proof (cases "length ip \<ge> 16")
    case True
    with 1(2,3) show ?thesis by (subst (asm) ipv6_groups.simps) (auto split: if_splits)
  next
    case False
    show ?thesis
    proof (cases "ipv6_step (s, ip, e)")
      case None
      with 1(2) False show ?thesis by (subst (asm) ipv6_groups.simps) simp
    next
      case (Some r)
      show ?thesis
      proof (cases r)
        case (Inl p)
        with 1(2) False Some have "p = (ip', e')" by (subst (asm) ipv6_groups.simps) simp
        with ipv6_step_ok(1) [OF 1(3)] False Some Inl show ?thesis by auto
      next
        case (Inr q)
        obtain s1 ip1 e1 where q: "q = (s1, ip1, e1)" by (cases q)
        have "ipv6_bytes_ok ip1" using ipv6_step_ok(2) [OF 1(3)] False Some Inr q by auto
        moreover have "ipv6_groups s1 ip1 e1 = Some (ip', e')"
          using 1(2) False Some Inr q by (subst (asm) ipv6_groups.simps) simp
        ultimately show ?thesis using 1(1) [OF False Some Inr q [symmetric] refl] by blast
      qed
    qed
  qed
qed

lemma ipv6_expand_ok:
  assumes "ipv6_bytes_ok ip" "ipv6_expand (ip, e) = Some b"
  shows "length b = 16 \<and> (\<forall>n \<in> set b. n < 256)"
  using assms in_set_takeD [of _ _ ip] in_set_dropD [of _ _ ip]
  by (fastforce simp: ipv6_expand_def ipv6_bytes_ok_def split: if_splits option.splits)

lemma parse_ipv6_ok: "parse_ipv6 s = Some b \<Longrightarrow> length b = 16 \<and> (\<forall>n \<in> set b. n < 256)"
proof -
  have start: "ipv6_bytes_ok []" by (simp add: ipv6_bytes_ok_def)
  have "length b = 16 \<and> (\<forall>n \<in> set b. n < 256)"
    if "ipv6_groups r [] e = Some p" "ipv6_expand p = Some b" for r e p
    using that ipv6_groups_ok [OF _ start] ipv6_expand_ok by (cases p) blast
  then show "parse_ipv6 s = Some b \<Longrightarrow> length b = 16 \<and> (\<forall>n \<in> set b. n < 256)"
    unfolding parse_ipv6_def by (auto split: option.splits list.splits)
qed

text \<open>Every parsed address has the length of its version, and bytes.\<close>

lemma ip_ok_parsed: "parse_ipv4 s = Some b \<Longrightarrow> ip_ok (IPv4 b)" "parse_ipv6 s = Some b \<Longrightarrow> ip_ok (IPv6 b z)"
  using parse_ipv4_ok [of s b] parse_ipv6_ok [of s b] by (simp_all add: ip_ok_def ip_bytes_def is4_def)

lemma ParseAddr_ok: "ParseAddr s = Some a \<Longrightarrow> ip_ok a"
  unfolding ParseAddr_def by (auto intro: ip_ok_parsed split: option.splits if_splits)

lemma ParseIP_ok: "ParseIP s = Some a \<Longrightarrow> ip_ok a"
  by (auto simp: ParseIP_def dest: ParseAddr_ok split: option.splits if_splits)

end
