(* ===== verification/Validate_Input.thy ===== *)
theory Validate_Input
  imports GoErrors GoNet
begin

text \<open>
  \<open>internal/validate/input.go\<close>: the checks of domain names, IP addresses, AS numbers and entity
  handles.  \<open>None\<close> is the nil error.
\<close>

definition MaxDomainLength :: nat where "MaxDomainLength = 253"
definition MaxLabelLength :: nat where "MaxLabelLength = 63"
definition MaxHandleLength :: nat where "MaxHandleLength = 256"
definition MaxASN :: nat where "MaxASN = 4294967295"

section \<open>Domains\<close>

text \<open>The regular expression \<open>^[a-z0-9]([a-z0-9-]*[a-z0-9])?$\<close> of a label.\<close>

definition label_alnum :: "char \<Rightarrow> bool" where
  "label_alnum c = (is_lower c \<or> is_digit c)"

definition label_matches :: "string \<Rightarrow> bool" where
  "label_matches l =
     (case l of
        [] \<Rightarrow> False
      | [c] \<Rightarrow> label_alnum c
      | c # cs \<Rightarrow> label_alnum c \<and> label_alnum (last cs) \<and>
                 list_all (\<lambda>d. label_alnum d \<or> d = CHR ''-'') (butlast cs))"

definition check_label :: "string \<Rightarrow> sentinel option" where
  "check_label l =
     (if l = [] then Some Validate_ErrInvalidDomainChar
      else if length l > MaxLabelLength then Some Validate_ErrLabelTooLong
      else if \<not> label_matches l then
        (if has_prefix l ''-'' \<or> has_suffix l ''-'' then Some Validate_ErrInvalidLabelStart
         else Some Validate_ErrInvalidDomainChar)
      else None)"

text \<open>The loop over the labels returns at the first label with an error.\<close>

fun check_labels :: "string list \<Rightarrow> sentinel option" where
  "check_labels [] = None"
| "check_labels (l # ls) = (case check_label l of Some e \<Rightarrow> Some e | None \<Rightarrow> check_labels ls)"

definition ValidateDomain :: "string \<Rightarrow> sentinel option" where
  "ValidateDomain name0 =
     (if name0 = [] then Some Validate_ErrEmptyDomain
      else let name = trim_suffix (to_lower name0) ''.'' in
        if length name > MaxDomainLength then Some Validate_ErrDomainTooLong
        else let labels = split_on CHR ''.'' name in
          if length labels = 0 then Some Validate_ErrEmptyDomain
          else check_labels labels)"

section \<open>Addresses, AS numbers, handles\<close>

definition ValidateIP :: "string \<Rightarrow> sentinel option" where
  "ValidateIP addr =
     (if addr = [] then Some Validate_ErrEmptyIP
      else (case ParseIP addr of None \<Rightarrow> Some Validate_ErrInvalidIP | Some _ \<Rightarrow> None))"

definition ValidateASN :: "nat \<Rightarrow> sentinel option" where
  "ValidateASN asn =
     (if asn = 0 then Some Validate_ErrASNOutOfRange
      else if asn > MaxASN then Some Validate_ErrASNOutOfRange
      else None)"

text \<open>The loop over the code points of a handle.\<close>

definition handle_rune_bad :: "nat \<Rightarrow> bool" where
  "handle_rune_bad r =
     (is_control_rune r \<or> is_format_rune r \<or> is_private_rune r \<or> is_surrogate_rune r)"

definition ValidateEntityHandle :: "string \<Rightarrow> sentinel option" where
  "ValidateEntityHandle handle =
     (if handle = [] then Some Validate_ErrEmptyHandle
      else if length handle > MaxHandleLength then Some Validate_ErrHandleTooLong
      else if list_ex handle_rune_bad (runes handle) then Some Validate_ErrInvalidHandleChar
      else None)"

section \<open>What a valid domain is\<close>

text \<open>
  The specification in terms of the characters: an accepted label consists of letters, digits and
  inner hyphens.
\<close>

definition good_label :: "string \<Rightarrow> bool" where
  "good_label l \<longleftrightarrow>
     l \<noteq> [] \<and> length l \<le> 63 \<and> (\<forall>c \<in> set l. label_alnum c \<or> c = CHR ''-'') \<and>
     hd l \<noteq> CHR ''-'' \<and> last l \<noteq> CHR ''-''"

lemma label_alnum_hyphen [simp]: "\<not> label_alnum CHR ''-''"
  by (simp add: label_alnum_def)

lemma label_matches_iff:
  "label_matches l \<longleftrightarrow>
     l \<noteq> [] \<and> (\<forall>c \<in> set l. label_alnum c \<or> c = CHR ''-'') \<and> hd l \<noteq> CHR ''-'' \<and> last l \<noteq> CHR ''-''"
proof (cases l)
  case (Cons c cs)
  show ?thesis
  proof (cases cs rule: rev_cases)
    case Nil
    with Cons show ?thesis by (auto simp: label_matches_def)
  next
    case (snoc ds d)
    have "cs \<noteq> []" using snoc by simp
    then obtain x xs where "cs = x # xs" by (meson neq_Nil_conv)
    then have "label_matches l \<longleftrightarrow> label_alnum c \<and> label_alnum (last cs) \<and>
        list_all (\<lambda>d. label_alnum d \<or> d = CHR ''-'') (butlast cs)"
      using Cons by (simp add: label_matches_def del: last.simps butlast.simps)
    then show ?thesis using Cons snoc by (auto simp: list_all_iff)
  qed
qed (simp add: label_matches_def)

lemma check_label_None: "check_label l = None \<longleftrightarrow> good_label l"
  by (auto simp: check_label_def good_label_def label_matches_iff MaxLabelLength_def)

lemma check_labels_None: "check_labels ls = None \<longleftrightarrow> (\<forall>l \<in> set ls. good_label l)"
proof (induction ls)
  case (Cons l ls)
  then show ?case using check_label_None [of l] by (cases "check_label l") auto
qed simp

lemma ValidateDomain_None:
  "ValidateDomain name = None \<longleftrightarrow>
     name \<noteq> [] \<and> length (trim_suffix (to_lower name) ''.'') \<le> 253 \<and>
     (\<forall>l \<in> set (split_on CHR ''.'' (trim_suffix (to_lower name) ''.'')). good_label l)"
  by (auto simp: ValidateDomain_def Let_def check_labels_None MaxDomainLength_def)

text \<open>An accepted name has no byte outside letters, digits, hyphens and dots.\<close>

lemma split_on_cover: "c \<in> set s \<Longrightarrow> c = d \<or> (\<exists>w \<in> set (split_on d s). c \<in> set w)"
proof (induction s)
  case (Cons x s)
  obtain w ws where "split_on d s = w # ws" by (cases "split_on d s") auto
  with Cons show ?case by auto
qed simp

lemma ValidateDomain_chars:
  assumes "ValidateDomain name = None" "c \<in> set (to_lower name)"
  shows "label_alnum c \<or> c = CHR ''-'' \<or> c = CHR ''.''"
proof -
  let ?n = "trim_suffix (to_lower name) ''.''"
  have labels: "\<forall>l \<in> set (split_on CHR ''.'' ?n). good_label l"
    using assms(1) by (simp add: ValidateDomain_None)
  have "c \<in> set ?n \<or> c = CHR ''.''"
    using assms(2) by (cases "to_lower name" "''.''" rule: trim_suffix_cases) (auto, metis UnE empty_iff empty_set set_ConsD set_append)
  then show ?thesis using split_on_cover [of c ?n "CHR ''.''"] labels by (auto simp: good_label_def)
qed

end
