(* ===== verification/Bootstrap.thy ===== *)
theory Bootstrap
  imports GoIO GoNet
begin

text \<open>
  \<open>internal/bootstrap/types.go\<close> and \<open>resolver.go\<close>: the bootstrap tables for top-level domains, IP
  prefixes and AS number ranges, and the resolution of a name or number to RDAP servers.

  The prefix tree is \<open>cidranger\<close>, which is not part of the repository: its operations are a record
  of functions, and \<open>ranger_ok\<close> states what its documentation promises about them.
\<close>

section \<open>Data\<close>

record DNSBootstrap =
  dns_tldToURLs :: "string \<rightharpoonup> string list"
  dns_lastRefresh :: "int option"
  dns_publication :: string
  dns_version :: string

text \<open>
  A prefix is an address and a number of bits; it is also the \<open>net.IPNet\<close> that
  \<open>prefixToIPNet\<close> makes of it (the same bytes, and the mask of that many ones).
\<close>

type_synonym prefix = "ip_addr \<times> nat"
type_synonym ip_net = "nat list \<times> nat"

definition prefixToIPNet :: "prefix \<Rightarrow> ip_net" where
  "prefixToIPNet p = (ip_bytes (fst p), snd p)"

type_synonym ranger_entry = "ip_net \<times> string list"

record 'r ranger_ops =
  cr_new :: 'r
  cr_insert :: "'r \<Rightarrow> ranger_entry \<Rightarrow> go_error + 'r"
  cr_containing :: "'r \<Rightarrow> nat list \<Rightarrow> go_error + ranger_entry list"

text \<open>\<open>IPv4Bootstrap\<close> and \<open>IPv6Bootstrap\<close> have the same fields.\<close>

record 'r IPBootstrap =
  ib_ranger :: "'r option"
  ib_prefixes :: "(prefix \<times> string list) list"
  ib_lastRefresh :: "int option"
  ib_publication :: string
  ib_version :: string

record asnEntry =
  as_start :: "32 word"
  as_end :: "32 word"
  as_urls :: "string list"

record ASNBootstrap =
  ab_ranges :: "asnEntry list"
  ab_lastRefresh :: "int option"
  ab_publication :: string
  ab_version :: string

record 'r Bootstrap =
  bs_DNS :: DNSBootstrap
  bs_IPv4 :: "'r IPBootstrap"
  bs_IPv6 :: "'r IPBootstrap"
  bs_ASN :: ASNBootstrap

definition NewBootstrap :: "'r ranger_ops \<Rightarrow> 'r Bootstrap" where
  "NewBootstrap ops =
     (let ip = \<lparr>ib_ranger = Some (cr_new ops), ib_prefixes = [], ib_lastRefresh = None,
                ib_publication = [], ib_version = []\<rparr>
      in \<lparr>bs_DNS = \<lparr>dns_tldToURLs = Map.empty, dns_lastRefresh = None, dns_publication = [],
                     dns_version = []\<rparr>,
          bs_IPv4 = ip, bs_IPv6 = ip,
          bs_ASN = \<lparr>ab_ranges = [], ab_lastRefresh = None, ab_publication = [], ab_version = []\<rparr>\<rparr>)"

definition TLDCount :: "DNSBootstrap \<Rightarrow> nat" where
  "TLDCount d = card (dom (dns_tldToURLs d))"

definition PrefixCount :: "'r IPBootstrap \<Rightarrow> nat" where
  "PrefixCount i = length (ib_prefixes i)"

definition RangeCount :: "ASNBootstrap \<Rightarrow> nat" where
  "RangeCount a = length (ab_ranges a)"

definition SetTLDURLs :: "DNSBootstrap \<Rightarrow> string \<Rightarrow> string list \<Rightarrow> DNSBootstrap" where
  "SetTLDURLs d tld urls = d\<lparr>dns_tldToURLs := (dns_tldToURLs d)(tld \<mapsto> urls)\<rparr>"

definition AddRange :: "ASNBootstrap \<Rightarrow> 32 word \<Rightarrow> 32 word \<Rightarrow> string list \<Rightarrow> ASNBootstrap" where
  "AddRange a start end urls =
     a\<lparr>ab_ranges := ab_ranges a @ [\<lparr>as_start = start, as_end = end, as_urls = urls\<rparr>]\<rparr>"

text \<open>
  \<open>netip.ParsePrefix\<close>: the last slash separates an address without a zone from a decimal number
  of bits without a leading zero.
\<close>

definition ParsePrefix :: "string \<Rightarrow> prefix option" where
  "ParsePrefix s =
     (case last_index_char s CHR ''/'' of
        None \<Rightarrow> None
      | Some i \<Rightarrow>
          (case ParseAddr (take i s) of
             None \<Rightarrow> None
           | Some a \<Rightarrow>
               let b = drop (Suc i) s in
               if ip_zone a \<noteq> [] then None
               else if \<not> all_digits b \<or> (length b > 1 \<and> hd b = CHR ''0'') then None
               else if dec_value 0 b > (if is4 a then 32 else 128) then None
               else Some (a, dec_value 0 b)))"

definition AddPrefix ::
  "'r ranger_ops \<Rightarrow> 'r IPBootstrap \<Rightarrow> string \<Rightarrow> string list \<Rightarrow> go_error + 'r IPBootstrap" where
  "AddPrefix ops i cidr urls =
     (case ParsePrefix cidr of
        None \<Rightarrow> Inl (OtherError ''netip.ParsePrefix'')
      | Some p \<Rightarrow>
          let ranger = (case ib_ranger i of None \<Rightarrow> cr_new ops | Some r \<Rightarrow> r) in
          (case cr_insert ops ranger (prefixToIPNet p, urls) of
             Inl e \<Rightarrow> Inl e
           | Inr r' \<Rightarrow>
               Inr (i\<lparr>ib_ranger := Some r', ib_prefixes := ib_prefixes i @ [(p, urls)]\<rparr>)))"

section \<open>Domains\<close>

text \<open>\<open>extractTLD\<close>: no white space is trimmed here.\<close>

definition extractTLD :: "string \<Rightarrow> string" where
  "extractTLD domain0 =
     (let domain = trim_suffix domain0 ''.''
      in if domain = [] then []
         else (case last_index_char domain CHR ''.'' of
                 None \<Rightarrow> domain
               | Some lastDot \<Rightarrow> drop (Suc lastDot) domain))"

definition dns_empty :: "DNSBootstrap \<Rightarrow> bool" where
  "dns_empty d = (dns_tldToURLs d = Map.empty)"

definition DNS_ResolveDomain :: "DNSBootstrap \<Rightarrow> string \<Rightarrow> sentinel + string list" where
  "DNS_ResolveDomain d domain =
     (if domain = [] then Inl Bootstrap_ErrInvalidInput
      else if dns_empty d then Inl Bootstrap_ErrNotInitialized
      else (let tld = extractTLD domain in
        if tld = [] then Inl Bootstrap_ErrInvalidInput
        else (case dns_tldToURLs d (to_lower tld) of
                None \<Rightarrow> Inl Bootstrap_ErrNotFound
              | Some urls \<Rightarrow> Inr urls)))"

definition DNS_ResolveTLD :: "DNSBootstrap \<Rightarrow> string \<Rightarrow> sentinel + string list" where
  "DNS_ResolveTLD d tld0 =
     (if tld0 = [] then Inl Bootstrap_ErrInvalidInput
      else if dns_empty d then Inl Bootstrap_ErrNotInitialized
      else (let tld = trim_prefix tld0 ''.'' in
        case dns_tldToURLs d (to_lower tld) of
          None \<Rightarrow> Inl Bootstrap_ErrNotFound
        | Some urls \<Rightarrow> Inr urls))"

section \<open>IP addresses\<close>

text \<open>The loop that keeps the entry with the most ones, the first of equals.\<close>

definition better_entry :: "ranger_entry option \<Rightarrow> ranger_entry \<Rightarrow> ranger_entry option" where
  "better_entry best e =
     (case best of
        None \<Rightarrow> Some e
      | Some b \<Rightarrow> if snd (fst e) > snd (fst b) then Some e else best)"

text \<open>\<open>ResolveIP\<close> of the table for version \<open>v4\<close>.\<close>

definition IP_ResolveIP ::
  "'r ranger_ops \<Rightarrow> bool \<Rightarrow> 'r IPBootstrap \<Rightarrow> ip_addr \<Rightarrow> sentinel + string list" where
  "IP_ResolveIP ops v4 i addr =
     (if is4 addr \<noteq> v4 then Inl Bootstrap_ErrInvalidInput
      else (case ib_ranger i of
              None \<Rightarrow> Inl Bootstrap_ErrNotInitialized
            | Some ranger \<Rightarrow>
                if ib_prefixes i = [] then Inl Bootstrap_ErrNotInitialized
                else (case cr_containing ops ranger (ip_bytes addr) of
                        Inl e \<Rightarrow> Inl Bootstrap_ErrNotFound
                      | Inr entries \<Rightarrow>
                          (case foldl better_entry None entries of
                             None \<Rightarrow> Inl Bootstrap_ErrNotFound
                           | Some best \<Rightarrow> Inr (snd best)))))"

definition ResolveIPString ::
  "'r ranger_ops \<Rightarrow> bool \<Rightarrow> 'r IPBootstrap \<Rightarrow> string \<Rightarrow> sentinel + string list" where
  "ResolveIPString ops v4 i s =
     (case ParseAddr s of
        None \<Rightarrow> Inl Bootstrap_ErrInvalidInput
      | Some addr \<Rightarrow> IP_ResolveIP ops v4 i addr)"

section \<open>AS numbers\<close>

text \<open>The loop that walks back from the entry before the index found.\<close>

fun scan_back :: "asnEntry list \<Rightarrow> nat \<Rightarrow> 32 word \<Rightarrow> string list option" where
  "scan_back ranges 0 asn = None"
| "scan_back ranges (Suc i) asn =
     (let r = ranges ! i in
      if as_start r \<le> asn \<and> asn \<le> as_end r then Some (as_urls r)
      else if as_end r < asn then None
      else scan_back ranges i asn)"

definition ASN_ResolveASN :: "ASNBootstrap \<Rightarrow> 32 word \<Rightarrow> sentinel + string list" where
  "ASN_ResolveASN a asn =
     (if asn = 0 then Inl Bootstrap_ErrInvalidInput
      else if ab_ranges a = [] then Inl Bootstrap_ErrNotInitialized
      else (let idx = Search (length (ab_ranges a)) (\<lambda>i. as_start (ab_ranges a ! i) > asn) in
        case scan_back (ab_ranges a) idx asn of
          None \<Rightarrow> Inl Bootstrap_ErrNotFound
        | Some urls \<Rightarrow> Inr urls))"

section \<open>The resolver\<close>

definition Resolver_ResolveIP ::
  "'r ranger_ops \<Rightarrow> 'r Bootstrap \<Rightarrow> string \<Rightarrow> sentinel + string list" where
  "Resolver_ResolveIP ops b addrStr =
     (case ParseAddr addrStr of
        None \<Rightarrow> Inl Bootstrap_ErrInvalidInput
      | Some addr \<Rightarrow>
          if is4 addr then IP_ResolveIP ops True (bs_IPv4 b) addr
          else IP_ResolveIP ops False (bs_IPv6 b) addr)"

text \<open>\<open>GetAllRDAPServers\<close> collects into a map and lists it in no particular order: a set.\<close>

definition GetAllRDAPServers :: "'r Bootstrap \<Rightarrow> string set" where
  "GetAllRDAPServers b =
     (\<Union>urls \<in> ran (dns_tldToURLs (bs_DNS b)). set urls) \<union>
     (\<Union>(p, urls) \<in> set (ib_prefixes (bs_IPv4 b)). set urls) \<union>
     (\<Union>(p, urls) \<in> set (ib_prefixes (bs_IPv6 b)). set urls) \<union>
     (\<Union>r \<in> set (ab_ranges (bs_ASN b)). set (as_urls r))"

section \<open>The search for an AS number\<close>

definition in_range :: "32 word \<Rightarrow> asnEntry \<Rightarrow> bool" where
  "in_range asn r = (as_start r \<le> asn \<and> asn \<le> as_end r)"

text \<open>
  The tables for which the walk may stop at the first range that ends too early: sorted by start
  and by end.  Disjoint sorted ranges are such a table.
\<close>

definition asn_table_ok :: "asnEntry list \<Rightarrow> bool" where
  "asn_table_ok rs = (sorted (map as_start rs) \<and> sorted (map as_end rs))"

text \<open>The specification: the last range of the table that contains the number.\<close>

definition linear_lookup :: "asnEntry list \<Rightarrow> 32 word \<Rightarrow> string list option" where
  "linear_lookup rs asn = map_option as_urls (find (in_range asn) (rev rs))"

lemma scan_back_sound:
  "scan_back rs n asn = Some urls \<Longrightarrow> n \<le> length rs \<Longrightarrow>
   \<exists>r \<in> set rs. in_range asn r \<and> as_urls r = urls"
  by (induction n) (auto simp: in_range_def Let_def split: if_splits)

lemma scan_back_linear:
  assumes "sorted (map as_end rs)" "n \<le> length rs"
  shows "scan_back rs n asn = linear_lookup (take n rs) asn"
  using assms(2)
proof (induction n)
  case (Suc n)
  let ?r = "rs ! n"
  have take: "take (Suc n) rs = take n rs @ [?r]" using Suc.prems by (simp add: take_Suc_conv_app_nth)
  have early: "\<not> in_range asn r" if "as_end ?r < asn" "r \<in> set (take n rs)" for r
  proof -
    from that(2) Suc.prems obtain k where k: "k < n" "r = rs ! k" by (auto simp: in_set_conv_nth)
    then have "as_end r \<le> as_end ?r"
      using sorted_nth_mono [OF assms(1), of k n] Suc.prems by simp
    with that(1) show ?thesis by (auto simp: in_range_def)
  qed
  show ?case
  proof (cases "in_range asn ?r")
    case True
    then show ?thesis by (simp add: take linear_lookup_def in_range_def)
  next
    case False
    have "linear_lookup (take (Suc n) rs) asn = linear_lookup (take n rs) asn"
      using False by (simp add: take linear_lookup_def)
    moreover have "linear_lookup (take n rs) asn = None" if "as_end ?r < asn"
      using early [OF that] by (auto simp: linear_lookup_def find_None_iff)
    ultimately show ?thesis using False Suc by (auto simp: in_range_def Let_def)
  qed
qed (simp add: linear_lookup_def)

lemma linear_lookup_take:
  assumes "\<And>k. n \<le> k \<Longrightarrow> k < length rs \<Longrightarrow> asn < as_start (rs ! k)"
  shows "linear_lookup (take n rs) asn = linear_lookup rs asn"
proof -
  have "\<not> in_range asn r" if "r \<in> set (drop n rs)" for r
  proof -
    from that obtain k where "k < length rs - n" "r = rs ! (n + k)"
      by (auto simp: in_set_conv_nth)
    then have "n + k < length rs" by simp
    then show ?thesis using assms [of "n + k"] \<open>r = rs ! (n + k)\<close> by (auto simp: in_range_def)
  qed
  then have "find (in_range asn) (rev (drop n rs)) = None" by (auto simp: find_None_iff)
  then have "find (in_range asn) (rev (take n rs @ drop n rs)) = find (in_range asn) (rev (take n rs))"
    by (simp only: rev_append find_append option.case)
  then show ?thesis by (simp add: linear_lookup_def)
qed

lemma asn_search:
  fixes asn :: "32 word"
  assumes "sorted (map as_start rs)"
  defines "idx \<equiv> Search (length rs) (\<lambda>i. as_start (rs ! i) > asn)"
  shows "idx \<le> length rs" "k < length rs \<Longrightarrow> as_start (rs ! k) > asn \<longleftrightarrow> idx \<le> k"
proof -
  have mono: "as_start (rs ! y) > asn" if "x \<le> y" "y < length rs" "as_start (rs ! x) > asn" for x y
    using that sorted_nth_mono [OF assms(1), of x y] by simp
  show "idx \<le> length rs" unfolding idx_def by (rule Search_boundary(1)) (rule mono)
  show "k < length rs \<Longrightarrow> as_start (rs ! k) > asn \<longleftrightarrow> idx \<le> k"
    unfolding idx_def by (rule Search_boundary(2)) (rule mono)
qed

lemma ResolveASN_linear:
  assumes "asn_table_ok (ab_ranges a)" "ab_ranges a \<noteq> []" "asn \<noteq> 0"
  shows "ASN_ResolveASN a asn =
    (case linear_lookup (ab_ranges a) asn of None \<Rightarrow> Inl Bootstrap_ErrNotFound | Some urls \<Rightarrow> Inr urls)"
proof -
  let ?rs = "ab_ranges a"
  let ?idx = "Search (length ?rs) (\<lambda>i. as_start (?rs ! i) > asn)"
  from assms(1) have s: "sorted (map as_start ?rs)" "sorted (map as_end ?rs)"
    by (simp_all add: asn_table_ok_def)
  have "scan_back ?rs ?idx asn = linear_lookup (take ?idx ?rs) asn"
    by (rule scan_back_linear [OF s(2) asn_search(1) [OF s(1)]])
  also have "\<dots> = linear_lookup ?rs asn"
    by (rule linear_lookup_take) (use asn_search(2) [OF s(1)] in blast)
  finally show ?thesis using assms(2,3) by (simp add: ASN_ResolveASN_def Let_def)
qed

text \<open>Disjoint ranges in ascending order are a sorted table, in which at most one range matches.\<close>

definition asn_disjoint :: "asnEntry list \<Rightarrow> bool" where
  "asn_disjoint rs =
     ((\<forall>r \<in> set rs. as_start r \<le> as_end r) \<and> sorted_wrt (\<lambda>r s. as_end r < as_start s) rs)"

lemma asn_disjoint_table: "asn_disjoint rs \<Longrightarrow> asn_table_ok rs"
proof (induction rs)
  case (Cons r rs)
  then have "asn_table_ok rs" "as_start r \<le> as_end r" by (auto simp: asn_disjoint_def)
  moreover have "as_end r < as_start s" "as_start s \<le> as_end s" if "s \<in> set rs" for s
    using Cons.prems that by (auto simp: asn_disjoint_def)
  ultimately show ?case by (fastforce simp: asn_table_ok_def)
qed (simp add: asn_table_ok_def)

lemma asn_disjoint_unique:
  assumes "asn_disjoint rs" "r \<in> set rs" "s \<in> set rs" "in_range asn r" "in_range asn s"
  shows "r = s"
  using assms
proof (induction rs)
  case (Cons x xs)
  then have "asn_disjoint xs" and gt: "\<And>y. y \<in> set xs \<Longrightarrow> as_end x < as_start y"
    by (auto simp: asn_disjoint_def)
  then have "\<not> (in_range asn x \<and> in_range asn y)" if "y \<in> set xs" for y
    using gt [OF that] by (auto simp: in_range_def)
  then show ?case using Cons \<open>asn_disjoint xs\<close> by auto
qed simp

lemma linear_lookup_disjoint:
  assumes "asn_disjoint rs" "r \<in> set rs" "in_range asn r"
  shows "linear_lookup rs asn = Some (as_urls r)"
proof (cases "find (in_range asn) (rev rs)")
  case None
  then show ?thesis using assms(2,3) by (auto simp: find_None_iff)
next
  case (Some s)
  then have "s \<in> set rs" "in_range asn s" by (auto simp: find_Some_iff) (metis nth_mem set_rev length_rev)
  then show ?thesis using asn_disjoint_unique [OF assms(1) _ assms(2) _ assms(3)] Some
    by (simp add: linear_lookup_def)
qed

section \<open>Longest prefix match\<close>

text \<open>The network of an entry contains an address: their first bits agree.\<close>

definition addr_bits :: "nat list \<Rightarrow> bool list" where
  "addr_bits bytes = concat (map (\<lambda>b. map (bit b) (rev [0..<8])) bytes)"

definition net_contains :: "ip_net \<Rightarrow> nat list \<Rightarrow> bool" where
  "net_contains n ip =
     (length (fst n) = length ip \<and> take (snd n) (addr_bits (fst n)) = take (snd n) (addr_bits ip))"

text \<open>
  What \<open>cidranger\<close> documents, for a function \<open>nets\<close> that tells the networks a ranger holds and
  the URLs each was last inserted with: a new ranger is empty, an insertion adds its network, and
  \<open>ContainingNetworks\<close> lists the networks held that contain the address.
\<close>

definition ranger_ok :: "'r ranger_ops \<Rightarrow> ('r \<Rightarrow> ip_net \<rightharpoonup> string list) \<Rightarrow> bool" where
  "ranger_ok ops nets \<longleftrightarrow>
     nets (cr_new ops) = Map.empty \<and>
     (\<forall>r n urls. \<exists>r'. cr_insert ops r (n, urls) = Inr r' \<and> nets r' = (nets r)(n \<mapsto> urls)) \<and>
     (\<forall>r ip. \<exists>es. cr_containing ops r ip = Inr es \<and>
        set es = {(n, urls). nets r n = Some urls \<and> net_contains n ip})"

lemma better_entry_Some: "\<exists>b. better_entry acc e = Some b \<and> (b = e \<or> acc = Some b) \<and>
    snd (fst e) \<le> snd (fst b) \<and> (\<forall>a. acc = Some a \<longrightarrow> snd (fst a) \<le> snd (fst b))"
proof (cases acc)
  case None
  then show ?thesis by (intro exI [of _ e]) (simp add: better_entry_def)
next
  case (Some a)
  then show ?thesis
    by (intro exI [of _ "if snd (fst e) > snd (fst a) then e else a"]) (simp add: better_entry_def)
qed

lemma foldl_better_entry:
  "es \<noteq> [] \<or> acc \<noteq> None \<Longrightarrow> \<exists>b. foldl better_entry acc es = Some b \<and> (b \<in> set es \<or> acc = Some b) \<and>
     (\<forall>e \<in> set es. snd (fst e) \<le> snd (fst b)) \<and> (\<forall>a. acc = Some a \<longrightarrow> snd (fst a) \<le> snd (fst b))"
proof (induction es arbitrary: acc)
  case (Cons e es)
  obtain c where c: "better_entry acc e = Some c" "c = e \<or> acc = Some c" "snd (fst e) \<le> snd (fst c)"
      "\<forall>a. acc = Some a \<longrightarrow> snd (fst a) \<le> snd (fst c)"
    using better_entry_Some [of acc e] by blast
  obtain b where b: "foldl better_entry (Some c) es = Some b" "b \<in> set es \<or> Some c = Some b"
      "\<forall>e \<in> set es. snd (fst e) \<le> snd (fst b)" "snd (fst c) \<le> snd (fst b)"
    using Cons.IH [of "Some c"] by auto
  have "snd (fst a) \<le> snd (fst b)" if "acc = Some a" for a
    using c(4) [rule_format, OF that] b(4) by (rule order_trans)
  moreover have "snd (fst e) \<le> snd (fst b)" using c(3) b(4) by (rule order_trans)
  ultimately show ?case using b c(1,2) by (intro exI [of _ b]) auto
qed auto

lemma ranger_containing:
  assumes "ranger_ok ops nets"
  obtains es where "cr_containing ops r ip = Inr es"
    "\<And>n urls. (n, urls) \<in> set es \<longleftrightarrow> nets r n = Some urls \<and> net_contains n ip"
proof -
  obtain es where "cr_containing ops r ip = Inr es"
      "set es = {(n, urls). nets r n = Some urls \<and> net_contains n ip}"
    using assms unfolding ranger_ok_def by blast
  then show ?thesis using that by simp
qed

lemma IP_ResolveIP_longest:
  assumes "ranger_ok ops nets" "ib_ranger i = Some r" "ib_prefixes i \<noteq> []" "is4 addr = v4"
    and "nets r m = Some us" "net_contains m (ip_bytes addr)"
  shows "\<exists>n urls. IP_ResolveIP ops v4 i addr = Inr urls \<and> nets r n = Some urls \<and>
    net_contains n (ip_bytes addr) \<and>
    (\<forall>m us. nets r m = Some us \<and> net_contains m (ip_bytes addr) \<longrightarrow> snd m \<le> snd n)"
proof -
  obtain es where es: "cr_containing ops r (ip_bytes addr) = Inr es"
      "\<And>n urls. (n, urls) \<in> set es \<longleftrightarrow> nets r n = Some urls \<and> net_contains n (ip_bytes addr)"
    using ranger_containing [OF assms(1), of r "ip_bytes addr"] by blast
  then have "es \<noteq> []" using assms(5,6) by (metis empty_iff empty_set)
  then obtain n urls where b: "foldl better_entry None es = Some (n, urls)" "(n, urls) \<in> set es"
      "\<forall>e \<in> set es. snd (fst e) \<le> snd n"
    using foldl_better_entry [of es None] by auto
  have "IP_ResolveIP ops v4 i addr = Inr urls"
    using assms(2-4) es(1) b(1) by (simp add: IP_ResolveIP_def)
  moreover have "snd m \<le> snd n" if "nets r m = Some us" "net_contains m (ip_bytes addr)" for m us
    using b(3) es(2) [of m us] that by fastforce
  ultimately show ?thesis using b(2) es(2) by blast
qed

lemma IP_ResolveIP_none:
  assumes "ranger_ok ops nets" "ib_ranger i = Some r" "ib_prefixes i \<noteq> []" "is4 addr = v4"
    and "\<And>m us. nets r m = Some us \<Longrightarrow> \<not> net_contains m (ip_bytes addr)"
  shows "IP_ResolveIP ops v4 i addr = Inl Bootstrap_ErrNotFound"
proof -
  obtain es where es: "cr_containing ops r (ip_bytes addr) = Inr es"
      "\<And>n urls. (n, urls) \<in> set es \<longleftrightarrow> nets r n = Some urls \<and> net_contains n (ip_bytes addr)"
    using ranger_containing [OF assms(1), of r "ip_bytes addr"] by blast
  have "es = []"
  proof (rule ccontr)
    assume "es \<noteq> []"
    then obtain e where "e \<in> set es" by (cases es) auto
    then show False using es(2) [of "fst e" "snd e"] assms(5) by (metis prod.collapse)
  qed
  then show ?thesis using assms(2-4) es(1) by (simp add: IP_ResolveIP_def)
qed

end
