(* ===== verification/Bootstrap_Loader.thy ===== *)
theory Bootstrap_Loader
  imports Bootstrap
begin

text \<open>
  \<open>internal/bootstrap/loader.go\<close>: fetching the IANA files and building the tables.

  Parameters: what the HTTP client answers for a URL, and \<open>decode\<close>, the result of
  \<open>json.Unmarshal\<close> into \<open>IANABootstrapFile\<close>.  \<open>sort.Slice\<close> is not stable, so the sorting of the
  ranges is the locale \<open>slice_sort\<close>: any permutation that is in order.
\<close>

section \<open>Files\<close>

text \<open>The JSON values of \<open>Services\<close>; what is neither a string nor an array is \<open>JOther\<close>.\<close>

datatype json = JString string | JArray "json list" | JOther

record IANABootstrapFile =
  bf_Publication :: string
  bf_Version :: string
  bf_Services :: "json list list"

record ServiceEntry =
  sv_Keys :: "string list"
  sv_URLs :: "string list"

definition json_strings :: "json list \<Rightarrow> string list" where
  "json_strings vs = List.map_filter (\<lambda>v. case v of JString s \<Rightarrow> Some s | _ \<Rightarrow> None) vs"

definition parseServiceEntry :: "json list \<Rightarrow> go_error + ServiceEntry" where
  "parseServiceEntry service =
     (case service of
        [k, u] \<Rightarrow>
          (case k of
             JArray keysRaw \<Rightarrow>
               (case u of
                  JArray urlsRaw \<Rightarrow>
                    (let keys = json_strings keysRaw; urls = json_strings urlsRaw in
                     if keys = [] \<or> urls = [] then Inl (OtherError ''empty keys or urls'')
                     else Inr \<lparr>sv_Keys = keys, sv_URLs = urls\<rparr>)
                | _ \<Rightarrow> Inl (OtherError ''invalid urls type''))
           | _ \<Rightarrow> Inl (OtherError ''invalid keys type''))
      | _ \<Rightarrow> Inl (OtherError (''invalid service entry length: '' @ show_nat (length service))))"

definition parseASNRange :: "string \<Rightarrow> go_error + 32 word \<times> 32 word" where
  "parseASNRange s =
     (case split_on CHR ''-'' s of
        [p] \<Rightarrow>
          (case parse_uint 32 p of
             None \<Rightarrow> Inl (OtherError ''strconv.ParseUint'')
           | Some n \<Rightarrow> Inr (of_nat n, of_nat n))
      | [p, q] \<Rightarrow>
          (case parse_uint 32 p of
             None \<Rightarrow> Inl (OtherError ''strconv.ParseUint'')
           | Some startN \<Rightarrow>
               (case parse_uint 32 q of
                  None \<Rightarrow> Inl (OtherError ''strconv.ParseUint'')
                | Some endN \<Rightarrow>
                    if startN > endN then Inl (OtherError ''invalid ASN range: start > end'')
                    else Inr (of_nat startN, of_nat endN)))
      | _ \<Rightarrow> Inl (OtherError (''invalid ASN range format: '' @ s)))"

section \<open>Fetching\<close>

record http_outcome =
  ho_error :: "go_error option"
  ho_status :: nat
  ho_body :: "string list \<times> go_error option"

definition maxBootstrapFileSize :: nat where
  "maxBootstrapFileSize = 10 * 1024 * 1024"

definition fetch :: "(string \<Rightarrow> http_outcome) \<Rightarrow> string \<Rightarrow> go_error + string" where
  "fetch http url =
     (let resp = http url in
      case ho_error resp of
        Some err \<Rightarrow> Inl (Wrapped (''fetching '' @ url) [err])
      | None \<Rightarrow>
          if ho_status resp \<noteq> 200 then
            Inl (OtherError (''fetching '' @ url @ '': status '' @ show_nat (ho_status resp)))
          else (case limit_reader maxBootstrapFileSize (ho_body resp) of
                  (data, None) \<Rightarrow> Inr data
                | (data, Some err) \<Rightarrow> Inl (Wrapped ''reading response'' [err])))"

text \<open>The outside world of a load: HTTP, JSON, the sort and the clock.\<close>

record load_env =
  le_http :: "string \<Rightarrow> http_outcome"
  le_decode :: "string \<Rightarrow> go_error + IANABootstrapFile"
  le_sort :: "asnEntry list \<Rightarrow> asnEntry list"
  le_now :: int

definition load_file :: "load_env \<Rightarrow> string \<Rightarrow> string \<Rightarrow> go_error + IANABootstrapFile" where
  "load_file env url what =
     (case fetch (le_http env) url of
        Inl err \<Rightarrow> Inl err
      | Inr data \<Rightarrow>
          (case le_decode env data of
             Inl err \<Rightarrow> Inl (Wrapped (''parsing '' @ what @ '' bootstrap JSON'') [err])
           | Inr file \<Rightarrow> Inr file))"

text \<open>The entries of a file that are well formed; the loops skip the others.\<close>

definition file_entries :: "IANABootstrapFile \<Rightarrow> ServiceEntry list" where
  "file_entries file =
     List.map_filter (\<lambda>s. case parseServiceEntry s of Inl _ \<Rightarrow> None | Inr e \<Rightarrow> Some e) (bf_Services file)"

section \<open>The tables\<close>

definition dns_add :: "(string \<rightharpoonup> string list) \<Rightarrow> ServiceEntry \<Rightarrow> (string \<rightharpoonup> string list)" where
  "dns_add m entry = foldl (\<lambda>m tld. m(to_lower tld \<mapsto> sv_URLs entry)) m (sv_Keys entry)"

definition dns_table :: "IANABootstrapFile \<Rightarrow> (string \<rightharpoonup> string list)" where
  "dns_table file = foldl dns_add Map.empty (file_entries file)"

definition LoadDNS :: "load_env \<Rightarrow> DNSBootstrap \<Rightarrow> go_error + DNSBootstrap" where
  "LoadDNS env dns =
     (case load_file env ''https://data.iana.org/rdap/dns.json'' ''DNS'' of
        Inl err \<Rightarrow> Inl err
      | Inr file \<Rightarrow>
          Inr (dns\<lparr>dns_tldToURLs := dns_table file, dns_lastRefresh := Some (le_now env),
                   dns_publication := bf_Publication file, dns_version := bf_Version file\<rparr>))"

text \<open>
  The loops over the keys of an IP file: a key that is not a prefix of the version is skipped, and
  a prefix that the ranger refuses stays in the slice.
\<close>

definition ip_add_key ::
  "'r ranger_ops \<Rightarrow> bool \<Rightarrow> string list \<Rightarrow> 'r \<times> (prefix \<times> string list) list \<Rightarrow> string \<Rightarrow>
   'r \<times> (prefix \<times> string list) list" where
  "ip_add_key ops v4 urls st key =
     (case ParsePrefix key of
        None \<Rightarrow> st
      | Some p \<Rightarrow>
          if is4 (fst p) \<noteq> v4 then st
          else let (ranger, prefixes) = st; prefixes' = prefixes @ [(p, urls)] in
            (case cr_insert ops ranger (prefixToIPNet p, urls) of
               Inl err \<Rightarrow> (ranger, prefixes')
             | Inr ranger' \<Rightarrow> (ranger', prefixes')))"

definition ip_table ::
  "'r ranger_ops \<Rightarrow> bool \<Rightarrow> IANABootstrapFile \<Rightarrow> 'r \<times> (prefix \<times> string list) list" where
  "ip_table ops v4 file =
     foldl (\<lambda>st entry. foldl (ip_add_key ops v4 (sv_URLs entry)) st (sv_Keys entry))
       (cr_new ops, []) (file_entries file)"

definition LoadIP ::
  "'r ranger_ops \<Rightarrow> bool \<Rightarrow> load_env \<Rightarrow> 'r IPBootstrap \<Rightarrow> go_error + 'r IPBootstrap" where
  "LoadIP ops v4 env ip =
     (case load_file env
        (if v4 then ''https://data.iana.org/rdap/ipv4.json'' else ''https://data.iana.org/rdap/ipv6.json'')
        (if v4 then ''IPv4'' else ''IPv6'') of
        Inl err \<Rightarrow> Inl err
      | Inr file \<Rightarrow>
          (let (ranger, prefixes) = ip_table ops v4 file
           in Inr (ip\<lparr>ib_ranger := Some ranger, ib_prefixes := prefixes,
                     ib_lastRefresh := Some (le_now env), ib_publication := bf_Publication file,
                     ib_version := bf_Version file\<rparr>)))"

definition asn_key :: "string list \<Rightarrow> string \<Rightarrow> asnEntry option" where
  "asn_key urls key =
     (case parseASNRange key of
        Inl _ \<Rightarrow> None
      | Inr (start, end) \<Rightarrow> Some \<lparr>as_start = start, as_end = end, as_urls = urls\<rparr>)"

definition asn_entries :: "IANABootstrapFile \<Rightarrow> asnEntry list" where
  "asn_entries file =
     concat (map (\<lambda>entry. List.map_filter (asn_key (sv_URLs entry)) (sv_Keys entry)) (file_entries file))"

definition LoadASN :: "load_env \<Rightarrow> ASNBootstrap \<Rightarrow> go_error + ASNBootstrap" where
  "LoadASN env asn =
     (case load_file env ''https://data.iana.org/rdap/asn.json'' ''ASN'' of
        Inl err \<Rightarrow> Inl err
      | Inr file \<Rightarrow>
          Inr (asn\<lparr>ab_ranges := le_sort env (asn_entries file), ab_lastRefresh := Some (le_now env),
                   ab_publication := bf_Publication file, ab_version := bf_Version file\<rparr>))"

definition LoadAll :: "'r ranger_ops \<Rightarrow> load_env \<Rightarrow> go_error + 'r Bootstrap" where
  "LoadAll ops env =
     (let b = NewBootstrap ops in
      case LoadDNS env (bs_DNS b) of
        Inl err \<Rightarrow> Inl (Wrapped ''loading DNS bootstrap'' [err])
      | Inr dns \<Rightarrow>
        (case LoadIP ops True env (bs_IPv4 b) of
           Inl err \<Rightarrow> Inl (Wrapped ''loading IPv4 bootstrap'' [err])
         | Inr ipv4 \<Rightarrow>
           (case LoadIP ops False env (bs_IPv6 b) of
              Inl err \<Rightarrow> Inl (Wrapped ''loading IPv6 bootstrap'' [err])
            | Inr ipv6 \<Rightarrow>
              (case LoadASN env (bs_ASN b) of
                 Inl err \<Rightarrow> Inl (Wrapped ''loading ASN bootstrap'' [err])
               | Inr asn \<Rightarrow>
                   Inr (b\<lparr>bs_DNS := dns, bs_IPv4 := ipv4, bs_IPv6 := ipv6, bs_ASN := asn\<rparr>)))))"

section \<open>Sorting\<close>

text \<open>What \<open>sort.Slice\<close> by start promises, and what the resolver makes of it.\<close>

definition asn_separate :: "asnEntry list \<Rightarrow> bool" where
  "asn_separate rs =
     (distinct rs \<and> (\<forall>r \<in> set rs. as_start r \<le> as_end r) \<and>
      (\<forall>r \<in> set rs. \<forall>s \<in> set rs. r \<noteq> s \<longrightarrow> as_end r < as_start s \<or> as_end s < as_start r))"

locale slice_sort =
  fixes srt :: "asnEntry list \<Rightarrow> asnEntry list"
  assumes sort_perm: "mset (srt rs) = mset rs"
    and sort_order: "sorted (map as_start (srt rs))"
begin

lemma set_srt: "set (srt rs) = set rs"
  using sort_perm by (rule mset_eq_setD)

lemma srt_Nil_iff: "srt rs = [] \<longleftrightarrow> rs = []"
  using sort_perm [of rs] by (metis mset_zero_iff mset.simps(1))

text \<open>
  Pairwise disjoint, well-formed ranges come out in disjoint ascending order, in whatever order
  they went in.
\<close>

lemma srt_disjoint:
  assumes "asn_separate rs"
  shows "asn_disjoint (srt rs)"
proof -
  have set: "set (srt rs) = set rs" by (rule set_srt)
  have "distinct (srt rs)"
    using assms mset_eq_imp_distinct_iff [OF sort_perm [of rs]] by (simp add: asn_separate_def)
  have "as_end (srt rs ! i) < as_start (srt rs ! j)" if "i < j" "j < length (srt rs)" for i j
  proof -
    let ?r = "srt rs ! i" and ?s = "srt rs ! j"
    have "?r \<noteq> ?s" using \<open>distinct (srt rs)\<close> that by (simp add: nth_eq_iff_index_eq)
    moreover have mem: "?r \<in> set rs" "?s \<in> set rs" using that set nth_mem by (metis order.strict_trans)+
    ultimately have "as_end ?r < as_start ?s \<or> as_end ?s < as_start ?r"
      using assms by (simp add: asn_separate_def)
    moreover have "as_start ?r \<le> as_start ?s"
      using sorted_nth_mono [OF sort_order [of rs], of i j] that by simp
    moreover have "as_start ?s \<le> as_end ?s" using assms mem by (simp add: asn_separate_def)
    ultimately show ?thesis by auto
  qed
  then show ?thesis using assms set
    by (auto simp: asn_disjoint_def asn_separate_def sorted_wrt_iff_nth_less)
qed

end

text \<open>A stable sort is one of the sorts the code may meet.\<close>

interpretation stable: slice_sort "sort_key as_start"
  by unfold_locales simp_all

section \<open>Lemmas\<close>

text \<open>The last well-formed entry of the file that lists a top-level domain gives its servers.\<close>

lemma foldl_upd_const: "foldl (\<lambda>m k. m(h k \<mapsto> v)) m ks x = (if x \<in> h ` set ks then Some v else m x)"
  by (induction ks arbitrary: m) auto

lemma dns_table_last:
  "dns_table file tld =
     map_option sv_URLs (find (\<lambda>e. tld \<in> to_lower ` set (sv_Keys e)) (rev (file_entries file)))"
proof -
  have "foldl dns_add Map.empty es tld =
      map_option sv_URLs (find (\<lambda>e. tld \<in> to_lower ` set (sv_Keys e)) (rev es))" for es
    by (induction es rule: rev_induct) (auto simp: dns_add_def foldl_upd_const)
  then show ?thesis by (simp add: dns_table_def)
qed

lemma parseServiceEntry_ok:
  "parseServiceEntry s = Inr e \<Longrightarrow> sv_Keys e \<noteq> [] \<and> sv_URLs e \<noteq> []"
  by (auto simp: parseServiceEntry_def Let_def split: list.splits json.splits if_splits)

lemma file_entries_ok: "e \<in> set (file_entries file) \<Longrightarrow> sv_Keys e \<noteq> [] \<and> sv_URLs e \<noteq> []"
  by (auto simp: file_entries_def map_filter_def parseServiceEntry_ok split: sum.splits)

lemma unat_parse_uint32: "parse_uint 32 s = Some n \<Longrightarrow> unat (of_nat n :: 32 word) = n"
  using parse_uint_bound [of 32 s n] by (simp add: unat_of_nat take_bit_nat_eq_self)

lemma parseASNRange_ok:
  assumes "parseASNRange s = Inr (a, b)"
  shows "a \<le> b"
proof -
  have "of_nat m \<le> (of_nat n :: 32 word)" if "parse_uint 32 p = Some m" "parse_uint 32 q = Some n" "m \<le> n" for m n p q
    using that by (simp add: word_le_nat_alt unat_parse_uint32)
  then show ?thesis using assms
    by (auto simp: parseASNRange_def not_less split: list.splits option.splits if_splits)
qed

text \<open>Printing a range and parsing it back.\<close>

definition print_range :: "32 word \<times> 32 word \<Rightarrow> string" where
  "print_range r = show_nat (unat (fst r)) @ ''-'' @ show_nat (unat (snd r))"

lemma show_nat_no_hyphen: "CHR ''-'' \<notin> set (show_nat n)"
  using all_digits_show_nat [of n] by (auto simp: all_digits_def list_all_iff)

lemma parse_uint_word: "parse_uint 32 (show_nat (unat (w :: 32 word))) = Some (unat w)"
proof -
  have "unat w < 2 ^ 32" using unsigned_less [of w] by simp
  then show ?thesis by (rule parse_uint_show_nat)
qed

lemma parse_print_range:
  assumes "a \<le> b"
  shows "parseASNRange (print_range (a, b)) = Inr (a, b)"
proof -
  have "split_on CHR ''-'' (print_range (a, b)) = [show_nat (unat a), show_nat (unat b)]"
    by (simp add: print_range_def split_on_append split_on_single show_nat_no_hyphen)
  then show ?thesis using assms
    by (simp add: parseASNRange_def parse_uint_word not_less word_le_nat_alt)
qed

lemma asn_entries_ok: "r \<in> set (asn_entries file) \<Longrightarrow> as_start r \<le> as_end r \<and> as_urls r \<noteq> []"
  by (auto simp: asn_entries_def map_filter_def asn_key_def file_entries_ok
      dest: parseASNRange_ok split: sum.splits prod.splits)

text \<open>A load that succeeds has loaded all four files into the empty tables.\<close>

lemma LoadAll_Inr:
  assumes "LoadAll ops env = Inr b"
  shows "LoadDNS env (bs_DNS (NewBootstrap ops)) = Inr (bs_DNS b)"
    and "LoadIP ops True env (bs_IPv4 (NewBootstrap ops)) = Inr (bs_IPv4 b)"
    and "LoadIP ops False env (bs_IPv6 (NewBootstrap ops)) = Inr (bs_IPv6 b)"
    and "LoadASN env (bs_ASN (NewBootstrap ops)) = Inr (bs_ASN b)"
  using assms unfolding LoadAll_def by (auto simp: Let_def split: sum.splits)

text \<open>The tables of a load that succeeds are those of the files.\<close>

lemma LoadAll_tables:
  assumes "LoadAll ops env = Inr b"
  shows "load_file env ''https://data.iana.org/rdap/dns.json'' ''DNS'' = Inr f \<Longrightarrow>
      dns_tldToURLs (bs_DNS b) = dns_table f"
    and "load_file env ''https://data.iana.org/rdap/asn.json'' ''ASN'' = Inr f \<Longrightarrow>
      ab_ranges (bs_ASN b) = le_sort env (asn_entries f)"
    and "load_file env ''https://data.iana.org/rdap/ipv4.json'' ''IPv4'' = Inr f \<Longrightarrow>
      ib_ranger (bs_IPv4 b) = Some (fst (ip_table ops True f)) \<and>
      ib_prefixes (bs_IPv4 b) = snd (ip_table ops True f)"
    and "load_file env ''https://data.iana.org/rdap/ipv6.json'' ''IPv6'' = Inr f \<Longrightarrow>
      ib_ranger (bs_IPv6 b) = Some (fst (ip_table ops False f)) \<and>
      ib_prefixes (bs_IPv6 b) = snd (ip_table ops False f)"
  using LoadAll_Inr(1) [OF assms, THEN sym] LoadAll_Inr(4) [OF assms, THEN sym]
    LoadAll_Inr(2) [OF assms, THEN sym] LoadAll_Inr(3) [OF assms, THEN sym]
  by (auto simp: LoadDNS_def LoadIP_def LoadASN_def split_beta elim!: Inr_inject [elim_format])

text \<open>With a ranger that keeps its contract, the ranger holds the prefixes of the slice.\<close>

definition slice_nets :: "(prefix \<times> string list) list \<Rightarrow> ip_net \<rightharpoonup> string list" where
  "slice_nets ps = foldl (\<lambda>m (p, urls). m(prefixToIPNet p \<mapsto> urls)) Map.empty ps"

lemma ip_add_key_nets:
  assumes "ranger_ok ops nets" "nets (fst st) = slice_nets (snd st)"
  shows "nets (fst (ip_add_key ops v4 urls st key)) = slice_nets (snd (ip_add_key ops v4 urls st key))"
proof (cases "ParsePrefix key")
  case (Some p)
  obtain r' where "cr_insert ops (fst st) (prefixToIPNet p, urls) = Inr r'"
      "nets r' = (nets (fst st))(prefixToIPNet p \<mapsto> urls)"
    using assms(1) unfolding ranger_ok_def by metis
  then show ?thesis using assms(2) Some
    by (cases st) (simp add: ip_add_key_def slice_nets_def)
qed (use assms(2) in \<open>simp add: ip_add_key_def\<close>)

lemma ip_table_nets:
  assumes "ranger_ok ops nets"
  shows "nets (fst (ip_table ops v4 file)) = slice_nets (snd (ip_table ops v4 file))"
  unfolding ip_table_def
proof (rule foldl_invariant)
  show "nets (fst (cr_new ops, [])) = slice_nets (snd (cr_new ops, []))"
    using assms by (simp add: ranger_ok_def slice_nets_def)
next
  fix st entry
  assume "nets (fst st) = slice_nets (snd st)"
  then show "nets (fst (foldl (ip_add_key ops v4 (sv_URLs entry)) st (sv_Keys entry))) =
      slice_nets (snd (foldl (ip_add_key ops v4 (sv_URLs entry)) st (sv_Keys entry)))"
    by (rule foldl_invariant [where I = "\<lambda>st. nets (fst st) = slice_nets (snd st)"])
       (rule ip_add_key_nets [OF assms])
qed

lemma LoadIP_nets:
  assumes "ranger_ok ops nets" "LoadIP ops v4 env i = Inr i'"
  shows "\<exists>r. ib_ranger i' = Some r \<and> nets r = slice_nets (ib_prefixes i')"
  using assms(2) ip_table_nets [OF assms(1), of v4]
  by (auto simp: LoadIP_def split_beta split: sum.splits)

end
