(* ===== verification/Bootstrap_Service.thy ===== *)
theory Bootstrap_Service
  imports Bootstrap_Loader
begin

text \<open>
  \<open>internal/bootstrap/service.go\<close>: the life cycle of the bootstrap data as a step relation.  The
  calls of \<open>Start\<close> and \<open>Stop\<close>, the goroutine of \<open>backgroundRefresh\<close> and the cancellation of its
  context interleave; the result of a load is part of the event.  Logging, metrics and the
  staleness ticker are left out.
\<close>

section \<open>State\<close>

text \<open>
  The counters are the calls in progress: \<open>Start\<close> calls that are loading, goroutines that run,
  \<open>Stop\<close> calls that wait for \<open>doneCh\<close>.  \<open>bv_panic\<close> is set by closing a closed channel.
  \<open>bv_allowlist\<close> holds the servers of the validator, if one is set.
\<close>

record 'r service =
  bv_resolver :: "'r Bootstrap option"
  bv_allowlist :: "string set option"
  bv_running :: bool
  bv_starting :: nat
  bv_loops :: nat
  bv_stopping :: nat
  bv_stopClosed :: bool
  bv_doneClosed :: bool
  bv_ctxDone :: bool
  bv_panic :: bool

definition NewService :: "'r service" where
  "NewService = \<lparr>bv_resolver = None, bv_allowlist = None, bv_running = False, bv_starting = 0,
     bv_loops = 0, bv_stopping = 0, bv_stopClosed = False, bv_doneClosed = False,
     bv_ctxDone = False, bv_panic = False\<rparr>"

definition IsReady :: "'r service \<Rightarrow> bool" where
  "IsReady s = (bv_resolver s \<noteq> None)"

definition SetServerValidator :: "'r service \<Rightarrow> string set \<Rightarrow> 'r service" where
  "SetServerValidator s servers = s\<lparr>bv_allowlist := Some servers\<rparr>"

text \<open>\<open>refresh\<close>: a failed load changes nothing; a load that succeeds replaces the resolver.\<close>

definition service_refresh :: "go_error + 'r Bootstrap \<Rightarrow> 'r service \<Rightarrow> 'r service" where
  "service_refresh load s =
     (case load of
        Inl err \<Rightarrow> s
      | Inr b \<Rightarrow>
          s\<lparr>bv_resolver := Some b,
            bv_allowlist := map_option (\<lambda>_. GetAllRDAPServers b) (bv_allowlist s)\<rparr>)"

section \<open>Steps\<close>

datatype 'r service_event =
    StartCall | StartLoaded "go_error + 'r Bootstrap" | StopCall | StopReturn
  | Tick "go_error + 'r Bootstrap" | LoopExit | ContextDone

inductive service_step :: "'r service \<Rightarrow> 'r service_event \<Rightarrow> 'r service \<Rightarrow> bool" where
  start_running: "\<not> bv_panic s \<Longrightarrow> bv_running s \<Longrightarrow> service_step s StartCall s"
| start_begin: "\<not> bv_panic s \<Longrightarrow> \<not> bv_running s \<Longrightarrow>
    service_step s StartCall (s\<lparr>bv_running := True, bv_starting := Suc (bv_starting s)\<rparr>)"
| start_failed: "\<not> bv_panic s \<Longrightarrow> bv_starting s = Suc n \<Longrightarrow>
    service_step s (StartLoaded (Inl err)) (s\<lparr>bv_starting := n\<rparr>)"
| start_loaded: "\<not> bv_panic s \<Longrightarrow> bv_starting s = Suc n \<Longrightarrow>
    service_step s (StartLoaded (Inr b))
      ((service_refresh (Inr b) s)\<lparr>bv_starting := n, bv_loops := Suc (bv_loops s)\<rparr>)"
| stop_idle: "\<not> bv_panic s \<Longrightarrow> \<not> bv_running s \<Longrightarrow> service_step s StopCall s"
| stop_begin: "\<not> bv_panic s \<Longrightarrow> bv_running s \<Longrightarrow> \<not> bv_stopClosed s \<Longrightarrow>
    service_step s StopCall
      (s\<lparr>bv_running := False, bv_stopClosed := True, bv_stopping := Suc (bv_stopping s)\<rparr>)"
| stop_panic: "\<not> bv_panic s \<Longrightarrow> bv_running s \<Longrightarrow> bv_stopClosed s \<Longrightarrow>
    service_step s StopCall (s\<lparr>bv_running := False, bv_panic := True\<rparr>)"
| stop_return: "\<not> bv_panic s \<Longrightarrow> bv_stopping s = Suc n \<Longrightarrow> bv_doneClosed s \<Longrightarrow>
    service_step s StopReturn (s\<lparr>bv_stopping := n\<rparr>)"
| tick: "\<not> bv_panic s \<Longrightarrow> 0 < bv_loops s \<Longrightarrow> service_step s (Tick load) (service_refresh load s)"
| loop_exit: "\<not> bv_panic s \<Longrightarrow> bv_loops s = Suc n \<Longrightarrow> bv_stopClosed s \<or> bv_ctxDone s \<Longrightarrow>
    \<not> bv_doneClosed s \<Longrightarrow> service_step s LoopExit (s\<lparr>bv_loops := n, bv_doneClosed := True\<rparr>)"
| loop_exit_panic: "\<not> bv_panic s \<Longrightarrow> bv_loops s = Suc n \<Longrightarrow> bv_stopClosed s \<or> bv_ctxDone s \<Longrightarrow>
    bv_doneClosed s \<Longrightarrow> service_step s LoopExit (s\<lparr>bv_loops := n, bv_panic := True\<rparr>)"
| context_done: "\<not> bv_panic s \<Longrightarrow> service_step s ContextDone (s\<lparr>bv_ctxDone := True\<rparr>)"

code_pred service_step .

inductive_cases service_stepE: "service_step s ev s'"

inductive service_run :: "'r service \<Rightarrow> 'r service_event list \<Rightarrow> 'r service \<Rightarrow> bool" where
  run_Nil: "service_run s [] s"
| run_Cons: "service_step s ev s' \<Longrightarrow> service_run s' evs s'' \<Longrightarrow> service_run s (ev # evs) s''"

inductive_cases service_runE: "service_run s [] s'" "service_run s (ev # evs) s'"

lemma service_run_invariant:
  assumes "service_run s evs s'" "I s"
    and "\<And>s ev s'. ev \<in> set evs \<Longrightarrow> service_step s ev s' \<Longrightarrow> I s \<Longrightarrow> I s'"
  shows "I s'"
  using assms by (induction rule: service_run.induct) auto

section \<open>Invariants\<close>

text \<open>Once ready, the service stays ready: failed refreshes keep the data.\<close>

lemma service_refresh_ready: "IsReady s \<Longrightarrow> IsReady (service_refresh load s)"
  by (auto simp: IsReady_def service_refresh_def split: sum.split)

lemma service_step_ready [step_inv]: "service_step s ev s' \<Longrightarrow> IsReady s \<Longrightarrow> IsReady s'"
  by (induction rule: service_step.induct)
     (auto simp: IsReady_def service_refresh_def split: sum.split)

lemma service_run_ready: "service_run s evs s' \<Longrightarrow> IsReady s \<Longrightarrow> IsReady s'"
  by (erule service_run_invariant) (auto intro: service_step_ready)

text \<open>
  The allowlist of a validator is that of the resolver's data, once the resolver has been loaded
  with the validator in place; a goroutine runs only when there is data.
\<close>

definition service_ok :: "'r service \<Rightarrow> bool" where
  "service_ok s = (0 < bv_loops s \<or> bv_doneClosed s \<longrightarrow> IsReady s)"

lemma service_step_ok [step_inv]: "service_step s ev s' \<Longrightarrow> service_ok s \<Longrightarrow> service_ok s'"
  by (induction rule: service_step.induct)
     (auto simp: service_ok_def IsReady_def service_refresh_def split: sum.split)

lemma service_ok_New: "service_ok NewService"
  by (simp add: service_ok_def NewService_def)

lemma service_run_ok: "service_run NewService evs s \<Longrightarrow> service_ok s"
  by (erule service_run_invariant) (auto intro: service_step_ok service_ok_New)

definition allowlist_current :: "'r service \<Rightarrow> bool" where
  "allowlist_current s =
     (\<forall>a b. bv_allowlist s = Some a \<and> bv_resolver s = Some b \<longrightarrow> a = GetAllRDAPServers b)"

lemma service_step_allowlist [step_inv]:
  "service_step s ev s' \<Longrightarrow> allowlist_current s \<Longrightarrow> allowlist_current s'"
  by (induction rule: service_step.induct)
     (auto simp: allowlist_current_def service_refresh_def split: sum.split)

lemma service_run_allowlist:
  "service_run s evs s' \<Longrightarrow> allowlist_current s \<Longrightarrow> allowlist_current s'"
  by (erule service_run_invariant) (auto intro: service_step_allowlist)

text \<open>
  After a load that fails in \<open>Start\<close> there is no goroutine, so \<open>doneCh\<close> stays open for as long as
  \<open>Start\<close> is not called again.
\<close>

definition no_loop :: "'r service \<Rightarrow> bool" where
  "no_loop s = (bv_starting s = 0 \<and> bv_loops s = 0 \<and> \<not> bv_doneClosed s)"

lemma service_step_no_loop:
  "service_step s ev s' \<Longrightarrow> ev \<noteq> StartCall \<Longrightarrow> no_loop s \<Longrightarrow> no_loop s'"
  by (induction rule: service_step.induct)
     (auto simp: no_loop_def service_refresh_def split: sum.split)

lemma service_run_no_loop:
  "service_run s evs s' \<Longrightarrow> StartCall \<notin> set evs \<Longrightarrow> no_loop s \<Longrightarrow> no_loop s'"
  by (erule service_run_invariant) (auto intro: service_step_no_loop)

lemma no_loop_stop_blocked: "no_loop s \<Longrightarrow> \<not> service_step s StopReturn s'"
  by (auto simp: no_loop_def elim: service_stepE)

end
