(* ===== verification/Cache.thy ===== *)
theory Cache
  imports GoErrors "HOL-Library.Word"
begin

text \<open>
  \<open>internal/cache/cache.go\<close>: entries, keys, and the \<open>Cache\<close> interface.  A Go interface value is a
  record of operations on a state of some type; its laws are the locale \<open>cache_contract\<close>.  Times
  and durations are integers (nanoseconds), and every operation takes the time at which it runs.
\<close>

record Entry =
  e_Key :: string
  e_Value :: string
  e_ExpiresAt :: int
  e_Negative :: bool

definition IsExpired :: "int \<Rightarrow> Entry \<Rightarrow> bool" where
  "IsExpired now e = (now > e_ExpiresAt e)"

definition entry_TTL :: "int \<Rightarrow> Entry \<Rightarrow> int" where
  "entry_TTL now e = (let ttl = e_ExpiresAt e - now in if ttl < 0 then 0 else ttl)"

section \<open>Keys\<close>

definition KeyPrefixDomain :: string where "KeyPrefixDomain = ''rdap:domain:''"
definition KeyPrefixIP :: string where "KeyPrefixIP = ''rdap:ip:''"
definition KeyPrefixASN :: string where "KeyPrefixASN = ''rdap:asn:''"
definition KeyPrefixEntity :: string where "KeyPrefixEntity = ''rdap:entity:''"
definition KeyPrefixNameserver :: string where "KeyPrefixNameserver = ''rdap:ns:''"

definition BuildKey :: "string \<Rightarrow> string \<Rightarrow> string" where
  "BuildKey pfx value = pfx @ value"

definition key_prefixes :: "string list" where
  "key_prefixes = [KeyPrefixDomain, KeyPrefixIP, KeyPrefixASN, KeyPrefixEntity, KeyPrefixNameserver]"

lemma BuildKey_inject:
  assumes "p \<in> set key_prefixes" "q \<in> set key_prefixes"
  shows "BuildKey p v = BuildKey q w \<longleftrightarrow> p = q \<and> v = w"
  using assms
  by (auto simp: key_prefixes_def BuildKey_def KeyPrefixDomain_def KeyPrefixIP_def KeyPrefixASN_def
      KeyPrefixEntity_def KeyPrefixNameserver_def)

section \<open>The interface\<close>

record 'c cache_ops =
  co_Get :: "'c \<Rightarrow> int \<Rightarrow> string \<Rightarrow> (go_error + Entry) \<times> 'c"
  co_Set :: "'c \<Rightarrow> int \<Rightarrow> string \<Rightarrow> string \<Rightarrow> int \<Rightarrow> bool \<Rightarrow> go_error option \<times> 'c"
  co_Delete :: "'c \<Rightarrow> string \<Rightarrow> go_error option \<times> 'c"
  co_Clear :: "'c \<Rightarrow> go_error option \<times> 'c"

text \<open>
  The contract of a cache, for a function \<open>holds\<close> that tells the contents (value and negative
  flag) a state may still return for a key: a cache may forget, but it returns only what was
  stored under that key and was neither deleted nor cleared.
\<close>

type_synonym content = "string \<times> bool"

definition entry_content :: "Entry \<Rightarrow> content" where
  "entry_content e = (e_Value e, e_Negative e)"

text \<open>A sequence of stores (time, key, value, lifetime, flag), and what it stores under a key.\<close>

definition stored :: "(int \<times> string \<times> string \<times> int \<times> bool) list \<Rightarrow> string \<Rightarrow> content set" where
  "stored sets k = {(v, neg). \<exists>now ttl. (now, k, v, ttl, neg) \<in> set sets}"

definition run_sets :: "'c cache_ops \<Rightarrow> 'c \<Rightarrow> (int \<times> string \<times> string \<times> int \<times> bool) list \<Rightarrow> 'c" where
  "run_sets ops = foldl (\<lambda>c (now, k, v, ttl, neg). snd (co_Set ops c now k v ttl neg))"

locale cache_contract =
  fixes ops :: "'c cache_ops"
    and holds :: "'c \<Rightarrow> string \<Rightarrow> content set"
    and ok :: "'c \<Rightarrow> bool"
  assumes get_holds: "ok c \<Longrightarrow> co_Get ops c now k = (Inr e, c') \<Longrightarrow> entry_content e \<in> holds c k"
    and get_keeps: "ok c \<Longrightarrow> co_Get ops c now k = (r, c') \<Longrightarrow> ok c' \<and> holds c' k' \<subseteq> holds c k'"
    and set_adds: "ok c \<Longrightarrow> co_Set ops c now k v ttl neg = (res, c') \<Longrightarrow>
      ok c' \<and> holds c' k' \<subseteq> (if k' = k then insert (v, neg) (holds c k') else holds c k')"
    and delete_drops: "ok c \<Longrightarrow> co_Delete ops c k = (res, c') \<Longrightarrow>
      ok c' \<and> holds c' k' \<subseteq> holds c k' \<and> (res = None \<longrightarrow> holds c' k = {})"
    and clear_drops: "ok c \<Longrightarrow> co_Clear ops c = (res, c') \<Longrightarrow>
      ok c' \<and> holds c' k' \<subseteq> holds c k' \<and> (res = None \<longrightarrow> holds c' k' = {})"
begin

lemma run_sets_holds:
  "ok c \<Longrightarrow> ok (run_sets ops c sets) \<and> holds (run_sets ops c sets) k \<subseteq> holds c k \<union> stored sets k"
proof (induction sets arbitrary: c)
  case (Cons s sets)
  obtain now k' v ttl neg where s: "s = (now, k', v, ttl, neg)" by (cases s)
  obtain r c' where r: "co_Set ops c now k' v ttl neg = (r, c')" by fastforce
  have c': "ok c'" "holds c' k \<subseteq> (if k = k' then insert (v, neg) (holds c k) else holds c k)"
    using set_adds [OF Cons.prems r] by blast+
  have "run_sets ops c (s # sets) = run_sets ops c' sets" by (simp add: run_sets_def s r)
  moreover have "stored (s # sets) k = (if k = k' then insert (v, neg) (stored sets k) else stored sets k)"
    by (auto simp: s stored_def)
  ultimately show ?case using Cons.IH [OF c'(1)] c'(2) by (auto split: if_splits)
qed (simp add: run_sets_def)

text \<open>After any stores, an entry that is found holds a value stored under its key.\<close>

lemma get_after_sets:
  assumes "ok c" "\<And>k. holds c k = {}" "co_Get ops (run_sets ops c sets) now k = (Inr e, c')"
  shows "entry_content e \<in> stored sets k"
  using run_sets_holds [OF assms(1), of sets k] get_holds [OF _ assms(3)] assms(2) by auto

lemma get_after_delete:
  assumes "ok c" "co_Delete ops c k = (None, c')" "co_Get ops c' now k = (r, c'')"
  shows "\<nexists>e. r = Inr e"
  using delete_drops [OF assms(1,2)] get_holds [of c' now k] assms(3) by fastforce

end

end
