(* ===== verification/Memory_Cache.thy ===== *)
theory Memory_Cache
  imports Cache
begin

text \<open>
  \<open>internal/cache/memory.go\<close>: the in-memory cache with a byte limit over an LRU list.

  The LRU list is \<open>golang-lru\<close>, which is not part of the repository: its operations are a record
  of functions that also return the entries on which the eviction callback runs, and \<open>lru_ok\<close>
  states its documented behaviour for a function \<open>items\<close> that lists its entries, oldest first.
\<close>

section \<open>The LRU library\<close>

record 'l lru_ops =
  lr_Get :: "'l \<Rightarrow> string \<Rightarrow> Entry option \<times> 'l"
  lr_Peek :: "'l \<Rightarrow> string \<Rightarrow> Entry option"
  lr_Add :: "'l \<Rightarrow> string \<Rightarrow> Entry \<Rightarrow> (string \<times> Entry) list \<times> 'l"
  lr_Remove :: "'l \<Rightarrow> string \<Rightarrow> (string \<times> Entry) list \<times> 'l"
  lr_RemoveOldest :: "'l \<Rightarrow> (string \<times> Entry) list \<times> 'l"
  lr_Purge :: "'l \<Rightarrow> (string \<times> Entry) list \<times> 'l"
  lr_Len :: "'l \<Rightarrow> nat"

definition without :: "string \<Rightarrow> (string \<times> Entry) list \<Rightarrow> (string \<times> Entry) list" where
  "without k xs = filter (\<lambda>x. fst x \<noteq> k) xs"

definition with_key :: "string \<Rightarrow> (string \<times> Entry) list \<Rightarrow> (string \<times> Entry) list" where
  "with_key k xs = filter (\<lambda>x. fst x = k) xs"

text \<open>
  \<open>Get\<close> makes the entry the newest, \<open>Peek\<close> does not; \<open>Add\<close> replaces the value of a key without a
  callback, and drops the oldest entry, with a callback, when the capacity is exceeded;
  \<open>Remove\<close>, \<open>RemoveOldest\<close> and \<open>Purge\<close> run the callback on what they remove.
\<close>

definition lru_ok :: "'l lru_ops \<Rightarrow> ('l \<Rightarrow> (string \<times> Entry) list) \<Rightarrow> ('l \<Rightarrow> nat) \<Rightarrow> bool" where
  "lru_ok ops items cap \<longleftrightarrow>
     (\<forall>l. 1 \<le> cap l) \<and>
     (\<forall>l k. fst (lr_Get ops l k) = map_of (items l) k \<and>
        items (snd (lr_Get ops l k)) = without k (items l) @ with_key k (items l) \<and>
        cap (snd (lr_Get ops l k)) = cap l) \<and>
     (\<forall>l k. lr_Peek ops l k = map_of (items l) k) \<and>
     (\<forall>l k e. let new = without k (items l) @ [(k, e)]; over = length new - cap l in
        fst (lr_Add ops l k e) = take over new \<and> items (snd (lr_Add ops l k e)) = drop over new \<and>
        cap (snd (lr_Add ops l k e)) = cap l) \<and>
     (\<forall>l k. fst (lr_Remove ops l k) = with_key k (items l) \<and>
        items (snd (lr_Remove ops l k)) = without k (items l) \<and> cap (snd (lr_Remove ops l k)) = cap l) \<and>
     (\<forall>l. fst (lr_RemoveOldest ops l) = take 1 (items l) \<and>
        items (snd (lr_RemoveOldest ops l)) = drop 1 (items l) \<and>
        cap (snd (lr_RemoveOldest ops l)) = cap l) \<and>
     (\<forall>l. fst (lr_Purge ops l) = items l \<and> items (snd (lr_Purge ops l)) = [] \<and>
        cap (snd (lr_Purge ops l)) = cap l) \<and>
     (\<forall>l. lr_Len ops l = length (items l))"

text \<open>Lists with a capacity behave this way.\<close>

definition list_lru :: "(nat \<times> (string \<times> Entry) list) lru_ops" where
  "list_lru = \<lparr>
     lr_Get = (\<lambda>(n, xs) k. (map_of xs k, (n, without k xs @ with_key k xs))),
     lr_Peek = (\<lambda>(n, xs) k. map_of xs k),
     lr_Add = (\<lambda>(n, xs) k e. let new = without k xs @ [(k, e)]; over = length new - Suc n
                             in (take over new, (n, drop over new))),
     lr_Remove = (\<lambda>(n, xs) k. (with_key k xs, (n, without k xs))),
     lr_RemoveOldest = (\<lambda>(n, xs). (take 1 xs, (n, drop 1 xs))),
     lr_Purge = (\<lambda>(n, xs). (xs, (n, []))),
     lr_Len = (\<lambda>(n, xs). length xs)\<rparr>"

lemma list_lru_ok: "lru_ok list_lru snd (\<lambda>l. Suc (fst l))"
  unfolding lru_ok_def list_lru_def by (simp add: Let_def split_beta)

section \<open>The cache\<close>

record 'l MemoryCache =
  mc_cache :: 'l
  mc_maxSize :: int
  mc_sizeBytes :: int
  mc_hits :: "64 word"
  mc_misses :: "64 word"
  mc_evictions :: "64 word"

definition NewMemoryCache :: "'l \<Rightarrow> int \<Rightarrow> 'l MemoryCache" where
  "NewMemoryCache lru maxSize =
     \<lparr>mc_cache = lru, mc_maxSize = maxSize, mc_sizeBytes = 0, mc_hits = 0, mc_misses = 0,
      mc_evictions = 0\<rparr>"

definition entry_size :: "Entry \<Rightarrow> int" where
  "entry_size e = int (length (e_Value e))"

text \<open>The eviction callback, and the callbacks one operation of the list runs.\<close>

definition onEvict :: "'l MemoryCache \<Rightarrow> string \<times> Entry \<Rightarrow> 'l MemoryCache" where
  "onEvict m x =
     m\<lparr>mc_sizeBytes := mc_sizeBytes m - entry_size (snd x), mc_evictions := mc_evictions m + 1\<rparr>"

definition lru_result :: "'l MemoryCache \<Rightarrow> (string \<times> Entry) list \<times> 'l \<Rightarrow> 'l MemoryCache" where
  "lru_result m r = foldl onEvict (m\<lparr>mc_cache := snd r\<rparr>) (fst r)"

definition mem_Get ::
  "'l lru_ops \<Rightarrow> 'l MemoryCache \<Rightarrow> int \<Rightarrow> string \<Rightarrow> (go_error + Entry) \<times> 'l MemoryCache" where
  "mem_Get ops m now key =
     (let (found, l) = lr_Get ops (mc_cache m) key; m1 = m\<lparr>mc_cache := l\<rparr> in
      case found of
        None \<Rightarrow> (Inl (Sentinel Cache_ErrCacheMiss), m1\<lparr>mc_misses := mc_misses m1 + 1\<rparr>)
      | Some entry \<Rightarrow>
          if IsExpired now entry then
            (let m2 = lru_result m1 (lr_Remove ops (mc_cache m1) key);
                 m3 = m2\<lparr>mc_sizeBytes := mc_sizeBytes m2 - entry_size entry\<rparr>
             in (Inl (Sentinel Cache_ErrCacheMiss), m3\<lparr>mc_misses := mc_misses m3 + 1\<rparr>))
          else (Inr entry, m1\<lparr>mc_hits := mc_hits m1 + 1\<rparr>))"

text \<open>The loop that evicts the oldest entries until the new one fits; the list's length is fuel.\<close>

fun evict_loop :: "'l lru_ops \<Rightarrow> int \<Rightarrow> nat \<Rightarrow> 'l MemoryCache \<Rightarrow> 'l MemoryCache" where
  "evict_loop ops sz 0 m = m"
| "evict_loop ops sz (Suc n) m =
     (if mc_sizeBytes m + sz > mc_maxSize m \<and> lr_Len ops (mc_cache m) > 0 then
        evict_loop ops sz n (lru_result m (lr_RemoveOldest ops (mc_cache m)))
      else m)"

definition make_room :: "'l lru_ops \<Rightarrow> int \<Rightarrow> string \<Rightarrow> 'l MemoryCache \<Rightarrow> 'l MemoryCache" where
  "make_room ops sz key m =
     (if mc_maxSize m > 0 then
        (let m1 = (case lr_Peek ops (mc_cache m) key of
                     None \<Rightarrow> m
                   | Some old \<Rightarrow> m\<lparr>mc_sizeBytes := mc_sizeBytes m - entry_size old\<rparr>)
         in evict_loop ops sz (lr_Len ops (mc_cache m1)) m1)
      else m)"

definition mem_Set ::
  "'l lru_ops \<Rightarrow> 'l MemoryCache \<Rightarrow> int \<Rightarrow> string \<Rightarrow> string \<Rightarrow> int \<Rightarrow> bool \<Rightarrow>
   go_error option \<times> 'l MemoryCache" where
  "mem_Set ops m now key value ttl negative =
     (let entry = \<lparr>e_Key = key, e_Value = value, e_ExpiresAt = now + ttl, e_Negative = negative\<rparr>;
          m1 = make_room ops (entry_size entry) key m;
          m2 = lru_result m1 (lr_Add ops (mc_cache m1) key entry)
      in (None, m2\<lparr>mc_sizeBytes := mc_sizeBytes m2 + entry_size entry\<rparr>))"

definition mem_Delete ::
  "'l lru_ops \<Rightarrow> 'l MemoryCache \<Rightarrow> string \<Rightarrow> go_error option \<times> 'l MemoryCache" where
  "mem_Delete ops m key =
     (case lr_Peek ops (mc_cache m) key of
        None \<Rightarrow> (None, m)
      | Some entry \<Rightarrow>
          (let m1 = m\<lparr>mc_sizeBytes := mc_sizeBytes m - entry_size entry\<rparr>
           in (None, lru_result m1 (lr_Remove ops (mc_cache m1) key))))"

definition mem_Clear :: "'l lru_ops \<Rightarrow> 'l MemoryCache \<Rightarrow> go_error option \<times> 'l MemoryCache" where
  "mem_Clear ops m =
     (let m1 = lru_result m (lr_Purge ops (mc_cache m)) in (None, m1\<lparr>mc_sizeBytes := 0\<rparr>))"

definition mem_Len :: "'l lru_ops \<Rightarrow> 'l MemoryCache \<Rightarrow> nat" where
  "mem_Len ops m = lr_Len ops (mc_cache m)"

definition memory_ops :: "'l lru_ops \<Rightarrow> 'l MemoryCache cache_ops" where
  "memory_ops ops =
     \<lparr>co_Get = mem_Get ops, co_Set = mem_Set ops, co_Delete = mem_Delete ops, co_Clear = mem_Clear ops\<rparr>"

section \<open>Lemmas\<close>

definition mem_items :: "('l \<Rightarrow> (string \<times> Entry) list) \<Rightarrow> 'l MemoryCache \<Rightarrow> (string \<times> Entry) list" where
  "mem_items items m = items (mc_cache m)"

definition mem_holds :: "('l \<Rightarrow> (string \<times> Entry) list) \<Rightarrow> 'l MemoryCache \<Rightarrow> string \<Rightarrow> content set" where
  "mem_holds items m k = entry_content ` snd ` {x \<in> set (mem_items items m). fst x = k}"

lemma foldl_onEvict_cache [simp]: "mc_cache (foldl onEvict m xs) = mc_cache m"
  by (rule foldl_frame) (simp add: onEvict_def)

lemma foldl_onEvict_maxSize [simp]: "mc_maxSize (foldl onEvict m xs) = mc_maxSize m"
  by (rule foldl_frame) (simp add: onEvict_def)

lemma foldl_onEvict_size:
  "mc_sizeBytes (foldl onEvict m xs) = mc_sizeBytes m - sum_list (map (entry_size \<circ> snd) xs)"
  by (induction xs arbitrary: m) (auto simp: onEvict_def)

lemma lru_result_cache [simp]: "mc_cache (lru_result m r) = snd r"
  by (simp add: lru_result_def)

lemma lru_result_maxSize [simp]: "mc_maxSize (lru_result m r) = mc_maxSize m"
  by (simp add: lru_result_def)

lemma lru_result_size:
  "mc_sizeBytes (lru_result m r) = mc_sizeBytes m - sum_list (map (entry_size \<circ> snd) (fst r))"
  by (simp add: lru_result_def foldl_onEvict_size)

text \<open>The laws of the list, as rewrite rules under its contract.\<close>

lemma lru_laws:
  assumes "lru_ok ops items cap"
  shows "fst (lr_Get ops l k) = map_of (items l) k"
    "items (snd (lr_Get ops l k)) = without k (items l) @ with_key k (items l)"
    "lr_Peek ops l k = map_of (items l) k"
    "fst (lr_Add ops l k e) = take (length (without k (items l) @ [(k, e)]) - cap l) (without k (items l) @ [(k, e)])"
    "items (snd (lr_Add ops l k e)) =
       drop (length (without k (items l) @ [(k, e)]) - cap l) (without k (items l) @ [(k, e)])"
    "fst (lr_Remove ops l k) = with_key k (items l)" "items (snd (lr_Remove ops l k)) = without k (items l)"
    "fst (lr_RemoveOldest ops l) = take 1 (items l)" "items (snd (lr_RemoveOldest ops l)) = drop 1 (items l)"
    "fst (lr_Purge ops l) = items l" "items (snd (lr_Purge ops l)) = []"
    "lr_Len ops l = length (items l)" "1 \<le> cap l"
  using assms unfolding lru_ok_def Let_def by (auto simp del: drop_append take_append length_append)

lemma set_without: "set (without k xs) = {x \<in> set xs. fst x \<noteq> k}"
  by (auto simp: without_def)

lemma set_with_key: "set (with_key k xs) = {x \<in> set xs. fst x = k}"
  by (auto simp: with_key_def)

lemma evict_loop_drop:
  assumes "lru_ok ops items cap"
  shows "\<exists>j. mem_items items (evict_loop ops sz n m) = drop j (mem_items items m)"
proof (induction n arbitrary: m)
  case (Suc n)
  show ?case
  proof (cases "mc_sizeBytes m + sz > mc_maxSize m \<and> lr_Len ops (mc_cache m) > 0")
    case True
    let ?m = "lru_result m (lr_RemoveOldest ops (mc_cache m))"
    obtain j where "mem_items items (evict_loop ops sz n ?m) = drop j (mem_items items ?m)"
      using Suc by blast
    moreover have "mem_items items ?m = drop 1 (mem_items items m)"
      by (simp add: mem_items_def lru_laws [OF assms])
    ultimately show ?thesis using True by (auto intro: exI [of _ "j + 1"])
  next
    case False
    then show ?thesis by (auto intro: exI [of _ 0])
  qed
qed (auto intro: exI [of _ 0])

lemma make_room_subset:
  assumes "lru_ok ops items cap"
  shows "set (mem_items items (make_room ops sz key m)) \<subseteq> set (mem_items items m)"
proof -
  have same: "mem_items items (m\<lparr>mc_sizeBytes := x\<rparr>) = mem_items items m" for x
    by (simp add: mem_items_def)
  have drop: "set (mem_items items (evict_loop ops sz n m')) \<subseteq> set (mem_items items m')" for n m'
    using evict_loop_drop [OF assms, of sz n m'] by (metis set_drop_subset)
  show ?thesis
  proof (cases "lr_Peek ops (mc_cache m) key")
    case None
    then show ?thesis using drop [of _ m] by (simp add: make_room_def Let_def)
  next
    case (Some old)
    let ?m = "m\<lparr>mc_sizeBytes := mc_sizeBytes m - entry_size old\<rparr>"
    show ?thesis using Some drop [of _ ?m] unfolding same by (simp add: make_room_def Let_def)
  qed
qed

lemma mem_Set_items:
  assumes "lru_ok ops items cap" "mem_Set ops m now k v ttl neg = (r, m')"
  defines "e \<equiv> \<lparr>e_Key = k, e_Value = v, e_ExpiresAt = now + ttl, e_Negative = neg\<rparr>"
  shows "\<exists>j xs. set xs \<subseteq> set (mem_items items m) \<and> mem_items items m' = drop j (without k xs @ [(k, e)]) \<and>
    j \<le> length (without k xs)"
proof -
  let ?m1 = "make_room ops (entry_size e) k m"
  let ?xs = "mem_items items ?m1"
  let ?new = "without k ?xs @ [(k, e)]"
  have "mem_items items m' = drop (length ?new - cap (mc_cache ?m1)) ?new"
    using assms(2) lru_laws(5) [OF assms(1)] unfolding e_def
    by (auto simp: mem_Set_def Let_def mem_items_def simp del: drop_append length_append)
  moreover have "length ?new - cap (mc_cache ?m1) \<le> length (without k ?xs)"
    using lru_laws(13) [OF assms(1)] by (simp add: le_diff_conv)
  ultimately show ?thesis using make_room_subset [OF assms(1)] by blast
qed

lemma mem_holds_mono:
  "set (mem_items items m') \<subseteq> set (mem_items items m) \<Longrightarrow> mem_holds items m' k \<subseteq> mem_holds items m k"
  unfolding mem_holds_def by (intro image_mono) auto

lemma mem_holds_insert:
  assumes "set (mem_items items m') \<subseteq> set (mem_items items m) \<union> {(k, e)}"
  shows "mem_holds items m' k' \<subseteq>
    (if k' = k then insert (entry_content e) (mem_holds items m k') else mem_holds items m k')"
proof -
  let ?at = "\<lambda>m. {x \<in> set (mem_items items m). fst x = k'}"
  have "?at m' \<subseteq> ?at m \<union> (if k' = k then {(k, e)} else {})" using assms by auto
  then have "entry_content ` snd ` ?at m' \<subseteq> entry_content ` snd ` (?at m \<union> (if k' = k then {(k, e)} else {}))"
    by (intro image_mono)
  then show ?thesis unfolding mem_holds_def image_Un by (cases "k' = k") simp_all
qed

lemma mem_Get_subset:
  assumes "lru_ok ops items cap" "mem_Get ops m now k = (r, m')"
  shows "set (mem_items items m') \<subseteq> set (mem_items items m)"
proof -
  obtain found l where l: "lr_Get ops (mc_cache m) k = (found, l)" by fastforce
  then have "set (items l) \<subseteq> set (items (mc_cache m))"
    using lru_laws(2) [OF assms(1), of "mc_cache m" k] by (auto simp: set_without set_with_key)
  moreover have "set (items (snd (lr_Remove ops l k))) \<subseteq> set (items l)"
    using lru_laws(7) [OF assms(1), of l k] by (auto simp: set_without)
  moreover have "mc_cache m' = l \<or> mc_cache m' = snd (lr_Remove ops l k)"
    using assms(2) l by (auto simp: mem_Get_def Let_def split: option.splits if_splits)
  ultimately show ?thesis unfolding mem_items_def by auto
qed

text \<open>The memory cache honours the contract of the interface.\<close>

lemma memory_cache_contract:
  assumes "lru_ok ops items cap"
  shows "cache_contract (memory_ops ops) (mem_holds items) (\<lambda>_. True)"
proof
  fix c now k e c'
  assume "co_Get (memory_ops ops) c now k = (Inr e, c')"
  then have "map_of (items (mc_cache c)) k = Some e"
    using lru_laws(1) [OF assms, of "mc_cache c" k]
    by (auto simp: memory_ops_def mem_Get_def Let_def split: prod.splits option.splits if_splits)
  then show "entry_content e \<in> mem_holds items c k"
    by (auto simp: mem_holds_def mem_items_def dest!: map_of_SomeD intro!: image_eqI)
next
  fix c now k r c' k'
  assume "co_Get (memory_ops ops) c now k = (r, c')"
  then show "True \<and> mem_holds items c' k' \<subseteq> mem_holds items c k'"
    using mem_holds_mono [OF mem_Get_subset [OF assms]] by (simp add: memory_ops_def)
next
  fix c now k v ttl neg r c' k'
  assume s: "co_Set (memory_ops ops) c now k v ttl neg = (r, c')"
  let ?e = "\<lparr>e_Key = k, e_Value = v, e_ExpiresAt = now + ttl, e_Negative = neg\<rparr>"
  obtain j xs where xs: "set xs \<subseteq> set (mem_items items c)"
      "mem_items items c' = drop j (without k xs @ [(k, ?e)])"
    using mem_Set_items [OF assms, of c now k v ttl neg r c'] s by (auto simp: memory_ops_def)
  have "set (mem_items items c') \<subseteq> set (mem_items items c) \<union> {(k, ?e)}"
    unfolding xs(2) using xs(1) set_drop_subset [of j "without k xs @ [(k, ?e)]"]
    by (auto simp: set_without)
  then show "True \<and> mem_holds items c' k' \<subseteq>
      (if k' = k then insert (v, neg) (mem_holds items c k') else mem_holds items c k')"
    using mem_holds_insert [of items c' c k ?e k'] by (auto simp: entry_content_def split: if_splits)
next
  fix c k r c' k'
  assume "co_Delete (memory_ops ops) c k = (r, c')"
  then have "set (mem_items items c') = {x \<in> set (mem_items items c). fst x \<noteq> k}"
    using lru_laws(3,7) [OF assms]
    by (auto simp: memory_ops_def mem_Delete_def mem_items_def Let_def set_without map_of_eq_None_iff
        split: option.splits dest: map_of_SomeD)
  then show "True \<and> mem_holds items c' k' \<subseteq> mem_holds items c k' \<and> (r = None \<longrightarrow> mem_holds items c' k = {})"
    by (auto simp: mem_holds_def)
next
  fix c r c' k'
  assume "co_Clear (memory_ops ops) c = (r, c')"
  then have "mem_items items c' = []"
    using lru_laws(11) [OF assms] by (auto simp: memory_ops_def mem_Clear_def mem_items_def Let_def)
  then show "True \<and> mem_holds items c' k' \<subseteq> mem_holds items c k' \<and> (r = None \<longrightarrow> mem_holds items c' k' = {})"
    by (auto simp: mem_holds_def)
qed

interpretation memory: cache_contract "memory_ops list_lru" "mem_holds snd" "\<lambda>_. True"
  by (rule memory_cache_contract [OF list_lru_ok])

text \<open>A value just stored is found until it expires, whatever was evicted for it.\<close>

lemma mem_Get_Set:
  assumes "lru_ok ops items cap" "mem_Set ops m now k v ttl neg = (r, m')" "now' \<le> now + ttl"
  shows "\<exists>e. fst (mem_Get ops m' now' k) = Inr e \<and> e_Value e = v \<and> e_Negative e = neg"
proof -
  let ?e = "\<lparr>e_Key = k, e_Value = v, e_ExpiresAt = now + ttl, e_Negative = neg\<rparr>"
  obtain j xs where m': "mem_items items m' = drop j (without k xs @ [(k, ?e)])" "j \<le> length (without k xs)"
    using mem_Set_items [OF assms(1,2)] by blast
  have "map_of (drop j (without k xs)) k = None"
    using set_drop_subset [of j "without k xs"] by (auto simp: map_of_eq_None_iff set_without)
  then have "map_of (items (mc_cache m')) k = Some ?e"
    using m' by (simp add: mem_items_def map_add_def)
  then show ?thesis using lru_laws(1) [OF assms(1), of "mc_cache m'" k] assms(3)
    by (auto simp: mem_Get_def Let_def IsExpired_def split: prod.split)
qed

lemma mem_Get_expired:
  assumes "lru_ok ops items cap" "mem_Set ops m now k v ttl neg = (r, m')" "now + ttl < now'"
  shows "fst (mem_Get ops m' now' k) = Inl (Sentinel Cache_ErrCacheMiss)"
proof -
  let ?e = "\<lparr>e_Key = k, e_Value = v, e_ExpiresAt = now + ttl, e_Negative = neg\<rparr>"
  obtain j xs where m': "mem_items items m' = drop j (without k xs @ [(k, ?e)])" "j \<le> length (without k xs)"
    using mem_Set_items [OF assms(1,2)] by blast
  have "map_of (drop j (without k xs)) k = None"
    using set_drop_subset [of j "without k xs"] by (auto simp: map_of_eq_None_iff set_without)
  then have "map_of (items (mc_cache m')) k = Some ?e"
    using m' by (simp add: mem_items_def map_add_def)
  then show ?thesis using lru_laws(1) [OF assms(1), of "mc_cache m'" k] assms(3)
    by (auto simp: mem_Get_def Let_def IsExpired_def split: prod.split)
qed

section \<open>The size counter\<close>

definition items_size :: "(string \<times> Entry) list \<Rightarrow> int" where
  "items_size xs = sum_list (map (entry_size \<circ> snd) xs)"

definition mem_accounted :: "('l \<Rightarrow> (string \<times> Entry) list) \<Rightarrow> 'l MemoryCache \<Rightarrow> bool" where
  "mem_accounted items m = (mc_sizeBytes m = items_size (mem_items items m))"

lemma items_size_append [simp]: "items_size (xs @ ys) = items_size xs + items_size ys"
  by (simp add: items_size_def)

lemma items_size_take_drop: "items_size (take n xs) + items_size (drop n xs) = items_size xs"
  by (metis append_take_drop_id items_size_append)

lemma items_size_nonneg: "0 \<le> items_size xs"
  by (induction xs) (auto simp: items_size_def entry_size_def)

lemma lru_result_items_size: "mc_sizeBytes (lru_result m r) = mc_sizeBytes m - items_size (fst r)"
  by (simp add: lru_result_size items_size_def)

lemma evict_loop_accounted:
  assumes "lru_ok ops items cap" "mem_accounted items m" "length (mem_items items m) \<le> n"
  shows "mem_accounted items (evict_loop ops sz n m) \<and>
    mc_maxSize (evict_loop ops sz n m) = mc_maxSize m \<and>
    (mc_sizeBytes (evict_loop ops sz n m) + sz \<le> mc_maxSize m \<or> mem_items items (evict_loop ops sz n m) = [])"
  using assms(2,3)
proof (induction n arbitrary: m)
  case (Suc n)
  show ?case
  proof (cases "mc_sizeBytes m + sz > mc_maxSize m \<and> lr_Len ops (mc_cache m) > 0")
    case True
    let ?m = "lru_result m (lr_RemoveOldest ops (mc_cache m))"
    have items: "mem_items items ?m = drop 1 (mem_items items m)"
      by (simp add: mem_items_def lru_laws [OF assms(1)])
    have "mem_accounted items ?m"
      using Suc.prems(1) items_size_take_drop [of 1 "mem_items items m"] unfolding mem_accounted_def items
      by (simp add: lru_result_items_size mem_items_def lru_laws [OF assms(1)])
    then show ?thesis using True Suc.IH [of ?m] Suc.prems(2) items by simp
  next
    case False
    then show ?thesis using Suc.prems(1) lru_laws(12) [OF assms(1)] by (auto simp: mem_items_def)
  qed
qed simp

lemma without_fresh: "map_of xs k = None \<Longrightarrow> without k xs = xs"
  by (auto simp: without_def map_of_eq_None_iff intro!: filter_True)

lemma mem_Set_accounted:
  assumes "lru_ok ops items cap" "mem_accounted items m" "map_of (mem_items items m) k = None"
    and "mem_Set ops m now k v ttl neg = (r, m')"
  shows "mem_accounted items m'"
    and "0 < mc_maxSize m \<Longrightarrow> int (length v) \<le> mc_maxSize m \<Longrightarrow> mc_sizeBytes m' \<le> mc_maxSize m"
proof -
  let ?e = "\<lparr>e_Key = k, e_Value = v, e_ExpiresAt = now + ttl, e_Negative = neg\<rparr>"
  let ?sz = "entry_size ?e"
  let ?m1 = "make_room ops ?sz k m"
  let ?xs = "mem_items items ?m1"
  let ?over = "length (?xs @ [(k, ?e)]) - cap (mc_cache ?m1)"
  have peek: "lr_Peek ops (mc_cache m) k = None"
    using assms(3) by (simp add: mem_items_def lru_laws [OF assms(1)])
  have len: "length (mem_items items m) \<le> lr_Len ops (mc_cache m)"
    by (simp add: mem_items_def lru_laws [OF assms(1)])
  have m1: "?m1 = (if mc_maxSize m > 0 then evict_loop ops ?sz (lr_Len ops (mc_cache m)) m else m)"
    using peek by (simp add: make_room_def Let_def)
  have acc1: "mem_accounted items ?m1" and max1: "0 < mc_maxSize m \<Longrightarrow>
      mc_sizeBytes ?m1 + ?sz \<le> mc_maxSize m \<or> ?xs = []"
    using evict_loop_accounted [OF assms(1,2) len, of ?sz] assms(2) unfolding m1 by auto
  have "set ?xs \<subseteq> set (mem_items items m)" by (rule make_room_subset [OF assms(1)])
  then have "map_of ?xs k = None" using assms(3) by (auto simp: map_of_eq_None_iff)
  then have fresh: "without k ?xs = ?xs" by (rule without_fresh)
  have add: "fst (lr_Add ops (mc_cache ?m1) k ?e) = take ?over (?xs @ [(k, ?e)])"
      "items (snd (lr_Add ops (mc_cache ?m1) k ?e)) = drop ?over (?xs @ [(k, ?e)])"
    using lru_laws(4,5) [OF assms(1), of "mc_cache ?m1" k ?e] fresh
    unfolding mem_items_def by simp_all
  have m': "m' = (let m2 = lru_result ?m1 (lr_Add ops (mc_cache ?m1) k ?e)
      in m2\<lparr>mc_sizeBytes := mc_sizeBytes m2 + ?sz\<rparr>)"
    using assms(4) by (simp add: mem_Set_def Let_def)
  have items': "mem_items items m' = drop ?over (?xs @ [(k, ?e)])"
    using add(2) unfolding m' by (simp add: Let_def mem_items_def)
  have size': "mc_sizeBytes m' = mc_sizeBytes ?m1 - items_size (take ?over (?xs @ [(k, ?e)])) + ?sz"
    unfolding m' using add(1) by (simp add: Let_def lru_result_items_size)
  have total: "items_size (take ?over (?xs @ [(k, ?e)])) + items_size (drop ?over (?xs @ [(k, ?e)])) =
      items_size ?xs + ?sz"
    unfolding items_size_take_drop by (simp add: items_size_def)
  show "mem_accounted items m'"
    using acc1 total unfolding mem_accounted_def items' size' by simp
  show "mc_sizeBytes m' \<le> mc_maxSize m" if "0 < mc_maxSize m" "int (length v) \<le> mc_maxSize m"
    using max1 [OF that(1)] acc1 that(2) size' items_size_nonneg [of "take ?over (?xs @ [(k, ?e)])"]
    by (auto simp: mem_accounted_def items_size_def entry_size_def)
qed

text \<open>
  \<open>Delete\<close> subtracts the size itself and once more in the callback: the counter ends up below the
  size of what is left.
\<close>

lemma items_size_without:
  "items_size xs = items_size (without k xs) + items_size (with_key k xs)"
  by (induction xs) (auto simp: items_size_def without_def with_key_def)

lemma mem_Delete_size:
  assumes "lru_ok ops items cap" "mem_accounted items m"
    and "map_of (mem_items items m) k = Some e" "mem_Delete ops m k = (r, m')"
  shows "mc_sizeBytes m' = items_size (mem_items items m') - entry_size e"
proof -
  have "lr_Peek ops (mc_cache m) k = Some e"
    using assms(3) by (simp add: mem_items_def lru_laws [OF assms(1)])
  then have m': "m' = lru_result (m\<lparr>mc_sizeBytes := mc_sizeBytes m - entry_size e\<rparr>)
      (lr_Remove ops (mc_cache m) k)"
    using assms(4) by (simp add: mem_Delete_def Let_def)
  have "mem_items items m' = without k (mem_items items m)"
    unfolding m' by (simp add: mem_items_def lru_laws [OF assms(1)])
  moreover have "mc_sizeBytes m' = mc_sizeBytes m - entry_size e - items_size (with_key k (mem_items items m))"
    unfolding m' by (simp add: lru_result_items_size mem_items_def lru_laws [OF assms(1)])
  ultimately show ?thesis using assms(2) items_size_without [of "mem_items items m" k]
    by (simp add: mem_accounted_def)
qed

end
