(* ===== verification/Redis_Cache.thy ===== *)
theory Redis_Cache
  imports Cache GoStrings
begin

text \<open>
  \<open>internal/cache/redis.go\<close>: the cache kept in a Redis server.  The server and \<open>encoding/json\<close> are
  parameters: a record of the commands the code sends, on a server state, and the pair of
  \<open>Marshal\<close> and \<open>Unmarshal\<close> on \<open>redisEntry\<close>.
\<close>

section \<open>The server\<close>

text \<open>
  \<open>rs_Scan\<close> gives the pages of an iteration with a pattern, up to the one with cursor zero or the
  first error.
\<close>

record 's redis_ops =
  rs_Get :: "'s \<Rightarrow> int \<Rightarrow> string \<Rightarrow> (go_error + string) \<times> 's"
  rs_Set :: "'s \<Rightarrow> int \<Rightarrow> string \<Rightarrow> string \<Rightarrow> int \<Rightarrow> go_error option \<times> 's"
  rs_Del :: "'s \<Rightarrow> string list \<Rightarrow> go_error option \<times> 's"
  rs_FlushDB :: "'s \<Rightarrow> go_error option \<times> 's"
  rs_Scan :: "'s \<Rightarrow> string \<Rightarrow> (go_error + string list) list"

record entry_json =
  js_Marshal :: "content \<Rightarrow> go_error + string"
  js_Unmarshal :: "string \<Rightarrow> go_error + content"

definition glob_free :: "string \<Rightarrow> bool" where
  "glob_free p = (set p \<inter> {CHR ''*'', CHR ''?'', CHR ''['', CHR '']'', CHR 0x5C} = {})"

text \<open>
  What the commands promise about the \<open>contents\<close> of the server, which may lose entries at any
  time: a command changes nothing but its keys, \<open>DEL\<close> and \<open>FLUSHDB\<close> remove what they are asked to
  when they succeed, and an iteration that ends covers every key that starts with a literal
  pattern.
\<close>

definition redis_ok :: "'s redis_ops \<Rightarrow> ('s \<Rightarrow> string \<rightharpoonup> string) \<Rightarrow> bool" where
  "redis_ok ops contents \<longleftrightarrow>
     (\<forall>s now k. contents (snd (rs_Get ops s now k)) \<subseteq>\<^sub>m contents s \<and>
        (\<forall>d. fst (rs_Get ops s now k) = Inr d \<longrightarrow> contents s k = Some d)) \<and>
     (\<forall>s now k d ttl k' x. contents (snd (rs_Set ops s now k d ttl)) k' = Some x \<longrightarrow>
        contents s k' = Some x \<or> (k' = k \<and> x = d)) \<and>
     (\<forall>s ks. contents (snd (rs_Del ops s ks)) \<subseteq>\<^sub>m contents s \<and>
        (fst (rs_Del ops s ks) = None \<longrightarrow> (\<forall>k \<in> set ks. contents (snd (rs_Del ops s ks)) k = None))) \<and>
     (\<forall>s. contents (snd (rs_FlushDB ops s)) \<subseteq>\<^sub>m contents s \<and>
        (fst (rs_FlushDB ops s) = None \<longrightarrow> contents (snd (rs_FlushDB ops s)) = Map.empty)) \<and>
     (\<forall>s p. glob_free p \<longrightarrow> list_all (\<lambda>r. case r of Inl _ \<Rightarrow> False | Inr _ \<Rightarrow> True) (rs_Scan ops s (p @ ''*'')) \<longrightarrow>
        (\<forall>k. contents s (p @ k) \<noteq> None \<longrightarrow> (\<exists>ks. Inr ks \<in> set (rs_Scan ops s (p @ ''*'')) \<and> p @ k \<in> set ks)))"

definition json_ok :: "entry_json \<Rightarrow> bool" where
  "json_ok js = (\<forall>c d. js_Marshal js c = Inr d \<longrightarrow> js_Unmarshal js d = Inr c)"

section \<open>The cache\<close>

record 's RedisCache =
  rc_client :: 's
  rc_prefix :: string
  rc_hits :: "64 word"
  rc_misses :: "64 word"

definition NewRedisCache :: "'s \<Rightarrow> string \<Rightarrow> 's RedisCache" where
  "NewRedisCache client pfx = \<lparr>rc_client = client, rc_prefix = pfx, rc_hits = 0, rc_misses = 0\<rparr>"

definition prefixedKey :: "'s RedisCache \<Rightarrow> string \<Rightarrow> string" where
  "prefixedKey r key = (if rc_prefix r = [] then key else rc_prefix r @ key)"

definition redis_miss :: "'s RedisCache \<Rightarrow> (go_error + Entry) \<times> 's RedisCache" where
  "redis_miss r = (Inl (Sentinel Cache_ErrCacheMiss), r\<lparr>rc_misses := rc_misses r + 1\<rparr>)"

text \<open>The entry read from Redis has the zero time as its expiry.\<close>

definition zero_time :: int where "zero_time = - 62135596800 * 10 ^ 9"

definition redis_Get ::
  "'s redis_ops \<Rightarrow> entry_json \<Rightarrow> 's RedisCache \<Rightarrow> int \<Rightarrow> string \<Rightarrow> (go_error + Entry) \<times> 's RedisCache" where
  "redis_Get ops js r now key =
     (let (res, s) = rs_Get ops (rc_client r) now (prefixedKey r key); r1 = r\<lparr>rc_client := s\<rparr> in
      case res of
        Inl err \<Rightarrow> if error_is err Redis_Nil then redis_miss r1 else (Inl err, r1)
      | Inr data \<Rightarrow>
          (case js_Unmarshal js data of
             Inl err \<Rightarrow> redis_miss r1
           | Inr (value, negative) \<Rightarrow>
               (Inr \<lparr>e_Key = key, e_Value = value, e_ExpiresAt = zero_time, e_Negative = negative\<rparr>,
                r1\<lparr>rc_hits := rc_hits r1 + 1\<rparr>)))"

definition redis_Set ::
  "'s redis_ops \<Rightarrow> entry_json \<Rightarrow> 's RedisCache \<Rightarrow> int \<Rightarrow> string \<Rightarrow> string \<Rightarrow> int \<Rightarrow> bool \<Rightarrow>
   go_error option \<times> 's RedisCache" where
  "redis_Set ops js r now key value ttl negative =
     (case js_Marshal js (value, negative) of
        Inl err \<Rightarrow> (Some err, r)
      | Inr data \<Rightarrow>
          (let (err, s) = rs_Set ops (rc_client r) now (prefixedKey r key) data ttl
           in (err, r\<lparr>rc_client := s\<rparr>)))"

definition redis_Delete :: "'s redis_ops \<Rightarrow> 's RedisCache \<Rightarrow> string \<Rightarrow> go_error option \<times> 's RedisCache" where
  "redis_Delete ops r key =
     (let (err, s) = rs_Del ops (rc_client r) [prefixedKey r key] in (err, r\<lparr>rc_client := s\<rparr>))"

text \<open>The loop over the pages; it returns at the first error.\<close>

fun clear_pages ::
  "'s redis_ops \<Rightarrow> (go_error + string list) list \<Rightarrow> 's \<Rightarrow> go_error option \<times> 's" where
  "clear_pages ops [] s = (None, s)"
| "clear_pages ops (page # pages) s =
     (case page of
        Inl err \<Rightarrow> (Some err, s)
      | Inr keys \<Rightarrow>
          if length keys > 0 then
            (case rs_Del ops s keys of
               (Some err, s') \<Rightarrow> (Some err, s')
             | (None, s') \<Rightarrow> clear_pages ops pages s')
          else clear_pages ops pages s)"

definition redis_Clear :: "'s redis_ops \<Rightarrow> 's RedisCache \<Rightarrow> go_error option \<times> 's RedisCache" where
  "redis_Clear ops r =
     (let (err, s) =
        (if rc_prefix r = [] then rs_FlushDB ops (rc_client r)
         else clear_pages ops (rs_Scan ops (rc_client r) (rc_prefix r @ ''*'')) (rc_client r))
      in (err, r\<lparr>rc_client := s\<rparr>))"

definition redis_cache_ops :: "'s redis_ops \<Rightarrow> entry_json \<Rightarrow> 's RedisCache cache_ops" where
  "redis_cache_ops ops js =
     \<lparr>co_Get = redis_Get ops js, co_Set = redis_Set ops js, co_Delete = redis_Delete ops,
      co_Clear = redis_Clear ops\<rparr>"

section \<open>The contract\<close>

definition redis_holds ::
  "('s \<Rightarrow> string \<rightharpoonup> string) \<Rightarrow> entry_json \<Rightarrow> 's RedisCache \<Rightarrow> string \<Rightarrow> content set" where
  "redis_holds contents js r k =
     {c. \<exists>d. contents (rc_client r) (prefixedKey r k) = Some d \<and> js_Unmarshal js d = Inr c}"

definition redis_state_ok :: "'s RedisCache \<Rightarrow> bool" where
  "redis_state_ok r = glob_free (rc_prefix r)"

lemma prefixedKey_eq: "prefixedKey r k = rc_prefix r @ k"
  by (simp add: prefixedKey_def)

lemma redis_laws:
  assumes "redis_ok ops contents"
  shows "contents (snd (rs_Get ops s now k)) \<subseteq>\<^sub>m contents s"
    "fst (rs_Get ops s now k) = Inr d \<Longrightarrow> contents s k = Some d"
    "contents (snd (rs_Set ops s now k d ttl)) k' = Some x \<Longrightarrow> contents s k' = Some x \<or> (k' = k \<and> x = d)"
    "contents (snd (rs_Del ops s ks)) \<subseteq>\<^sub>m contents s"
    "fst (rs_Del ops s ks) = None \<Longrightarrow> k \<in> set ks \<Longrightarrow> contents (snd (rs_Del ops s ks)) k = None"
    "contents (snd (rs_FlushDB ops s)) \<subseteq>\<^sub>m contents s"
    "fst (rs_FlushDB ops s) = None \<Longrightarrow> contents (snd (rs_FlushDB ops s)) = Map.empty"
    "glob_free p \<Longrightarrow> list_all (\<lambda>r. case r of Inl _ \<Rightarrow> False | Inr _ \<Rightarrow> True) (rs_Scan ops s (p @ ''*'')) \<Longrightarrow>
       contents s (p @ k) \<noteq> None \<Longrightarrow> \<exists>ks. Inr ks \<in> set (rs_Scan ops s (p @ ''*'')) \<and> p @ k \<in> set ks"
  using assms unfolding redis_ok_def by blast+

lemma redis_holds_mono:
  "contents (rc_client r') \<subseteq>\<^sub>m contents (rc_client r) \<Longrightarrow> rc_prefix r' = rc_prefix r \<Longrightarrow>
   redis_holds contents js r' k \<subseteq> redis_holds contents js r k"
  by (auto simp: redis_holds_def prefixedKey_eq map_le_def dom_def)

lemma clear_pages_le:
  assumes "redis_ok ops contents"
  shows "contents (snd (clear_pages ops pages s)) \<subseteq>\<^sub>m contents s"
proof (induction pages arbitrary: s)
  case (Cons page pages)
  show ?case
  proof (cases page)
    case (Inr keys)
    obtain err s' where d: "rs_Del ops s keys = (err, s')" by fastforce
    then have "contents s' \<subseteq>\<^sub>m contents s" using redis_laws(4) [OF assms, of s keys] by simp
    then have "contents (snd (clear_pages ops pages s')) \<subseteq>\<^sub>m contents s"
      using Cons [of s'] map_le_trans by blast
    then show ?thesis using Inr d \<open>contents s' \<subseteq>\<^sub>m contents s\<close> Cons by (simp split: option.split)
  qed simp
qed simp

lemma clear_pages_gone:
  assumes "redis_ok ops contents" "fst (clear_pages ops pages s) = None"
  shows "list_all (\<lambda>r. case r of Inl _ \<Rightarrow> False | Inr _ \<Rightarrow> True) pages \<and>
    (\<forall>ks k. Inr ks \<in> set pages \<and> k \<in> set ks \<longrightarrow> contents (snd (clear_pages ops pages s)) k = None)"
  using assms(2)
proof (induction pages arbitrary: s)
  case (Cons page pages)
  from Cons.prems obtain keys where page: "page = Inr keys" by (cases page) auto
  have none: "m' \<subseteq>\<^sub>m m \<Longrightarrow> m k = None \<Longrightarrow> m' k = None" for m m' :: "string \<rightharpoonup> string" and k
    by (metis domIff map_le_implies_dom_le subsetD)
  show ?case
  proof (cases "keys = []")
    case True
    then show ?thesis using Cons.IH [of s] Cons.prems page by auto
  next
    case False
    then obtain s' where d: "rs_Del ops s keys = (None, s')" "fst (clear_pages ops pages s') = None"
      using Cons.prems page by (auto split: prod.splits option.splits)
    have "contents (snd (clear_pages ops pages s')) k = None" if "k \<in> set keys" for k
      using none [OF clear_pages_le [OF assms(1), of pages s']] redis_laws(5) [OF assms(1), of s keys k] d that
      by simp
    then show ?thesis using Cons.IH [OF d(2)] d(1) page False by auto
  qed
qed simp

lemma redis_cache_contract:
  assumes "redis_ok ops contents" "json_ok js"
  shows "cache_contract (redis_cache_ops ops js) (redis_holds contents js) redis_state_ok"
proof
  fix c now k e c'
  assume "co_Get (redis_cache_ops ops js) c now k = (Inr e, c')"
  then obtain d where "fst (rs_Get ops (rc_client c) now (prefixedKey c k)) = Inr d"
      "js_Unmarshal js d = Inr (entry_content e)"
    by (auto simp: redis_cache_ops_def redis_Get_def redis_miss_def Let_def entry_content_def
        split: prod.splits sum.splits if_splits)
  then show "entry_content e \<in> redis_holds contents js c k"
    using redis_laws(2) [OF assms(1)] by (auto simp: redis_holds_def)
next
  fix c now k r c' k'
  assume ok: "redis_state_ok c" and g: "co_Get (redis_cache_ops ops js) c now k = (r, c')"
  then have "rc_client c' = snd (rs_Get ops (rc_client c) now (prefixedKey c k))" "rc_prefix c' = rc_prefix c"
    by (auto simp: redis_cache_ops_def redis_Get_def redis_miss_def Let_def
        split: prod.splits sum.splits if_splits)
  then show "redis_state_ok c' \<and> redis_holds contents js c' k' \<subseteq> redis_holds contents js c k'"
    using redis_holds_mono [of contents c' c js k'] redis_laws(1) [OF assms(1)] ok
    by (simp add: redis_state_ok_def)
next
  fix c now k v ttl neg r c' k'
  assume ok: "redis_state_ok c" and s: "co_Set (redis_cache_ops ops js) c now k v ttl neg = (r, c')"
  show "redis_state_ok c' \<and> redis_holds contents js c' k' \<subseteq>
      (if k' = k then insert (v, neg) (redis_holds contents js c k') else redis_holds contents js c k')"
  proof (cases "js_Marshal js (v, neg)")
    case (Inl err)
    then show ?thesis using ok s by (auto simp: redis_cache_ops_def redis_Set_def)
  next
    case (Inr data)
    then have c': "rc_prefix c' = rc_prefix c"
        "rc_client c' = snd (rs_Set ops (rc_client c) now (prefixedKey c k) data ttl)"
      using s by (auto simp: redis_cache_ops_def redis_Set_def split: prod.splits)
    have dec: "js_Unmarshal js data = Inr (v, neg)" using assms(2) Inr by (simp add: json_ok_def)
    have "x \<in> redis_holds contents js c k' \<or> (k' = k \<and> x = (v, neg))"
      if "x \<in> redis_holds contents js c' k'" for x
    proof -
      from that obtain d where d: "contents (rc_client c') (prefixedKey c' k') = Some d"
          "js_Unmarshal js d = Inr x" by (auto simp: redis_holds_def)
      then have "contents (rc_client c) (prefixedKey c k') = Some d \<or> (k' = k \<and> d = data)"
        using redis_laws(3) [OF assms(1), of "rc_client c" now "prefixedKey c k" data ttl "prefixedKey c k'" d]
        by (simp add: c' prefixedKey_eq)
      then show ?thesis using d(2) dec by (auto simp: redis_holds_def)
    qed
    then show ?thesis using ok c'(1) by (auto simp: redis_state_ok_def)
  qed
next
  fix c k r c' k'
  assume ok: "redis_state_ok c" and d: "co_Delete (redis_cache_ops ops js) c k = (r, c')"
  then have c': "rc_client c' = snd (rs_Del ops (rc_client c) [prefixedKey c k])"
      "r = fst (rs_Del ops (rc_client c) [prefixedKey c k])" "rc_prefix c' = rc_prefix c"
    by (auto simp: redis_cache_ops_def redis_Delete_def split: prod.splits)
  then have "r = None \<longrightarrow> redis_holds contents js c' k = {}"
    using redis_laws(5) [OF assms(1)] by (simp add: redis_holds_def prefixedKey_eq)
  then show "redis_state_ok c' \<and> redis_holds contents js c' k' \<subseteq> redis_holds contents js c k' \<and>
      (r = None \<longrightarrow> redis_holds contents js c' k = {})"
    using redis_holds_mono [of contents c' c js k'] redis_laws(4) [OF assms(1)] ok c'
    by (simp add: redis_state_ok_def)
next
  fix c r c' k'
  assume ok: "redis_state_ok c" and cl: "co_Clear (redis_cache_ops ops js) c = (r, c')"
  let ?pages = "rs_Scan ops (rc_client c) (rc_prefix c @ ''*'')"
  have c': "rc_prefix c' = rc_prefix c"
      "(r, rc_client c') = (if rc_prefix c = [] then rs_FlushDB ops (rc_client c)
         else clear_pages ops ?pages (rc_client c))"
    using cl by (auto simp: redis_cache_ops_def redis_Clear_def split: prod.splits if_splits)
  have le: "contents (rc_client c') \<subseteq>\<^sub>m contents (rc_client c)"
    using c'(2) redis_laws(6) [OF assms(1), of "rc_client c"]
      clear_pages_le [OF assms(1), of ?pages "rc_client c"]
    by (metis snd_conv)
  have "contents (rc_client c') (rc_prefix c @ k') = None" if "r = None"
  proof (cases "rc_prefix c = []")
    case True
    then show ?thesis using that c'(2) redis_laws(7) [OF assms(1), of "rc_client c"]
      by (metis fst_conv snd_conv)
  next
    case False
    then have cp: "clear_pages ops ?pages (rc_client c) = (None, rc_client c')" using that c'(2) by simp
    note gone = clear_pages_gone [OF assms(1), of ?pages "rc_client c", unfolded cp, simplified]
    show ?thesis
    proof (rule ccontr)
      assume "contents (rc_client c') (rc_prefix c @ k') \<noteq> None"
      moreover from this have "contents (rc_client c) (rc_prefix c @ k') \<noteq> None"
        using le by (metis domIff map_le_implies_dom_le subsetD)
      ultimately show False
        using redis_laws(8) [OF assms(1), of "rc_prefix c" "rc_client c" k'] gone ok
        by (auto simp: redis_state_ok_def)
    qed
  qed
  then have "r = None \<longrightarrow> redis_holds contents js c' k' = {}"
    using c'(1) by (auto simp: redis_holds_def prefixedKey_eq)
  then show "redis_state_ok c' \<and> redis_holds contents js c' k' \<subseteq> redis_holds contents js c k' \<and>
      (r = None \<longrightarrow> redis_holds contents js c' k' = {})"
    using redis_holds_mono [of contents c' c js k', OF le c'(1)] ok c'(1) by (simp add: redis_state_ok_def)
qed

text \<open>
  An association list with these commands, and an encoding of entries: the hypotheses can hold.
\<close>

definition list_redis :: "(string \<times> string) list redis_ops" where
  "list_redis = \<lparr>
     rs_Get = (\<lambda>s now k. (case map_of s k of None \<Rightarrow> Inl (Sentinel Redis_Nil) | Some d \<Rightarrow> Inr d, s)),
     rs_Set = (\<lambda>s now k d ttl. (None, (k, d) # s)),
     rs_Del = (\<lambda>s ks. (None, filter (\<lambda>x. fst x \<notin> set ks) s)),
     rs_FlushDB = (\<lambda>s. (None, [])),
     rs_Scan = (\<lambda>s p. [Inr (filter (\<lambda>k. has_prefix k (butlast p)) (map fst s))])\<rparr>"

definition tag_json :: entry_json where
  "tag_json = \<lparr>
     js_Marshal = (\<lambda>(v, n). Inr ((if n then CHR ''n'' else CHR ''v'') # v)),
     js_Unmarshal = (\<lambda>d. case d of [] \<Rightarrow> Inl (OtherError ''unexpected end of JSON input'')
                                 | c # v \<Rightarrow> Inr (v, c = CHR ''n''))\<rparr>"

lemma tag_json_ok: "json_ok tag_json"
  by (auto simp: json_ok_def tag_json_def)

lemma map_of_filter_fst:
  "map_of (filter (\<lambda>x. fst x \<notin> K) s) k = (if k \<in> K then None else map_of s k)"
  by (induction s) auto

lemma list_redis_ok: "redis_ok list_redis map_of"
proof -
  have "k \<in> fst ` set s" if "map_of s k = Some y" for s :: "(string \<times> string) list" and k y
    using that by (force dest: map_of_SomeD)
  then show ?thesis
    by (auto simp: redis_ok_def list_redis_def map_le_def map_of_filter_fst has_prefix_iff
        split: option.splits if_splits)
qed

interpretation redis: cache_contract "redis_cache_ops list_redis tag_json"
  "redis_holds map_of tag_json" redis_state_ok
  by (rule redis_cache_contract [OF list_redis_ok tag_json_ok])

end
