(* ===== verification/Tiered_Cache.thy ===== *)
theory Tiered_Cache
  imports Memory_Cache Redis_Cache
begin

text \<open>
  \<open>internal/cache/tiered.go\<close>: the two-level cache and the fetches behind it.  It is written against
  the \<open>Cache\<close> interface: the operations of both levels are parameters, and the laws it needs are
  those of \<open>cache_contract\<close>.  Metrics and logging are left out.

  \<open>singleflight.Group.Do\<close> is modelled for one caller: it runs its function.
\<close>

section \<open>State\<close>

record TieredCacheConfig =
  cf_DefaultTTL :: int
  cf_NegativeTTL :: int
  cf_L1PromotionTTL :: int
  cf_EnableL2Writes :: bool
  cf_FetchTimeout :: int

record ('a, 'b) TieredCache =
  tc_l1 :: 'a
  tc_l2 :: "'b option"
  tc_config :: TieredCacheConfig

definition defaultFetchTimeout :: int where "defaultFetchTimeout = 30 * 10 ^ 9"

definition normalizeConfig :: "TieredCacheConfig \<Rightarrow> TieredCacheConfig" where
  "normalizeConfig cfg =
     (if cf_FetchTimeout cfg \<le> 0 then cfg\<lparr>cf_FetchTimeout := defaultFetchTimeout\<rparr> else cfg)"

definition NewTieredCacheWithBackends :: "'a \<Rightarrow> 'b option \<Rightarrow> TieredCacheConfig \<Rightarrow> ('a, 'b) TieredCache" where
  "NewTieredCacheWithBackends l1 l2 cfg =
     \<lparr>tc_l1 = l1, tc_l2 = l2, tc_config = normalizeConfig cfg\<rparr>"

section \<open>Operations\<close>

definition promotion_ttl :: "TieredCacheConfig \<Rightarrow> Entry \<Rightarrow> int" where
  "promotion_ttl cfg entry =
     (if e_Negative entry then min (cf_NegativeTTL cfg) (cf_L1PromotionTTL cfg)
      else cf_L1PromotionTTL cfg)"

definition promoteToL1 ::
  "'a cache_ops \<Rightarrow> ('a, 'b) TieredCache \<Rightarrow> int \<Rightarrow> string \<Rightarrow> Entry \<Rightarrow> ('a, 'b) TieredCache" where
  "promoteToL1 o1 t now key entry =
     t\<lparr>tc_l1 := snd (co_Set o1 (tc_l1 t) now key (e_Value entry) (promotion_ttl (tc_config t) entry)
         (e_Negative entry))\<rparr>"

definition tiered_Get ::
  "'a cache_ops \<Rightarrow> 'b cache_ops \<Rightarrow> ('a, 'b) TieredCache \<Rightarrow> int \<Rightarrow> string \<Rightarrow>
   (go_error + Entry) \<times> ('a, 'b) TieredCache" where
  "tiered_Get o1 o2 t now key =
     (let (r1, l1) = co_Get o1 (tc_l1 t) now key; t1 = t\<lparr>tc_l1 := l1\<rparr> in
      case r1 of
        Inr entry \<Rightarrow> (Inr entry, t1)
      | Inl err \<Rightarrow>
          (case tc_l2 t of
             None \<Rightarrow> (Inl err, t1)
           | Some s2 \<Rightarrow>
               (let (r2, l2) = co_Get o2 s2 now key; t2 = t1\<lparr>tc_l2 := Some l2\<rparr> in
                case r2 of
                  Inl err2 \<Rightarrow> (Inl err2, t2)
                | Inr entry \<Rightarrow> (Inr entry, promoteToL1 o1 t2 now key entry))))"

definition tiered_Set ::
  "'a cache_ops \<Rightarrow> 'b cache_ops \<Rightarrow> ('a, 'b) TieredCache \<Rightarrow> int \<Rightarrow> string \<Rightarrow> string \<Rightarrow> int \<Rightarrow> bool \<Rightarrow>
   go_error option \<times> ('a, 'b) TieredCache" where
  "tiered_Set o1 o2 t now key value ttl negative =
     (let (r1, l1) = co_Set o1 (tc_l1 t) now key value ttl negative; t1 = t\<lparr>tc_l1 := l1\<rparr> in
      case r1 of
        Some err \<Rightarrow> (Some err, t1)
      | None \<Rightarrow>
          (case tc_l2 t of
             None \<Rightarrow> (None, t1)
           | Some s2 \<Rightarrow>
               if cf_EnableL2Writes (tc_config t) then
                 (None, t1\<lparr>tc_l2 := Some (snd (co_Set o2 s2 now key value ttl negative))\<rparr>)
               else (None, t1)))"

definition SetWithDefaultTTL ::
  "'a cache_ops \<Rightarrow> 'b cache_ops \<Rightarrow> ('a, 'b) TieredCache \<Rightarrow> int \<Rightarrow> string \<Rightarrow> string \<Rightarrow> bool \<Rightarrow>
   go_error option \<times> ('a, 'b) TieredCache" where
  "SetWithDefaultTTL o1 o2 t now key value negative =
     (let ttl = (if negative then cf_NegativeTTL (tc_config t) else cf_DefaultTTL (tc_config t))
      in tiered_Set o1 o2 t now key value ttl negative)"

definition tiered_Delete ::
  "'a cache_ops \<Rightarrow> 'b cache_ops \<Rightarrow> ('a, 'b) TieredCache \<Rightarrow> string \<Rightarrow>
   go_error option \<times> ('a, 'b) TieredCache" where
  "tiered_Delete o1 o2 t key =
     (let (r1, l1) = co_Delete o1 (tc_l1 t) key; t1 = t\<lparr>tc_l1 := l1\<rparr> in
      case r1 of
        Some err \<Rightarrow> (Some err, t1)
      | None \<Rightarrow>
          (case tc_l2 t of
             None \<Rightarrow> (None, t1)
           | Some s2 \<Rightarrow> (let (r2, l2) = co_Delete o2 s2 key in (r2, t1\<lparr>tc_l2 := Some l2\<rparr>))))"

definition tiered_Clear ::
  "'a cache_ops \<Rightarrow> 'b cache_ops \<Rightarrow> ('a, 'b) TieredCache \<Rightarrow> go_error option \<times> ('a, 'b) TieredCache" where
  "tiered_Clear o1 o2 t =
     (let (r1, l1) = co_Clear o1 (tc_l1 t); t1 = t\<lparr>tc_l1 := l1\<rparr> in
      case r1 of
        Some err \<Rightarrow> (Some err, t1)
      | None \<Rightarrow>
          (case tc_l2 t of
             None \<Rightarrow> (None, t1)
           | Some s2 \<Rightarrow> (let (r2, l2) = co_Clear o2 s2 in (r2, t1\<lparr>tc_l2 := Some l2\<rparr>))))"

definition tiered_ops :: "'a cache_ops \<Rightarrow> 'b cache_ops \<Rightarrow> ('a, 'b) TieredCache cache_ops" where
  "tiered_ops o1 o2 =
     \<lparr>co_Get = tiered_Get o1 o2, co_Set = tiered_Set o1 o2, co_Delete = tiered_Delete o1 o2,
      co_Clear = tiered_Clear o1 o2\<rparr>"

text \<open>
  The fetches.  The result is the value or the error, whether it came from the cache, and whether
  \<open>fetch\<close> was called; the clock is read at the first probe, at the second one, and at the store.
\<close>

type_synonym fetch_result = "(go_error + string) \<times> bool \<times> bool"

definition GetOrFetch ::
  "'a cache_ops \<Rightarrow> 'b cache_ops \<Rightarrow> ('a, 'b) TieredCache \<Rightarrow> int \<times> int \<times> int \<Rightarrow> string \<Rightarrow>
   (go_error + string) \<Rightarrow> fetch_result \<times> ('a, 'b) TieredCache" where
  "GetOrFetch o1 o2 t clock key fetched =
     (let (now1, now2, now3) = clock; (r1, t1) = tiered_Get o1 o2 t now1 key in
      case r1 of
        Inr entry \<Rightarrow> ((Inr (e_Value entry), True, False), t1)
      | Inl _ \<Rightarrow>
          (let (r2, t2) = tiered_Get o1 o2 t1 now2 key in
           case r2 of
             Inr entry \<Rightarrow> ((Inr (e_Value entry), False, False), t2)
           | Inl _ \<Rightarrow>
               (case fetched of
                  Inl err \<Rightarrow> ((Inl err, False, True), t2)
                | Inr value \<Rightarrow>
                    ((Inr value, False, True), snd (SetWithDefaultTTL o1 o2 t2 now3 key value False)))))"

definition GetOrFetchWithNegative ::
  "'a cache_ops \<Rightarrow> 'b cache_ops \<Rightarrow> ('a, 'b) TieredCache \<Rightarrow> int \<times> int \<times> int \<Rightarrow> string \<Rightarrow>
   (go_error + string) \<Rightarrow> sentinel \<Rightarrow> fetch_result \<times> ('a, 'b) TieredCache" where
  "GetOrFetchWithNegative o1 o2 t clock key fetched notFoundErr =
     (let (now1, now2, now3) = clock; (r1, t1) = tiered_Get o1 o2 t now1 key in
      case r1 of
        Inr entry \<Rightarrow>
          if e_Negative entry then ((Inl (Sentinel notFoundErr), True, False), t1)
          else ((Inr (e_Value entry), True, False), t1)
      | Inl _ \<Rightarrow>
          (let (r2, t2) = tiered_Get o1 o2 t1 now2 key in
           case r2 of
             Inr entry \<Rightarrow>
               if e_Negative entry then ((Inl (Sentinel notFoundErr), False, False), t2)
               else ((Inr (e_Value entry), False, False), t2)
           | Inl _ \<Rightarrow>
               (case fetched of
                  Inl fetchErr \<Rightarrow>
                    if error_is fetchErr notFoundErr then
                      ((Inl (Sentinel notFoundErr), False, True),
                       snd (SetWithDefaultTTL o1 o2 t2 now3 key [] True))
                    else ((Inl fetchErr, False, True), t2)
                | Inr value \<Rightarrow>
                    ((Inr value, False, True), snd (SetWithDefaultTTL o1 o2 t2 now3 key value False)))))"

section \<open>The tiered cache honours the contract of its levels\<close>

definition tiered_holds ::
  "('a \<Rightarrow> string \<Rightarrow> content set) \<Rightarrow> ('b \<Rightarrow> string \<Rightarrow> content set) \<Rightarrow> ('a, 'b) TieredCache \<Rightarrow>
   string \<Rightarrow> content set" where
  "tiered_holds h1 h2 t k = h1 (tc_l1 t) k \<union> (case tc_l2 t of None \<Rightarrow> {} | Some s \<Rightarrow> h2 s k)"

definition tiered_ok :: "('a \<Rightarrow> bool) \<Rightarrow> ('b \<Rightarrow> bool) \<Rightarrow> ('a, 'b) TieredCache \<Rightarrow> bool" where
  "tiered_ok ok1 ok2 t = (ok1 (tc_l1 t) \<and> (case tc_l2 t of None \<Rightarrow> True | Some s \<Rightarrow> ok2 s))"

locale two_caches =
  l1: cache_contract o1 h1 ok1 + l2: cache_contract o2 h2 ok2
  for o1 :: "'a cache_ops" and h1 ok1 and o2 :: "'b cache_ops" and h2 ok2
begin

text \<open>The contents after a step, from the contents of the levels; \<open>X\<close> is what the step stores.\<close>

definition written :: "string \<Rightarrow> content \<Rightarrow> string \<Rightarrow> content set" where
  "written k c k' = (if k' = k then {c} else {})"

lemma set1: "ok1 c \<Longrightarrow> co_Set o1 c now k v ttl neg = (r, c') \<Longrightarrow>
    ok1 c' \<and> h1 c' k' \<subseteq> h1 c k' \<union> written k (v, neg) k'"
  using l1.set_adds [of c now k v ttl neg r c' k'] by (auto simp: written_def split: if_splits)

lemma set2: "ok2 c \<Longrightarrow> co_Set o2 c now k v ttl neg = (r, c') \<Longrightarrow>
    ok2 c' \<and> h2 c' k' \<subseteq> h2 c k' \<union> written k (v, neg) k'"
  using l2.set_adds [of c now k v ttl neg r c' k'] by (auto simp: written_def split: if_splits)

lemma holds_mono:
  assumes "h1 (tc_l1 t') k \<subseteq> h1 (tc_l1 t) k \<union> X"
    and "\<And>s'. tc_l2 t' = Some s' \<Longrightarrow> \<exists>s. tc_l2 t = Some s \<and> h2 s' k \<subseteq> h2 s k \<union> X"
  shows "tiered_holds h1 h2 t' k \<subseteq> tiered_holds h1 h2 t k \<union> X"
proof (cases "tc_l2 t'")
  case None
  then show ?thesis using assms(1) by (auto simp: tiered_holds_def)
next
  case (Some s')
  then obtain s where "tc_l2 t = Some s" "h2 s' k \<subseteq> h2 s k \<union> X" using assms(2) by blast
  then show ?thesis using Some assms(1) by (auto simp: tiered_holds_def)
qed

lemma holds_level1: "h1 (tc_l1 t) k \<subseteq> tiered_holds h1 h2 t k"
  by (simp add: tiered_holds_def)

lemma holds_level2: "tc_l2 t = Some s \<Longrightarrow> h2 s k \<subseteq> tiered_holds h1 h2 t k"
  by (simp add: tiered_holds_def)

lemma ok_level1: "tiered_ok ok1 ok2 t \<Longrightarrow> ok1 (tc_l1 t)"
  by (simp add: tiered_ok_def)

lemma ok_level2: "tiered_ok ok1 ok2 t \<Longrightarrow> tc_l2 t = Some s \<Longrightarrow> ok2 s"
  by (simp add: tiered_ok_def)

text \<open>Replacing the level states by ones that hold no more.\<close>

lemma level1_step:
  assumes "tiered_ok ok1 ok2 t" "ok1 a" "h1 a k \<subseteq> h1 (tc_l1 t) k \<union> X"
  shows "tiered_ok ok1 ok2 (t\<lparr>tc_l1 := a\<rparr>)" "tiered_holds h1 h2 (t\<lparr>tc_l1 := a\<rparr>) k \<subseteq> tiered_holds h1 h2 t k \<union> X"
  using assms(1,2) by (simp add: tiered_ok_def) (rule holds_mono, use assms(3) in auto)

lemma level2_step:
  assumes "tiered_ok ok1 ok2 t" "tc_l2 t = Some s" "ok2 b" "h2 b k \<subseteq> h2 s k \<union> X"
  shows "tiered_ok ok1 ok2 (t\<lparr>tc_l2 := Some b\<rparr>)"
    "tiered_holds h1 h2 (t\<lparr>tc_l2 := Some b\<rparr>) k \<subseteq> tiered_holds h1 h2 t k \<union> X"
  using assms(1,3) by (simp add: tiered_ok_def) (rule holds_mono, use assms(2,4) in auto)

lemma promote_sound:
  assumes "tiered_ok ok1 ok2 t"
  shows "tiered_ok ok1 ok2 (promoteToL1 o1 t now k e) \<and>
    tiered_holds h1 h2 (promoteToL1 o1 t now k e) k' \<subseteq> tiered_holds h1 h2 t k' \<union> written k (entry_content e) k'"
proof -
  obtain r a where a: "co_Set o1 (tc_l1 t) now k (e_Value e) (promotion_ttl (tc_config t) e) (e_Negative e) = (r, a)"
    by fastforce
  have "promoteToL1 o1 t now k e = t\<lparr>tc_l1 := a\<rparr>" using a by (simp add: promoteToL1_def)
  moreover have "ok1 a" "h1 a k' \<subseteq> h1 (tc_l1 t) k' \<union> written k (entry_content e) k'"
    using set1 [OF ok_level1 [OF assms] a, of k'] by (auto simp: entry_content_def)
  ultimately show ?thesis using level1_step [OF assms] by simp
qed

text \<open>One lookup: what it returns was held, and what is held afterwards was held before.\<close>

lemma get_sound:
  assumes ok: "tiered_ok ok1 ok2 t" and g: "tiered_Get o1 o2 t now k = (r, t')"
  shows "(\<forall>e. r = Inr e \<longrightarrow> entry_content e \<in> tiered_holds h1 h2 t k) \<and>
    tiered_ok ok1 ok2 t' \<and> tiered_holds h1 h2 t' k' \<subseteq> tiered_holds h1 h2 t k'"
proof -
  obtain r1 a where a: "co_Get o1 (tc_l1 t) now k = (r1, a)" by fastforce
  let ?t1 = "t\<lparr>tc_l1 := a\<rparr>"
  have t1: "tiered_ok ok1 ok2 ?t1" "\<And>k'. tiered_holds h1 h2 ?t1 k' \<subseteq> tiered_holds h1 h2 t k'"
    using level1_step [OF ok, of a _ "{}"] l1.get_keeps [OF ok_level1 [OF ok] a] by auto
  show ?thesis
  proof (cases r1)
    case (Inr e)
    then have "r = Inr e" "t' = ?t1" using g a by (simp_all add: tiered_Get_def)
    then show ?thesis
      using t1 holds_level1 [of t k] l1.get_holds [OF ok_level1 [OF ok], of now k e a] a Inr by auto
  next
    case l1_miss: (Inl err)
    show ?thesis
    proof (cases "tc_l2 t")
      case None
      then have "r = Inl err" "t' = ?t1" using g a l1_miss by (simp_all add: tiered_Get_def)
      then show ?thesis using t1 by simp
    next
      case (Some s)
      obtain r2 b where b: "co_Get o2 s now k = (r2, b)" by fastforce
      let ?t2 = "?t1\<lparr>tc_l2 := Some b\<rparr>"
      have "tiered_ok ok1 ok2 ?t2 \<and> tiered_holds h1 h2 ?t2 k' \<subseteq> tiered_holds h1 h2 ?t1 k' \<union> {}" for k'
        using level2_step [OF t1(1), of s b k' "{}"] l2.get_keeps [OF ok_level2 [OF ok Some] b] Some by simp
      then have t2: "tiered_ok ok1 ok2 ?t2" "\<And>k'. tiered_holds h1 h2 ?t2 k' \<subseteq> tiered_holds h1 h2 t k'"
        using t1(2) by fastforce+
      show ?thesis
      proof (cases r2)
        case (Inl err2)
        then have "r = Inl err2" "t' = ?t2" using g a b l1_miss Some by (simp_all add: tiered_Get_def)
        then show ?thesis using t2 by simp
      next
        case (Inr e)
        then have r: "r = Inr e" "t' = promoteToL1 o1 ?t2 now k e"
          using g a b l1_miss Some by (simp_all add: tiered_Get_def)
        have held: "entry_content e \<in> tiered_holds h1 h2 t k"
          using l2.get_holds [OF ok_level2 [OF ok Some], of now k e b] b Inr holds_level2 [OF Some] by auto
        then have "written k (entry_content e) k' \<subseteq> tiered_holds h1 h2 t k'"
          by (simp add: written_def)
        then show ?thesis using promote_sound [OF t2(1), of now k e k'] t2(2) [of k'] held r by auto
      qed
    qed
  qed
qed

lemma set_sound:
  assumes ok: "tiered_ok ok1 ok2 t" and s: "tiered_Set o1 o2 t now k v ttl neg = (r, t')"
  shows "tiered_ok ok1 ok2 t' \<and> tiered_holds h1 h2 t' k' \<subseteq> tiered_holds h1 h2 t k' \<union> written k (v, neg) k'"
proof -
  obtain r1 a where a: "co_Set o1 (tc_l1 t) now k v ttl neg = (r1, a)" by fastforce
  let ?t1 = "t\<lparr>tc_l1 := a\<rparr>"
  have t1: "tiered_ok ok1 ok2 ?t1" "tiered_holds h1 h2 ?t1 k' \<subseteq> tiered_holds h1 h2 t k' \<union> written k (v, neg) k'"
    using set1 [OF ok_level1 [OF ok] a] level1_step [OF ok, of a] by auto
  show ?thesis
  proof (cases "t' = ?t1")
    case False
    then obtain x where x: "tc_l2 t = Some x" "t' = ?t1\<lparr>tc_l2 := Some (snd (co_Set o2 x now k v ttl neg))\<rparr>"
      using s a by (auto simp: tiered_Set_def Let_def split: option.splits if_splits)
    obtain r2 b where b: "co_Set o2 x now k v ttl neg = (r2, b)" by fastforce
    have "tiered_ok ok1 ok2 t'" "tiered_holds h1 h2 t' k' \<subseteq> tiered_holds h1 h2 ?t1 k' \<union> written k (v, neg) k'"
      using set2 [OF ok_level2 [OF ok x(1)] b] level2_step [OF t1(1), of x b] x b by auto
    then show ?thesis using t1(2) by auto
  qed (use t1 in simp)
qed

lemma delete_sound:
  assumes ok: "tiered_ok ok1 ok2 t" and d: "tiered_Delete o1 o2 t k = (r, t')"
  shows "tiered_ok ok1 ok2 t' \<and> tiered_holds h1 h2 t' k' \<subseteq> tiered_holds h1 h2 t k' \<and>
    (r = None \<longrightarrow> tiered_holds h1 h2 t' k = {})"
proof -
  obtain r1 a where a: "co_Delete o1 (tc_l1 t) k = (r1, a)" by fastforce
  let ?t1 = "t\<lparr>tc_l1 := a\<rparr>"
  have t1: "tiered_ok ok1 ok2 ?t1" "\<And>k'. tiered_holds h1 h2 ?t1 k' \<subseteq> tiered_holds h1 h2 t k'"
      "r1 = None \<Longrightarrow> h1 a k = {}"
    using l1.delete_drops [OF ok_level1 [OF ok] a] level1_step [OF ok, of a _ "{}"] by auto
  show ?thesis
  proof (cases "r1 = None \<and> tc_l2 t \<noteq> None")
    case True
    then obtain x where x: "tc_l2 t = Some x" by auto
    obtain r2 b where b: "co_Delete o2 x k = (r2, b)" by fastforce
    have t': "t' = ?t1\<lparr>tc_l2 := Some b\<rparr>" "r = r2"
      using d a b x True by (simp_all add: tiered_Delete_def)
    have b': "ok2 b" "\<And>k'. h2 b k' \<subseteq> h2 x k'" "r2 = None \<Longrightarrow> h2 b k = {}"
      using l2.delete_drops [OF ok_level2 [OF ok x] b] by auto
    have "tiered_ok ok1 ok2 t'" "tiered_holds h1 h2 t' k' \<subseteq> tiered_holds h1 h2 ?t1 k' \<union> {}"
      using level2_step [OF t1(1), of x b k' "{}"] b' x t'(1) by auto
    moreover have "r = None \<longrightarrow> tiered_holds h1 h2 t' k = {}"
      using True t1(3) b'(3) t' by (simp add: tiered_holds_def)
    ultimately show ?thesis using t1(2) by blast
  next
    case False
    then have "t' = ?t1" "r = r1" using d a by (cases r1; auto simp: tiered_Delete_def)+
    then show ?thesis using t1 False by (auto simp: tiered_holds_def)
  qed
qed

lemma clear_sound:
  assumes ok: "tiered_ok ok1 ok2 t" and d: "tiered_Clear o1 o2 t = (r, t')"
  shows "tiered_ok ok1 ok2 t' \<and> tiered_holds h1 h2 t' k' \<subseteq> tiered_holds h1 h2 t k' \<and>
    (r = None \<longrightarrow> tiered_holds h1 h2 t' k' = {})"
proof -
  obtain r1 a where a: "co_Clear o1 (tc_l1 t) = (r1, a)" by fastforce
  let ?t1 = "t\<lparr>tc_l1 := a\<rparr>"
  have t1: "tiered_ok ok1 ok2 ?t1" "\<And>k'. tiered_holds h1 h2 ?t1 k' \<subseteq> tiered_holds h1 h2 t k'"
      "\<And>k'. r1 = None \<Longrightarrow> h1 a k' = {}"
    using l1.clear_drops [OF ok_level1 [OF ok] a] level1_step [OF ok, of a _ "{}"] by auto
  show ?thesis
  proof (cases "r1 = None \<and> tc_l2 t \<noteq> None")
    case True
    then obtain x where x: "tc_l2 t = Some x" by auto
    obtain r2 b where b: "co_Clear o2 x = (r2, b)" by fastforce
    have t': "t' = ?t1\<lparr>tc_l2 := Some b\<rparr>" "r = r2"
      using d a b x True by (simp_all add: tiered_Clear_def)
    have b': "ok2 b" "\<And>k'. h2 b k' \<subseteq> h2 x k'" "\<And>k'. r2 = None \<Longrightarrow> h2 b k' = {}"
      using l2.clear_drops [OF ok_level2 [OF ok x] b] by auto
    have "tiered_ok ok1 ok2 t'" "tiered_holds h1 h2 t' k' \<subseteq> tiered_holds h1 h2 ?t1 k' \<union> {}"
      using level2_step [OF t1(1), of x b k' "{}"] b' x t'(1) by auto
    moreover have "r = None \<longrightarrow> tiered_holds h1 h2 t' k' = {}"
      using True t1(3) b'(3) t' by (simp add: tiered_holds_def)
    ultimately show ?thesis using t1(2) by blast
  next
    case False
    then have "t' = ?t1" "r = r1" using d a by (cases r1; auto simp: tiered_Clear_def)+
    then show ?thesis using t1 False by (auto simp: tiered_holds_def)
  qed
qed

end

sublocale two_caches \<subseteq> tiered: cache_contract "tiered_ops o1 o2" "tiered_holds h1 h2" "tiered_ok ok1 ok2"
proof
  fix c now k v ttl neg r c' k'
  assume "tiered_ok ok1 ok2 c" "co_Set (tiered_ops o1 o2) c now k v ttl neg = (r, c')"
  then show "tiered_ok ok1 ok2 c' \<and> tiered_holds h1 h2 c' k' \<subseteq>
      (if k' = k then insert (v, neg) (tiered_holds h1 h2 c k') else tiered_holds h1 h2 c k')"
    using set_sound [of c now k v ttl neg r c' k'] by (auto simp: tiered_ops_def written_def split: if_splits)
next
  fix c now k e c'
  assume "tiered_ok ok1 ok2 c" "co_Get (tiered_ops o1 o2) c now k = (Inr e, c')"
  then show "entry_content e \<in> tiered_holds h1 h2 c k"
    using get_sound [of c now k "Inr e" c'] by (simp add: tiered_ops_def)
next
  fix c now k r c' k'
  assume "tiered_ok ok1 ok2 c" "co_Get (tiered_ops o1 o2) c now k = (r, c')"
  then show "tiered_ok ok1 ok2 c' \<and> tiered_holds h1 h2 c' k' \<subseteq> tiered_holds h1 h2 c k'"
    using get_sound [of c now k r c' k'] by (simp add: tiered_ops_def)
next
  fix c k r c' k'
  assume "tiered_ok ok1 ok2 c" "co_Delete (tiered_ops o1 o2) c k = (r, c')"
  then show "tiered_ok ok1 ok2 c' \<and> tiered_holds h1 h2 c' k' \<subseteq> tiered_holds h1 h2 c k' \<and>
      (r = None \<longrightarrow> tiered_holds h1 h2 c' k = {})"
    using delete_sound [of c k r c' k'] by (simp add: tiered_ops_def)
next
  fix c r c' k'
  assume "tiered_ok ok1 ok2 c" "co_Clear (tiered_ops o1 o2) c = (r, c')"
  then show "tiered_ok ok1 ok2 c' \<and> tiered_holds h1 h2 c' k' \<subseteq> tiered_holds h1 h2 c k' \<and>
      (r = None \<longrightarrow> tiered_holds h1 h2 c' k' = {})"
    using clear_sound [of c r c' k'] by (simp add: tiered_ops_def)
qed

context two_caches
begin

text \<open>What the contract gives the clients of the tiered cache, with both levels empty at first.\<close>

lemma tiered_after_sets:
  assumes "tiered_ok ok1 ok2 t" "\<And>k. h1 (tc_l1 t) k = {}" "\<And>s k. tc_l2 t = Some s \<Longrightarrow> h2 s k = {}"
    and "tiered_Get o1 o2 (run_sets (tiered_ops o1 o2) t sets) now k = (Inr e, t')"
  shows "entry_content e \<in> stored sets k"
proof (rule tiered.get_after_sets [OF assms(1)])
  show "tiered_holds h1 h2 t k = {}" for k
    using assms(2,3) by (auto simp: tiered_holds_def split: option.split)
  show "co_Get (tiered_ops o1 o2) (run_sets (tiered_ops o1 o2) t sets) now k = (Inr e, t')"
    using assms(4) by (simp add: tiered_ops_def)
qed

end

text \<open>The program's levels: the memory cache in front of Redis.\<close>

interpretation ram_redis: two_caches "memory_ops list_lru" "mem_holds snd" "\<lambda>_. True"
  "redis_cache_ops list_redis tag_json" "redis_holds map_of tag_json" redis_state_ok
  by unfold_locales

section \<open>Fetches over the memory cache\<close>

lemma tiered_Set_memory:
  assumes "tiered_Set (memory_ops ops) o2 t now k v ttl neg = (r, t')"
  shows "r = None \<and> mem_Set ops (tc_l1 t) now k v ttl neg = (None, tc_l1 t') \<and> tc_config t' = tc_config t"
proof -
  have "fst (mem_Set ops (tc_l1 t) now k v ttl neg) = None" by (simp add: mem_Set_def Let_def)
  then obtain a where "mem_Set ops (tc_l1 t) now k v ttl neg = (None, a)"
    by (metis prod.collapse)
  then show ?thesis using assms
    by (auto simp: tiered_Set_def memory_ops_def Let_def split: option.splits if_splits)
qed

text \<open>A value just stored is found by the next probe for as long as it lives.\<close>

lemma tiered_Get_Set:
  assumes "lru_ok ops items cap"
    and "tiered_Set (memory_ops ops) o2 t now k v ttl neg = (r, t')" "now' \<le> now + ttl"
  shows "\<exists>e t''. tiered_Get (memory_ops ops) o2 t' now' k = (Inr e, t'') \<and> e_Value e = v \<and> e_Negative e = neg"
proof -
  have "mem_Set ops (tc_l1 t) now k v ttl neg = (None, tc_l1 t')"
    using tiered_Set_memory [OF assms(2)] by simp
  from mem_Get_Set [OF assms(1) this assms(3)] obtain e where
    e: "fst (mem_Get ops (tc_l1 t') now' k) = Inr e" "e_Value e = v" "e_Negative e = neg" by blast
  then obtain a where "mem_Get ops (tc_l1 t') now' k = (Inr e, a)" by (metis prod.collapse)
  then show ?thesis using e by (simp add: tiered_Get_def memory_ops_def)
qed

lemma fetch_hit:
  assumes "tiered_Get o1 o2 t now1 k = (Inr e, t1)"
  shows "GetOrFetchWithNegative o1 o2 t (now1, now2, now3) k f nf =
    ((if e_Negative e then Inl (Sentinel nf) else Inr (e_Value e), True, False), t1)"
  using assms by (simp add: GetOrFetchWithNegative_def)

text \<open>What a call that reached \<open>fetch\<close> did with its result.\<close>

lemma fetch_called:
  assumes "GetOrFetchWithNegative o1 o2 t (now1, now2, now3) k f nf = ((r, c, True), t')"
  obtains t2 where "c = False"
    "f = Inr v \<Longrightarrow> r = Inr v \<and> t' = snd (SetWithDefaultTTL o1 o2 t2 now3 k v False)"
    "f = Inl err \<Longrightarrow> error_is err nf \<Longrightarrow>
       r = Inl (Sentinel nf) \<and> t' = snd (SetWithDefaultTTL o1 o2 t2 now3 k [] True)"
    "f = Inl err \<Longrightarrow> \<not> error_is err nf \<Longrightarrow> r = Inl err \<and> t' = t2"
    "t2 = snd (tiered_Get o1 o2 (snd (tiered_Get o1 o2 t now1 k)) now2 k)"
  using assms that
  by (auto simp: GetOrFetchWithNegative_def Let_def split: prod.splits sum.splits if_splits)

text \<open>Whether \<open>fetch\<close> is called does not depend on what it would give.\<close>

lemma fetch_called_indep:
  assumes "GetOrFetchWithNegative o1 o2 t clock k f nf = ((r, c, called), t')"
    and "GetOrFetchWithNegative o1 o2 t clock k f' nf = ((r', c', called'), t'')"
  shows "called' = called"
  using assms
  by (auto simp: GetOrFetchWithNegative_def Let_def split: prod.splits sum.splits if_splits)

lemma tiered_Get_config:
  "tiered_Get o1 o2 t now k = (r, t') \<Longrightarrow> tc_config t' = tc_config t"
  by (auto simp: tiered_Get_def promoteToL1_def Let_def split: prod.splits sum.splits option.splits)

lemma fetch_then_hit:
  assumes "lru_ok ops items cap"
    and first: "GetOrFetchWithNegative (memory_ops ops) o2 t (a1, a2, a3) k (Inr v) nf = ((r, c, True), t')"
    and "b1 \<le> a3 + cf_DefaultTTL (tc_config t)"
  shows "\<exists>t''. GetOrFetchWithNegative (memory_ops ops) o2 t' (b1, b2, b3) k f nf = ((Inr v, True, False), t'')"
proof -
  let ?o = "memory_ops ops"
  obtain t2 where t': "t' = snd (SetWithDefaultTTL ?o o2 t2 a3 k v False)"
      and t2: "t2 = snd (tiered_Get ?o o2 (snd (tiered_Get ?o o2 t a1 k)) a2 k)"
    by (rule fetch_called [OF first, where v = v]) blast
  have "tc_config t2 = tc_config t"
    using tiered_Get_config [of ?o o2 t a1 k] tiered_Get_config [of ?o o2 "snd (tiered_Get ?o o2 t a1 k)" a2 k]
    unfolding t2 by (metis prod.collapse)
  then have "tiered_Set ?o o2 t2 a3 k v (cf_DefaultTTL (tc_config t)) False =
      (fst (SetWithDefaultTTL ?o o2 t2 a3 k v False), t')"
    by (simp add: SetWithDefaultTTL_def t')
  from tiered_Get_Set [OF assms(1) this assms(3)] show ?thesis by (auto simp: fetch_hit)
qed

lemma fetch_not_found_then_hit:
  assumes "lru_ok ops items cap" "error_is err nf"
    and first: "GetOrFetchWithNegative (memory_ops ops) o2 t (a1, a2, a3) k (Inl err) nf = ((r, c, True), t')"
    and "b1 \<le> a3 + cf_NegativeTTL (tc_config t)"
  shows "\<exists>t''. GetOrFetchWithNegative (memory_ops ops) o2 t' (b1, b2, b3) k f nf =
    ((Inl (Sentinel nf), True, False), t'')"
proof -
  let ?o = "memory_ops ops"
  obtain t2 where t': "t' = snd (SetWithDefaultTTL ?o o2 t2 a3 k [] True)"
      and t2: "t2 = snd (tiered_Get ?o o2 (snd (tiered_Get ?o o2 t a1 k)) a2 k)"
    by (rule fetch_called [OF first, where err = err]) (use assms(2) in blast)
  have "tc_config t2 = tc_config t"
    using tiered_Get_config [of ?o o2 t a1 k] tiered_Get_config [of ?o o2 "snd (tiered_Get ?o o2 t a1 k)" a2 k]
    unfolding t2 by (metis prod.collapse)
  then have "tiered_Set ?o o2 t2 a3 k [] (cf_NegativeTTL (tc_config t)) True =
      (fst (SetWithDefaultTTL ?o o2 t2 a3 k [] True), t')"
    by (simp add: SetWithDefaultTTL_def t')
  from tiered_Get_Set [OF assms(1) this assms(4)] show ?thesis by (auto simp: fetch_hit)
qed

text \<open>\<open>GetOrFetch\<close> does not look at the negative flag.\<close>

lemma GetOrFetch_negative:
  assumes "tiered_Get o1 o2 t now1 k = (Inr e, t1)"
  shows "GetOrFetch o1 o2 t (now1, now2, now3) k f = ((Inr (e_Value e), True, False), t1)"
  using assms by (simp add: GetOrFetch_def)

text \<open>
  A promotion gives the entry a new lifetime in the first level, whatever is left of the one it
  has in the second.
\<close>

lemma promotion_lifetime:
  assumes "lru_ok ops items cap"
    and "fst (mem_Get ops (tc_l1 t) now k) = Inl err" "tc_l2 t = Some s" "co_Get o2 s now k = (Inr e, s')"
    and "tiered_Get (memory_ops ops) o2 t now k = (r, t')"
    and "now' \<le> now + promotion_ttl (tc_config t) e"
  shows "\<exists>e'. fst (mem_Get ops (tc_l1 t') now' k) = Inr e' \<and> e_Value e' = e_Value e \<and>
    e_Negative e' = e_Negative e"
proof -
  obtain a where a: "mem_Get ops (tc_l1 t) now k = (Inl err, a)" using assms(2) by (metis prod.collapse)
  let ?set = "mem_Set ops a now k (e_Value e) (promotion_ttl (tc_config t) e) (e_Negative e)"
  have "tc_l1 t' = snd ?set" using assms(3-5) a
    by (auto simp: tiered_Get_def promoteToL1_def memory_ops_def)
  then have "?set = (fst ?set, tc_l1 t')" by simp
  from mem_Get_Set [OF assms(1) this assms(6)] show ?thesis .
qed

end
