(* ===== verification/GoUrl.thy ===== *)
theory GoUrl
  imports GoErrors GoNet
begin

text \<open>
  What the code uses of \<open>net/url\<close> (Go 1.24): \<open>url.Parse\<close> with the checks it makes and the host it
  finds, and the escaping of path segments and query components.
\<close>

section \<open>Escaping\<close>

definition is_alnum :: "char \<Rightarrow> bool" where
  "is_alnum c = (is_lower c \<or> is_upper c \<or> is_digit c)"

definition unreserved :: "char \<Rightarrow> bool" where
  "unreserved c = (is_alnum c \<or> c \<in> set ''-_.~'')"

datatype url_part = UserPassword | HostPart | ZonePart | PathPart | FragmentPart

text \<open>\<open>shouldEscape\<close> for the bytes of a host: those a host may not hold as they are.\<close>

definition host_literal :: "char \<Rightarrow> bool" where
  "host_literal c =
     (unreserved c \<or> c = CHR 0x27 \<or> c = CHR 0x22 \<or> c \<in> set ''!$&()*+,;=:[]<>'')"

definition hex_upper :: "nat \<Rightarrow> char" where
  "hex_upper d = ''0123456789ABCDEF'' ! d"

definition percent :: "char \<Rightarrow> string" where
  "percent c = [CHR ''%'', hex_upper (byte c div 16), hex_upper (byte c mod 16)]"

definition escape_with :: "(char \<Rightarrow> bool) \<Rightarrow> string \<Rightarrow> string" where
  "escape_with keep s = concat (map (\<lambda>c. if keep c then [c] else percent c) s)"

text \<open>\<open>url.PathEscape\<close> and \<open>url.QueryEscape\<close>.\<close>

definition segment_literal :: "char \<Rightarrow> bool" where
  "segment_literal c = (unreserved c \<or> c \<in> set ''$&+:=@'')"

definition PathEscape :: "string \<Rightarrow> string" where
  "PathEscape s = escape_with segment_literal s"

definition QueryEscape :: "string \<Rightarrow> string" where
  "QueryEscape s = concat (map (\<lambda>c. if c = CHR '' '' then ''+'' else if unreserved c then [c] else percent c) s)"

text \<open>
  \<open>unescape\<close>: percent sequences are decoded; in a host only those of bytes above 0x7F and that of the
  percent sign, in a zone those of bytes a host may hold, of the blank and of the percent sign.
\<close>

definition percent_ok :: "url_part \<Rightarrow> nat \<Rightarrow> bool" where
  "percent_ok part v =
     (case part of
        HostPart \<Rightarrow> 128 \<le> v \<or> v = 37
      | ZonePart \<Rightarrow> v = 37 \<or> v = 32 \<or> host_literal (char_of v)
      | _ \<Rightarrow> True)"

fun unescape :: "url_part \<Rightarrow> string \<Rightarrow> string option" where
  "unescape part [] = Some []"
| "unescape part (c # s) =
     (if c = CHR ''%'' then
        (case s of
           a # b # r \<Rightarrow>
             if is_hex a \<and> is_hex b then
               (let v = hex_value 0 [a, b] in
                if percent_ok part v then map_option (Cons (char_of v)) (unescape part r) else None)
             else None
         | _ \<Rightarrow> None)
      else if (part = HostPart \<or> part = ZonePart) \<and> \<not> is_high c \<and> \<not> host_literal c then None
      else map_option (Cons c) (unescape part s))"

section \<open>Parsing\<close>

record go_url =
  u_Scheme :: string
  u_Opaque :: string
  u_Host :: string
  u_Path :: string

definition is_ctl :: "char \<Rightarrow> bool" where
  "is_ctl c = (byte c < 32 \<or> byte c = 127)"

text \<open>\<open>getScheme\<close>: the scheme and the rest, or an error for a leading colon.\<close>

fun scheme_end :: "nat \<Rightarrow> string \<Rightarrow> nat option option" where
  "scheme_end i [] = Some None"
| "scheme_end i (c # s) =
     (if is_lower c \<or> is_upper c then scheme_end (Suc i) s
      else if is_digit c \<or> c \<in> set ''+-.'' then (if i = 0 then Some None else scheme_end (Suc i) s)
      else if c = CHR '':'' then (if i = 0 then None else Some (Some i))
      else Some None)"

definition getScheme :: "string \<Rightarrow> (string \<times> string) option" where
  "getScheme raw =
     (case scheme_end 0 raw of
        None \<Rightarrow> None
      | Some None \<Rightarrow> Some ([], raw)
      | Some (Some i) \<Rightarrow> Some (take i raw, drop (Suc i) raw))"

definition valid_port :: "string \<Rightarrow> bool" where
  "valid_port p = (case p of [] \<Rightarrow> True | c # ds \<Rightarrow> c = CHR '':'' \<and> list_all is_digit ds)"

definition valid_userinfo :: "string \<Rightarrow> bool" where
  "valid_userinfo s =
     list_all (\<lambda>c. is_alnum c \<or> c = CHR 0x27 \<or> c \<in> set ''-._:~!$&()*+,;=%@'') s"

text \<open>The address between brackets: IPv6, perhaps with an escaped zone.\<close>

definition bracket_host :: "string \<Rightarrow> string option" where
  "bracket_host h =
     (let name = (case index_of h ''%25'' of
                    None \<Rightarrow> unescape HostPart h
                  | Some z \<Rightarrow>
                      (case (unescape HostPart (take z h), unescape ZonePart (drop z h)) of
                         (Some a, Some b) \<Rightarrow> Some (a @ b)
                       | _ \<Rightarrow> None))
      in case name of
           None \<Rightarrow> None
         | Some n \<Rightarrow>
             (case ParseAddr n of
                None \<Rightarrow> None
              | Some a \<Rightarrow> if is4 a then None else Some (''['' @ n @ '']'')))"

definition parse_host :: "string \<Rightarrow> string option" where
  "parse_host host =
     (case last_index_char host CHR ''['' of
        Some op \<Rightarrow>
          (case last_index_char host CHR '']'' of
             None \<Rightarrow> None
           | Some cl \<Rightarrow>
               let port = drop (Suc cl) host in
               if \<not> valid_port port \<or> cl < op then None
               else (case (bracket_host (take (cl - Suc op) (drop (Suc op) host)), unescape HostPart port) of
                       (Some h, Some p) \<Rightarrow> Some (h @ p)
                     | _ \<Rightarrow> None))
      | None \<Rightarrow>
          (case last_index_char host CHR '':'' of
             None \<Rightarrow> unescape HostPart host
           | Some i \<Rightarrow> if valid_port (drop i host) then unescape HostPart host else None))"

definition parse_authority :: "string \<Rightarrow> string option" where
  "parse_authority a =
     (case last_index_char a CHR ''@'' of
        None \<Rightarrow> parse_host a
      | Some i \<Rightarrow>
          (case parse_host (drop (Suc i) a) of
             None \<Rightarrow> None
           | Some h \<Rightarrow>
               if valid_userinfo (take i a) \<and> unescape UserPassword (take i a) \<noteq> None then Some h else None))"

text \<open>
  The text before a separator, and the parse of what is left of a URL once fragment and query are
  cut off and the scheme is known.
\<close>

definition before :: "char \<Rightarrow> string \<Rightarrow> string" where
  "before d s = takeWhile (\<lambda>c. c \<noteq> d) s"

definition after :: "char \<Rightarrow> string \<Rightarrow> string" where
  "after d s = tl (dropWhile (\<lambda>c. c \<noteq> d) s)"

definition parse_rest :: "string \<Rightarrow> string \<Rightarrow> go_url option" where
  "parse_rest scheme rest =
     (if \<not> has_prefix rest ''/'' \<and> scheme \<noteq> [] then
        Some \<lparr>u_Scheme = scheme, u_Opaque = rest, u_Host = [], u_Path = []\<rparr>
      else if \<not> has_prefix rest ''/'' \<and> CHR '':'' \<in> set (before CHR ''/'' rest) then None
      else let with_host = has_prefix rest ''//'' \<and> (scheme \<noteq> [] \<or> \<not> has_prefix rest ''///'');
               r = drop 2 rest;
               path = (if with_host then drop (length (before CHR ''/'' r)) r else rest) in
           case (if with_host then parse_authority (before CHR ''/'' r) else Some []) of
             None \<Rightarrow> None
           | Some host \<Rightarrow>
               (case unescape PathPart path of
                  None \<Rightarrow> None
                | Some p \<Rightarrow> Some \<lparr>u_Scheme = scheme, u_Opaque = [], u_Host = host, u_Path = p\<rparr>))"

definition url_Parse :: "string \<Rightarrow> go_url option" where
  "url_Parse raw =
     (let u = before CHR ''#'' raw; frag = after CHR ''#'' raw in
      if list_ex is_ctl u \<or> unescape FragmentPart frag = None then None
      else if u = ''*'' then Some \<lparr>u_Scheme = [], u_Opaque = [], u_Host = [], u_Path = u\<rparr>
      else (case getScheme u of
              None \<Rightarrow> None
            | Some (scheme, rest) \<Rightarrow> parse_rest (to_lower scheme) (before CHR ''?'' rest)))"

section \<open>Properties of the escaping\<close>

lemma hex_upper_all:
  "list_all (\<lambda>d. is_hex (hex_upper d) \<and> hex_digit_val (hex_upper d) = d \<and> is_alnum (hex_upper d)) [0..<16]"
  by code_simp

lemma hex_upper_ok:
  assumes "d < 16"
  shows "is_hex (hex_upper d)" "hex_digit_val (hex_upper d) = d" "is_alnum (hex_upper d)"
  using hex_upper_all assms unfolding list_all_iff by auto

lemma byte_div_16: "byte c div 16 < 16"
  by (rule less_mult_imp_div_less) simp

lemma hex_value_percent [simp]:
  "is_hex (hex_upper (byte c div 16))" "is_hex (hex_upper (byte c mod 16))"
  "hex_value 0 [hex_upper (byte c div 16), hex_upper (byte c mod 16)] = byte c"
  using byte_div_16 [of c] by (simp_all add: hex_upper_ok)

lemma char_of_byte [simp]: "char_of (byte c) = c"
  by (simp add: byte_def)

lemma append_fun: "(@) [] = (\<lambda>x. x)" "(@) (c # z) = (\<lambda>x. c # z @ x)"
  by (rule ext, simp)+

lemma unescape_append:
  "unescape part a = Some x \<Longrightarrow> unescape part (a @ b) = map_option ((@) x) (unescape part b)"
proof (induction part a arbitrary: x rule: unescape.induct)
  case (1 part)
  then show ?case by (simp add: append_fun option.map_ident)
next
  case (2 part c s)
  show ?case
  proof (cases "c = CHR ''%''")
    case True
    with "2.prems" obtain h l r where s: "s = h # l # r" and "is_hex h" "is_hex l"
      by (auto split: list.splits if_splits)
    with 2 True show ?thesis
      by (auto simp: Let_def option.map_comp o_def append_fun simp del: hex_value.simps split: if_splits)
  next
    case False
    with 2 show ?thesis by (auto simp: option.map_comp o_def append_fun split: if_splits)
  qed
qed

lemma unescape_both:
  "\<lbrakk>unescape part a = Some x; unescape part b = Some y\<rbrakk> \<Longrightarrow> unescape part (a @ b) = Some (x @ y)"
  by (simp add: unescape_append)

lemma unescape_percent:
  "percent_ok part (byte c) \<Longrightarrow>
   unescape part (percent c @ s) = map_option (Cons c) (unescape part s)"
  by (simp add: percent_def Let_def del: hex_value.simps)

lemma unescape_escape:
  assumes "part \<notin> {HostPart, ZonePart}" and "\<not> keep CHR ''%''"
  shows "unescape part (escape_with keep s) = Some s"
proof (induction s)
  case (Cons c s)
  have "escape_with keep (c # s) = (if keep c then [c] else percent c) @ escape_with keep s"
    by (simp add: escape_with_def)
  moreover have "percent_ok part (byte c)"
    using assms(1) by (auto simp: percent_ok_def split: url_part.split)
  ultimately show ?case using Cons assms by (auto simp: unescape_percent)
qed (simp add: escape_with_def)

lemma unescape_plain:
  "\<lbrakk>part \<notin> {HostPart, ZonePart}; CHR ''%'' \<notin> set s\<rbrakk> \<Longrightarrow> unescape part s = Some s"
  by (induction s) auto

lemma PathEscape_unescape:
  "part \<notin> {HostPart, ZonePart} \<Longrightarrow> unescape part (PathEscape s) = Some s"
  by (simp add: PathEscape_def unescape_escape segment_literal_def unreserved_def is_alnum_def)

text \<open>The bytes a path segment made by \<open>PathEscape\<close> consists of: no separator is among them.\<close>

definition segment_char :: "char \<Rightarrow> bool" where
  "segment_char c = (segment_literal c \<or> c = CHR ''%'')"

lemma PathEscape_chars: "c \<in> set (PathEscape s) \<Longrightarrow> segment_char c"
proof -
  assume "c \<in> set (PathEscape s)"
  then obtain x where "c \<in> set (if segment_literal x then [x] else percent x)"
    unfolding PathEscape_def escape_with_def set_concat set_map by blast
  then show ?thesis
    using hex_upper_ok(3) [OF byte_div_16 [of x]] hex_upper_ok(3) [of "byte x mod 16"]
    by (auto simp: percent_def segment_char_def segment_literal_def unreserved_def split: if_splits)
qed

lemma segment_char_separators:
  assumes "segment_char c"
  shows "c \<noteq> CHR ''/''" "c \<noteq> CHR ''?''" "c \<noteq> CHR ''#''" "\<not> is_ctl c" "\<not> is_high c"
  using assms
  by (cases c; auto simp: segment_char_def segment_literal_def unreserved_def is_alnum_def is_ctl_def byte_Char)+

section \<open>The host of a URL\<close>

text \<open>
  The part of an absolute URL that is left without fragment and query, and the parse of a URL whose
  scheme is \<open>http\<close> or \<open>https\<close> in terms of it.
\<close>

lemma before_append: "before d (s @ t) = (if d \<in> set s then before d s else s @ before d t)"
  by (induction s) (auto simp: before_def)

lemma before_Cons: "before d (c # s) = (if c = d then [] else c # before d s)"
  by (simp add: before_def)

lemma before_id: "d \<notin> set s \<Longrightarrow> before d s = s"
  by (induction s) (auto simp: before_def)

lemma before_notin: "d \<notin> set (before d s)"
  by (induction s) (auto simp: before_def)

lemma set_before: "set (before d s) \<subseteq> set s"
  by (auto simp: before_def dest: set_takeWhileD)

lemma after_append: "after d (s @ t) = (if d \<in> set s then after d s @ t else after d t)"
  by (induction s) (auto simp: after_def)

lemma after_notin: "d \<notin> set s \<Longrightarrow> after d s = []"
  by (induction s) (auto simp: after_def)

definition url_rest :: "string \<Rightarrow> string" where
  "url_rest t = before CHR ''?'' (before CHR ''#'' t)"

definition web_schemes :: "string set" where
  "web_schemes = {''http'', ''https''}"

lemma url_Parse_web:
  assumes "s \<in> web_schemes"
  shows "url_Parse (s @ ''://'' @ t) =
     (let r = url_rest t in
      if list_ex is_ctl (before CHR ''#'' t) \<or> unescape FragmentPart (after CHR ''#'' t) = None then None
      else case parse_authority (before CHR ''/'' r) of
             None \<Rightarrow> None
           | Some host \<Rightarrow>
               (case unescape PathPart (drop (length (before CHR ''/'' r)) r) of
                  None \<Rightarrow> None
                | Some p \<Rightarrow> Some \<lparr>u_Scheme = s, u_Opaque = [], u_Host = host, u_Path = p\<rparr>))"
proof -
  have s: "s = ''http'' \<or> s = ''https''" using assms by (simp add: web_schemes_def)
  then have "before CHR ''#'' (s @ ''://'' @ t) = s @ ''://'' @ before CHR ''#'' t"
    "after CHR ''#'' (s @ ''://'' @ t) = after CHR ''#'' t"
    "list_ex is_ctl (s @ ''://'' @ x) = list_ex is_ctl x" for x
    by (auto simp: before_def after_def is_ctl_def byte_Char)
  moreover have "getScheme (s @ ''://'' @ x) = Some (s, ''//'' @ x)" for x
    using s by (auto simp: getScheme_def)
  moreover have "to_lower s = s"
    using s by (auto simp: to_lower_def is_ascii_def ascii_lower_def)
  moreover have "parse_rest s (before CHR ''?'' (''//'' @ x)) =
     (let r = before CHR ''?'' x in
      case parse_authority (before CHR ''/'' r) of
             None \<Rightarrow> None
           | Some host \<Rightarrow>
               (case unescape PathPart (drop (length (before CHR ''/'' r)) r) of
                  None \<Rightarrow> None
                | Some p \<Rightarrow> Some \<lparr>u_Scheme = s, u_Opaque = [], u_Host = host, u_Path = p\<rparr>))" for x
    using s by (auto simp: parse_rest_def before_Cons has_prefix_def Let_def)
  moreover have "s @ ''://'' @ x \<noteq> ''*''" for x using s by auto
  ultimately show ?thesis
    unfolding url_Parse_def Let_def url_rest_def by simp
qed

text \<open>
  A suffix that may follow the host: it starts with the slash of the path, or the URL already ends
  with one, and it brings no byte that a URL may not hold.
\<close>

definition good_suffix :: "string \<Rightarrow> bool" where
  "good_suffix p \<longleftrightarrow> \<not> list_ex is_ctl p \<and> CHR ''?'' \<notin> set p \<and> CHR ''#'' \<notin> set p \<and>
     unescape PathPart p \<noteq> None \<and> unescape FragmentPart p \<noteq> None"

lemma url_rest_append:
  assumes "good_suffix p"
  shows "url_rest (t @ p) = (if CHR ''?'' \<in> set t \<or> CHR ''#'' \<in> set t then url_rest t else t @ p)"
  using assms
  by (auto simp: url_rest_def before_append before_id good_suffix_def dest: set_mp [OF set_before])

lemma url_rest_id: "\<lbrakk>CHR ''?'' \<notin> set t; CHR ''#'' \<notin> set t\<rbrakk> \<Longrightarrow> url_rest t = t"
  by (simp add: url_rest_def before_id)

lemma drop_before_append:
  "d \<in> set s \<Longrightarrow> drop (length (before d s)) (s @ p) = drop (length (before d s)) s @ p"
  by (induction s) (auto simp: before_def)

lemma url_Parse_suffix:
  assumes "s \<in> web_schemes" and p: "good_suffix p" and u: "url_Parse (s @ ''://'' @ t) = Some u"
    and slash: "has_prefix p ''/'' \<or> has_suffix t ''/''"
  shows "\<exists>u'. url_Parse (s @ ''://'' @ t @ p) = Some u' \<and> u_Host u' = u_Host u"
proof -
  define r where "r = url_rest t"
  define r' where "r' = url_rest (t @ p)"
  have ctl: "\<not> list_ex is_ctl (before CHR ''#'' t)"
    and frag: "unescape FragmentPart (after CHR ''#'' t) \<noteq> None"
    and host: "parse_authority (before CHR ''/'' r) = Some (u_Host u)"
    and path: "unescape PathPart (drop (length (before CHR ''/'' r)) r) \<noteq> None"
    using u unfolding url_Parse_web [OF assms(1)] r_def by (auto simp: Let_def split: if_splits option.splits)
  have ctl': "\<not> list_ex is_ctl (before CHR ''#'' (t @ p))"
    using ctl p by (auto simp: before_append before_id good_suffix_def)
  have frag': "unescape FragmentPart (after CHR ''#'' (t @ p)) \<noteq> None"
    using frag p by (auto simp: after_append after_notin good_suffix_def unescape_both)
  have cut: "before CHR ''/'' r' = before CHR ''/'' r \<and>
      (drop (length (before CHR ''/'' r')) r' = drop (length (before CHR ''/'' r)) r \<or>
       drop (length (before CHR ''/'' r')) r' = drop (length (before CHR ''/'' r)) r @ p)"
  proof (cases "CHR ''?'' \<in> set t \<or> CHR ''#'' \<in> set t")
    case True
    then show ?thesis by (simp add: r_def r'_def url_rest_append [OF p])
  next
    case False
    then have "r = t" "r' = t @ p"
      by (simp_all add: r_def r'_def url_rest_append [OF p] url_rest_id)
    moreover have "before CHR ''/'' (t @ p) = before CHR ''/'' t"
      using slash by (auto simp: before_append before_id before_Cons has_prefix_iff has_suffix_iff)
    moreover have "drop (length (before CHR ''/'' t)) (t @ p) = drop (length (before CHR ''/'' t)) t @ p"
    proof (cases "CHR ''/'' \<in> set t")
      case True
      then show ?thesis by (rule drop_before_append)
    qed (simp add: before_id)
    ultimately show ?thesis by simp
  qed
  have path': "unescape PathPart (drop (length (before CHR ''/'' r')) r') \<noteq> None"
    using cut path p by (auto simp: good_suffix_def unescape_both)
  show ?thesis
    using ctl' frag' path' cut host unfolding url_Parse_web [OF assms(1)] r'_def [symmetric] by (auto simp: Let_def)
qed

lemma PathEscape_good_suffix:
  assumes "\<forall>c \<in> set pre. segment_literal c \<or> c = CHR ''/''"
  shows "good_suffix (pre @ PathEscape s)"
proof -
  have pre: "c \<noteq> CHR ''?'' \<and> c \<noteq> CHR ''#'' \<and> c \<noteq> CHR ''%'' \<and> \<not> is_ctl c" if "c \<in> set pre" for c
  proof (cases "c = CHR ''/''")
    case False
    with assms that have lit: "segment_literal c" by auto
    then have "c \<noteq> CHR ''%''" by (auto simp: segment_literal_def unreserved_def is_alnum_def)
    with lit segment_char_separators [of c] show ?thesis by (simp add: segment_char_def)
  qed (simp add: is_ctl_def byte_Char)
  then have "unescape part (pre @ PathEscape s) = Some (pre @ s)" if "part \<notin> {HostPart, ZonePart}" for part
    using that by (subst unescape_append [OF unescape_plain]) (auto simp: PathEscape_unescape)
  then show ?thesis
    using pre PathEscape_chars [of _ s]
    by (auto simp: good_suffix_def list_ex_iff dest: segment_char_separators)
qed

end
