(* ===== verification/Validate_Url.thy ===== *)
theory Validate_Url
  imports GoUrl
begin

text \<open>
  \<open>internal/validate/url.go\<close>: the allowlist of RDAP servers.  A server URL is compared by its
  normalised host.  The main result is that a URL stays allowed when a request path is appended to it, so
  that what the allowlist says of the server holds of the request made to it.
\<close>

section \<open>Normalisation\<close>

definition with_scheme :: "string \<Rightarrow> string" where
  "with_scheme s = (if has_prefix s ''http://'' \<or> has_prefix s ''https://'' then s else ''https://'' @ s)"

definition normalizeServerURL :: "string \<Rightarrow> sentinel + string" where
  "normalizeServerURL serverURL =
     (if serverURL = [] then Inl Validate_ErrInvalidURL
      else (case url_Parse (with_scheme serverURL) of
              None \<Rightarrow> Inl Validate_ErrInvalidURL
            | Some parsed \<Rightarrow>
                let host = to_lower (u_Host parsed) in
                if host = [] then Inl Validate_ErrInvalidURL
                else if \<not> contains host ''.'' \<and> \<not> contains host '':'' then Inl Validate_ErrInvalidURL
                else Inr (trim_suffix (trim_suffix host '':443'') '':80'')))"

section \<open>The validator\<close>

record RDAPServerValidator =
  rv_allowedServers :: "string set"
  rv_lastUpdated :: "int option"

text \<open>\<open>now\<close> is the clock; the zero time is \<open>None\<close>.\<close>

definition allow_server :: "string set \<Rightarrow> string \<Rightarrow> string set" where
  "allow_server allowed server =
     (case normalizeServerURL server of Inl _ \<Rightarrow> allowed | Inr normalized \<Rightarrow> insert normalized allowed)"

definition UpdateAllowlist :: "int \<Rightarrow> string list \<Rightarrow> RDAPServerValidator \<Rightarrow> RDAPServerValidator" where
  "UpdateAllowlist now servers v =
     v\<lparr>rv_allowedServers := foldl allow_server {} servers, rv_lastUpdated := Some now\<rparr>"

definition NewRDAPServerValidator :: "int \<Rightarrow> string list \<Rightarrow> RDAPServerValidator" where
  "NewRDAPServerValidator now bootstrapServers =
     UpdateAllowlist now bootstrapServers \<lparr>rv_allowedServers = {}, rv_lastUpdated = None\<rparr>"

definition IsAllowed :: "RDAPServerValidator \<Rightarrow> string \<Rightarrow> sentinel option" where
  "IsAllowed v serverURL =
     (if serverURL = [] then Some Validate_ErrEmptyURL
      else (case normalizeServerURL serverURL of
              Inl err \<Rightarrow> Some err
            | Inr normalized \<Rightarrow>
                if normalized \<notin> rv_allowedServers v then Some Validate_ErrServerNotAllowed else None))"

definition AllowedCount :: "RDAPServerValidator \<Rightarrow> nat" where
  "AllowedCount v = card (rv_allowedServers v)"

definition LastUpdated :: "RDAPServerValidator \<Rightarrow> int option" where
  "LastUpdated v = rv_lastUpdated v"

definition StalenessAge :: "int \<Rightarrow> RDAPServerValidator \<Rightarrow> int" where
  "StalenessAge now v = (case rv_lastUpdated v of None \<Rightarrow> 0 | Some t \<Rightarrow> now - t)"

definition IsStale :: "int \<Rightarrow> int \<Rightarrow> RDAPServerValidator \<Rightarrow> bool" where
  "IsStale now maxAge v = (let age = StalenessAge now v in if age = 0 then False else age > maxAge)"

section \<open>What is allowed\<close>

lemma foldl_allow_server:
  "foldl allow_server A servers = A \<union> {h. \<exists>s \<in> set servers. normalizeServerURL s = Inr h}"
  by (induction servers arbitrary: A) (auto simp: allow_server_def split: sum.split)

lemma allowed_UpdateAllowlist:
  "IsAllowed (UpdateAllowlist now servers v) url = None \<longleftrightarrow>
   (\<exists>s \<in> set servers. \<exists>h. normalizeServerURL s = Inr h \<and> normalizeServerURL url = Inr h)"
proof -
  have "normalizeServerURL [] \<noteq> Inr h" for h by (simp add: normalizeServerURL_def)
  then show ?thesis
    by (cases "url = []")
       (auto simp: IsAllowed_def UpdateAllowlist_def foldl_allow_server split: sum.split)
qed

lemma UpdateAllowlist_replaces:
  "UpdateAllowlist t2 b (UpdateAllowlist t1 a v) = UpdateAllowlist t2 b v"
  by (simp add: UpdateAllowlist_def)

lemma IsAllowed_cong:
  "\<lbrakk>normalizeServerURL a = normalizeServerURL b; a \<noteq> []; b \<noteq> []\<rbrakk> \<Longrightarrow> IsAllowed v a = IsAllowed v b"
  by (simp add: IsAllowed_def)

lemma IsAllowed_None_iff:
  "IsAllowed v url = None \<longleftrightarrow>
   (\<exists>h. normalizeServerURL url = Inr h \<and> h \<in> rv_allowedServers v)"
  by (auto simp: IsAllowed_def normalizeServerURL_def split: sum.split)

section \<open>Requests to an allowed server\<close>

text \<open>The base URL as the client uses it: it ends with a slash.\<close>

definition base_url :: "string \<Rightarrow> string" where
  "base_url baseURL = (if \<not> has_suffix baseURL ''/'' then baseURL @ ''/'' else baseURL)"

lemma with_scheme_split:
  "\<exists>s \<in> web_schemes. \<exists>t. with_scheme url = s @ ''://'' @ t"
proof -
  have "\<exists>t. with_scheme url = ''http'' @ ''://'' @ t \<or> with_scheme url = ''https'' @ ''://'' @ t"
    by (auto simp: with_scheme_def has_prefix_iff)
  then show ?thesis unfolding web_schemes_def by blast
qed

text \<open>Appending to a URL does not give it a scheme that it did not have.\<close>

lemma has_prefix_append_other:
  "\<lbrakk>p \<noteq> []; hd p \<notin> set x\<rbrakk> \<Longrightarrow> has_prefix (url @ p) x = has_prefix url x"
proof (induction x arbitrary: url)
  case (Cons c x)
  then show ?case by (cases url; cases p) (auto simp: has_prefix_def)
qed (simp add: has_prefix_def)

lemma has_prefix_base_url:
  assumes "x = ''http://'' \<or> x = ''https://''"
  shows "has_prefix (base_url url) x = has_prefix url x"
proof -
  have "has_prefix url x" if "has_prefix (url @ ''/'') x" "\<not> has_suffix url ''/''"
  proof -
    obtain y where y: "x = y @ ''//''" using assms by (metis append.assoc append_Cons append_Nil)
    from that(1) obtain r where r: "url @ ''/'' = x @ r" by (auto simp: has_prefix_iff)
    show ?thesis
    proof (cases r rule: rev_cases)
      case Nil
      with r y have "url @ ''/'' = (y @ ''/'') @ ''/''" by simp
      then have "url = y @ ''/''" by (metis append_same_eq)
      with that(2) show ?thesis by (simp add: has_suffix_iff)
    next
      case (snoc r' c)
      with r show ?thesis by (auto simp: has_prefix_iff)
    qed
  qed
  then show ?thesis by (auto simp: base_url_def has_prefix_iff)
qed

text \<open>The path of a request: it starts with the kind of the object, a letter.\<close>

definition request_path :: "string \<Rightarrow> bool" where
  "request_path p \<longleftrightarrow> p \<noteq> [] \<and> hd p \<in> set ''diane'' \<and> good_suffix p"

lemma with_scheme_request:
  assumes "request_path p" and "url \<noteq> []"
  shows "with_scheme (base_url url @ p) = base_url (with_scheme url) @ p"
proof -
  have "p \<noteq> []" "hd p \<notin> set ''http://''" "hd p \<notin> set ''https://''"
    using assms by (auto simp: request_path_def)
  then have "with_scheme (base_url url @ p) = (if has_prefix url ''http://'' \<or> has_prefix url ''https://''
      then base_url url @ p else ''https://'' @ base_url url @ p)"
    by (simp add: with_scheme_def has_prefix_append_other has_prefix_base_url)
  moreover have "has_suffix (''https://'' @ url) ''/'' = has_suffix url ''/''"
    using assms(2) by (cases url rule: rev_cases) (auto simp: has_suffix_iff)
  ultimately show ?thesis by (auto simp: with_scheme_def base_url_def)
qed

lemma normalizeServerURL_request:
  assumes "normalizeServerURL url = Inr h" and "request_path p"
  shows "normalizeServerURL (base_url url @ p) = Inr h"
proof -
  obtain s t where s: "s \<in> web_schemes" and t: "with_scheme url = s @ ''://'' @ t"
    using with_scheme_split by blast
  have "url \<noteq> []" using assms(1) by (auto simp: normalizeServerURL_def)
  obtain u where u: "url_Parse (s @ ''://'' @ t) = Some u"
    using assms(1) t by (auto simp: normalizeServerURL_def split: option.splits if_splits)
  define slash where "slash = (if has_suffix (with_scheme url) ''/'' then [] else ''/'')"
  have slash: "base_url (with_scheme url) = s @ ''://'' @ t @ slash"
    using t by (simp add: base_url_def slash_def)
  have "u_Host u \<noteq> []"
    using assms(1) t u by (auto simp: normalizeServerURL_def Let_def split: if_splits)
  then have "t \<noteq> []"
    using u url_Parse_web [OF s, of "[]"]
    by (auto simp: url_rest_def before_def after_def parse_authority_def parse_host_def
        last_index_char_def Let_def)
  then have "has_suffix t ''/''" if "slash = []"
    using that t by (cases t rule: rev_cases) (auto simp: slash_def has_suffix_iff split: if_splits)
  moreover have "good_suffix (slash @ p)"
    using assms(2) by (auto simp: request_path_def good_suffix_def slash_def is_ctl_def byte_Char)
  ultimately have "\<exists>u'. url_Parse (s @ ''://'' @ t @ slash @ p) = Some u' \<and> u_Host u' = u_Host u"
    using url_Parse_suffix [OF s _ u] by (auto simp: slash_def has_prefix_iff split: if_splits)
  then obtain u' where u': "url_Parse (with_scheme (base_url url @ p)) = Some u'" "u_Host u' = u_Host u"
    using slash with_scheme_request [OF assms(2) \<open>url \<noteq> []\<close>] by auto
  have "url_Parse (with_scheme url) = Some u" using u t by simp
  moreover have "base_url url @ p \<noteq> []" using assms(2) by (simp add: request_path_def)
  ultimately have "normalizeServerURL (base_url url @ p) = normalizeServerURL url"
    using u' \<open>url \<noteq> []\<close> by (auto simp: normalizeServerURL_def)
  then show ?thesis using assms(1) by simp
qed

lemma IsAllowed_request:
  "\<lbrakk>IsAllowed v url = None; request_path p\<rbrakk> \<Longrightarrow> IsAllowed v (base_url url @ p) = None"
  unfolding IsAllowed_None_iff using normalizeServerURL_request by blast

end
