(* ===== verification/Rdap_Client.thy ===== *)
theory Rdap_Client
  imports Validate_Url Bootstrap_Loader Schema
begin

text \<open>
  \<open>internal/rdap/client.go\<close>: the RDAP client, which falls over from one server to the next and retries
  each of them.  The HTTP client, the timer of the backoff and the decoder of \<open>openrdap\<close> are functions
  on a state \<open>'w\<close> of the outside world; what a theorem relies on is stated there.  Metrics and logging
  are left out.
\<close>

section \<open>The outside world\<close>

text \<open>
  What \<open>Decode\<close> returns: the error code and the title are what the client reads of an error object.
\<close>

datatype rdap_object =
    Obj_Domain rdap_domain | Obj_IPNetwork rdap_network | Obj_Autnum rdap_autnum
  | Obj_Entity rdap_entity | Obj_Nameserver rdap_nameserver
  | Obj_Error "nat option" string | Obj_Other

text \<open>A request: the URL and the \<open>User-Agent\<close> header.\<close>

type_synonym 'w http_client = "'w \<Rightarrow> string \<Rightarrow> string \<Rightarrow> http_outcome \<times> 'w"

text \<open>
  \<open>re_wait\<close> sleeps for a backoff; it returns \<open>ctx.Err ()\<close> when the context is done first.
\<close>

record 'w rdap_env =
  re_wait :: "'w \<Rightarrow> int \<Rightarrow> go_error option \<times> 'w"
  re_decode :: "string \<Rightarrow> go_error + rdap_object"

section \<open>The client\<close>

record ('w, 'r) rdap_client =
  rc_httpClient :: "'w http_client"
  rc_resolver :: "'r Bootstrap option"
  rc_maxRetries :: int
  rc_userAgent :: string

type_synonym ('w, 'r) client_option = "('w, 'r) rdap_client \<Rightarrow> ('w, 'r) rdap_client"

definition WithHTTPClient :: "'w http_client \<Rightarrow> ('w, 'r) client_option" where
  "WithHTTPClient h c = c\<lparr>rc_httpClient := h\<rparr>"

definition WithResolver :: "'r Bootstrap option \<Rightarrow> ('w, 'r) client_option" where
  "WithResolver r c = c\<lparr>rc_resolver := r\<rparr>"

definition WithMaxRetries :: "int \<Rightarrow> ('w, 'r) client_option" where
  "WithMaxRetries n c = c\<lparr>rc_maxRetries := n\<rparr>"

definition WithUserAgent :: "string \<Rightarrow> ('w, 'r) client_option" where
  "WithUserAgent ua c = c\<lparr>rc_userAgent := ua\<rparr>"

definition maxRedirects :: nat where "maxRedirects = 3"

definition CheckRedirect :: "nat \<Rightarrow> go_error option" where
  "CheckRedirect via =
     (if via \<ge> maxRedirects then Some (OtherError (''stopped after '' @ show_nat via @ '' redirects'')) else None)"

text \<open>\<open>mk\<close> makes the HTTP client of a timeout and a redirect policy.\<close>

definition rdap_NewClient ::
  "(int \<Rightarrow> (nat \<Rightarrow> go_error option) \<Rightarrow> 'w http_client) \<Rightarrow> int \<Rightarrow> ('w, 'r) client_option list \<Rightarrow>
   ('w, 'r) rdap_client" where
  "rdap_NewClient mk timeout opts =
     foldl (\<lambda>c opt. opt c)
       \<lparr>rc_httpClient = mk timeout CheckRedirect, rc_resolver = None, rc_maxRetries = 2,
        rc_userAgent = ''rdap-lookup/1.0''\<rparr> opts"

definition Client_SetResolver :: "'r Bootstrap option \<Rightarrow> ('w, 'r) rdap_client \<Rightarrow> ('w, 'r) rdap_client" where
  "Client_SetResolver r c = c\<lparr>rc_resolver := r\<rparr>"

section \<open>One request\<close>

definition maxResponseSize :: nat where "maxResponseSize = 10 * 1024 * 1024"

text \<open>What the status of a response says before its body is read.\<close>

definition status_error :: "nat \<Rightarrow> go_error option" where
  "status_error status =
     (if status = 200 then None
      else if status = 404 then Some (Sentinel Rdap_ErrNotFound)
      else if status = 429 then Some (Sentinel Rdap_ErrRateLimited)
      else if status = 400 then Some (Wrapped ''bad request'' [Sentinel Rdap_ErrInvalidResponse])
      else if status \<ge> 500 then Some (Wrapped (''status '' @ show_nat status) [Sentinel Rdap_ErrServerError])
      else Some (Wrapped (''status '' @ show_nat status) [Sentinel Rdap_ErrInvalidResponse]))"

definition object_result :: "rdap_object \<Rightarrow> go_error + rdap_object" where
  "object_result obj =
     (case obj of
        Obj_Error code title \<Rightarrow>
          if code = Some 404 then Inl (Sentinel Rdap_ErrNotFound)
          else Inl (Wrapped (''RDAP error: '' @ title) [Sentinel Rdap_ErrServerError])
      | _ \<Rightarrow> Inr obj)"

text \<open>What \<open>doQuery\<close> makes of the outcome of \<open>Do\<close>.\<close>

definition reply_result :: "(string \<Rightarrow> go_error + rdap_object) \<Rightarrow> http_outcome \<Rightarrow> go_error + rdap_object" where
  "reply_result decode resp =
     (case ho_error resp of
        Some err \<Rightarrow>
          if error_is err Context_DeadlineExceeded then Inl (Sentinel Rdap_ErrRequestTimeout)
          else Inl (Wrapped ''http request'' [err])
      | None \<Rightarrow>
          (case status_error (ho_status resp) of
             Some err \<Rightarrow> Inl err
           | None \<Rightarrow>
               (case limit_reader maxResponseSize (ho_body resp) of
                  (body, Some err) \<Rightarrow> Inl (Wrapped ''read response'' [err])
                | (body, None) \<Rightarrow>
                    (case decode body of
                       Inl err \<Rightarrow> Inl (Wrapped [] [Sentinel Rdap_ErrInvalidResponse, err])
                     | Inr obj \<Rightarrow> object_result obj))))"

text \<open>\<open>http.NewRequestWithContext\<close> refuses a URL that does not parse.\<close>

definition rdap_doQuery ::
  "'w rdap_env \<Rightarrow> ('w, 'r) rdap_client \<Rightarrow> string \<Rightarrow> 'w \<Rightarrow> (go_error + rdap_object) \<times> 'w" where
  "rdap_doQuery env c queryURL w =
     (case url_Parse queryURL of
        None \<Rightarrow> (Inl (Wrapped ''create request'' [OtherError ''parse'']), w)
      | Some _ \<Rightarrow>
          (let (resp, w1) = rc_httpClient c w queryURL (rc_userAgent c)
           in (reply_result (re_decode env) resp, w1)))"

section \<open>Retries\<close>

definition backoffMultipliers :: "int list" where
  "backoffMultipliers =
     [100 * 10 ^ 6, 200 * 10 ^ 6, 400 * 10 ^ 6, 800 * 10 ^ 6, 1600 * 10 ^ 6, 3200 * 10 ^ 6]"

definition calculateBackoff :: "int \<Rightarrow> int" where
  "calculateBackoff attempt =
     (let idx = max (attempt - 1) 0; idx = min idx (int (length backoffMultipliers) - 1)
      in backoffMultipliers ! nat idx)"

definition extractServerHost :: "string \<Rightarrow> string" where
  "extractServerHost serverURL =
     (case url_Parse serverURL of None \<Rightarrow> ''unknown'' | Some parsed \<Rightarrow> u_Host parsed)"

definition final_error :: "go_error \<Rightarrow> bool" where
  "final_error err \<longleftrightarrow>
     error_is err Rdap_ErrNotFound \<or> error_is err Context_Canceled \<or> error_is err Context_DeadlineExceeded"

text \<open>
  The attempts at one server, from attempt \<open>attempt\<close> on with \<open>left\<close> of them left: the result that
  \<open>queryWithRetry\<close> returns (\<open>Inl\<close>), or the last error with which it goes on (\<open>Inr\<close>).
\<close>

fun try_attempts ::
  "'w rdap_env \<Rightarrow> ('w, 'r) rdap_client \<Rightarrow> string \<Rightarrow> nat \<Rightarrow> nat \<Rightarrow> go_error option \<Rightarrow> 'w \<Rightarrow>
   ((go_error + rdap_object) + go_error option) \<times> 'w" where
  "try_attempts env c fullURL attempt 0 lastErr w = (Inr lastErr, w)"
| "try_attempts env c fullURL attempt (Suc left) lastErr w =
     (let (ctxErr, w1) = (if attempt > 0 then re_wait env w (calculateBackoff (int attempt)) else (None, w)) in
      case ctxErr of
        Some err \<Rightarrow> (Inl (Inl err), w1)
      | None \<Rightarrow>
          (let (result, w2) = rdap_doQuery env c fullURL w1 in
           case result of
             Inr obj \<Rightarrow> (Inl (Inr obj), w2)
           | Inl err \<Rightarrow>
               if final_error err then (Inl (Inl err), w2)
               else try_attempts env c fullURL (Suc attempt) left (Some err) w2))"

definition all_failed :: "go_error option \<Rightarrow> go_error" where
  "all_failed lastErr =
     (case lastErr of
        Some err \<Rightarrow> Wrapped [] [Sentinel Rdap_ErrAllServersFailed, err]
      | None \<Rightarrow> Sentinel Rdap_ErrAllServersFailed)"

fun try_servers ::
  "'w rdap_env \<Rightarrow> ('w, 'r) rdap_client \<Rightarrow> string \<Rightarrow> string list \<Rightarrow> go_error option \<Rightarrow> 'w \<Rightarrow>
   (go_error + rdap_object) \<times> 'w" where
  "try_servers env c path [] lastErr w = (Inl (all_failed lastErr), w)"
| "try_servers env c path (baseURL # urls) lastErr w =
     (case try_attempts env c (base_url baseURL @ path) 0 (nat (rc_maxRetries c + 1)) lastErr w of
        (Inl result, w1) \<Rightarrow> (result, w1)
      | (Inr lastErr1, w1) \<Rightarrow> try_servers env c path urls lastErr1 w1)"

definition queryWithRetry ::
  "'w rdap_env \<Rightarrow> ('w, 'r) rdap_client \<Rightarrow> string list \<Rightarrow> string \<Rightarrow> 'w \<Rightarrow> (go_error + rdap_object) \<times> 'w" where
  "queryWithRetry env c serverURLs path w = try_servers env c path serverURLs None w"

section \<open>Queries\<close>

text \<open>The type assertion on the decoded object.\<close>

definition expect :: "(rdap_object \<Rightarrow> 'a option) \<Rightarrow> (go_error + rdap_object) \<times> 'w \<Rightarrow> (go_error + 'a) \<times> 'w" where
  "expect proj r =
     (case r of
        (Inl err, w) \<Rightarrow> (Inl err, w)
      | (Inr obj, w) \<Rightarrow>
          (case proj obj of
             None \<Rightarrow> (Inl (Wrapped ''unexpected object'' [Sentinel Rdap_ErrInvalidResponse]), w)
           | Some a \<Rightarrow> (Inr a, w)))"

definition as_domain :: "rdap_object \<Rightarrow> rdap_domain option" where
  "as_domain obj = (case obj of Obj_Domain d \<Rightarrow> Some d | _ \<Rightarrow> None)"

definition as_network :: "rdap_object \<Rightarrow> rdap_network option" where
  "as_network obj = (case obj of Obj_IPNetwork n \<Rightarrow> Some n | _ \<Rightarrow> None)"

definition as_autnum :: "rdap_object \<Rightarrow> rdap_autnum option" where
  "as_autnum obj = (case obj of Obj_Autnum a \<Rightarrow> Some a | _ \<Rightarrow> None)"

definition as_entity :: "rdap_object \<Rightarrow> rdap_entity option" where
  "as_entity obj = (case obj of Obj_Entity e \<Rightarrow> Some e | _ \<Rightarrow> None)"

definition as_nameserver :: "rdap_object \<Rightarrow> rdap_nameserver option" where
  "as_nameserver obj = (case obj of Obj_Nameserver n \<Rightarrow> Some n | _ \<Rightarrow> None)"

text \<open>
  The common part of the queries: an error of the resolver is wrapped, no server is an error of its
  own, and without a resolver the call panics (\<open>None\<close>).
\<close>

type_synonym ('a, 'w) query_result = "((go_error + 'a) \<times> 'w) option"

definition query_servers ::
  "'w rdap_env \<Rightarrow> ('w, 'r) rdap_client \<Rightarrow> ('r Bootstrap \<Rightarrow> sentinel + string list) \<Rightarrow> string \<Rightarrow> string \<Rightarrow>
   (rdap_object \<Rightarrow> 'a option) \<Rightarrow> 'w \<Rightarrow> ('a, 'w) query_result" where
  "query_servers env c resolve what path proj w =
     (case rc_resolver c of
        None \<Rightarrow> None
      | Some b \<Rightarrow>
          Some (case resolve b of
                  Inl err \<Rightarrow> (Inl (Wrapped (''resolve '' @ what) [Sentinel err]), w)
                | Inr urls \<Rightarrow>
                    if urls = [] then (Inl (Sentinel Rdap_ErrNoServers), w)
                    else expect proj (queryWithRetry env c urls path w)))"

definition rdap_normalize :: "string \<Rightarrow> string" where
  "rdap_normalize name = to_lower (trim_suffix name ''.'')"

definition QueryDomain ::
  "'w rdap_env \<Rightarrow> ('w, 'r) rdap_client \<Rightarrow> string \<Rightarrow> 'w \<Rightarrow> (rdap_domain, 'w) query_result" where
  "QueryDomain env c dmn w =
     (if dmn = [] then Some (Inl (Sentinel Bootstrap_ErrInvalidInput), w)
      else let dmn = rdap_normalize dmn in
           query_servers env c (\<lambda>b. DNS_ResolveDomain (bs_DNS b) dmn) (''domain '' @ dmn)
             (''domain/'' @ PathEscape dmn) as_domain w)"

definition QueryIP ::
  "'r ranger_ops \<Rightarrow> 'w rdap_env \<Rightarrow> ('w, 'r) rdap_client \<Rightarrow> string \<Rightarrow> 'w \<Rightarrow> (rdap_network, 'w) query_result" where
  "QueryIP ops env c ip w =
     (if ip = [] then Some (Inl (Sentinel Bootstrap_ErrInvalidInput), w)
      else query_servers env c (\<lambda>b. Resolver_ResolveIP ops b ip) (''IP '' @ ip)
             (''ip/'' @ PathEscape ip) as_network w)"

definition QueryASN ::
  "'w rdap_env \<Rightarrow> ('w, 'r) rdap_client \<Rightarrow> 32 word \<Rightarrow> 'w \<Rightarrow> (rdap_autnum, 'w) query_result" where
  "QueryASN env c asn w =
     (if asn = 0 then Some (Inl (Sentinel Bootstrap_ErrInvalidInput), w)
      else query_servers env c (\<lambda>b. ASN_ResolveASN (bs_ASN b) asn) (''ASN '' @ show_nat (unat asn))
             (''autnum/'' @ show_nat (unat asn)) as_autnum w)"

definition QueryEntity ::
  "'w rdap_env \<Rightarrow> ('w, 'r) rdap_client \<Rightarrow> string \<Rightarrow> string \<Rightarrow> 'w \<Rightarrow> (go_error + rdap_entity) \<times> 'w" where
  "QueryEntity env c handle serverURL w =
     (if handle = [] then (Inl (Sentinel Bootstrap_ErrInvalidInput), w)
      else if serverURL = [] then (Inl (Sentinel Rdap_ErrNoServers), w)
      else expect as_entity (queryWithRetry env c [serverURL] (''entity/'' @ PathEscape handle) w))"

definition QueryNameserver ::
  "'w rdap_env \<Rightarrow> ('w, 'r) rdap_client \<Rightarrow> string \<Rightarrow> 'w \<Rightarrow> (rdap_nameserver, 'w) query_result" where
  "QueryNameserver env c nameserver w =
     (if nameserver = [] then Some (Inl (Sentinel Bootstrap_ErrInvalidInput), w)
      else let nameserver = rdap_normalize nameserver in
           query_servers env c (\<lambda>b. DNS_ResolveDomain (bs_DNS b) nameserver) (''nameserver '' @ nameserver)
             (''nameserver/'' @ PathEscape nameserver) as_nameserver w)"

section \<open>Which requests are made\<close>

text \<open>All the requests a query can make, in order: none to a URL that does not parse.\<close>

definition requests :: "('w, 'r) rdap_client \<Rightarrow> string list \<Rightarrow> string \<Rightarrow> string list" where
  "requests c urls path =
     concat (map (\<lambda>b. if url_Parse (base_url b @ path) = None then []
                       else replicate (nat (rc_maxRetries c + 1)) (base_url b @ path)) urls)"

text \<open>\<open>log\<close> records the URLs that the HTTP client was asked for; waiting leaves it alone.\<close>

definition traced :: "'w rdap_env \<Rightarrow> ('w, 'r) rdap_client \<Rightarrow> ('w \<Rightarrow> string list) \<Rightarrow> bool" where
  "traced env c log \<longleftrightarrow>
     (\<forall>w url ua. log (snd (rc_httpClient c w url ua)) = log w @ [url]) \<and>
     (\<forall>w d. log (snd (re_wait env w d)) = log w)"

lemma rdap_doQuery_log:
  "traced env c log \<Longrightarrow>
   log (snd (rdap_doQuery env c url w)) = log w @ (if url_Parse url = None then [] else [url])"
  by (auto simp: rdap_doQuery_def traced_def split: option.split prod.split) (metis snd_conv)

text \<open>The waiting before an attempt.\<close>

lemma wait_log:
  "\<lbrakk>traced env c log; (if a > 0 then re_wait env w d else (None, w)) = (e, w1)\<rbrakk> \<Longrightarrow> log w1 = log w"
  unfolding traced_def by (metis prod.inject snd_conv)

lemma try_attempts_step:
  assumes "(if a > 0 then re_wait env w (calculateBackoff (int a)) else (None, w)) = (e, w1)"
    and "rdap_doQuery env c url w1 = (r, w2)"
  shows "try_attempts env c url a (Suc n) lastErr w =
    (case e of
       Some err \<Rightarrow> (Inl (Inl err), w1)
     | None \<Rightarrow>
         (case r of
            Inr obj \<Rightarrow> (Inl (Inr obj), w2)
          | Inl err \<Rightarrow>
              if final_error err then (Inl (Inl err), w2)
              else try_attempts env c url (Suc a) n (Some err) w2))"
  by (simp only: try_attempts.simps assms Let_def case_prod_conv)

declare try_attempts.simps(2) [simp del]

lemma try_attempts_log:
  assumes "traced env c log"
  shows "\<exists>k \<le> n. log (snd (try_attempts env c url a n lastErr w)) =
      log w @ (if url_Parse url = None then [] else replicate k url) \<and>
    (is_ok (fst (try_attempts env c url a n lastErr w)) \<longrightarrow> k = n)"
proof (induction n arbitrary: a lastErr w)
  case (Suc n)
  obtain e w1 where wait: "(if a > 0 then re_wait env w (calculateBackoff (int a)) else (None, w)) = (e, w1)"
    by fastforce
  obtain r w2 where q: "rdap_doQuery env c url w1 = (r, w2)" by fastforce
  have log1: "log w1 = log w" by (rule wait_log [OF assms wait])
  have log2: "log w2 = log w @ (if url_Parse url = None then [] else [url])"
    using rdap_doQuery_log [OF assms, of url w1] q log1 by simp
  show ?case
  proof (cases "e = None \<and> (\<exists>err. r = Inl err \<and> \<not> final_error err)")
    case True
    then obtain err where err: "r = Inl err" "\<not> final_error err" "e = None" by blast
    then have step: "try_attempts env c url a (Suc n) lastErr w =
        try_attempts env c url (Suc a) n (Some err) w2"
      unfolding try_attempts_step [OF wait q] by simp
    obtain k where "k \<le> n" "log (snd (try_attempts env c url (Suc a) n (Some err) w2)) =
        log w2 @ (if url_Parse url = None then [] else replicate k url)"
      "is_ok (fst (try_attempts env c url (Suc a) n (Some err) w2)) \<longrightarrow> k = n"
      using Suc.IH by blast
    then show ?thesis unfolding step log2 by (intro exI [of _ "Suc k"]) simp
  next
    case False
    have "fst (try_attempts env c url a (Suc n) lastErr w) \<in> range Inl \<and>
      (log (snd (try_attempts env c url a (Suc n) lastErr w)) = log w1 \<or>
       log (snd (try_attempts env c url a (Suc n) lastErr w)) = log w2)"
      using False unfolding try_attempts_step [OF wait q] by (cases e; cases r) simp_all
    then show ?thesis
    proof (elim conjE disjE)
      assume "log (snd (try_attempts env c url a (Suc n) lastErr w)) = log w1"
        and "fst (try_attempts env c url a (Suc n) lastErr w) \<in> range Inl"
      with log1 show ?thesis by (intro exI [of _ 0]) auto
    next
      assume "log (snd (try_attempts env c url a (Suc n) lastErr w)) = log w2"
        and "fst (try_attempts env c url a (Suc n) lastErr w) \<in> range Inl"
      with log2 show ?thesis by (intro exI [of _ 1]) auto
    qed
  qed
qed auto

lemma try_servers_log:
  assumes "traced env c log"
  shows "\<exists>sent. log (snd (try_servers env c path urls lastErr w)) = log w @ sent \<and>
    prefix sent (requests c urls path)"
proof (induction urls arbitrary: lastErr w)
  case (Cons b urls)
  let ?n = "nat (rc_maxRetries c + 1)" and ?u = "base_url b @ path"
  obtain r w1 where t: "try_attempts env c ?u 0 ?n lastErr w = (r, w1)" by fastforce
  obtain k where k: "k \<le> ?n" "log w1 = log w @ (if url_Parse ?u = None then [] else replicate k ?u)"
    "is_ok r \<longrightarrow> k = ?n"
    using try_attempts_log [OF assms, of ?n ?u 0 lastErr w] t by auto
  show ?case
  proof (cases r)
    case (Inl res)
    have "replicate ?n ?u = replicate k ?u @ replicate (?n - k) ?u"
      using k(1) by (simp flip: replicate_add)
    then show ?thesis using Inl t k(2) by (auto simp: requests_def)
  next
    case (Inr l)
    obtain sent where "log (snd (try_servers env c path urls l w1)) = log w1 @ sent"
      "prefix sent (requests c urls path)"
      using Cons.IH by blast
    with Inr t k show ?thesis by (auto simp: requests_def)
  qed
qed auto

lemma queryWithRetry_log:
  "traced env c log \<Longrightarrow>
   \<exists>sent. log (snd (queryWithRetry env c urls path w)) = log w @ sent \<and> prefix sent (requests c urls path)"
  unfolding queryWithRetry_def by (rule try_servers_log)

lemma set_requests: "set (requests c urls path) \<subseteq> (\<lambda>b. base_url b @ path) ` set urls"
  by (auto simp: requests_def split: if_splits)

lemma length_requests: "length (requests c urls path) \<le> length urls * nat (rc_maxRetries c + 1)"
  by (induction urls) (auto simp: requests_def)

lemma snd_expect [simp]: "snd (expect proj r) = snd r"
  by (auto simp: expect_def split: prod.split sum.split option.split)

section \<open>The retries follow the first conclusive reply\<close>

text \<open>
  A server side that replies from a script, and the reading of the replies that the loops amount to:
  the first one that is conclusive, otherwise the last error.
\<close>

definition scripted :: "http_outcome list http_client" where
  "scripted replies url ua =
     (case replies of
        [] \<Rightarrow> (\<lparr>ho_error = Some (OtherError ''end''), ho_status = 0, ho_body = ([], None)\<rparr>, [])
      | r # rs \<Rightarrow> (r, rs))"

definition conclusive :: "go_error + rdap_object \<Rightarrow> bool" where
  "conclusive r = (case r of Inr _ \<Rightarrow> True | Inl err \<Rightarrow> final_error err)"

definition last_error :: "go_error option \<Rightarrow> (go_error + rdap_object) list \<Rightarrow> go_error option" where
  "last_error d rs = foldl (\<lambda>d r. case r of Inl err \<Rightarrow> Some err | Inr _ \<Rightarrow> d) d rs"

definition first_conclusive :: "(go_error + rdap_object) list \<Rightarrow> go_error + rdap_object" where
  "first_conclusive rs =
     (case find conclusive rs of Some r \<Rightarrow> r | None \<Rightarrow> Inl (all_failed (last_error None rs)))"

definition scripted_run :: "http_outcome list rdap_env \<Rightarrow> (http_outcome list, 'r) rdap_client \<Rightarrow> bool" where
  "scripted_run env c \<longleftrightarrow> rc_httpClient c = scripted \<and> (\<forall>w d. re_wait env w d = (None, w))"

lemma last_error_append: "last_error d (rs @ qs) = last_error (last_error d rs) qs"
  by (simp add: last_error_def)

lemma try_attempts_scripted:
  assumes "scripted_run env c" and "url_Parse url \<noteq> None"
  shows "n \<le> length w \<Longrightarrow>
    (let rs = map (reply_result (re_decode env)) (take n w) in
     case find conclusive rs of
       Some r \<Rightarrow> fst (try_attempts env c url a n lastErr w) = Inl r
     | None \<Rightarrow> try_attempts env c url a n lastErr w = (Inr (last_error lastErr rs), drop n w))"
proof (induction n arbitrary: a lastErr w)
  case 0
  show ?case by (simp add: last_error_def)
next
  case (Suc n)
  from Suc.prems obtain r rs where w: "w = r # rs" and len: "n \<le> length rs" by (cases w) auto
  have wait: "(if a > 0 then re_wait env w (calculateBackoff (int a)) else (None, w)) = (None, w)"
    using assms(1) by (simp add: scripted_run_def)
  have q: "rdap_doQuery env c url w = (reply_result (re_decode env) r, rs)"
    using assms by (auto simp: rdap_doQuery_def scripted_run_def scripted_def w)
  show ?case
    using Suc.IH [OF len, of "Suc a"]
    unfolding try_attempts_step [OF wait q] unfolding w
    by (cases "reply_result (re_decode env) r")
       (auto simp: conclusive_def last_error_def Let_def split: option.splits)
qed

lemma requests_parse:
  "\<forall>b \<in> set urls. url_Parse (base_url b @ path) \<noteq> None \<Longrightarrow>
   length (requests c urls path) = length urls * nat (rc_maxRetries c + 1)"
  by (induction urls) (auto simp: requests_def)

lemma try_servers_scripted:
  assumes "scripted_run env c"
  shows "\<lbrakk>\<forall>b \<in> set urls. url_Parse (base_url b @ path) \<noteq> None;
      length urls * nat (rc_maxRetries c + 1) \<le> length w\<rbrakk> \<Longrightarrow>
    fst (try_servers env c path urls lastErr w) =
      (let rs = map (reply_result (re_decode env)) (take (length urls * nat (rc_maxRetries c + 1)) w) in
       case find conclusive rs of Some r \<Rightarrow> r | None \<Rightarrow> Inl (all_failed (last_error lastErr rs)))"
proof (induction urls arbitrary: lastErr w)
  case Nil
  show ?case by (simp add: last_error_def)
next
  case (Cons b urls)
  define n where "n = nat (rc_maxRetries c + 1)"
  define rs where "rs = map (reply_result (re_decode env)) (take n w)"
  have "n \<le> length w" using Cons.prems(2) by (simp add: n_def)
  then have one: "case find conclusive rs of
       Some r \<Rightarrow> fst (try_attempts env c (base_url b @ path) 0 n lastErr w) = Inl r
     | None \<Rightarrow> try_attempts env c (base_url b @ path) 0 n lastErr w = (Inr (last_error lastErr rs), drop n w)"
    using try_attempts_scripted [OF assms, of "base_url b @ path" n w 0 lastErr] Cons.prems(1)
    unfolding rs_def Let_def by simp
  have all: "map (reply_result (re_decode env)) (take (length (b # urls) * n) w) =
      rs @ map (reply_result (re_decode env)) (take (length urls * n) (drop n w))"
    by (simp add: rs_def take_add)
  show ?case
  proof (cases "find conclusive rs")
    case None
    with one have "fst (try_servers env c path (b # urls) lastErr w) =
        fst (try_servers env c path urls (last_error lastErr rs) (drop n w))"
      by (simp add: n_def)
    also have "\<dots> = (let qs = map (reply_result (re_decode env)) (take (length urls * n) (drop n w)) in
       case find conclusive qs of Some r \<Rightarrow> r
       | None \<Rightarrow> Inl (all_failed (last_error (last_error lastErr rs) qs)))"
      unfolding n_def using Cons.prems by (intro Cons.IH) auto
    finally show ?thesis
      unfolding n_def [symmetric] all using None
      by (simp add: find_append Let_def last_error_append split: option.split)
  next
    case (Some r)
    with one have "fst (try_servers env c path (b # urls) lastErr w) = r"
      by (auto simp: n_def split: prod.split)
    then show ?thesis
      unfolding n_def [symmetric] all using Some by (simp add: find_append Let_def)
  qed
qed

lemma queryWithRetry_scripted:
  assumes "scripted_run env c" and "\<forall>b \<in> set urls. url_Parse (base_url b @ path) \<noteq> None"
    and "length (requests c urls path) \<le> length replies"
  shows "fst (queryWithRetry env c urls path replies) =
    first_conclusive (map (reply_result (re_decode env)) (take (length (requests c urls path)) replies))"
  using try_servers_scripted [OF assms(1,2), of replies None] assms(3)
  unfolding requests_parse [OF assms(2)] queryWithRetry_def first_conclusive_def by (simp add: Let_def)

section \<open>Entities\<close>

lemma entity_path: "request_path (''entity/'' @ PathEscape handle)"
  unfolding request_path_def
  by (intro conjI PathEscape_good_suffix)
     (auto simp: segment_literal_def unreserved_def is_alnum_def)

text \<open>Every request for an entity from an allowed server goes to an allowed server.\<close>

lemma QueryEntity_log:
  assumes "traced env c log" and "IsAllowed v serverURL = None"
  shows "\<exists>sent. log (snd (QueryEntity env c handle serverURL w)) = log w @ sent \<and>
    length sent \<le> nat (rc_maxRetries c + 1) \<and> (\<forall>url \<in> set sent. IsAllowed v url = None)"
proof (cases "handle = [] \<or> serverURL = []")
  case False
  let ?p = "''entity/'' @ PathEscape handle"
  obtain sent where sent: "log (snd (queryWithRetry env c [serverURL] ?p w)) = log w @ sent"
    and pre: "prefix sent (requests c [serverURL] ?p)"
    using queryWithRetry_log [OF assms(1)] by blast
  have "length sent \<le> nat (rc_maxRetries c + 1)"
    using prefix_length_le [OF pre] length_requests [of c "[serverURL]" ?p] by simp
  moreover have "IsAllowed v url = None" if "url \<in> set sent" for url
  proof -
    have "set sent \<subseteq> set (requests c [serverURL] ?p)" using pre by (rule set_mono_prefix)
    then have "url = base_url serverURL @ ?p"
      using that set_requests [of c "[serverURL]" ?p] by auto
    then show ?thesis by (simp only:) (rule IsAllowed_request [OF assms(2) entity_path])
  qed
  ultimately show ?thesis using False sent by (auto simp: QueryEntity_def)
qed (auto simp: QueryEntity_def)

end
