(* ===== verification/Public_Types.thy ===== *)
theory Public_Types
  imports GoErrors GoStrings Schema
begin

text \<open>
  \<open>pkg/rdaplookup/types.go\<close>, \<open>errors.go\<close> and \<open>domain.go\<close>: the public types with their construction
  from the internal ones, the public errors, and the normalisation of domains.  The public suffix list of
  \<open>golang.org/x/net/publicsuffix\<close> is a parameter.
\<close>

section \<open>Types\<close>

record SimpleContact =
  ct_Handle :: string
  ct_Name :: string
  ct_Organization :: string
  ct_Email :: string
  ct_Phone :: string
  ct_Address :: string
  ct_Country :: string
  ct_Roles :: "string list"

record PublicNS =
  pn_Name :: string
  pn_UnicodeName :: string
  pn_IPv4 :: "string list"
  pn_IPv6 :: "string list"

record PublicDNSSEC =
  pk_Signed :: bool
  pk_DelegationSigned :: bool

record DomainResponse =
  dr_Name :: string
  dr_UnicodeName :: string
  dr_Status :: "string list"
  dr_CreatedDate :: string
  dr_UpdatedDate :: string
  dr_ExpirationDate :: string
  dr_Registrar :: "SimpleContact option"
  dr_Registrant :: "SimpleContact option"
  dr_AdminContact :: "SimpleContact option"
  dr_TechContact :: "SimpleContact option"
  dr_Nameservers :: "PublicNS list"
  dr_DNSSEC :: "PublicDNSSEC option"
  dr_Country :: string
  dr_RDAPServer :: string
  dr_Cached :: bool

record IPResponse =
  ir_StartAddress :: string
  ir_EndAddress :: string
  ir_CIDR :: "string list"
  ir_IPVersion :: string
  ir_Handle :: string
  ir_Name :: string
  ir_Type :: string
  ir_ParentHandle :: string
  ir_Status :: "string list"
  ir_Country :: string
  ir_Registrant :: "SimpleContact option"
  ir_AdminContact :: "SimpleContact option"
  ir_TechContact :: "SimpleContact option"
  ir_AbuseContact :: "SimpleContact option"
  ir_CreatedDate :: string
  ir_UpdatedDate :: string
  ir_RDAPServer :: string
  ir_Cached :: bool

text \<open>\<open>SimpleEntity\<close> of the public package.\<close>

record PublicEntity =
  pu_Handle :: string
  pu_Name :: string
  pu_Organization :: string
  pu_Email :: string
  pu_Phone :: string
  pu_Roles :: "string list"
  pu_Country :: string

record ASNResponse =
  nr_StartAutnum :: "32 word"
  nr_EndAutnum :: "32 word"
  nr_Handle :: string
  nr_Name :: string
  nr_Type :: string
  nr_Status :: "string list"
  nr_Country :: string
  nr_CreatedDate :: string
  nr_UpdatedDate :: string
  nr_Entities :: "PublicEntity list"
  nr_RDAPServer :: string
  nr_Cached :: bool

record SimpleIPNet =
  nt_Handle :: string
  nt_StartAddress :: string
  nt_EndAddress :: string
  nt_Name :: string
  nt_Country :: string

record SimpleASNEntry =
  ae_ASN :: "32 word"
  ae_Handle :: string
  ae_Name :: string
  ae_Country :: string

record EntityResponse =
  xr_Handle :: string
  xr_Name :: string
  xr_Organization :: string
  xr_Email :: string
  xr_Phone :: string
  xr_Address :: string
  xr_Country :: string
  xr_Roles :: "string list"
  xr_Status :: "string list"
  xr_CreatedDate :: string
  xr_UpdatedDate :: string
  xr_RelatedIPNets :: "SimpleIPNet list"
  xr_RelatedASNs :: "SimpleASNEntry list"
  xr_RDAPServer :: string
  xr_Cached :: bool

record PublicBatchQuery =
  pq_Type :: string
  pq_Value :: string
  pq_ServerURL :: string

section \<open>Conversions\<close>

definition contactFromSchema :: "SimpleEntity option \<Rightarrow> SimpleContact option" where
  "contactFromSchema = map_option (\<lambda>s.
     \<lparr>ct_Handle = se_Handle s, ct_Name = se_Name s, ct_Organization = se_Organization s,
      ct_Email = se_Email s, ct_Phone = se_Phone s, ct_Address = se_Address s,
      ct_Country = se_Country s, ct_Roles = se_Roles s\<rparr>)"

definition domainFromSchema :: "SimpleDomain option \<Rightarrow> DomainResponse option" where
  "domainFromSchema = map_option (\<lambda>s.
     \<lparr>dr_Name = sd_Name s, dr_UnicodeName = sd_UnicodeName s, dr_Status = sd_Status s,
      dr_CreatedDate = sd_CreatedDate s, dr_UpdatedDate = sd_UpdatedDate s,
      dr_ExpirationDate = sd_ExpirationDate s, dr_Registrar = contactFromSchema (sd_Registrar s),
      dr_Registrant = contactFromSchema (sd_Registrant s),
      dr_AdminContact = contactFromSchema (sd_AdminContact s),
      dr_TechContact = contactFromSchema (sd_TechContact s),
      dr_Nameservers = map (\<lambda>ns. \<lparr>pn_Name = ns_Name ns, pn_UnicodeName = ns_UnicodeName ns,
        pn_IPv4 = ns_IPv4 ns, pn_IPv6 = ns_IPv6 ns\<rparr>) (sd_Nameservers s),
      dr_DNSSEC = map_option (\<lambda>d. \<lparr>pk_Signed = ds_Signed d, pk_DelegationSigned = ds_DelegationSigned d\<rparr>)
        (sd_DNSSEC s),
      dr_Country = (case sd_Registrant s of None \<Rightarrow> [] | Some r \<Rightarrow> se_Country r),
      dr_RDAPServer = sd_RDAPServer s, dr_Cached = False\<rparr>)"

definition ipFromSchema :: "SimpleIP option \<Rightarrow> IPResponse option" where
  "ipFromSchema = map_option (\<lambda>s.
     \<lparr>ir_StartAddress = si_StartAddress s, ir_EndAddress = si_EndAddress s, ir_CIDR = si_CIDR s,
      ir_IPVersion = si_IPVersion s, ir_Handle = si_Handle s, ir_Name = si_Name s, ir_Type = si_Type s,
      ir_ParentHandle = si_ParentHandle s, ir_Status = si_Status s, ir_Country = si_Country s,
      ir_Registrant = contactFromSchema (si_Registrant s),
      ir_AdminContact = contactFromSchema (si_AdminContact s),
      ir_TechContact = contactFromSchema (si_TechContact s),
      ir_AbuseContact = contactFromSchema (si_AbuseContact s), ir_CreatedDate = si_CreatedDate s,
      ir_UpdatedDate = si_UpdatedDate s, ir_RDAPServer = si_RDAPServer s, ir_Cached = False\<rparr>)"

definition entityFromContact :: "SimpleEntity \<Rightarrow> string \<Rightarrow> PublicEntity" where
  "entityFromContact s role =
     \<lparr>pu_Handle = se_Handle s, pu_Name = se_Name s, pu_Organization = se_Organization s,
      pu_Email = se_Email s, pu_Phone = se_Phone s,
      pu_Roles = (if se_Roles s \<noteq> [] then se_Roles s else [role]), pu_Country = se_Country s\<rparr>"

definition asn_entities :: "SimpleASN \<Rightarrow> PublicEntity list" where
  "asn_entities s =
     concat (map (\<lambda>(contact, role). case contact of None \<Rightarrow> [] | Some c \<Rightarrow> [entityFromContact c role])
       [(sa_Registrant s, ''registrant''), (sa_AdminContact s, ''administrative''),
        (sa_TechContact s, ''technical''), (sa_AbuseContact s, ''abuse'')])"

definition asnFromSchema :: "SimpleASN option \<Rightarrow> ASNResponse option" where
  "asnFromSchema = map_option (\<lambda>s.
     \<lparr>nr_StartAutnum = (if sa_StartASN s \<noteq> 0 then sa_StartASN s else sa_ASN s),
      nr_EndAutnum = (if sa_EndASN s \<noteq> 0 then sa_EndASN s else sa_ASN s),
      nr_Handle = sa_Handle s, nr_Name = sa_Name s, nr_Type = sa_Type s, nr_Status = sa_Status s,
      nr_Country = sa_Country s, nr_CreatedDate = sa_CreatedDate s, nr_UpdatedDate = sa_UpdatedDate s,
      nr_Entities = asn_entities s, nr_RDAPServer = sa_RDAPServer s, nr_Cached = False\<rparr>)"

definition entityFromSchema :: "SimpleEntityFull option \<Rightarrow> EntityResponse option" where
  "entityFromSchema = map_option (\<lambda>s.
     \<lparr>xr_Handle = sf_Handle s, xr_Name = sf_Name s, xr_Organization = sf_Organization s,
      xr_Email = sf_Email s, xr_Phone = sf_Phone s, xr_Address = sf_Address s,
      xr_Country = sf_Country s, xr_Roles = sf_Roles s, xr_Status = sf_Status s,
      xr_CreatedDate = sf_CreatedDate s, xr_UpdatedDate = sf_UpdatedDate s,
      xr_RelatedIPNets = map (\<lambda>n. \<lparr>nt_Handle = su_Handle n, nt_StartAddress = su_StartAddress n,
        nt_EndAddress = su_EndAddress n, nt_Name = su_Name n, nt_Country = su_Country n\<rparr>) (sf_RelatedIPNets s),
      xr_RelatedASNs = map (\<lambda>a. \<lparr>ae_ASN = sn_ASN a, ae_Handle = sn_Handle a, ae_Name = sn_Name a,
        ae_Country = sn_Country a\<rparr>) (sf_RelatedASNs s),
      xr_RDAPServer = sf_RDAPServer s, xr_Cached = False\<rparr>)"

section \<open>Errors\<close>

datatype pub_sentinel =
    Pub_ErrNotFound | Pub_ErrInvalidRequest | Pub_ErrRateLimited | Pub_ErrTimeout | Pub_ErrServerNotAllowed

text \<open>An \<open>APIError\<close> has a status, a code and a message; \<open>PGo\<close> is an error of the internal packages.\<close>

datatype pub_error =
    PErr pub_sentinel | PApi nat string string | PWrap string pub_error | PGo go_error

fun as_api_error :: "pub_error \<Rightarrow> (nat \<times> string \<times> string) option" where
  "as_api_error (PErr s) = None"
| "as_api_error (PApi status code msg) = Some (status, code, msg)"
| "as_api_error (PWrap m e) = as_api_error e"
| "as_api_error (PGo e) = None"

fun pub_error_is :: "pub_error \<Rightarrow> pub_sentinel \<Rightarrow> bool" where
  "pub_error_is (PErr s) t = (s = t)"
| "pub_error_is (PApi status code msg) t = False"
| "pub_error_is (PWrap m e) t = pub_error_is e t"
| "pub_error_is (PGo e) t = False"

definition APIError_Error :: "nat \<Rightarrow> string \<Rightarrow> string \<Rightarrow> string" where
  "APIError_Error status code msg =
     (if code \<noteq> [] then ''API error '' @ show_nat status @ '' ('' @ code @ ''): '' @ msg
      else ''API error '' @ show_nat status @ '': '' @ msg)"

definition IsNotFound :: "nat \<Rightarrow> string \<Rightarrow> bool" where
  "IsNotFound status code \<longleftrightarrow> status = 404 \<or> code = ''NOT_FOUND''"

definition IsRateLimited :: "nat \<Rightarrow> string \<Rightarrow> bool" where
  "IsRateLimited status code \<longleftrightarrow> status = 429 \<or> code = ''RATE_LIMITED''"

definition IsServerError :: "nat \<Rightarrow> bool" where
  "IsServerError status \<longleftrightarrow> status \<ge> 500"

definition IsNotFoundError :: "pub_error \<Rightarrow> bool" where
  "IsNotFoundError err =
     (case as_api_error err of
        Some (status, code, _) \<Rightarrow> IsNotFound status code
      | None \<Rightarrow> pub_error_is err Pub_ErrNotFound)"

definition IsRateLimitedError :: "pub_error \<Rightarrow> bool" where
  "IsRateLimitedError err =
     (case as_api_error err of
        Some (status, code, _) \<Rightarrow> IsRateLimited status code
      | None \<Rightarrow> pub_error_is err Pub_ErrRateLimited)"

definition IsServerErrorFunc :: "pub_error \<Rightarrow> bool" where
  "IsServerErrorFunc err =
     (case as_api_error err of Some (status, _, _) \<Rightarrow> IsServerError status | None \<Rightarrow> False)"

section \<open>Domains\<close>

text \<open>The public suffix list: the registrable domain, or an error; and the suffix of a name.\<close>

record suffix_list =
  ps_EffectiveTLDPlusOne :: "string \<Rightarrow> string option"
  ps_PublicSuffix :: "string \<Rightarrow> string"

definition trimmed_name :: "string \<Rightarrow> string" where
  "trimmed_name name = trim_suffix (to_lower (trim_space name)) ''.''"

definition NormalizeDomain :: "suffix_list \<Rightarrow> string \<Rightarrow> string" where
  "NormalizeDomain ps name0 =
     (let name = trimmed_name name0 in
      if name = [] then []
      else (case ps_EffectiveTLDPlusOne ps name of None \<Rightarrow> name | Some domain \<Rightarrow> domain))"

definition IsPublicSuffix :: "suffix_list \<Rightarrow> string \<Rightarrow> bool" where
  "IsPublicSuffix ps name0 =
     (let name = trimmed_name name0 in if name = [] then False else ps_PublicSuffix ps name = name)"

section \<open>Lemmas\<close>

text \<open>An AS number range is never empty, and a number alone is the range of itself.\<close>

lemma asnFromSchema_range:
  assumes "asnFromSchema (Some s) = Some r"
  shows "nr_StartAutnum r \<in> {sa_StartASN s, sa_ASN s}" "nr_EndAutnum r \<in> {sa_EndASN s, sa_ASN s}"
    "sa_ASN s \<noteq> 0 \<Longrightarrow> nr_StartAutnum r \<noteq> 0 \<and> nr_EndAutnum r \<noteq> 0"
  using assms by (auto simp: asnFromSchema_def split: if_splits)

lemma asn_entities_roles: "e \<in> set (asn_entities s) \<Longrightarrow> pu_Roles e \<noteq> []"
  by (auto simp: asn_entities_def entityFromContact_def split: option.splits if_splits)

text \<open>A public suffix keeps its name.\<close>

lemma NormalizeDomain_suffix:
  "\<lbrakk>ps_EffectiveTLDPlusOne ps (trimmed_name name) = None; trimmed_name name \<noteq> []\<rbrakk> \<Longrightarrow>
   NormalizeDomain ps name = trimmed_name name"
  by (simp add: NormalizeDomain_def Let_def)

end
