(* ===== verification/Standalone.thy ===== *)
theory Standalone
  imports Rdap_Client Public_Types Memory_Cache
begin

text \<open>
  \<open>pkg/rdaplookup/standalone.go\<close>: the client that does the lookups itself, with the RDAP client, the bootstrap
  data and a memory cache of its own.  The lookups share one pattern, \<open>cached_query\<close>.  JSON, the public
  suffix list and what the bootstrap loader reads are parameters; logging is left out.
\<close>

section \<open>State\<close>

record standaloneConfig =
  sc_timeout :: int
  sc_cacheSize :: int
  sc_cacheTTL :: int
  sc_negativeTTL :: int
  sc_bootstrapRefresh :: int
  sc_maxRetries :: int
  sc_userAgent :: string
  sc_normalizeDomains :: bool
  sc_cacheEnabled :: bool

text \<open>
  \<open>st_once\<close> is the state of \<open>bootstrapOnce\<close> with \<open>bootstrapErr\<close>: \<open>None\<close> until the first load has run.
\<close>

record ('w, 'r, 'c) StandaloneClient =
  st_config :: standaloneConfig
  st_resolver :: "'r Bootstrap option"
  st_once :: "pub_error option option"
  st_client :: "('w, 'r) rdap_client"
  st_cache :: "'c option"
  st_closed :: bool

type_synonym standalone_option = "standaloneConfig \<Rightarrow> standaloneConfig"

definition WithStandaloneTimeout :: "int \<Rightarrow> standalone_option" where
  "WithStandaloneTimeout d c = c\<lparr>sc_timeout := d\<rparr>"

definition WithCacheSize :: "int \<Rightarrow> standalone_option" where
  "WithCacheSize bytes c = c\<lparr>sc_cacheSize := bytes\<rparr>"

definition WithCacheTTL :: "int \<Rightarrow> standalone_option" where
  "WithCacheTTL d c = c\<lparr>sc_cacheTTL := d\<rparr>"

definition WithNegativeTTL :: "int \<Rightarrow> standalone_option" where
  "WithNegativeTTL d c = c\<lparr>sc_negativeTTL := d\<rparr>"

definition WithBootstrapRefresh :: "int \<Rightarrow> standalone_option" where
  "WithBootstrapRefresh d c = c\<lparr>sc_bootstrapRefresh := d\<rparr>"

definition WithStandaloneMaxRetries :: "int \<Rightarrow> standalone_option" where
  "WithStandaloneMaxRetries n c = c\<lparr>sc_maxRetries := n\<rparr>"

definition WithStandaloneUserAgent :: "string \<Rightarrow> standalone_option" where
  "WithStandaloneUserAgent ua c = c\<lparr>sc_userAgent := ua\<rparr>"

definition WithStandaloneDomainNormalization :: "bool \<Rightarrow> standalone_option" where
  "WithStandaloneDomainNormalization enabled c = c\<lparr>sc_normalizeDomains := enabled\<rparr>"

definition WithoutCache :: standalone_option where
  "WithoutCache c = c\<lparr>sc_cacheEnabled := False\<rparr>"

definition default_standalone :: standaloneConfig where
  "default_standalone =
     \<lparr>sc_timeout = 10 * 10 ^ 9, sc_cacheSize = 50 * 1024 * 1024, sc_cacheTTL = 24 * 3600 * 10 ^ 9,
      sc_negativeTTL = 3600 * 10 ^ 9, sc_bootstrapRefresh = 24 * 3600 * 10 ^ 9, sc_maxRetries = 2,
      sc_userAgent = ''rdaplookup-standalone/1.0'', sc_normalizeDomains = True, sc_cacheEnabled = True\<rparr>"

text \<open>\<open>new_cache\<close> is \<open>cache.NewMemoryCache\<close> for a maximal size.\<close>

definition NewStandaloneClient ::
  "(int \<Rightarrow> (nat \<Rightarrow> go_error option) \<Rightarrow> 'w http_client) \<Rightarrow> (int \<Rightarrow> go_error + 'c) \<Rightarrow> standalone_option list \<Rightarrow>
   go_error + ('w, 'r, 'c) StandaloneClient" where
  "NewStandaloneClient mk new_cache opts =
     (let cfg = foldl (\<lambda>c opt. opt c) default_standalone opts;
          client = \<lparr>st_config = cfg, st_resolver = None, st_once = None,
            st_client = rdap_NewClient mk (sc_timeout cfg)
              [WithMaxRetries (sc_maxRetries cfg), WithUserAgent (sc_userAgent cfg)],
            st_cache = None, st_closed = False\<rparr> in
      if sc_cacheEnabled cfg then
        (case new_cache (sc_cacheSize cfg) of
           Inl err \<Rightarrow> Inl (Wrapped ''failed to create cache'' [err])
         | Inr c \<Rightarrow> Inr (client\<lparr>st_cache := Some c\<rparr>))
      else Inr client)"

section \<open>Bootstrap\<close>

definition use_resolver :: "'r Bootstrap \<Rightarrow> ('w, 'r, 'c) StandaloneClient \<Rightarrow> ('w, 'r, 'c) StandaloneClient" where
  "use_resolver b c = c\<lparr>st_resolver := Some b, st_client := Client_SetResolver (Some b) (st_client c)\<rparr>"

text \<open>\<open>load\<close> is the result of \<open>LoadAll\<close> at the time of the call.\<close>

definition loadBootstrap ::
  "go_error + 'r Bootstrap \<Rightarrow> ('w, 'r, 'c) StandaloneClient \<Rightarrow> pub_error option \<times> ('w, 'r, 'c) StandaloneClient" where
  "loadBootstrap load c =
     (case load of
        Inl err \<Rightarrow> (Some (PWrap ''failed to load bootstrap data'' (PGo err)), c)
      | Inr b \<Rightarrow> (None, use_resolver b c))"

definition ensureBootstrap ::
  "go_error + 'r Bootstrap \<Rightarrow> ('w, 'r, 'c) StandaloneClient \<Rightarrow> pub_error option \<times> ('w, 'r, 'c) StandaloneClient" where
  "ensureBootstrap load c =
     (case st_once c of
        Some err \<Rightarrow> (err, c)
      | None \<Rightarrow> (let (err, c1) = loadBootstrap load c in (err, c1\<lparr>st_once := Some err\<rparr>)))"

text \<open>One tick of \<open>backgroundRefresh\<close>.\<close>

definition background_tick ::
  "go_error + 'r Bootstrap \<Rightarrow> ('w, 'r, 'c) StandaloneClient \<Rightarrow> ('w, 'r, 'c) StandaloneClient" where
  "background_tick load c = (case load of Inl err \<Rightarrow> c | Inr b \<Rightarrow> use_resolver b c)"

definition Standalone_IsReady :: "('w, 'r, 'c) StandaloneClient \<Rightarrow> bool" where
  "Standalone_IsReady c \<longleftrightarrow> st_resolver c \<noteq> None"

text \<open>Closing twice is closing once; the memory cache is cleared.\<close>

definition Standalone_Close ::
  "'c cache_ops \<Rightarrow> ('w, 'r, 'c) StandaloneClient \<Rightarrow> ('w, 'r, 'c) StandaloneClient" where
  "Standalone_Close ops c =
     (if st_closed c then c
      else c\<lparr>st_closed := True, st_cache := map_option (\<lambda>m. snd (co_Clear ops m)) (st_cache c)\<rparr>)"

definition parseASN :: "string \<Rightarrow> 32 word option" where
  "parseASN s0 =
     (case parse_uint 32 (trim_prefix (to_upper (trim_space s0)) ''AS'') of
        None \<Rightarrow> None
      | Some n \<Rightarrow> if n = 0 then None else Some (of_nat n))"

datatype server_query = SQ_domain string | SQ_ip string | SQ_autnum string

definition getRDAPServer :: "'r ranger_ops \<Rightarrow> server_query \<Rightarrow> ('w, 'r, 'c) StandaloneClient \<Rightarrow> string" where
  "getRDAPServer ops q c =
     (case st_resolver c of
        None \<Rightarrow> []
      | Some b \<Rightarrow>
          (case (case q of
                   SQ_domain name \<Rightarrow> DNS_ResolveDomain (bs_DNS b) name
                 | SQ_ip addr \<Rightarrow> Resolver_ResolveIP ops b addr
                 | SQ_autnum s \<Rightarrow>
                     (case parseASN s of None \<Rightarrow> Inr [] | Some asn \<Rightarrow> ASN_ResolveASN (bs_ASN b) asn)) of
             Inr (u # us) \<Rightarrow> u
           | _ \<Rightarrow> []))"

definition standalone_normalize :: "string \<Rightarrow> string" where
  "standalone_normalize serverURL = trim_suffix (to_lower (trim_space serverURL)) ''/''"

definition isServerAllowed ::
  "(string set \<Rightarrow> string list) \<Rightarrow> string \<Rightarrow> ('w, 'r, 'c) StandaloneClient \<Rightarrow> bool" where
  "isServerAllowed list_of serverURL c =
     (case st_resolver c of
        None \<Rightarrow> False
      | Some b \<Rightarrow>
          list_ex (\<lambda>allowed. standalone_normalize allowed = standalone_normalize serverURL)
            (list_of (GetAllRDAPServers b)))"

section \<open>Lookups\<close>

text \<open>JSON for one kind of response; \<open>cd_mark\<close> sets its \<open>Cached\<close> field.\<close>

record 'a codec =
  cd_Marshal :: "'a \<Rightarrow> string option"
  cd_Unmarshal :: "string \<Rightarrow> 'a option"
  cd_mark :: "'a \<Rightarrow> 'a"

text \<open>
  The parameters of the lookups, and the clock at the probe and at the store.
\<close>

record ('w, 'r, 'c) standalone_env =
  sn_rdap :: "'w rdap_env"
  sn_ranger :: "'r ranger_ops"
  sn_cache :: "'c cache_ops"
  sn_load :: "go_error + 'r Bootstrap"
  sn_suffixes :: suffix_list
  sn_list :: "string set \<Rightarrow> string list"
  sn_now :: "int \<times> int"

type_synonym ('w, 'r, 'c, 'a) standalone_result =
  "((pub_error + 'a) \<times> ('w, 'r, 'c) StandaloneClient \<times> 'w) option"

definition cache_store ::
  "('w, 'r, 'c) standalone_env \<Rightarrow> string \<Rightarrow> string \<Rightarrow> int \<Rightarrow> bool \<Rightarrow> ('w, 'r, 'c) StandaloneClient \<Rightarrow>
   ('w, 'r, 'c) StandaloneClient" where
  "cache_store env key value ttl negative c =
     c\<lparr>st_cache := map_option (\<lambda>m. snd (co_Set (sn_cache env) m (snd (sn_now env)) key value ttl negative)) (st_cache c)\<rparr>"

text \<open>What the cache says: the response, "not found", or nothing usable.\<close>

definition cache_probe ::
  "('w, 'r, 'c) standalone_env \<Rightarrow> 'a codec \<Rightarrow> string \<Rightarrow> ('w, 'r, 'c) StandaloneClient \<Rightarrow>
   (pub_error + 'a) option \<times> ('w, 'r, 'c) StandaloneClient" where
  "cache_probe env cd key c =
     (case st_cache c of
        None \<Rightarrow> (None, c)
      | Some m \<Rightarrow>
          (let (r, m1) = co_Get (sn_cache env) m (fst (sn_now env)) key; c1 = c\<lparr>st_cache := Some m1\<rparr> in
           case r of
             Inl _ \<Rightarrow> (None, c1)
           | Inr entry \<Rightarrow>
               if e_Negative entry then (Some (Inl (PErr Pub_ErrNotFound)), c1)
               else (case cd_Unmarshal cd (e_Value entry) of
                       None \<Rightarrow> (None, c1)
                     | Some resp \<Rightarrow> (Some (Inr (cd_mark cd resp)), c1))))"

definition cached_query ::
  "('w, 'r, 'c) standalone_env \<Rightarrow> 'a codec \<Rightarrow> string \<Rightarrow>
   (('w, 'r, 'c) StandaloneClient \<Rightarrow> 'w \<Rightarrow> ('b, 'w) query_result) \<Rightarrow>
   (('w, 'r, 'c) StandaloneClient \<Rightarrow> 'b \<Rightarrow> 'a) \<Rightarrow> ('w, 'r, 'c) StandaloneClient \<Rightarrow> 'w \<Rightarrow>
   ('w, 'r, 'c, 'a) standalone_result" where
  "cached_query env cd key query convert c w =
     (case cache_probe env cd key c of
        (Some res, c1) \<Rightarrow> Some (res, c1, w)
      | (None, c1) \<Rightarrow>
          (case query c1 w of
             None \<Rightarrow> None
           | Some (Inl err, w1) \<Rightarrow>
               if error_is err Rdap_ErrNotFound then
                 Some (Inl (PErr Pub_ErrNotFound), cache_store env key [] (sc_negativeTTL (st_config c1)) True c1, w1)
               else Some (Inl (PGo err), c1, w1)
           | Some (Inr raw, w1) \<Rightarrow>
               (let resp = convert c1 raw in
                Some (Inr resp,
                      (case cd_Marshal cd resp of
                         None \<Rightarrow> c1
                       | Some data \<Rightarrow> cache_store env key data (sc_cacheTTL (st_config c1)) False c1), w1))))"

text \<open>The checks every lookup starts with.\<close>

definition with_bootstrap ::
  "('w, 'r, 'c) standalone_env \<Rightarrow> (('w, 'r, 'c) StandaloneClient \<Rightarrow> 'w \<Rightarrow> ('w, 'r, 'c, 'a) standalone_result) \<Rightarrow>
   ('w, 'r, 'c) StandaloneClient \<Rightarrow> 'w \<Rightarrow> ('w, 'r, 'c, 'a) standalone_result" where
  "with_bootstrap env k c w =
     (if st_closed c then Some (Inl (PGo (OtherError ''client is closed'')), c, w)
      else (case ensureBootstrap (sn_load env) c of
              (Some err, c1) \<Rightarrow> Some (Inl (PWrap ''bootstrap initialization failed'' err), c1, w)
            | (None, c1) \<Rightarrow> k c1 w))"

definition Standalone_LookupDomain ::
  "('w, 'r, 'c) standalone_env \<Rightarrow> DomainResponse option codec \<Rightarrow> string \<Rightarrow> ('w, 'r, 'c) StandaloneClient \<Rightarrow> 'w \<Rightarrow>
   ('w, 'r, 'c, DomainResponse option) standalone_result" where
  "Standalone_LookupDomain env cd name0 = with_bootstrap env (\<lambda>c w.
     let name1 = (if sc_normalizeDomains (st_config c) then NormalizeDomain (sn_suffixes env) name0 else name0) in
     if name1 = [] then Some (Inl (PGo (OtherError ''invalid domain name'')), c, w)
     else let name = to_lower (trim_suffix name1 ''.'') in
       cached_query env cd (BuildKey KeyPrefixDomain name)
         (\<lambda>c. QueryDomain (sn_rdap env) (st_client c) name)
         (\<lambda>c raw. domainFromSchema (TransformDomain (Some raw) (getRDAPServer (sn_ranger env) (SQ_domain name) c))) c w)"

definition Standalone_LookupIP ::
  "('w, 'r, 'c) standalone_env \<Rightarrow> IPResponse option codec \<Rightarrow> string \<Rightarrow> ('w, 'r, 'c) StandaloneClient \<Rightarrow> 'w \<Rightarrow>
   ('w, 'r, 'c, IPResponse option) standalone_result" where
  "Standalone_LookupIP env cd addr = with_bootstrap env (\<lambda>c w.
     if addr = [] then Some (Inl (PGo (OtherError ''invalid IP address'')), c, w)
     else cached_query env cd (BuildKey KeyPrefixIP addr)
       (\<lambda>c. QueryIP (sn_ranger env) (sn_rdap env) (st_client c) addr)
       (\<lambda>c raw. ipFromSchema (TransformIP (Some raw) (getRDAPServer (sn_ranger env) (SQ_ip addr) c))) c w)"

definition Standalone_LookupASN ::
  "('w, 'r, 'c) standalone_env \<Rightarrow> ASNResponse option codec \<Rightarrow> string \<Rightarrow> ('w, 'r, 'c) StandaloneClient \<Rightarrow> 'w \<Rightarrow>
   ('w, 'r, 'c, ASNResponse option) standalone_result" where
  "Standalone_LookupASN env cd s = with_bootstrap env (\<lambda>c w.
     case parseASN s of
       None \<Rightarrow> Some (Inl (PWrap ''invalid ASN'' (PGo (OtherError s))), c, w)
     | Some asn \<Rightarrow>
         (let text = show_nat (unat asn) in
          cached_query env cd (BuildKey KeyPrefixASN text)
            (\<lambda>c. QueryASN (sn_rdap env) (st_client c) asn)
            (\<lambda>c raw. asnFromSchema (TransformASN (Some raw) (getRDAPServer (sn_ranger env) (SQ_autnum text) c))) c w))"

definition Standalone_LookupEntity ::
  "('w, 'r, 'c) standalone_env \<Rightarrow> EntityResponse option codec \<Rightarrow> string \<Rightarrow> string \<Rightarrow> ('w, 'r, 'c) StandaloneClient \<Rightarrow> 'w \<Rightarrow>
   ('w, 'r, 'c, EntityResponse option) standalone_result" where
  "Standalone_LookupEntity env cd handle serverURL = with_bootstrap env (\<lambda>c w.
     if handle = [] then Some (Inl (PGo (OtherError ''invalid entity handle'')), c, w)
     else if serverURL = [] then Some (Inl (PGo (OtherError ''server URL required for entity lookup'')), c, w)
     else if \<not> isServerAllowed (sn_list env) serverURL c then
       Some (Inl (PWrap serverURL (PErr Pub_ErrServerNotAllowed)), c, w)
     else cached_query env cd (BuildKey KeyPrefixEntity (serverURL @ '':'' @ handle))
       (\<lambda>c w. Some (QueryEntity (sn_rdap env) (st_client c) handle serverURL w))
       (\<lambda>c raw. entityFromSchema (TransformEntityResponse (Some raw) serverURL)) c w)"

section \<open>Batches\<close>

datatype lookup_data =
    Data_Domain DomainResponse | Data_IP IPResponse | Data_ASN ASNResponse | Data_Entity EntityResponse

record PublicBatchResult =
  pb_Type :: string
  pb_Value :: string
  pb_Data :: "lookup_data option"
  pb_Cached :: bool
  pb_Error :: string

record PublicBatchStats =
  bs_Total :: nat
  bs_Success :: nat
  bs_Errors :: nat
  bs_CacheHits :: nat

record codecs =
  co_domain :: "DomainResponse option codec"
  co_ip :: "IPResponse option codec"
  co_asn :: "ASNResponse option codec"
  co_entity :: "EntityResponse option codec"

text \<open>The result of one query; \<open>text\<close> is the \<open>Error\<close> method of an error.\<close>

definition put_result ::
  "(pub_error \<Rightarrow> string) \<Rightarrow> PublicBatchQuery \<Rightarrow> ('a \<Rightarrow> lookup_data \<times> bool) \<Rightarrow> ('w, 'r, 'c, 'a option) standalone_result \<Rightarrow>
   (PublicBatchResult \<times> ('w, 'r, 'c) StandaloneClient \<times> 'w) option" where
  "put_result text q data r =
     (let empty = \<lparr>pb_Type = pq_Type q, pb_Value = pq_Value q, pb_Data = None, pb_Cached = False, pb_Error = []\<rparr> in
      case r of
        None \<Rightarrow> None
      | Some (Inl err, c, w) \<Rightarrow> Some (empty\<lparr>pb_Error := text err\<rparr>, c, w)
      | Some (Inr None, c, w) \<Rightarrow> None
      | Some (Inr (Some resp), c, w) \<Rightarrow>
          Some (empty\<lparr>pb_Data := Some (fst (data resp)), pb_Cached := snd (data resp)\<rparr>, c, w))"

definition standalone_query ::
  "('w, 'r, 'c) standalone_env \<Rightarrow> codecs \<Rightarrow> (pub_error \<Rightarrow> string) \<Rightarrow> PublicBatchQuery \<Rightarrow>
   ('w, 'r, 'c) StandaloneClient \<Rightarrow> 'w \<Rightarrow> (PublicBatchResult \<times> ('w, 'r, 'c) StandaloneClient \<times> 'w) option" where
  "standalone_query env cs text q c w =
     (if pq_Type q = ''domain'' then
        put_result text q (\<lambda>r. (Data_Domain r, dr_Cached r)) (Standalone_LookupDomain env (co_domain cs) (pq_Value q) c w)
      else if pq_Type q = ''ip'' then
        put_result text q (\<lambda>r. (Data_IP r, ir_Cached r)) (Standalone_LookupIP env (co_ip cs) (pq_Value q) c w)
      else if pq_Type q = ''asn'' then
        put_result text q (\<lambda>r. (Data_ASN r, nr_Cached r)) (Standalone_LookupASN env (co_asn cs) (pq_Value q) c w)
      else if pq_Type q = ''entity'' then
        put_result text q (\<lambda>r. (Data_Entity r, xr_Cached r))
          (Standalone_LookupEntity env (co_entity cs) (pq_Value q) (pq_ServerURL q) c w)
      else Some (\<lparr>pb_Type = pq_Type q, pb_Value = pq_Value q, pb_Data = None, pb_Cached = False,
                  pb_Error = ''unsupported query type''\<rparr>, c, w))"

text \<open>The goroutines in the order in which they run, each for its index.\<close>

fun standalone_batch ::
  "('w, 'r, 'c) standalone_env \<Rightarrow> codecs \<Rightarrow> (pub_error \<Rightarrow> string) \<Rightarrow> PublicBatchQuery list \<Rightarrow> nat list \<Rightarrow>
   PublicBatchResult list \<Rightarrow> ('w, 'r, 'c) StandaloneClient \<Rightarrow> 'w \<Rightarrow>
   (PublicBatchResult list \<times> ('w, 'r, 'c) StandaloneClient \<times> 'w) option" where
  "standalone_batch env cs text qs [] results c w = Some (results, c, w)"
| "standalone_batch env cs text qs (i # order) results c w =
     (case standalone_query env cs text (qs ! i) c w of
        None \<Rightarrow> None
      | Some (r, c1, w1) \<Rightarrow> standalone_batch env cs text qs order (results[i := r]) c1 w1)"

definition standalone_stats :: "PublicBatchResult list \<Rightarrow> PublicBatchStats" where
  "standalone_stats results =
     foldl (\<lambda>st r.
         if pb_Error r \<noteq> [] then st\<lparr>bs_Errors := Suc (bs_Errors st)\<rparr>
         else let st1 = st\<lparr>bs_Success := Suc (bs_Success st)\<rparr>
              in if pb_Cached r then st1\<lparr>bs_CacheHits := Suc (bs_CacheHits st1)\<rparr> else st1)
       \<lparr>bs_Total = length results, bs_Success = 0, bs_Errors = 0, bs_CacheHits = 0\<rparr> results"

definition Standalone_BatchLookup ::
  "('w, 'r, 'c) standalone_env \<Rightarrow> codecs \<Rightarrow> (pub_error \<Rightarrow> string) \<Rightarrow> nat list \<Rightarrow> PublicBatchQuery list option \<Rightarrow>
   ('w, 'r, 'c) StandaloneClient \<Rightarrow> 'w \<Rightarrow>
   ((pub_error + PublicBatchResult list \<times> PublicBatchStats) \<times> ('w, 'r, 'c) StandaloneClient \<times> 'w) option" where
  "Standalone_BatchLookup env cs text order req c w =
     (if st_closed c then Some (Inl (PGo (OtherError ''client is closed'')), c, w)
      else let qs = (case req of None \<Rightarrow> [] | Some qs \<Rightarrow> qs) in
        if qs = [] then Some (Inr ([], \<lparr>bs_Total = 0, bs_Success = 0, bs_Errors = 0, bs_CacheHits = 0\<rparr>), c, w)
        else (case standalone_batch env cs text qs order
                (replicate (length qs) \<lparr>pb_Type = [], pb_Value = [], pb_Data = None, pb_Cached = False, pb_Error = []\<rparr>)
                c w of
                None \<Rightarrow> None
              | Some (results, c1, w1) \<Rightarrow> Some (Inr (results, standalone_stats results), c1, w1)))"

section \<open>Bootstrap happens once\<close>

text \<open>A failure of the first load is the answer of every later lookup; refreshes do not change that.\<close>

lemma ensureBootstrap_once: "st_once c = Some err \<Longrightarrow> ensureBootstrap load c = (err, c)"
  by (simp add: ensureBootstrap_def)

lemma with_bootstrap_failed:
  "\<lbrakk>\<not> st_closed c; st_once c = Some (Some err)\<rbrakk> \<Longrightarrow>
   with_bootstrap env k c w = Some (Inl (PWrap ''bootstrap initialization failed'' err), c, w)"
  by (simp add: with_bootstrap_def ensureBootstrap_once)

lemma with_bootstrap_first_failure:
  "\<lbrakk>\<not> st_closed c; st_once c = None; sn_load env = Inl err\<rbrakk> \<Longrightarrow>
   with_bootstrap env k c w =
     Some (Inl (PWrap ''bootstrap initialization failed'' (PWrap ''failed to load bootstrap data'' (PGo err))),
       c\<lparr>st_once := Some (Some (PWrap ''failed to load bootstrap data'' (PGo err)))\<rparr>, w)"
  by (simp add: with_bootstrap_def ensureBootstrap_def loadBootstrap_def)

lemma background_tick_once [simp]:
  "st_once (background_tick load c) = st_once c" "st_closed (background_tick load c) = st_closed c"
  by (simp_all add: background_tick_def use_resolver_def split: sum.split)

lemma background_tick_ready: "Standalone_IsReady (background_tick (Inr b) c)"
  by (simp add: background_tick_def use_resolver_def Standalone_IsReady_def)

lemmas standalone_lookups =
  Standalone_LookupDomain_def Standalone_LookupIP_def Standalone_LookupASN_def Standalone_LookupEntity_def

section \<open>Cached responses\<close>

lemma cache_probe_None:
  assumes "cache_probe env cd key c = (None, c1)"
  shows "st_config c1 = st_config c" "st_closed c1 = st_closed c" "st_once c1 = st_once c"
  using assms by (auto simp: cache_probe_def Let_def split: option.splits prod.splits sum.splits if_splits)

text \<open>A response that was fetched and encoded is found again until its lifetime has passed.\<close>

lemma cached_query_repeat:
  assumes "sn_cache env = memory_ops ops" "sn_cache env' = memory_ops ops" "lru_ok ops items cap"
    and "cache_probe env cd key c = (None, c0)" and "st_cache c \<noteq> None"
    and "cached_query env cd key query convert c w = Some (Inr resp, c1, w1)" and "cd_Marshal cd resp = Some data"
    and "cd_Unmarshal cd data = Some resp'"
    and "fst (sn_now env') \<le> snd (sn_now env) + sc_cacheTTL (st_config c)"
  shows "\<exists>c2. cached_query env' cd key query' convert' c1 w' = Some (Inr (cd_mark cd resp'), c2, w')"
proof -
  have c1: "c1 = cache_store env key data (sc_cacheTTL (st_config c)) False c0"
    using assms(4,6,7) cache_probe_None(1) [OF assms(4)]
    by (auto simp: cached_query_def Let_def split: option.splits prod.splits sum.splits if_splits)
  obtain m where m: "st_cache c0 = Some m"
    using assms(4,5) by (auto simp: cache_probe_def Let_def split: option.splits prod.splits sum.splits if_splits)
  let ?set = "mem_Set ops m (snd (sn_now env)) key data (sc_cacheTTL (st_config c)) False"
  have "st_cache c1 = Some (snd ?set)"
    using m by (simp add: c1 cache_store_def assms(1) memory_ops_def)
  moreover obtain e m2 where "mem_Get ops (snd ?set) (fst (sn_now env')) key = (Inr e, m2)"
    "e_Value e = data" "\<not> e_Negative e"
    using mem_Get_Set [OF assms(3) _ assms(9), where r = "fst ?set" and m' = "snd ?set"] by (metis prod.collapse)
  ultimately have "cache_probe env' cd key c1 = (Some (Inr (cd_mark cd resp')), c1\<lparr>st_cache := Some m2\<rparr>)"
    using assms(8) by (simp add: cache_probe_def assms(2) memory_ops_def)
  then show ?thesis by (simp add: cached_query_def)
qed

section \<open>AS numbers\<close>

text \<open>A number is read back, with or without the prefix.\<close>

lemma digit_plain: "is_digit c \<Longrightarrow> solid_char c \<and> ascii_upper c = c \<and> \<not> is_high c \<and> c \<noteq> CHR ''A''"
  by (cases c) (auto simp: solid_char_def ascii_space_def ascii_upper_def)

lemma digits_plain:
  assumes "all_digits ds"
  shows "map ascii_upper ds = ds" "is_ascii ds" "solid_char (last ds)" "ds \<noteq> []" "solid_char (hd ds)"
    "trim_prefix ds ''AS'' = ds"
proof -
  show "ds \<noteq> []" using assms by (simp add: all_digits_def)
  then obtain c cs where ds: "ds = c # cs" by (cases ds) auto
  have all: "\<forall>c \<in> set ds. is_digit c" using assms by (simp add: all_digits_def list_all_iff)
  then show "map ascii_upper ds = ds" "is_ascii ds" "solid_char (last ds)" "solid_char (hd ds)"
    using digit_plain \<open>ds \<noteq> []\<close> by (auto simp: is_ascii_def intro: map_idI)
  show "trim_prefix ds ''AS'' = ds" using all digit_plain [of c] by (auto simp: ds trim_prefix_def)
qed

lemma parseASN_show:
  assumes "asn \<noteq> 0" "p \<in> {[], ''AS'', ''as''}"
  shows "parseASN (p @ show_nat (unat asn)) = Some asn"
proof -
  let ?ds = "show_nat (unat asn)"
  note ds = digits_plain [OF all_digits_show_nat [of "unat asn"]]
  have "clean (p @ ?ds)" using assms(2) ds(3-5) by (auto simp: clean_def solid_char_def ascii_space_def)
  then have "to_upper (trim_space (p @ ?ds)) = map ascii_upper p @ ?ds"
    using assms(2) ds(1,2) by (auto simp: trim_space_clean to_upper_def)
  moreover have "trim_prefix (map ascii_upper p @ ?ds) ''AS'' = ?ds"
    using assms(2) ds(6) by (elim insertE emptyE) (simp, simp_all add: trim_prefix_def ascii_upper_def)
  ultimately show ?thesis
    using assms(1) by (simp add: parseASN_def parse_uint_word unat_eq_zero)
qed

section \<open>Entities\<close>

text \<open>
  A lookup of an entity asks no server but the one given, and that one only when the bootstrap data lists it.
\<close>

lemma cached_query_world:
  "cached_query env cd key query convert c w = Some (res, c1, w1) \<Longrightarrow>
   w1 = w \<or> (\<exists>c0 r. snd (cache_probe env cd key c) = c0 \<and> query c0 w = Some (r, w1))"
  by (auto simp: cached_query_def Let_def split: option.splits prod.splits sum.splits if_splits)

lemma cache_probe_client: "st_client (snd (cache_probe env cd key c)) = st_client c"
  by (auto simp: cache_probe_def Let_def split: option.splits prod.splits sum.splits)

lemma Standalone_LookupEntity_log:
  assumes "traced (sn_rdap env) (st_client c) log" and "st_once c \<noteq> None"
    and "Standalone_LookupEntity env cd handle serverURL c w = Some (res, c1, w1)"
  shows "\<exists>sent. log w1 = log w @ sent \<and> length sent \<le> nat (rc_maxRetries (st_client c) + 1) \<and>
    set sent \<subseteq> {base_url serverURL @ ''entity/'' @ PathEscape handle} \<and>
    (sent \<noteq> [] \<longrightarrow> isServerAllowed (sn_list env) serverURL c)"
proof (cases "w1 = w")
  case False
  let ?p = "''entity/'' @ PathEscape handle" and ?c0 = "snd (cache_probe env cd (BuildKey KeyPrefixEntity (serverURL @ '':'' @ handle)) c)"
  have allowed: "isServerAllowed (sn_list env) serverURL c"
    and w1: "w1 = snd (QueryEntity (sn_rdap env) (st_client c) handle serverURL w)"
    and guards: "handle \<noteq> []" "serverURL \<noteq> []"
    using assms(2,3) False
    by (auto simp: Standalone_LookupEntity_def with_bootstrap_def ensureBootstrap_def cache_probe_client
        dest!: cached_query_world split: option.splits if_splits)
  obtain sent where sent: "log w1 = log w @ sent" "prefix sent (requests (st_client c) [serverURL] ?p)"
    using queryWithRetry_log [OF assms(1), of "[serverURL]" ?p w] guards
    by (auto simp: w1 QueryEntity_def)
  have "length sent \<le> nat (rc_maxRetries (st_client c) + 1)"
    using prefix_length_le [OF sent(2)] length_requests [of "st_client c" "[serverURL]" ?p] by simp
  moreover have "set sent \<subseteq> {base_url serverURL @ ?p}"
    using set_mono_prefix [OF sent(2)] set_requests [of "st_client c" "[serverURL]" ?p] by auto
  ultimately show ?thesis using sent(1) allowed by blast
qed (auto intro: exI [of _ "[]"])

end
