(* ===== verification/Rate_Limiter.thy ===== *)
theory Rate_Limiter
  imports GoErrors GoNet
begin

text \<open>
  \<open>internal/api/ratelimit.go\<close>: the limiter per client address, with a fall-back per subnet when the map
  is full.  The token bucket is \<open>golang.org/x/time/rate\<close>, a parameter.  The operations are given twice:
  as functions on the state, for a request that runs alone, and as a step relation in which requests and
  the cleanup interleave between their accesses to the maps and the counters.  Metrics are left out;
  the warnings are a function of their own.
\<close>

section \<open>Subnets\<close>

text \<open>The text of an address: \<open>net.IP.String\<close>, with the longest run of zero groups left out.\<close>

definition show_ipv4 :: "nat list \<Rightarrow> string" where
  "show_ipv4 bs = join_with ''.'' (map show_nat bs)"

fun groups_of :: "nat list \<Rightarrow> nat list" where
  "groups_of (a # b # bs) = (256 * a + b) # groups_of bs"
| "groups_of _ = []"

definition hex_lower :: "nat \<Rightarrow> char" where
  "hex_lower d = ''0123456789abcdef'' ! d"

fun show_hex :: "nat \<Rightarrow> string" where
  "show_hex n = (if n < 16 then [hex_lower n] else show_hex (n div 16) @ [hex_lower (n mod 16)])"

definition zero_run :: "nat list \<Rightarrow> nat \<Rightarrow> nat" where
  "zero_run gs i = length (takeWhile (\<lambda>g. g = 0) (drop i gs))"

text \<open>Where the longest run of at least two zero groups starts and ends: the first one of that length.\<close>

definition longest_zero_run :: "nat list \<Rightarrow> (nat \<times> nat) option" where
  "longest_zero_run gs =
     foldl (\<lambda>best i. let l = zero_run gs i in
         if l \<ge> 2 \<and> (case best of None \<Rightarrow> True | Some (s, e) \<Rightarrow> l > e - s) then Some (i, i + l) else best)
       None [0..<length gs]"

definition show_ipv6 :: "nat list \<Rightarrow> string" where
  "show_ipv6 bs =
     (let gs = groups_of bs in
      case longest_zero_run gs of
        None \<Rightarrow> join_with '':'' (map show_hex gs)
      | Some (s, e) \<Rightarrow>
          join_with '':'' (map show_hex (take s gs)) @ ''::'' @ join_with '':'' (map show_hex (drop e gs)))"

text \<open>\<open>To4\<close>: the four bytes of an IPv4 address, also of one embedded in an IPv6 address.\<close>

definition v4InV6Prefix :: "nat list" where
  "v4InV6Prefix = replicate 10 0 @ [255, 255]"

definition To4 :: "ip_addr \<Rightarrow> nat list option" where
  "To4 a =
     (case a of
        IPv4 bs \<Rightarrow> Some bs
      | IPv6 bs _ \<Rightarrow> if take 12 bs = v4InV6Prefix then Some (drop 12 bs) else None)"

definition ipToSubnet :: "string \<Rightarrow> string" where
  "ipToSubnet ip =
     (case ParseIP ip of
        None \<Rightarrow> ip
      | Some parsed \<Rightarrow>
          (case To4 parsed of
             Some bs \<Rightarrow> show_ipv4 (take 3 bs @ [0])
           | None \<Rightarrow> show_ipv6 (take 8 (ip_bytes parsed) @ replicate 8 0)))"

section \<open>State\<close>

definition maxRateLimiterEntries :: int where "maxRateLimiterEntries = 100000"
definition maxSubnetLimiterEntries :: int where "maxSubnetLimiterEntries = 10000"
definition maxAge :: int where "maxAge = 10 * 60 * 10 ^ 9"

text \<open>The token bucket: its construction from a rate and a burst, and \<open>Allow\<close> at a time.\<close>

record ('f, 'l) bucket_ops =
  bo_New :: "'f \<Rightarrow> int \<Rightarrow> 'l"
  bo_Quarter :: "'f \<Rightarrow> 'f"
  bo_Allow :: "'l \<Rightarrow> int \<Rightarrow> bool \<times> 'l"

text \<open>
  A limiter is shared by pointer: the maps hold its address and the time of the last access, the heap
  its state.
\<close>

type_synonym entry_map = "string \<rightharpoonup> nat \<times> int"

record ('f, 'l) IPRateLimiter =
  ip_limiters :: entry_map
  ip_subnetLimiters :: entry_map
  ip_rate :: 'f
  ip_burst :: int
  ip_size :: int
  ip_subnetSize :: int
  ip_heap :: "'l list"

definition NewIPRateLimiter :: "'f \<Rightarrow> int \<Rightarrow> ('f, 'l) IPRateLimiter" where
  "NewIPRateLimiter rps burst =
     \<lparr>ip_limiters = Map.empty, ip_subnetLimiters = Map.empty, ip_rate = rps, ip_burst = burst,
      ip_size = 0, ip_subnetSize = 0, ip_heap = []\<rparr>"

section \<open>A request that runs alone\<close>

definition alloc :: "'l \<Rightarrow> ('f, 'l) IPRateLimiter \<Rightarrow> nat \<times> ('f, 'l) IPRateLimiter" where
  "alloc l rl = (length (ip_heap rl), rl\<lparr>ip_heap := ip_heap rl @ [l]\<rparr>)"

definition new_limiter :: "('f, 'l) bucket_ops \<Rightarrow> ('f, 'l) IPRateLimiter \<Rightarrow> 'l" where
  "new_limiter ops rl = bo_New ops (ip_rate rl) (ip_burst rl)"

definition new_subnet_limiter :: "('f, 'l) bucket_ops \<Rightarrow> ('f, 'l) IPRateLimiter \<Rightarrow> 'l" where
  "new_subnet_limiter ops rl = bo_New ops (bo_Quarter ops (ip_rate rl)) (max (ip_burst rl div 2) 1)"

definition getSubnetLimiter ::
  "('f, 'l) bucket_ops \<Rightarrow> int \<Rightarrow> string \<Rightarrow> ('f, 'l) IPRateLimiter \<Rightarrow> nat option \<times> ('f, 'l) IPRateLimiter" where
  "getSubnetLimiter ops now ip rl =
     (let subnet = ipToSubnet ip in
      case ip_subnetLimiters rl subnet of
        Some (p, _) \<Rightarrow> (Some p, rl\<lparr>ip_subnetLimiters := (ip_subnetLimiters rl)(subnet \<mapsto> (p, now))\<rparr>)
      | None \<Rightarrow>
          if ip_subnetSize rl \<ge> maxSubnetLimiterEntries then (None, rl)
          else (let (p, rl1) = alloc (new_subnet_limiter ops rl) rl in
                (Some p, rl1\<lparr>ip_subnetLimiters := (ip_subnetLimiters rl)(subnet \<mapsto> (p, now)),
                             ip_subnetSize := ip_subnetSize rl + 1\<rparr>)))"

definition getLimiter ::
  "('f, 'l) bucket_ops \<Rightarrow> int \<Rightarrow> string \<Rightarrow> ('f, 'l) IPRateLimiter \<Rightarrow> nat option \<times> ('f, 'l) IPRateLimiter" where
  "getLimiter ops now ip rl =
     (case ip_limiters rl ip of
        Some (p, _) \<Rightarrow> (Some p, rl\<lparr>ip_limiters := (ip_limiters rl)(ip \<mapsto> (p, now))\<rparr>)
      | None \<Rightarrow>
          if ip_size rl \<ge> maxRateLimiterEntries then getSubnetLimiter ops now ip rl
          else (let (p, rl1) = alloc (new_limiter ops rl) rl in
                (Some p, rl1\<lparr>ip_limiters := (ip_limiters rl)(ip \<mapsto> (p, now)), ip_size := ip_size rl + 1\<rparr>)))"

text \<open>The middleware: whether the request goes on to the next handler.\<close>

definition RateLimitMiddleware ::
  "('f, 'l) bucket_ops \<Rightarrow> int \<Rightarrow> string \<Rightarrow> ('f, 'l) IPRateLimiter \<Rightarrow> bool \<times> ('f, 'l) IPRateLimiter" where
  "RateLimitMiddleware ops now ip rl =
     (case getLimiter ops now ip rl of
        (None, rl1) \<Rightarrow> (False, rl1)
      | (Some p, rl1) \<Rightarrow>
          (let (ok, l) = bo_Allow ops (ip_heap rl1 ! p) now in (ok, rl1\<lparr>ip_heap := (ip_heap rl1)[p := l]\<rparr>)))"

text \<open>
  One round of the cleanup, for the keys in the order in which \<open>Range\<close> visits them: entries that were
  not accessed for longer than \<open>maxAge\<close> go.
\<close>

definition cleanup_entry :: "int \<Rightarrow> entry_map \<times> int \<Rightarrow> string \<Rightarrow> entry_map \<times> int" where
  "cleanup_entry now st k =
     (let (m, n) = st in
      case m k of
        None \<Rightarrow> (m, n)
      | Some (p, t) \<Rightarrow> if now - t > maxAge then (m(k := None), n - 1) else (m, n))"

definition cleanup_map :: "int \<Rightarrow> string list \<Rightarrow> entry_map \<times> int \<Rightarrow> entry_map \<times> int" where
  "cleanup_map now keys st = foldl (cleanup_entry now) st keys"

definition cleanup ::
  "int \<Rightarrow> string list \<Rightarrow> string list \<Rightarrow> ('f, 'l) IPRateLimiter \<Rightarrow> ('f, 'l) IPRateLimiter" where
  "cleanup now keys subnets rl =
     (let (m, n) = cleanup_map now keys (ip_limiters rl, ip_size rl);
          (m', n') = cleanup_map now subnets (ip_subnetLimiters rl, ip_subnetSize rl)
      in rl\<lparr>ip_limiters := m, ip_size := n, ip_subnetLimiters := m', ip_subnetSize := n'\<rparr>)"

text \<open>
  The warnings: which ones were given, and the message for a size; a cleanup takes them back below the
  thresholds.
\<close>

definition warningThreshold80 :: int where "warningThreshold80 = 80000"
definition warningThreshold90 :: int where "warningThreshold90 = 90000"

record warnings =
  wa_capacity :: bool
  wa_critical :: bool

definition logCapacityWarnings :: "int \<Rightarrow> warnings \<Rightarrow> warnings \<times> string option" where
  "logCapacityWarnings currentSize wa =
     (if currentSize \<ge> warningThreshold90 \<and> \<not> wa_critical wa then
        (wa\<lparr>wa_critical := True\<rparr>, Some ''rate limiter at critical capacity'')
      else if currentSize \<ge> warningThreshold80 \<and> \<not> wa_capacity wa then
        (wa\<lparr>wa_capacity := True\<rparr>, Some ''rate limiter approaching capacity'')
      else (wa, None))"

definition reset_warnings :: "int \<Rightarrow> warnings \<Rightarrow> warnings" where
  "reset_warnings currentSize wa =
     (if currentSize < warningThreshold80 then wa\<lparr>wa_capacity := False, wa_critical := False\<rparr>
      else if currentSize < warningThreshold90 then wa\<lparr>wa_critical := False\<rparr>
      else wa)"

section \<open>The counters\<close>

text \<open>Between requests the counters are the sizes of the maps.\<close>

definition counted :: "('f, 'l) IPRateLimiter \<Rightarrow> bool" where
  "counted rl \<longleftrightarrow>
     finite (dom (ip_limiters rl)) \<and> ip_size rl = int (card (dom (ip_limiters rl))) \<and>
     finite (dom (ip_subnetLimiters rl)) \<and> ip_subnetSize rl = int (card (dom (ip_subnetLimiters rl))) \<and>
     ip_size rl \<le> maxRateLimiterEntries \<and> ip_subnetSize rl \<le> maxSubnetLimiterEntries"

lemma counted_New: "counted (NewIPRateLimiter rps burst)"
  by (simp add: counted_def NewIPRateLimiter_def maxRateLimiterEntries_def maxSubnetLimiterEntries_def)

lemma getSubnetLimiter_counted [step_inv]:
  "counted rl \<Longrightarrow> counted (snd (getSubnetLimiter ops now ip rl))"
  by (auto simp: getSubnetLimiter_def alloc_def counted_def Let_def insert_absorb domI card_insert_if
      split: option.split)

lemma getLimiter_counted [step_inv]: "counted rl \<Longrightarrow> counted (snd (getLimiter ops now ip rl))"
  using getSubnetLimiter_counted [of rl ops now ip]
  by (auto simp: getLimiter_def alloc_def counted_def Let_def insert_absorb domI card_insert_if
      split: option.split)

lemma RateLimitMiddleware_counted [step_inv]:
  "counted rl \<Longrightarrow> counted (snd (RateLimitMiddleware ops now ip rl))"
  using getLimiter_counted [of rl ops now ip]
  by (auto simp: RateLimitMiddleware_def counted_def Let_def split: prod.split option.split)

text \<open>A cleanup keeps a counter that counts its map, and only shrinks the map.\<close>

definition counts :: "entry_map \<times> int \<Rightarrow> bool" where
  "counts st \<longleftrightarrow> finite (dom (fst st)) \<and> snd st = int (card (dom (fst st)))"

lemma cleanup_entry_counts:
  assumes "counts st"
  shows "counts (cleanup_entry now st k)" "snd (cleanup_entry now st k) \<le> snd st"
proof -
  obtain m n where st: "st = (m, n)" by (cases st)
  have "card (dom m - {k}) = card (dom m) - 1 \<and> card (dom m) > 0" if "m k = Some x" for x
  proof -
    have "k \<in> dom m" "finite (dom m)" using assms that by (auto simp: st counts_def)
    then show ?thesis by (metis card_Diff_singleton card_gt_0_iff empty_iff)
  qed
  with assms show "counts (cleanup_entry now st k)" "snd (cleanup_entry now st k) \<le> snd st"
    by (cases "m k"; auto simp: st counts_def cleanup_entry_def)+
qed

lemma cleanup_map_counts:
  assumes "counts st"
  shows "counts (cleanup_map now keys st) \<and> snd (cleanup_map now keys st) \<le> snd st"
  unfolding cleanup_map_def
  by (rule foldl_invariant [where I = "\<lambda>st'. counts st' \<and> snd st' \<le> snd st"])
     (use assms in \<open>auto simp: cleanup_entry_counts intro: order_trans [OF cleanup_entry_counts(2)]\<close>)

lemma cleanup_counted [step_inv]:
  assumes "counted rl"
  shows "counted (cleanup now keys subnets rl)"
  using assms cleanup_map_counts [of "(ip_limiters rl, ip_size rl)" now keys]
    cleanup_map_counts [of "(ip_subnetLimiters rl, ip_subnetSize rl)" now subnets]
  by (auto simp: counted_def counts_def cleanup_def split: prod.split)

section \<open>Requests and cleanup, interleaved\<close>

text \<open>
  A request between its accesses: it has read the size (\<open>Sized\<close>), found no entry (\<open>Storing\<close>), stored one
  that is not counted yet (\<open>Adding\<close>), and the same for the subnet.  The number of slots bounds the
  requests in progress.  The cleanup has decided to drop a key (\<open>Doomed\<close>), or dropped one that is still
  counted (\<open>Dropped\<close>).
\<close>

datatype phase =
    Idle | Sized string int | Storing string | Adding nat
  | Subnet string | SubChecking string | SubStoring string | SubAdding nat
  | Done "nat option"

datatype cleaner = Waiting | Doomed string | Dropped | SubDoomed string | SubDropped

record ('f, 'l) limiter_run =
  lr_rl :: "('f, 'l) IPRateLimiter"
  lr_slots :: "phase list"
  lr_cleaner :: cleaner

definition goto :: "nat \<Rightarrow> phase \<Rightarrow> ('f, 'l) IPRateLimiter \<Rightarrow> ('f, 'l) limiter_run \<Rightarrow> ('f, 'l) limiter_run" where
  "goto i ph rl s = s\<lparr>lr_rl := rl, lr_slots := (lr_slots s)[i := ph]\<rparr>"

definition store_ip :: "string \<Rightarrow> nat \<Rightarrow> int \<Rightarrow> ('f, 'l) IPRateLimiter \<Rightarrow> ('f, 'l) IPRateLimiter" where
  "store_ip ip p now rl = rl\<lparr>ip_limiters := (ip_limiters rl)(ip \<mapsto> (p, now))\<rparr>"

definition store_subnet :: "string \<Rightarrow> nat \<Rightarrow> int \<Rightarrow> ('f, 'l) IPRateLimiter \<Rightarrow> ('f, 'l) IPRateLimiter" where
  "store_subnet sn p now rl = rl\<lparr>ip_subnetLimiters := (ip_subnetLimiters rl)(sn \<mapsto> (p, now))\<rparr>"

inductive limiter_step ::
  "('f, 'l) bucket_ops \<Rightarrow> ('f, 'l) limiter_run \<Rightarrow> ('f, 'l) limiter_run \<Rightarrow> bool" for ops where
  enter: "\<lbrakk>i < length (lr_slots s); lr_slots s ! i = Idle; rl = lr_rl s\<rbrakk> \<Longrightarrow>
    limiter_step ops s (goto i (Sized ip (ip_size rl)) rl s)"
| hit: "\<lbrakk>i < length (lr_slots s); lr_slots s ! i = Sized ip n; rl = lr_rl s; ip_limiters rl ip = Some (p, t)\<rbrakk> \<Longrightarrow>
    limiter_step ops s (goto i (Done (Some p)) (store_ip ip p now rl) s)"
| full: "\<lbrakk>i < length (lr_slots s); lr_slots s ! i = Sized ip n; rl = lr_rl s; ip_limiters rl ip = None;
      n \<ge> maxRateLimiterEntries\<rbrakk> \<Longrightarrow> limiter_step ops s (goto i (Subnet (ipToSubnet ip)) rl s)"
| miss: "\<lbrakk>i < length (lr_slots s); lr_slots s ! i = Sized ip n; rl = lr_rl s; ip_limiters rl ip = None;
      n < maxRateLimiterEntries\<rbrakk> \<Longrightarrow> limiter_step ops s (goto i (Storing ip) rl s)"
| store: "\<lbrakk>i < length (lr_slots s); lr_slots s ! i = Storing ip; ip_limiters (lr_rl s) ip = None;
      (p, rl) = alloc (new_limiter ops (lr_rl s)) (lr_rl s)\<rbrakk> \<Longrightarrow>
    limiter_step ops s (goto i (Adding p) (store_ip ip p now rl) s)"
| loaded: "\<lbrakk>i < length (lr_slots s); lr_slots s ! i = Storing ip; rl = lr_rl s; ip_limiters rl ip = Some (p, t)\<rbrakk> \<Longrightarrow>
    limiter_step ops s (goto i (Done (Some p)) rl s)"
| add: "\<lbrakk>i < length (lr_slots s); lr_slots s ! i = Adding p; rl = lr_rl s\<rbrakk> \<Longrightarrow>
    limiter_step ops s (goto i (Done (Some p)) (rl\<lparr>ip_size := ip_size rl + 1\<rparr>) s)"
| sub_hit: "\<lbrakk>i < length (lr_slots s); lr_slots s ! i = Subnet sn; rl = lr_rl s; ip_subnetLimiters rl sn = Some (p, t)\<rbrakk> \<Longrightarrow>
    limiter_step ops s (goto i (Done (Some p)) (store_subnet sn p now rl) s)"
| sub_miss: "\<lbrakk>i < length (lr_slots s); lr_slots s ! i = Subnet sn; rl = lr_rl s; ip_subnetLimiters rl sn = None\<rbrakk> \<Longrightarrow>
    limiter_step ops s (goto i (SubChecking sn) rl s)"
| sub_full: "\<lbrakk>i < length (lr_slots s); lr_slots s ! i = SubChecking sn; rl = lr_rl s;
      ip_subnetSize rl \<ge> maxSubnetLimiterEntries\<rbrakk> \<Longrightarrow> limiter_step ops s (goto i (Done None) rl s)"
| sub_room: "\<lbrakk>i < length (lr_slots s); lr_slots s ! i = SubChecking sn; rl = lr_rl s;
      ip_subnetSize rl < maxSubnetLimiterEntries\<rbrakk> \<Longrightarrow> limiter_step ops s (goto i (SubStoring sn) rl s)"
| sub_store: "\<lbrakk>i < length (lr_slots s); lr_slots s ! i = SubStoring sn; ip_subnetLimiters (lr_rl s) sn = None;
      (p, rl) = alloc (new_subnet_limiter ops (lr_rl s)) (lr_rl s)\<rbrakk> \<Longrightarrow>
    limiter_step ops s (goto i (SubAdding p) (store_subnet sn p now rl) s)"
| sub_loaded: "\<lbrakk>i < length (lr_slots s); lr_slots s ! i = SubStoring sn; rl = lr_rl s;
      ip_subnetLimiters rl sn = Some (p, t)\<rbrakk> \<Longrightarrow> limiter_step ops s (goto i (Done (Some p)) rl s)"
| sub_add: "\<lbrakk>i < length (lr_slots s); lr_slots s ! i = SubAdding p; rl = lr_rl s\<rbrakk> \<Longrightarrow>
    limiter_step ops s (goto i (Done (Some p)) (rl\<lparr>ip_subnetSize := ip_subnetSize rl + 1\<rparr>) s)"
| allow: "\<lbrakk>i < length (lr_slots s); lr_slots s ! i = Done (Some p); rl = lr_rl s;
      (ok, l) = bo_Allow ops (ip_heap rl ! p) now\<rbrakk> \<Longrightarrow>
    limiter_step ops s (goto i Idle (rl\<lparr>ip_heap := (ip_heap rl)[p := l]\<rparr>) s)"
| refuse: "\<lbrakk>i < length (lr_slots s); lr_slots s ! i = Done None; rl = lr_rl s\<rbrakk> \<Longrightarrow>
    limiter_step ops s (goto i Idle rl s)"
| clean_check: "\<lbrakk>lr_cleaner s = Waiting; ip_limiters (lr_rl s) k = Some (p, t); now - t > maxAge\<rbrakk> \<Longrightarrow>
    limiter_step ops s (s\<lparr>lr_cleaner := Doomed k\<rparr>)"
| clean_delete: "\<lbrakk>lr_cleaner s = Doomed k; rl = lr_rl s\<rbrakk> \<Longrightarrow>
    limiter_step ops s (s\<lparr>lr_cleaner := Dropped, lr_rl := rl\<lparr>ip_limiters := (ip_limiters rl)(k := None)\<rparr>\<rparr>)"
| clean_count: "\<lbrakk>lr_cleaner s = Dropped; rl = lr_rl s\<rbrakk> \<Longrightarrow>
    limiter_step ops s (s\<lparr>lr_cleaner := Waiting, lr_rl := rl\<lparr>ip_size := ip_size rl - 1\<rparr>\<rparr>)"
| sub_clean_check: "\<lbrakk>lr_cleaner s = Waiting; ip_subnetLimiters (lr_rl s) k = Some (p, t); now - t > maxAge\<rbrakk> \<Longrightarrow>
    limiter_step ops s (s\<lparr>lr_cleaner := SubDoomed k\<rparr>)"
| sub_clean_delete: "\<lbrakk>lr_cleaner s = SubDoomed k; rl = lr_rl s\<rbrakk> \<Longrightarrow>
    limiter_step ops s
      (s\<lparr>lr_cleaner := SubDropped, lr_rl := rl\<lparr>ip_subnetLimiters := (ip_subnetLimiters rl)(k := None)\<rparr>\<rparr>)"
| sub_clean_count: "\<lbrakk>lr_cleaner s = SubDropped; rl = lr_rl s\<rbrakk> \<Longrightarrow>
    limiter_step ops s (s\<lparr>lr_cleaner := Waiting, lr_rl := rl\<lparr>ip_subnetSize := ip_subnetSize rl - 1\<rparr>\<rparr>)"

inductive limiter_reach :: "('f, 'l) bucket_ops \<Rightarrow> ('f, 'l) limiter_run \<Rightarrow> ('f, 'l) limiter_run \<Rightarrow> bool"
  for ops s where
  reach_refl: "limiter_reach ops s s"
| reach_step: "\<lbrakk>limiter_reach ops s s1; limiter_step ops s1 s2\<rbrakk> \<Longrightarrow> limiter_reach ops s s2"

definition limiter_start :: "nat \<Rightarrow> ('f, 'l) IPRateLimiter \<Rightarrow> ('f, 'l) limiter_run" where
  "limiter_start slots rl = \<lparr>lr_rl = rl, lr_slots = replicate slots Idle, lr_cleaner = Waiting\<rparr>"

text \<open>The number of slots in a phase.\<close>

definition num :: "(phase \<Rightarrow> bool) \<Rightarrow> phase list \<Rightarrow> int" where
  "num P phs = int (length (filter P phs))"

lemma num_update [simp]:
  "i < length phs \<Longrightarrow> num P (phs[i := ph]) = num P phs - of_bool (P (phs ! i)) + of_bool (P ph)"
proof -
  assume i: "i < length phs"
  then have "phs = take i phs @ phs ! i # drop (Suc i) phs" by (rule id_take_nth_drop)
  then have "num P phs = num P (take i phs @ phs ! i # drop (Suc i) phs)" by simp
  then show ?thesis using i by (simp add: num_def upd_conv_take_nth_drop)
qed

lemma num_nonneg [simp]: "0 \<le> num P phs"
  by (simp add: num_def)

lemma num_disjoint:
  assumes "\<And>ph. \<not> (P ph \<and> Q ph)"
  shows "num P phs + num Q phs \<le> int (length phs)"
  unfolding num_def using assms by (induction phs) auto

section \<open>Invariants of the interleaving\<close>

text \<open>
  The counter of a map, the stores that are not counted yet and the deletions that are still counted
  account for the map.
\<close>

definition accounted :: "('f, 'l) limiter_run \<Rightarrow> bool" where
  "accounted s \<longleftrightarrow>
     (let rl = lr_rl s in
      finite (dom (ip_limiters rl)) \<and> finite (dom (ip_subnetLimiters rl)) \<and>
      int (card (dom (ip_limiters rl))) =
        ip_size rl + num (\<lambda>ph. \<exists>p. ph = Adding p) (lr_slots s) - of_bool (lr_cleaner s = Dropped) \<and>
      int (card (dom (ip_subnetLimiters rl))) =
        ip_subnetSize rl + num (\<lambda>ph. \<exists>p. ph = SubAdding p) (lr_slots s) - of_bool (lr_cleaner s = SubDropped) \<and>
      (\<forall>k. lr_cleaner s = Doomed k \<longrightarrow> k \<in> dom (ip_limiters rl)) \<and>
      (\<forall>k. lr_cleaner s = SubDoomed k \<longrightarrow> k \<in> dom (ip_subnetLimiters rl)))"

lemma card_dom_pred:
  "\<lbrakk>finite (dom m); m k = Some x\<rbrakk> \<Longrightarrow> int (card (dom m) - Suc 0) = int (card (dom m)) - 1"
  by (metis One_nat_def card_gt_0_iff domI empty_iff of_nat_1 of_nat_diff Suc_leI)

lemma card_dom_new:
  "\<lbrakk>finite (dom m); m k = None\<rbrakk> \<Longrightarrow> int (card (insert k (dom m))) = int (card (dom m)) + 1"
  by (simp add: domIff)

lemmas limiter_simps = goto_def store_ip_def store_subnet_def alloc_def Let_def insert_absorb domI

lemma limiter_step_accounted [step_inv]:
  "limiter_step ops s s' \<Longrightarrow> accounted s \<Longrightarrow> accounted s'"
  by (induction rule: limiter_step.induct)
     (auto simp: accounted_def limiter_simps card_dom_pred card_dom_new)

lemma limiter_step_slots: "limiter_step ops s s' \<Longrightarrow> length (lr_slots s') = length (lr_slots s)"
  by (induction rule: limiter_step.induct) (simp_all add: goto_def)

text \<open>
  Requests that passed the check of the capacity may all store: with \<open>n\<close> slots a map may hold \<open>n - 1\<close>
  entries more than its limit, and never more than that.
\<close>

definition passed :: "phase \<Rightarrow> bool" where
  "passed ph \<longleftrightarrow> (\<exists>ip n. ph = Sized ip n \<and> n < maxRateLimiterEntries) \<or> (\<exists>ip. ph = Storing ip)"

definition sub_passed :: "phase \<Rightarrow> bool" where
  "sub_passed ph \<longleftrightarrow> (\<exists>sn. ph = SubStoring sn)"

definition bounded :: "('f, 'l) limiter_run \<Rightarrow> bool" where
  "bounded s \<longleftrightarrow>
     (let rl = lr_rl s; slots = int (length (lr_slots s)) in
      int (card (dom (ip_limiters rl))) + num passed (lr_slots s) \<le> maxRateLimiterEntries - 1 + slots \<and>
      int (card (dom (ip_subnetLimiters rl))) + num sub_passed (lr_slots s) \<le> maxSubnetLimiterEntries - 1 + slots)"

lemma bounded_enter:
  assumes "accounted s" and "bounded s"
    and i: "i < length (lr_slots s)" "lr_slots s ! i = Idle"
  shows "bounded (goto i (Sized ip (ip_size (lr_rl s))) (lr_rl s) s)"
proof (cases "ip_size (lr_rl s) < maxRateLimiterEntries")
  case True
  let ?phs = "(lr_slots s)[i := Sized ip (ip_size (lr_rl s))]"
  have "num (\<lambda>ph. \<exists>p. ph = Adding p) ?phs + num passed ?phs \<le> int (length ?phs)"
    by (rule num_disjoint) (auto simp: passed_def)
  then have "num (\<lambda>ph. \<exists>p. ph = Adding p) (lr_slots s) + num passed ?phs \<le> int (length (lr_slots s))"
    using i by simp
  moreover have "num passed ?phs = num passed (lr_slots s) + 1"
    using i True by (simp add: passed_def)
  moreover have "int (card (dom (ip_limiters (lr_rl s)))) \<le> ip_size (lr_rl s) +
      num (\<lambda>ph. \<exists>p. ph = Adding p) (lr_slots s)"
    using assms(1) by (simp add: accounted_def Let_def)
  ultimately show ?thesis
    using assms(2) True i by (simp add: bounded_def goto_def passed_def sub_passed_def Let_def)
next
  case False
  then show ?thesis using assms(2) i by (simp add: bounded_def goto_def passed_def sub_passed_def Let_def)
qed

lemma bounded_sub_room:
  assumes "accounted s" and "bounded s"
    and i: "i < length (lr_slots s)" "lr_slots s ! i = SubChecking sn"
    and room: "ip_subnetSize (lr_rl s) < maxSubnetLimiterEntries"
  shows "bounded (goto i (SubStoring sn) (lr_rl s) s)"
proof -
  let ?phs = "(lr_slots s)[i := SubStoring sn]"
  have "num (\<lambda>ph. \<exists>p. ph = SubAdding p) ?phs + num sub_passed ?phs \<le> int (length ?phs)"
    by (rule num_disjoint) (auto simp: sub_passed_def)
  then have "num (\<lambda>ph. \<exists>p. ph = SubAdding p) (lr_slots s) + num sub_passed ?phs \<le> int (length (lr_slots s))"
    using i by simp
  moreover have "num sub_passed ?phs = num sub_passed (lr_slots s) + 1"
    using i by (simp add: sub_passed_def)
  moreover have "int (card (dom (ip_subnetLimiters (lr_rl s)))) \<le> ip_subnetSize (lr_rl s) +
      num (\<lambda>ph. \<exists>p. ph = SubAdding p) (lr_slots s)"
    using assms(1) by (simp add: accounted_def Let_def)
  ultimately show ?thesis
    using assms(2) room i by (simp add: bounded_def goto_def passed_def sub_passed_def Let_def)
qed

lemma limiter_step_bounded [step_inv]:
  "limiter_step ops s s' \<Longrightarrow> accounted s \<Longrightarrow> bounded s \<Longrightarrow> bounded s'"
proof (induction rule: limiter_step.induct)
  case (enter i s rl ip)
  then show ?case using bounded_enter by blast
next
  case (sub_room i s sn rl)
  then show ?case using bounded_sub_room by blast
qed (auto simp: bounded_def limiter_simps passed_def sub_passed_def accounted_def card_dom_pred card_dom_new)

lemma limiter_reach_ok:
  assumes "limiter_reach ops s s'" "accounted s" "bounded s"
  shows "accounted s' \<and> bounded s' \<and> length (lr_slots s') = length (lr_slots s)"
  using assms
  by (induction rule: limiter_reach.induct)
     (auto intro: limiter_step_accounted limiter_step_bounded dest: limiter_step_slots)

lemma num_replicate: "\<not> P x \<Longrightarrow> num P (replicate n x) = 0"
  by (simp add: num_def)

lemma limiter_start_ok:
  assumes "counted rl" "0 < slots"
  shows "accounted (limiter_start slots rl) \<and> bounded (limiter_start slots rl)"
  using assms
  by (simp add: counted_def accounted_def bounded_def limiter_start_def num_replicate passed_def sub_passed_def Let_def)

section \<open>A request alone is the function\<close>

text \<open>
  With a single slot the steps of a request, from its start to its decision, are \<open>getLimiter\<close>.
\<close>

lemma reach_trans: "\<lbrakk>limiter_reach ops s1 s2; limiter_reach ops s s1\<rbrakk> \<Longrightarrow> limiter_reach ops s s2"
  by (induction rule: limiter_reach.induct) (auto intro: limiter_reach.intros)

definition single :: "phase \<Rightarrow> ('f, 'l) IPRateLimiter \<Rightarrow> ('f, 'l) limiter_run" where
  "single ph rl = \<lparr>lr_rl = rl, lr_slots = [ph], lr_cleaner = Waiting\<rparr>"

lemma goto_single [simp]: "goto 0 ph' rl' (single ph rl) = single ph' rl'"
  by (simp add: goto_def single_def)

lemma single_sel [simp]:
  "lr_rl (single ph rl) = rl" "lr_slots (single ph rl) = [ph]" "lr_cleaner (single ph rl) = Waiting"
  by (simp_all add: single_def)

text \<open>The steps of a single request, as equations between its states.\<close>

lemma single_steps:
  "limiter_step ops (single Idle rl) (single (Sized ip (ip_size rl)) rl)"
  "ip_limiters rl ip = Some (p, t) \<Longrightarrow>
     limiter_step ops (single (Sized ip n) rl) (single (Done (Some p)) (store_ip ip p now rl))"
  "\<lbrakk>ip_limiters rl ip = None; n \<ge> maxRateLimiterEntries\<rbrakk> \<Longrightarrow>
     limiter_step ops (single (Sized ip n) rl) (single (Subnet (ipToSubnet ip)) rl)"
  "\<lbrakk>ip_limiters rl ip = None; n < maxRateLimiterEntries\<rbrakk> \<Longrightarrow>
     limiter_step ops (single (Sized ip n) rl) (single (Storing ip) rl)"
  "\<lbrakk>ip_limiters rl ip = None; (p, rl1) = alloc (new_limiter ops rl) rl\<rbrakk> \<Longrightarrow>
     limiter_step ops (single (Storing ip) rl) (single (Adding p) (store_ip ip p now rl1))"
  "limiter_step ops (single (Adding p) rl) (single (Done (Some p)) (rl\<lparr>ip_size := ip_size rl + 1\<rparr>))"
  "ip_subnetLimiters rl sn = Some (p, t) \<Longrightarrow>
     limiter_step ops (single (Subnet sn) rl) (single (Done (Some p)) (store_subnet sn p now rl))"
  "ip_subnetLimiters rl sn = None \<Longrightarrow> limiter_step ops (single (Subnet sn) rl) (single (SubChecking sn) rl)"
  "ip_subnetSize rl \<ge> maxSubnetLimiterEntries \<Longrightarrow>
     limiter_step ops (single (SubChecking sn) rl) (single (Done None) rl)"
  "ip_subnetSize rl < maxSubnetLimiterEntries \<Longrightarrow>
     limiter_step ops (single (SubChecking sn) rl) (single (SubStoring sn) rl)"
  "\<lbrakk>ip_subnetLimiters rl sn = None; (p, rl1) = alloc (new_subnet_limiter ops rl) rl\<rbrakk> \<Longrightarrow>
     limiter_step ops (single (SubStoring sn) rl) (single (SubAdding p) (store_subnet sn p now rl1))"
  "limiter_step ops (single (SubAdding p) rl) (single (Done (Some p)) (rl\<lparr>ip_subnetSize := ip_subnetSize rl + 1\<rparr>))"
  using limiter_step.intros(1-14) [where i = 0 and s = "single _ _" and ops = ops] by (simp_all del: split_paired_All)

lemma reach1: "limiter_step ops s s' \<Longrightarrow> limiter_reach ops s s'"
  by (blast intro: limiter_reach.intros)

lemma getSubnetLimiter_steps:
  "limiter_reach ops (single (Subnet (ipToSubnet ip)) rl)
     (single (Done (fst (getSubnetLimiter ops now ip rl))) (snd (getSubnetLimiter ops now ip rl)))"
proof (cases "ip_subnetLimiters rl (ipToSubnet ip)")
  case None
  then have looked: "limiter_reach ops (single (Subnet (ipToSubnet ip)) rl) (single (SubChecking (ipToSubnet ip)) rl)"
    by (intro reach1 single_steps)
  show ?thesis
  proof (cases "ip_subnetSize rl \<ge> maxSubnetLimiterEntries")
    case True
    with None reach_step [OF looked single_steps(9)] show ?thesis by (simp add: getSubnetLimiter_def)
  next
    case False
    let ?sn = "ipToSubnet ip" and ?rl1 = "snd (alloc (new_subnet_limiter ops rl) rl)"
    have "limiter_reach ops (single (Subnet ?sn) rl) (single (SubStoring ?sn) rl)"
      using False by (intro reach_step [OF looked single_steps(10)]) simp
    then have "limiter_reach ops (single (Subnet ?sn) rl)
        (single (SubAdding (length (ip_heap rl))) (store_subnet ?sn (length (ip_heap rl)) now ?rl1))"
      by (rule reach_step [OF _ single_steps(11)]) (simp_all add: None alloc_def)
    from reach_step [OF this single_steps(12)] show ?thesis
      using None False by (simp add: getSubnetLimiter_def alloc_def store_subnet_def Let_def)
  qed
next
  case (Some e)
  then obtain p t where "ip_subnetLimiters rl (ipToSubnet ip) = Some (p, t)" by (cases e) auto
  then show ?thesis
    using reach1 [OF single_steps(7) [of rl "ipToSubnet ip" p t ops now]]
    by (simp add: getSubnetLimiter_def store_subnet_def)
qed

lemma getLimiter_steps:
  "limiter_reach ops (single Idle rl)
     (single (Done (fst (getLimiter ops now ip rl))) (snd (getLimiter ops now ip rl)))"
proof -
  have sized: "limiter_reach ops (single Idle rl) (single (Sized ip (ip_size rl)) rl)"
    by (intro reach1 single_steps)
  show ?thesis
  proof (cases "ip_limiters rl ip")
    case None
    show ?thesis
    proof (cases "ip_size rl \<ge> maxRateLimiterEntries")
      case True
      then have "limiter_reach ops (single Idle rl) (single (Subnet (ipToSubnet ip)) rl)"
        by (intro reach_step [OF sized single_steps(3)] None)
      with None True show ?thesis
        by (simp add: getLimiter_def reach_trans [OF getSubnetLimiter_steps])
    next
      case False
      let ?rl1 = "snd (alloc (new_limiter ops rl) rl)"
      have "limiter_reach ops (single Idle rl) (single (Storing ip) rl)"
        using False by (intro reach_step [OF sized single_steps(4)] None) simp
      then have "limiter_reach ops (single Idle rl)
          (single (Adding (length (ip_heap rl))) (store_ip ip (length (ip_heap rl)) now ?rl1))"
        by (rule reach_step [OF _ single_steps(5)]) (simp_all add: None alloc_def)
      from reach_step [OF this single_steps(6)] show ?thesis
        using None False by (simp add: getLimiter_def alloc_def store_ip_def Let_def)
    qed
  next
    case (Some e)
    then obtain p t where "ip_limiters rl ip = Some (p, t)" by (cases e) auto
    then show ?thesis
      using reach_step [OF sized single_steps(2) [of rl ip p t ops "ip_size rl" now]]
      by (simp add: getLimiter_def store_ip_def)
  qed
qed

section \<open>When a request is refused\<close>

lemma getLimiter_None:
  assumes "fst (getLimiter ops now ip rl) = None"
  shows "ip_size rl \<ge> maxRateLimiterEntries \<and> ip_subnetSize rl \<ge> maxSubnetLimiterEntries \<and>
    ip_limiters rl ip = None \<and> ip_subnetLimiters rl (ipToSubnet ip) = None"
  using assms
  by (auto simp: getLimiter_def getSubnetLimiter_def alloc_def Let_def split: option.splits if_splits)

text \<open>Until it is cleaned up, an address keeps its limiter.\<close>

lemma getLimiter_again:
  assumes "ip_size rl < maxRateLimiterEntries \<or> ip_limiters rl ip \<noteq> None"
    and "getLimiter ops now ip rl = (Some p, rl1)"
  shows "fst (getLimiter ops now' ip rl1) = Some p"
  using assms
  by (auto simp: getLimiter_def alloc_def Let_def split: option.splits if_splits)

text \<open>Two IPv4 addresses share a subnet exactly when their first three bytes agree.\<close>

lemma show_nat_inject: "show_nat a = show_nat b \<Longrightarrow> a = b"
  by (metis dec_value_show_nat)

lemma show_nat_no_dot: "CHR ''.'' \<notin> set (show_nat n)"
  using all_digits_show_nat [of n] by (auto simp: all_digits_def list_all_iff)

lemma show_ipv4_inject:
  assumes "show_ipv4 as = show_ipv4 bs" "as \<noteq> []" "bs \<noteq> []"
  shows "as = bs"
proof -
  have "map show_nat cs = split_on CHR ''.'' (show_ipv4 cs)" if "cs \<noteq> []" for cs
    unfolding show_ipv4_def using that show_nat_no_dot by (intro split_join [symmetric]) auto
  then have "map show_nat as = map show_nat bs" using assms by metis
  then show ?thesis by (meson inj_map_eq_map injI show_nat_inject)
qed

lemma ipToSubnet_ipv4:
  assumes "ParseIP a = Some (IPv4 as)" "ParseIP b = Some (IPv4 bs)"
  shows "ipToSubnet a = ipToSubnet b \<longleftrightarrow> take 3 as = take 3 bs"
  using assms show_ipv4_inject [of "take 3 as @ [0]" "take 3 bs @ [0]"]
  by (auto simp: ipToSubnet_def To4_def)

end
