(* ===== verification/Api_Lookup.thy ===== *)
theory Api_Lookup
  imports Rdap_Client Whois_Client Parsers_Registry Whois_Transform Tiered_Cache Bootstrap_Service Validate_Input
begin

text \<open>
  \<open>internal/api/lookup.go\<close>: the lookup handlers.  They put the other components together: validation,
  the two-level cache, the RDAP client with the resolver of the bootstrap service, the fall-back to
  WHOIS, and the construction of the response.  The data a handler returns is JSON text made by
  \<open>json.Marshal\<close>, a parameter.  A fetch acts on the outside world only when the cache calls it.
\<close>

section \<open>Responses\<close>

text \<open>\<open>ErrorBody\<close> is an \<open>ErrorResponse\<close> with its code and its message.\<close>

record BatchQuery =
  bq_Type :: string
  bq_Value :: string
  bq_Server :: string

record BatchResult =
  br_Type :: string
  br_Value :: string
  br_Data :: string
  br_Error :: string
  br_Cached :: bool

record BatchStats =
  bt_Total :: nat
  bt_Success :: nat
  bt_Errors :: nat
  bt_CacheHits :: nat

datatype http_body =
    ErrorBody string string
  | DataBody string
  | BatchBody "BatchResult list" BatchStats

record http_response =
  hr_status :: nat
  hr_cache :: "string option"
  hr_body :: http_body

definition error_response :: "nat \<Rightarrow> string \<Rightarrow> string \<Rightarrow> http_response" where
  "error_response status code message = \<lparr>hr_status = status, hr_cache = None, hr_body = ErrorBody code message\<rparr>"

definition sanitizeUpstreamError :: "go_error \<Rightarrow> string" where
  "sanitizeUpstreamError err =
     (if error_is err Context_DeadlineExceeded then ''Upstream server timeout''
      else if error_is err Rdap_ErrRateLimited then ''Upstream server rate limited''
      else if error_is err Rdap_ErrServerError then ''Upstream server error''
      else ''Failed to query upstream RDAP server'')"

definition handleError :: "go_error \<Rightarrow> string \<Rightarrow> http_response" where
  "handleError err queryType =
     (if error_is err Rdap_ErrNotFound then error_response 404 ''NOT_FOUND'' (queryType @ '' not found'')
      else if error_is err Rdap_ErrRateLimited then
        error_response 429 ''RATE_LIMITED'' ''Upstream RDAP server rate limit exceeded''
      else if error_is err Bootstrap_ErrInvalidInput then
        error_response 400 ''INVALID_REQUEST'' (''Invalid '' @ queryType @ '' format'')
      else if error_is err Bootstrap_ErrNotFound then
        error_response 404 ''NOT_FOUND'' (''No RDAP server found for '' @ queryType)
      else error_response 502 ''UPSTREAM_ERROR'' (sanitizeUpstreamError err))"

definition respondWithData :: "string \<Rightarrow> bool \<Rightarrow> http_response" where
  "respondWithData data cached =
     \<lparr>hr_status = 200, hr_cache = Some (if cached then ''HIT'' else ''MISS''), hr_body = DataBody data\<rparr>"

definition respond :: "string \<Rightarrow> fetch_result \<Rightarrow> http_response" where
  "respond queryType r =
     (case r of
        (Inl err, _) \<Rightarrow> handleError err queryType
      | (Inr data, cached, _) \<Rightarrow> respondWithData data cached)"

definition sanitizeBatchError :: "go_error \<Rightarrow> string" where
  "sanitizeBatchError err =
     (if error_is err Rdap_ErrNotFound then ''not found''
      else if error_is err Rdap_ErrRateLimited then ''rate limited''
      else if error_is err Bootstrap_ErrNotFound then ''no RDAP server found''
      else if error_is err Bootstrap_ErrInvalidInput then ''invalid input''
      else if error_is err Context_DeadlineExceeded then ''timeout''
      else ''query failed'')"

text \<open>The labels of the lookup metrics: the outcome, and for a success the source.\<close>

definition recordLookupMetrics :: "go_error option \<Rightarrow> bool \<Rightarrow> string \<times> string option" where
  "recordLookupMetrics err cached =
     (case err of
        None \<Rightarrow> (''success'', Some (if cached then ''cache'' else ''upstream''))
      | Some e \<Rightarrow>
          (if error_is e Rdap_ErrNotFound then ''not_found''
           else if error_is e Rdap_ErrRateLimited then ''rate_limited''
           else if error_is e Context_DeadlineExceeded then ''timeout''
           else ''error'', None))"

section \<open>The handler\<close>

datatype payload =
    P_Domain "SimpleDomain option" | P_IP "SimpleIP option" | P_ASN "SimpleASN option"
  | P_Entity "SimpleEntityFull option"

text \<open>
  The parameters of the handlers: the RDAP environment, the prefix tree, the two cache levels, the
  WHOIS network and JSON.
\<close>

record ('w, 'r, 'a, 'b) lookup_env =
  en_rdap :: "'w rdap_env"
  en_ranger :: "'r ranger_ops"
  en_l1 :: "'a cache_ops"
  en_l2 :: "'b cache_ops"
  en_net :: network
  en_marshal :: "payload \<Rightarrow> go_error + string"

text \<open>
  When a lookup reads its clocks: the probes of the cache and the store, what is left of the context
  when WHOIS is asked, and the times of the WHOIS query.
\<close>

record lookup_times =
  lt_cache :: "int \<times> int \<times> int"
  lt_ctx :: "int option"
  lt_whois :: "int \<times> int \<times> int"

record ('w, 'r, 'a, 'b) LookupHandler =
  lh_client :: "('w, 'r) rdap_client"
  lh_bootstrap :: "'r service"
  lh_cache :: "('a, 'b) TieredCache"
  lh_serverValidator :: RDAPServerValidator
  lh_batchConfig :: BatchConfig
  lh_handlerTimeout :: int
  lh_whoisClient :: "whois_client option"
  lh_whoisRegistry :: parser_registry
  lh_whoisEnabled :: bool

text \<open>\<open>GetAllRDAPServers\<close> lists its set in some order: \<open>list_of\<close>.\<close>

definition allowlist_servers :: "(string set \<Rightarrow> string list) \<Rightarrow> 'r Bootstrap option \<Rightarrow> string list" where
  "allowlist_servers list_of r = (case r of None \<Rightarrow> [] | Some b \<Rightarrow> list_of (GetAllRDAPServers b))"

definition NewLookupHandler ::
  "(string set \<Rightarrow> string list) \<Rightarrow> int \<Rightarrow> ('w, 'r) rdap_client \<Rightarrow> 'r service \<Rightarrow> ('a, 'b) TieredCache \<Rightarrow>
   BatchConfig \<Rightarrow> int \<Rightarrow> ('w, 'r, 'a, 'b) LookupHandler" where
  "NewLookupHandler list_of now client bs c batchCfg handlerTimeout =
     \<lparr>lh_client = client, lh_bootstrap = bs, lh_cache = c,
      lh_serverValidator = NewRDAPServerValidator now (allowlist_servers list_of (bv_resolver bs)),
      lh_batchConfig = batchCfg,
      lh_handlerTimeout = (if handlerTimeout \<le> 0 then 30 * 10 ^ 9 else handlerTimeout),
      lh_whoisClient = None, lh_whoisRegistry = NewParserRegistry, lh_whoisEnabled = False\<rparr>"

definition NewLookupHandlerWithWHOIS ::
  "(string set \<Rightarrow> string list) \<Rightarrow> int \<Rightarrow> ('w, 'r) rdap_client \<Rightarrow> 'r service \<Rightarrow> ('a, 'b) TieredCache \<Rightarrow>
   BatchConfig \<Rightarrow> int \<Rightarrow> WHOISConfig \<Rightarrow> ('w, 'r, 'a, 'b) LookupHandler" where
  "NewLookupHandlerWithWHOIS list_of now client bs c batchCfg handlerTimeout whoisCfg =
     (let h = NewLookupHandler list_of now client bs c batchCfg handlerTimeout in
      if wh_Enabled whoisCfg then
        h\<lparr>lh_whoisEnabled := True, lh_whoisClient := Some (NewClientFromConfig whoisCfg),
          lh_whoisRegistry := RegisterAll NewParserRegistry\<rparr>
      else h)"

definition Handler_SetResolver ::
  "(string set \<Rightarrow> string list) \<Rightarrow> int \<Rightarrow> 'r Bootstrap option \<Rightarrow> ('w, 'r, 'a, 'b) LookupHandler \<Rightarrow>
   ('w, 'r, 'a, 'b) LookupHandler" where
  "Handler_SetResolver list_of now r h =
     (let h1 = h\<lparr>lh_client := Client_SetResolver r (lh_client h)\<rparr> in
      case r of
        None \<Rightarrow> h1
      | Some b \<Rightarrow>
          h1\<lparr>lh_serverValidator := UpdateAllowlist now (list_of (GetAllRDAPServers b)) (lh_serverValidator h)\<rparr>)"

definition Handler_Close :: "('w, 'r, 'a, 'b) LookupHandler \<Rightarrow> ('w, 'r, 'a, 'b) LookupHandler" where
  "Handler_Close h = h\<lparr>lh_whoisClient := map_option whois_Close (lh_whoisClient h)\<rparr>"

section \<open>Fetching\<close>

text \<open>
  A fetch gives the data or an error, the handler and the world after it; \<open>None\<close> is a panic (a query
  without a resolver).
\<close>

type_synonym ('w, 'r, 'a, 'b) fetched =
  "((go_error + string) \<times> ('w, 'r, 'a, 'b) LookupHandler \<times> 'w) option"

text \<open>\<open>h.client.SetResolver (h.bootstrap.Resolver ())\<close>\<close>

definition current_resolver :: "('w, 'r, 'a, 'b) LookupHandler \<Rightarrow> ('w, 'r, 'a, 'b) LookupHandler" where
  "current_resolver h = h\<lparr>lh_client := Client_SetResolver (bv_resolver (lh_bootstrap h)) (lh_client h)\<rparr>"

text \<open>The first server of the object, for reference.\<close>

definition reference_server ::
  "('r Bootstrap \<Rightarrow> sentinel + string list) \<Rightarrow> ('w, 'r, 'a, 'b) LookupHandler \<Rightarrow> string" where
  "reference_server resolve h =
     (case bv_resolver (lh_bootstrap h) of
        None \<Rightarrow> []
      | Some b \<Rightarrow> (case resolve b of Inr (u # us) \<Rightarrow> u | _ \<Rightarrow> []))"

definition fetchDomainViaWHOIS ::
  "('w, 'r, 'a, 'b) lookup_env \<Rightarrow> lookup_times \<Rightarrow> string \<Rightarrow> ('w, 'r, 'a, 'b) LookupHandler \<Rightarrow>
   (go_error + string) \<times> ('w, 'r, 'a, 'b) LookupHandler" where
  "fetchDomainViaWHOIS env t name h =
     (case lh_whoisClient h of
        None \<Rightarrow> (Inl (Sentinel Bootstrap_ErrNotFound), h)
      | Some wc \<Rightarrow>
          (let (now, later, duration) = lt_whois t;
               (queryResult, wc1) = Query (en_net env) (lt_ctx t) now later duration wc name;
               h1 = h\<lparr>lh_whoisClient := Some wc1\<rparr> in
           case queryResult of
             Inl err \<Rightarrow>
               (Inl (if error_is err Whois_ErrDomainNotFound then Sentinel Rdap_ErrNotFound else err), h1)
           | Inr qr \<Rightarrow>
               (case wp_Parse (GetParser (lh_whoisRegistry h) (ExtractTLD name)) (qr_Response qr) name of
                  Inl err \<Rightarrow> (Inl err, h1)
                | Inr parseResult \<Rightarrow>
                    (let pr = parseResult\<lparr>pr_Domain :=
                           map_option (\<lambda>d. d\<lparr>pd_WHOISServer := qr_Server qr\<rparr>) (pr_Domain parseResult)\<rparr> in
                     case TransformToSimpleDomain (Some pr) of
                       None \<Rightarrow> (Inl (Sentinel Rdap_ErrNotFound), h1)
                     | Some result \<Rightarrow> (en_marshal env (P_Domain (Some result)), h1)))))"

definition fetchDomainData ::
  "('w, 'r, 'a, 'b) lookup_env \<Rightarrow> lookup_times \<Rightarrow> string \<Rightarrow> ('w, 'r, 'a, 'b) LookupHandler \<Rightarrow> 'w \<Rightarrow>
   ('w, 'r, 'a, 'b) fetched" where
  "fetchDomainData env t name h w =
     (let h1 = current_resolver h in
      case QueryDomain (en_rdap env) (lh_client h1) name w of
        None \<Rightarrow> None
      | Some (Inr resp, w1) \<Rightarrow>
          Some (en_marshal env (P_Domain (TransformDomain (Some resp)
                  (reference_server (\<lambda>b. DNS_ResolveDomain (bs_DNS b) name) h1))), h1, w1)
      | Some (Inl rdapErr, w1) \<Rightarrow>
          if \<not> error_is rdapErr Bootstrap_ErrNotFound \<or> \<not> lh_whoisEnabled h1 then Some (Inl rdapErr, h1, w1)
          else (let (r, h2) = fetchDomainViaWHOIS env t name h1 in Some (r, h2, w1)))"

definition fetchIPData ::
  "('w, 'r, 'a, 'b) lookup_env \<Rightarrow> string \<Rightarrow> ('w, 'r, 'a, 'b) LookupHandler \<Rightarrow> 'w \<Rightarrow>
   ('w, 'r, 'a, 'b) fetched" where
  "fetchIPData env addr h w =
     (let h1 = current_resolver h in
      case QueryIP (en_ranger env) (en_rdap env) (lh_client h1) addr w of
        None \<Rightarrow> None
      | Some (Inl err, w1) \<Rightarrow> Some (Inl err, h1, w1)
      | Some (Inr resp, w1) \<Rightarrow>
          Some (en_marshal env (P_IP (TransformIP (Some resp)
                  (reference_server (\<lambda>b. Resolver_ResolveIP (en_ranger env) b addr) h1))), h1, w1))"

definition fetchASNData ::
  "('w, 'r, 'a, 'b) lookup_env \<Rightarrow> 32 word \<Rightarrow> ('w, 'r, 'a, 'b) LookupHandler \<Rightarrow> 'w \<Rightarrow>
   ('w, 'r, 'a, 'b) fetched" where
  "fetchASNData env asn h w =
     (let h1 = current_resolver h in
      case QueryASN (en_rdap env) (lh_client h1) asn w of
        None \<Rightarrow> None
      | Some (Inl err, w1) \<Rightarrow> Some (Inl err, h1, w1)
      | Some (Inr resp, w1) \<Rightarrow>
          Some (en_marshal env (P_ASN (TransformASN (Some resp)
                  (reference_server (\<lambda>b. ASN_ResolveASN (bs_ASN b) asn) h1))), h1, w1))"

definition fetchEntityData ::
  "('w, 'r, 'a, 'b) lookup_env \<Rightarrow> string \<Rightarrow> string \<Rightarrow> ('w, 'r, 'a, 'b) LookupHandler \<Rightarrow> 'w \<Rightarrow>
   ('w, 'r, 'a, 'b) fetched" where
  "fetchEntityData env handle serverURL h w =
     (case QueryEntity (en_rdap env) (lh_client h) handle serverURL w of
        (Inl err, w1) \<Rightarrow> Some (Inl err, h, w1)
      | (Inr resp, w1) \<Rightarrow> Some (en_marshal env (P_Entity (TransformEntityResponse (Some resp) serverURL)), h, w1))"

section \<open>Lookups\<close>

text \<open>
  \<open>h.cache.GetOrFetchWithNegative\<close>: the probes do not depend on what a fetch would give, so a first
  run tells whether it is called at all.
\<close>

type_synonym ('w, 'r, 'a, 'b) looked_up = "(fetch_result \<times> ('w, 'r, 'a, 'b) LookupHandler \<times> 'w) option"

definition via_cache ::
  "('w, 'r, 'a, 'b) lookup_env \<Rightarrow> lookup_times \<Rightarrow> string \<Rightarrow>
   (('w, 'r, 'a, 'b) LookupHandler \<Rightarrow> 'w \<Rightarrow> ('w, 'r, 'a, 'b) fetched) \<Rightarrow>
   ('w, 'r, 'a, 'b) LookupHandler \<Rightarrow> 'w \<Rightarrow> ('w, 'r, 'a, 'b) looked_up" where
  "via_cache env t key fetcher h w =
     (let look = (\<lambda>f. GetOrFetchWithNegative (en_l1 env) (en_l2 env) (lh_cache h) (lt_cache t) key f
                       Rdap_ErrNotFound);
          ((r, cached, called), c) = look (Inl (OtherError [])) in
      if \<not> called then Some ((r, cached, called), h\<lparr>lh_cache := c\<rparr>, w)
      else (case fetcher h w of
              None \<Rightarrow> None
            | Some (f, h1, w1) \<Rightarrow> (let (res, c1) = look f in Some (res, h1\<lparr>lh_cache := c1\<rparr>, w1))))"

definition lookupDomainData ::
  "('w, 'r, 'a, 'b) lookup_env \<Rightarrow> lookup_times \<Rightarrow> string \<Rightarrow> ('w, 'r, 'a, 'b) LookupHandler \<Rightarrow> 'w \<Rightarrow>
   ('w, 'r, 'a, 'b) looked_up" where
  "lookupDomainData env t name0 h w =
     (let name = to_lower (trim_space name0)
      in via_cache env t (BuildKey KeyPrefixDomain name) (fetchDomainData env t name) h w)"

definition lookupIPData ::
  "('w, 'r, 'a, 'b) lookup_env \<Rightarrow> lookup_times \<Rightarrow> string \<Rightarrow> ('w, 'r, 'a, 'b) LookupHandler \<Rightarrow> 'w \<Rightarrow>
   ('w, 'r, 'a, 'b) looked_up" where
  "lookupIPData env t addr0 h w =
     (let addr = trim_space addr0 in via_cache env t (BuildKey KeyPrefixIP addr) (fetchIPData env addr) h w)"

definition lookupASNData ::
  "('w, 'r, 'a, 'b) lookup_env \<Rightarrow> lookup_times \<Rightarrow> string \<Rightarrow> ('w, 'r, 'a, 'b) LookupHandler \<Rightarrow> 'w \<Rightarrow>
   ('w, 'r, 'a, 'b) looked_up" where
  "lookupASNData env t asnStr0 h w =
     (let asnStr = trim_prefix (to_upper (trim_space asnStr0)) ''AS''
      in via_cache env t (BuildKey KeyPrefixASN asnStr)
           (\<lambda>h w. case parse_uint 32 asnStr of
                    None \<Rightarrow> Some (Inl (Sentinel Bootstrap_ErrInvalidInput), h, w)
                  | Some n \<Rightarrow> fetchASNData env (of_nat n) h w) h w)"

definition entity_key :: "string \<Rightarrow> string \<Rightarrow> string" where
  "entity_key serverURL handle = BuildKey KeyPrefixEntity (serverURL @ '':'' @ handle)"

definition lookupEntityData ::
  "('w, 'r, 'a, 'b) lookup_env \<Rightarrow> lookup_times \<Rightarrow> string \<Rightarrow> string \<Rightarrow> ('w, 'r, 'a, 'b) LookupHandler \<Rightarrow> 'w \<Rightarrow>
   ('w, 'r, 'a, 'b) looked_up" where
  "lookupEntityData env t handle0 serverURL h w =
     (let handle = trim_space handle0
      in via_cache env t (entity_key serverURL handle) (fetchEntityData env handle serverURL) h w)"

section \<open>Handlers\<close>

type_synonym ('w, 'r, 'a, 'b) handled = "(http_response \<times> ('w, 'r, 'a, 'b) LookupHandler \<times> 'w) option"

definition answer :: "string \<Rightarrow> ('w, 'r, 'a, 'b) looked_up \<Rightarrow> ('w, 'r, 'a, 'b) handled" where
  "answer queryType r = map_option (\<lambda>(res, h, w). (respond queryType res, h, w)) r"

definition refuse :: "string \<Rightarrow> string \<Rightarrow> ('w, 'r, 'a, 'b) LookupHandler \<Rightarrow> 'w \<Rightarrow> ('w, 'r, 'a, 'b) handled" where
  "refuse code message h w = Some (error_response 400 code message, h, w)"

definition LookupDomain ::
  "('w, 'r, 'a, 'b) lookup_env \<Rightarrow> lookup_times \<Rightarrow> string \<Rightarrow> ('w, 'r, 'a, 'b) LookupHandler \<Rightarrow> 'w \<Rightarrow>
   ('w, 'r, 'a, 'b) handled" where
  "LookupDomain env t param h w =
     (let name = to_lower (trim_space param) in
      case ValidateDomain name of
        Some _ \<Rightarrow> refuse ''INVALID_REQUEST'' ''Invalid domain name format'' h w
      | None \<Rightarrow>
          answer ''domain''
            (via_cache env t (BuildKey KeyPrefixDomain name) (fetchDomainData env t name) h w))"

definition LookupIP ::
  "('w, 'r, 'a, 'b) lookup_env \<Rightarrow> lookup_times \<Rightarrow> string \<Rightarrow> ('w, 'r, 'a, 'b) LookupHandler \<Rightarrow> 'w \<Rightarrow>
   ('w, 'r, 'a, 'b) handled" where
  "LookupIP env t param h w =
     (let addr = trim_space param in
      case ValidateIP addr of
        Some _ \<Rightarrow> refuse ''INVALID_REQUEST'' ''Invalid IP address format'' h w
      | None \<Rightarrow> answer ''ip'' (via_cache env t (BuildKey KeyPrefixIP addr) (fetchIPData env addr) h w))"

definition LookupASN ::
  "('w, 'r, 'a, 'b) lookup_env \<Rightarrow> lookup_times \<Rightarrow> string \<Rightarrow> ('w, 'r, 'a, 'b) LookupHandler \<Rightarrow> 'w \<Rightarrow>
   ('w, 'r, 'a, 'b) handled" where
  "LookupASN env t param h w =
     (let asnStr0 = trim_space param in
      if asnStr0 = [] then refuse ''INVALID_REQUEST'' ''ASN is required'' h w
      else (let asnStr = trim_prefix (to_upper asnStr0) ''AS'' in
        case parse_uint 32 asnStr of
          None \<Rightarrow> refuse ''INVALID_REQUEST'' (''Invalid ASN format: '' @ asnStr) h w
        | Some n \<Rightarrow>
            answer ''asn'' (via_cache env t (BuildKey KeyPrefixASN asnStr) (fetchASNData env (of_nat n)) h w)))"

definition LookupEntity ::
  "('w, 'r, 'a, 'b) lookup_env \<Rightarrow> lookup_times \<Rightarrow> string \<Rightarrow> string \<Rightarrow> ('w, 'r, 'a, 'b) LookupHandler \<Rightarrow> 'w \<Rightarrow>
   ('w, 'r, 'a, 'b) handled" where
  "LookupEntity env t param serverURL h w =
     (let handle = trim_space param in
      if handle = [] then refuse ''INVALID_REQUEST'' ''Entity handle is required'' h w
      else if serverURL = [] then
        refuse ''INVALID_REQUEST'' ''Server URL is required for entity lookups (use ?server=URL)'' h w
      else if IsAllowed (lh_serverValidator h) serverURL \<noteq> None then
        refuse ''INVALID_SERVER'' ''Server URL not in allowed list'' h w
      else answer ''entity''
             (via_cache env t (entity_key serverURL handle) (fetchEntityData env handle serverURL) h w))"

section \<open>Batches\<close>

definition batch_error :: "BatchQuery \<Rightarrow> string \<Rightarrow> BatchResult" where
  "batch_error q msg =
     \<lparr>br_Type = bq_Type q, br_Value = bq_Value q, br_Data = [], br_Error = msg, br_Cached = False\<rparr>"

definition batch_result :: "BatchQuery \<Rightarrow> fetch_result \<Rightarrow> BatchResult" where
  "batch_result q r =
     (case r of
        (Inl err, _) \<Rightarrow> batch_error q (sanitizeBatchError err)
      | (Inr data, cached, _) \<Rightarrow> (batch_error q [])\<lparr>br_Data := data, br_Cached := cached\<rparr>)"

definition processBatchQuery ::
  "('w, 'r, 'a, 'b) lookup_env \<Rightarrow> lookup_times \<Rightarrow> BatchQuery \<Rightarrow> ('w, 'r, 'a, 'b) LookupHandler \<Rightarrow> 'w \<Rightarrow>
   (BatchResult \<times> ('w, 'r, 'a, 'b) LookupHandler \<times> 'w) option" where
  "processBatchQuery env t q h w =
     (let kind = to_lower (bq_Type q);
          done = map_option (\<lambda>(r, h1, w1). (batch_result q r, h1, w1));
          stop = (\<lambda>msg. Some (batch_error q msg, h, w)) in
      if kind = ''domain'' then done (lookupDomainData env t (bq_Value q) h w)
      else if kind = ''ip'' then done (lookupIPData env t (bq_Value q) h w)
      else if kind = ''asn'' then done (lookupASNData env t (bq_Value q) h w)
      else if kind = ''entity'' then
        (if bq_Server q = [] then stop ''server URL required for entity queries''
         else if IsAllowed (lh_serverValidator h) (bq_Server q) \<noteq> None then
           stop ''server URL not in allowed list''
         else done (lookupEntityData env t (bq_Value q) (bq_Server q) h w))
      else stop ''unknown query type'')"

text \<open>
  The goroutines of a batch write their results by index.  Each one runs at a moment of its own, in any
  order, or finds that the batch has timed out: a schedule is the order of the indices, each with that
  flag.
\<close>

type_synonym schedule = "(nat \<times> bool) list"

definition schedule_ok :: "schedule \<Rightarrow> nat \<Rightarrow> bool" where
  "schedule_ok sched n \<longleftrightarrow> distinct (map fst sched) \<and> set (map fst sched) = {..<n}"

fun run_batch ::
  "('w, 'r, 'a, 'b) lookup_env \<Rightarrow> (nat \<Rightarrow> lookup_times) \<Rightarrow> BatchQuery list \<Rightarrow> schedule \<Rightarrow> BatchResult list \<Rightarrow>
   ('w, 'r, 'a, 'b) LookupHandler \<Rightarrow> 'w \<Rightarrow> (BatchResult list \<times> ('w, 'r, 'a, 'b) LookupHandler \<times> 'w) option" where
  "run_batch env ts queries [] results h w = Some (results, h, w)"
| "run_batch env ts queries ((idx, timed_out) # sched) results h w =
     (if timed_out then
        run_batch env ts queries sched
          (results[idx := batch_error (queries ! idx) ''batch timeout exceeded'']) h w
      else (case processBatchQuery env (ts idx) (queries ! idx) h w of
              None \<Rightarrow> None
            | Some (r, h1, w1) \<Rightarrow> run_batch env ts queries sched (results[idx := r]) h1 w1))"

definition batch_stats :: "BatchResult list \<Rightarrow> nat \<Rightarrow> BatchStats" where
  "batch_stats results n =
     foldl (\<lambda>st r.
         let st1 = (if br_Error r = [] then st\<lparr>bt_Success := Suc (bt_Success st)\<rparr>
                    else st\<lparr>bt_Errors := Suc (bt_Errors st)\<rparr>)
         in if br_Cached r then st1\<lparr>bt_CacheHits := Suc (bt_CacheHits st1)\<rparr> else st1)
       \<lparr>bt_Total = n, bt_Success = 0, bt_Errors = 0, bt_CacheHits = 0\<rparr> results"

definition empty_result :: BatchResult where
  "empty_result = \<lparr>br_Type = [], br_Value = [], br_Data = [], br_Error = [], br_Cached = False\<rparr>"

text \<open>\<open>req\<close> is what \<open>Bind\<close> makes of the body: nothing when it is malformed.\<close>

definition LookupBatch ::
  "('w, 'r, 'a, 'b) lookup_env \<Rightarrow> (nat \<Rightarrow> lookup_times) \<Rightarrow> schedule \<Rightarrow> BatchQuery list option \<Rightarrow>
   ('w, 'r, 'a, 'b) LookupHandler \<Rightarrow> 'w \<Rightarrow> ('w, 'r, 'a, 'b) handled" where
  "LookupBatch env ts sched req h w =
     (case req of
        None \<Rightarrow> refuse ''INVALID_REQUEST'' ''Invalid request body format'' h w
      | Some queries \<Rightarrow>
          if queries = [] then refuse ''INVALID_REQUEST'' ''At least one query is required'' h w
          else if length queries > 100 then refuse ''INVALID_REQUEST'' ''Maximum 100 queries per batch'' h w
          else (case run_batch env ts queries sched (replicate (length queries) empty_result) h w of
                  None \<Rightarrow> None
                | Some (results, h1, w1) \<Rightarrow>
                    Some (\<lparr>hr_status = 200, hr_cache = None,
                           hr_body = BatchBody results (batch_stats results (length queries))\<rparr>, h1, w1)))"

section \<open>What a lookup keeps\<close>

text \<open>A fetch replaces the resolver of the client and the state of the WHOIS client, nothing else.\<close>

definition same_setup :: "('w, 'r, 'a, 'b) LookupHandler \<Rightarrow> ('w, 'r, 'a, 'b) LookupHandler \<Rightarrow> bool" where
  "same_setup h h1 \<longleftrightarrow>
     lh_bootstrap h1 = lh_bootstrap h \<and> lh_serverValidator h1 = lh_serverValidator h \<and>
     lh_batchConfig h1 = lh_batchConfig h \<and> lh_handlerTimeout h1 = lh_handlerTimeout h \<and>
     lh_whoisRegistry h1 = lh_whoisRegistry h \<and> lh_whoisEnabled h1 = lh_whoisEnabled h \<and>
     rc_httpClient (lh_client h1) = rc_httpClient (lh_client h) \<and>
     rc_maxRetries (lh_client h1) = rc_maxRetries (lh_client h) \<and>
     rc_userAgent (lh_client h1) = rc_userAgent (lh_client h)"

lemma same_setup_refl [simp]: "same_setup h h"
  by (simp add: same_setup_def)

lemma same_setup_trans: "\<lbrakk>same_setup h h1; same_setup h1 h2\<rbrakk> \<Longrightarrow> same_setup h h2"
  by (simp add: same_setup_def)

lemma same_setup_cache [simp]: "same_setup h (h1\<lparr>lh_cache := c\<rparr>) = same_setup h h1"
  by (simp add: same_setup_def)

lemma same_setup_current [simp]: "same_setup h (current_resolver h)"
  by (simp add: same_setup_def current_resolver_def Client_SetResolver_def)

lemma fetchDomainViaWHOIS_setup: "fetchDomainViaWHOIS env t name h = (r, h1) \<Longrightarrow> same_setup h h1 \<and> lh_cache h1 = lh_cache h"
  by (auto simp: fetchDomainViaWHOIS_def same_setup_def Let_def
      split: option.splits prod.splits sum.splits)

text \<open>What every fetcher guarantees: it keeps the setup and the cache, and it panics only without data.\<close>

definition fetcher_ok ::
  "(('w, 'r, 'a, 'b) LookupHandler \<Rightarrow> 'w \<Rightarrow> ('w, 'r, 'a, 'b) fetched) \<Rightarrow> bool" where
  "fetcher_ok f \<longleftrightarrow>
     (\<forall>h w. (IsReady (lh_bootstrap h) \<longrightarrow> f h w \<noteq> None) \<and>
       (\<forall>r h1 w1. f h w = Some (r, h1, w1) \<longrightarrow> same_setup h h1 \<and> lh_cache h1 = lh_cache h))"

lemma query_servers_ready: "rc_resolver c \<noteq> None \<Longrightarrow> query_servers env c res what path proj w \<noteq> None"
  by (auto simp: query_servers_def)

lemma fetcher_okI:
  assumes "\<And>h w. f h w = None \<Longrightarrow> \<not> IsReady (lh_bootstrap h)"
    and "\<And>h w r h1 w1. f h w = Some (r, h1, w1) \<Longrightarrow> same_setup h h1 \<and> lh_cache h1 = lh_cache h"
  shows "fetcher_ok f"
  using assms unfolding fetcher_ok_def by blast

lemma fetcher_okD:
  assumes "fetcher_ok f"
  shows "f h w = None \<Longrightarrow> \<not> IsReady (lh_bootstrap h)"
    and "f h w = Some (r, h1, w1) \<Longrightarrow> same_setup h h1"
    and "f h w = Some (r, h1, w1) \<Longrightarrow> lh_cache h1 = lh_cache h"
  using assms unfolding fetcher_ok_def by blast+

lemma current_resolver_ready:
  "rc_resolver (lh_client (current_resolver h)) = None \<Longrightarrow> \<not> IsReady (lh_bootstrap h)"
  by (simp add: current_resolver_def Client_SetResolver_def IsReady_def)

lemma current_resolver_cache [simp]: "lh_cache (current_resolver h) = lh_cache h"
  by (simp add: current_resolver_def)

lemma query_servers_panic: "query_servers env c res what path proj w = None \<Longrightarrow> rc_resolver c = None"
  by (auto simp: query_servers_def split: option.splits)

lemma queries_panic:
  "QueryDomain env c dmn w = None \<Longrightarrow> rc_resolver c = None"
  "QueryIP ops env c ip w = None \<Longrightarrow> rc_resolver c = None"
  "QueryASN env c asn w = None \<Longrightarrow> rc_resolver c = None"
  by (auto simp: QueryDomain_def QueryIP_def QueryASN_def Let_def dest: query_servers_panic split: if_splits)

lemmas fetch_panic = queries_panic [THEN current_resolver_ready]

lemma fetchDomainData_ok: "fetcher_ok (fetchDomainData env t name)"
proof (rule fetcher_okI)
  show "\<not> IsReady (lh_bootstrap h)" if "fetchDomainData env t name h w = None" for h w
    using that
    by (auto simp: fetchDomainData_def Let_def dest: fetch_panic split: option.splits prod.splits sum.splits if_splits)
  show "same_setup h h1 \<and> lh_cache h1 = lh_cache h"
    if "fetchDomainData env t name h w = Some (r, h1, w1)" for h w r h1 w1
  proof -
    have "h1 = current_resolver h \<or> (\<exists>r'. fetchDomainViaWHOIS env t name (current_resolver h) = (r', h1))"
      using that by (auto simp: fetchDomainData_def Let_def split: option.splits prod.splits sum.splits if_splits)
    then show ?thesis
      by (auto dest: fetchDomainViaWHOIS_setup intro: same_setup_trans [OF same_setup_current])
  qed
qed

lemma fetchIPData_ok: "fetcher_ok (fetchIPData env addr)"
  by (rule fetcher_okI)
     (auto simp: fetchIPData_def Let_def dest: fetch_panic split: option.splits prod.splits sum.splits)

lemma fetchASNData_ok: "fetcher_ok (fetchASNData env asn)"
  by (rule fetcher_okI)
     (auto simp: fetchASNData_def Let_def dest: fetch_panic split: option.splits prod.splits sum.splits)

lemma fetchEntityData_ok: "fetcher_ok (fetchEntityData env handle serverURL)"
  by (rule fetcher_okI) (auto simp: fetchEntityData_def split: prod.splits sum.splits)

lemma fetchASN_parsed_ok:
  "fetcher_ok (\<lambda>h w. case parse_uint 32 asnStr of
      None \<Rightarrow> Some (Inl (Sentinel Bootstrap_ErrInvalidInput), h, w)
    | Some n \<Rightarrow> fetchASNData env (of_nat n) h w)"
  by (rule fetcher_okI) (auto dest: fetcher_okD [OF fetchASNData_ok] split: option.splits)

lemmas fetchers_ok = fetchDomainData_ok fetchIPData_ok fetchASNData_ok fetchEntityData_ok fetchASN_parsed_ok

lemma via_cache_panic:
  "\<lbrakk>fetcher_ok f; via_cache env t k f h w = None\<rbrakk> \<Longrightarrow> \<not> IsReady (lh_bootstrap h)"
  by (auto simp: via_cache_def Let_def dest: fetcher_okD split: prod.splits option.splits if_splits)

lemma via_cache_setup:
  "\<lbrakk>fetcher_ok f; via_cache env t k f h w = Some (r, h1, w1)\<rbrakk> \<Longrightarrow> same_setup h h1"
  by (auto simp: via_cache_def Let_def dest: fetcher_okD split: prod.splits option.splits if_splits)

text \<open>Without a fetch the world stays as it is.\<close>

lemma via_cache_uncalled:
  "via_cache env t k f h w = Some ((r, cached, called), h1, w1) \<Longrightarrow>
   (\<exists>fr h2. called \<and> f h w = Some (fr, h2, w1)) \<or> (\<not> called \<and> w1 = w)"
  by (auto simp: via_cache_def Let_def dest: fetch_called_indep split: prod.splits option.splits if_splits)

section \<open>Repeated lookups\<close>

text \<open>A call that fetched, in terms of the cache.\<close>

lemma via_cache_called:
  assumes "via_cache env t k f h w = Some ((r, c, True), h1, w1)"
  obtains fr where
    "GetOrFetchWithNegative (en_l1 env) (en_l2 env) (lh_cache h) (lt_cache t) k fr Rdap_ErrNotFound =
      ((r, c, True), lh_cache h1)"
  using assms by (auto simp: via_cache_def Let_def split: prod.splits option.splits if_splits)

text \<open>A cache that has the answer, whatever a fetch would give.\<close>

lemma via_cache_hit:
  assumes "\<And>g. \<exists>c. GetOrFetchWithNegative (en_l1 env) (en_l2 env) (lh_cache h) (lt_cache t) k g Rdap_ErrNotFound =
      ((r, True, False), c)"
  shows "\<exists>h2. via_cache env t k f h w = Some ((r, True, False), h2, w)"
  using assms [of "Inl (OtherError [])"] by (auto simp: via_cache_def)

text \<open>
  After a call that fetched a value, every later call for the same key within the lifetime of the value
  finds it in the first level: nothing is fetched and the world is left alone.
\<close>

lemma via_cache_repeat:
  assumes l1: "en_l1 env = memory_ops ops" and "lru_ok ops items cap"
    and first: "via_cache env t k f h w = Some ((Inr v, c, True), h1, w1)"
    and "fst (lt_cache t') \<le> snd (snd (lt_cache t)) + cf_DefaultTTL (tc_config (lh_cache h))"
  shows "\<exists>h2. via_cache env t' k f' h1 w' = Some ((Inr v, True, False), h2, w')"
proof (rule via_cache_hit)
  obtain a1 a2 a3 where clock: "lt_cache t = (a1, a2, a3)" by (cases "lt_cache t")
  obtain b1 b2 b3 where clock': "lt_cache t' = (b1, b2, b3)" by (cases "lt_cache t'")
  obtain fr where run: "GetOrFetchWithNegative (memory_ops ops) (en_l2 env) (lh_cache h) (a1, a2, a3) k fr
      Rdap_ErrNotFound = ((Inr v, c, True), lh_cache h1)"
    using via_cache_called [OF first] unfolding l1 clock by blast
  have "fr = Inr v"
  proof (cases fr)
    case (Inl err)
    with run show ?thesis by (cases "error_is err Rdap_ErrNotFound") (auto elim: fetch_called)
  next
    case (Inr v')
    with run show ?thesis by (auto elim: fetch_called)
  qed
  then show "\<exists>c. GetOrFetchWithNegative (en_l1 env) (en_l2 env) (lh_cache h1) (lt_cache t') k g Rdap_ErrNotFound =
      ((Inr v, True, False), c)" for g
    unfolding l1 clock' using assms(4) run clock clock'
    by (intro fetch_then_hit [OF assms(2)]) simp_all
qed

text \<open>The same for a "not found" within the negative lifetime.\<close>

lemma via_cache_repeat_not_found:
  assumes l1: "en_l1 env = memory_ops ops" and "lru_ok ops items cap"
    and first: "via_cache env t k f h w = Some ((Inl (Sentinel Rdap_ErrNotFound), c, True), h1, w1)"
    and "fst (lt_cache t') \<le> snd (snd (lt_cache t)) + cf_NegativeTTL (tc_config (lh_cache h))"
  shows "\<exists>h2. via_cache env t' k f' h1 w' = Some ((Inl (Sentinel Rdap_ErrNotFound), True, False), h2, w')"
proof (rule via_cache_hit)
  obtain a1 a2 a3 where clock: "lt_cache t = (a1, a2, a3)" by (cases "lt_cache t")
  obtain b1 b2 b3 where clock': "lt_cache t' = (b1, b2, b3)" by (cases "lt_cache t'")
  obtain fr where run: "GetOrFetchWithNegative (memory_ops ops) (en_l2 env) (lh_cache h) (a1, a2, a3) k fr
      Rdap_ErrNotFound = ((Inl (Sentinel Rdap_ErrNotFound), c, True), lh_cache h1)"
    using via_cache_called [OF first] unfolding l1 clock by blast
  have "\<exists>err. fr = Inl err \<and> error_is err Rdap_ErrNotFound"
  proof (cases fr)
    case (Inl e)
    have "e = Sentinel Rdap_ErrNotFound" if "\<not> error_is e Rdap_ErrNotFound"
      by (rule fetch_called [OF run, where err = e and v = "[]"]) (use Inl that in auto)
    with Inl show ?thesis by (cases "error_is e Rdap_ErrNotFound") auto
  next
    case (Inr v)
    have False by (rule fetch_called [OF run, where err = "OtherError []" and v = v]) (use Inr in auto)
    then show ?thesis ..
  qed
  then obtain err where err: "fr = Inl err" "error_is err Rdap_ErrNotFound" by blast
  show "\<exists>c. GetOrFetchWithNegative (en_l1 env) (en_l2 env) (lh_cache h1) (lt_cache t') k g Rdap_ErrNotFound =
      ((Inl (Sentinel Rdap_ErrNotFound), True, False), c)" for g
    unfolding l1 clock' using assms(4) run clock clock' err(1)
    by (intro fetch_not_found_then_hit [OF assms(2) err(2)]) simp_all
qed

section \<open>Answers\<close>

lemma answer_panic:
  "\<lbrakk>fetcher_ok f; answer q (via_cache env t k f h w) = None\<rbrakk> \<Longrightarrow> \<not> IsReady (lh_bootstrap h)"
  by (auto simp: answer_def dest: via_cache_panic)

lemma handlers_panic:
  "LookupDomain env t param h w = None \<Longrightarrow> \<not> IsReady (lh_bootstrap h)"
  "LookupIP env t param h w = None \<Longrightarrow> \<not> IsReady (lh_bootstrap h)"
  "LookupASN env t param h w = None \<Longrightarrow> \<not> IsReady (lh_bootstrap h)"
  "LookupEntity env t param serverURL h w = None \<Longrightarrow> \<not> IsReady (lh_bootstrap h)"
  by (auto simp: LookupDomain_def LookupIP_def LookupASN_def LookupEntity_def refuse_def Let_def
      dest: answer_panic [OF fetchers_ok(1)] answer_panic [OF fetchers_ok(2)] answer_panic [OF fetchers_ok(3)]
        answer_panic [OF fetchers_ok(4)] split: option.splits if_splits)

lemma handleError_cases:
  "handleError err q \<in>
     {error_response 404 ''NOT_FOUND'' (q @ '' not found''),
      error_response 429 ''RATE_LIMITED'' ''Upstream RDAP server rate limit exceeded'',
      error_response 400 ''INVALID_REQUEST'' (''Invalid '' @ q @ '' format''),
      error_response 404 ''NOT_FOUND'' (''No RDAP server found for '' @ q),
      error_response 502 ''UPSTREAM_ERROR'' ''Upstream server timeout'',
      error_response 502 ''UPSTREAM_ERROR'' ''Upstream server error'',
      error_response 502 ''UPSTREAM_ERROR'' ''Failed to query upstream RDAP server''}"
  by (simp add: handleError_def sanitizeUpstreamError_def)

text \<open>All an upstream error can do to a response is to choose one of these.\<close>

definition fixed_errors :: "string \<Rightarrow> http_response set" where
  "fixed_errors q =
     {error_response 404 ''NOT_FOUND'' (q @ '' not found''),
      error_response 429 ''RATE_LIMITED'' ''Upstream RDAP server rate limit exceeded'',
      error_response 400 ''INVALID_REQUEST'' (''Invalid '' @ q @ '' format''),
      error_response 404 ''NOT_FOUND'' (''No RDAP server found for '' @ q),
      error_response 502 ''UPSTREAM_ERROR'' ''Upstream server timeout'',
      error_response 502 ''UPSTREAM_ERROR'' ''Upstream server error'',
      error_response 502 ''UPSTREAM_ERROR'' ''Failed to query upstream RDAP server''}"

lemma answer_cases:
  assumes "answer q r = Some (resp, h1, w1)"
  shows "resp \<in> fixed_errors q \<or> (\<exists>data cached. resp = respondWithData data cached)"
proof -
  obtain res where "resp = respond q res"
    using assms by (auto simp: answer_def)
  then show ?thesis
    using handleError_cases [of _ q] unfolding fixed_errors_def
    by (auto simp: respond_def split: prod.splits sum.splits simp del: insert_iff)
qed

lemma answer_setup:
  "\<lbrakk>fetcher_ok f; answer q (via_cache env t k f h w) = Some (resp, h1, w1)\<rbrakk> \<Longrightarrow> same_setup h h1"
  by (auto simp: answer_def dest: via_cache_setup)

text \<open>What a handler may answer: a refusal, one of these errors, or data.\<close>

definition proper_response :: "string \<Rightarrow> http_response \<Rightarrow> bool" where
  "proper_response q resp \<longleftrightarrow>
     (\<exists>code msg. resp = error_response 400 code msg) \<or> resp \<in> fixed_errors q \<or>
     (\<exists>data cached. resp = respondWithData data cached)"

lemma answer_proper:
  assumes "fetcher_ok f" "IsReady (lh_bootstrap h)"
  shows "\<exists>resp h1 w1. answer q (via_cache env t k f h w) = Some (resp, h1, w1) \<and> proper_response q resp \<and> same_setup h h1"
proof -
  obtain resp h1 w1 where a: "answer q (via_cache env t k f h w) = Some (resp, h1, w1)"
    using answer_panic [OF assms(1)] assms(2) by (metis not_None_eq prod_cases3)
  then show ?thesis
    using answer_cases [OF a] answer_setup [OF assms(1) a] by (auto simp: proper_response_def)
qed

lemma refuse_proper:
  "\<exists>resp h1 w1. refuse code msg h w = Some (resp, h1, w1) \<and> proper_response q resp \<and> same_setup h h1"
  by (auto simp: refuse_def proper_response_def)

lemma handleError_not_ok: "hr_status (handleError err q) \<noteq> 200"
  by (simp add: handleError_def error_response_def)

text \<open>An answer with data that came from a fetch is repeated from the cache.\<close>

lemma answer_repeat:
  assumes "en_l1 env = memory_ops ops" "lru_ok ops items cap"
    and "answer q (via_cache env t k f h w) = Some (resp, h1, w1)" "hr_status resp = 200" "w1 \<noteq> w"
    and "fst (lt_cache t') \<le> snd (snd (lt_cache t)) + cf_DefaultTTL (tc_config (lh_cache h))"
  shows "\<exists>h2. answer q' (via_cache env t' k f' h1 w') = Some (resp\<lparr>hr_cache := Some ''HIT''\<rparr>, h2, w')"
proof -
  obtain r cached called where first: "via_cache env t k f h w = Some ((r, cached, called), h1, w1)"
    and resp: "resp = respond q (r, cached, called)"
    using assms(3) by (auto simp: answer_def)
  have "called" using via_cache_uncalled [OF first] assms(5) by auto
  obtain v where v: "r = Inr v"
    using assms(4) resp handleError_not_ok by (cases r) (auto simp: respond_def)
  have "via_cache env t k f h w = Some ((Inr v, cached, True), h1, w1)"
    using first v \<open>called\<close> by simp
  from via_cache_repeat [OF assms(1,2) this assms(6), of f' w']
  obtain h2 where "via_cache env t' k f' h1 w' = Some ((Inr v, True, False), h2, w')" by blast
  then show ?thesis using resp v by (auto simp: answer_def respond_def respondWithData_def)
qed

section \<open>Entities\<close>

lemma via_cache_entity_log:
  assumes "traced (en_rdap env) (lh_client h) log" and "IsAllowed v serverURL = None"
    and "via_cache env t k (fetchEntityData env handle serverURL) h w = Some (res, h1, w1)"
  shows "\<exists>sent. log w1 = log w @ sent \<and> (\<forall>url \<in> set sent. IsAllowed v url = None)"
proof -
  obtain r cached called where res: "res = (r, cached, called)" by (cases res)
  consider "w1 = w" | fr h2 where "fetchEntityData env handle serverURL h w = Some (fr, h2, w1)"
    using via_cache_uncalled [OF assms(3) [unfolded res]] by auto
  then show ?thesis
  proof cases
    case 2
    then have "w1 = snd (QueryEntity (en_rdap env) (lh_client h) handle serverURL w)"
      by (auto simp: fetchEntityData_def split: prod.splits sum.splits)
    with QueryEntity_log [OF assms(1,2), of handle w] show ?thesis by auto
  qed (auto intro: exI [of _ "[]"])
qed

lemma LookupEntity_log:
  assumes "traced (en_rdap env) (lh_client h) log"
    and "LookupEntity env t param serverURL h w = Some (resp, h1, w1)"
  shows "\<exists>sent. log w1 = log w @ sent \<and> (\<forall>url \<in> set sent. IsAllowed (lh_serverValidator h) url = None)"
proof (cases "trim_space param = [] \<or> serverURL = [] \<or> IsAllowed (lh_serverValidator h) serverURL \<noteq> None")
  case True
  then have "w1 = w" using assms(2) by (auto simp: LookupEntity_def refuse_def Let_def split: if_splits)
  then show ?thesis by (auto intro: exI [of _ "[]"])
next
  case False
  then obtain res where "via_cache env t (entity_key serverURL (trim_space param))
      (fetchEntityData env (trim_space param) serverURL) h w = Some (res, h1, w1)"
    using assms(2) by (auto simp: LookupEntity_def answer_def Let_def split: if_splits)
  with False show ?thesis by (intro via_cache_entity_log [OF assms(1)]) auto
qed

lemma entity_key_eq_iff:
  "entity_key s1 h1 = entity_key s2 h2 \<longleftrightarrow> s1 @ '':'' @ h1 = s2 @ '':'' @ h2"
  by (simp add: entity_key_def BuildKey_def)

section \<open>Batches\<close>

definition result_for :: "BatchQuery \<Rightarrow> BatchResult \<Rightarrow> bool" where
  "result_for q r \<longleftrightarrow>
     br_Type r = bq_Type q \<and> br_Value r = bq_Value q \<and> (br_Cached r \<longrightarrow> br_Error r = []) \<and>
     (br_Error r \<noteq> [] \<longrightarrow> br_Data r = [])"

lemma batch_error_for [simp]: "result_for q (batch_error q msg)"
  by (simp add: result_for_def batch_error_def)

lemma batch_result_for: "result_for q (batch_result q r)"
  by (auto simp: batch_result_def result_for_def batch_error_def split: prod.split sum.split)

lemma processBatchQuery_for:
  "processBatchQuery env t q h w = Some (r, h1, w1) \<Longrightarrow> result_for q r"
  by (auto simp: processBatchQuery_def Let_def batch_result_for split: if_splits)

lemma processBatchQuery_setup:
  "processBatchQuery env t q h w = Some (r, h1, w1) \<Longrightarrow> same_setup h h1"
  by (auto simp: processBatchQuery_def lookupDomainData_def lookupIPData_def lookupASNData_def
      lookupEntityData_def Let_def split: if_splits dest: via_cache_setup [OF fetchers_ok(1)]
      via_cache_setup [OF fetchers_ok(2)] via_cache_setup [OF fetchers_ok(4)] via_cache_setup [OF fetchers_ok(5)])

lemma processBatchQuery_panic:
  "processBatchQuery env t q h w = None \<Longrightarrow> \<not> IsReady (lh_bootstrap h)"
  by (auto simp: processBatchQuery_def lookupDomainData_def lookupIPData_def lookupASNData_def
      lookupEntityData_def Let_def split: if_splits dest: via_cache_panic [OF fetchers_ok(1)]
      via_cache_panic [OF fetchers_ok(2)] via_cache_panic [OF fetchers_ok(4)] via_cache_panic [OF fetchers_ok(5)])

lemma run_batch_ready:
  "IsReady (lh_bootstrap h) \<Longrightarrow> run_batch env ts qs sched results h w \<noteq> None"
proof (induction sched arbitrary: results h w)
  case (Cons s sched)
  obtain i timed_out where s: "s = (i, timed_out)" by (cases s)
  obtain r h1 w1 where p: "processBatchQuery env (ts i) (qs ! i) h w = Some (r, h1, w1)"
    using processBatchQuery_panic Cons.prems by (metis not_None_eq prod_cases3)
  have "IsReady (lh_bootstrap h1)"
    using processBatchQuery_setup [OF p] Cons.prems by (simp add: same_setup_def)
  with Cons p show ?case by (auto simp: s)
qed simp

text \<open>What is written so far: every index of the schedule has the result for its query.\<close>

lemma run_batch_results:
  "run_batch env ts qs sched results h w = Some (results1, h1, w1) \<Longrightarrow>
   length results1 = length results \<and>
   (\<forall>i < length results. result_for (qs ! i) (results ! i) \<or> i \<in> fst ` set sched \<longrightarrow>
      result_for (qs ! i) (results1 ! i))"
proof (induction env ts qs sched results h w rule: run_batch.induct)
  case (2 env ts qs i timed_out sched results h w)
  obtain r h2 w2 where step: "result_for (qs ! i) r"
    and run: "run_batch env ts qs sched (results[i := r]) h2 w2 = Some (results1, h1, w1)"
    and "(timed_out \<and> r = batch_error (qs ! i) ''batch timeout exceeded'' \<and> h2 = h \<and> w2 = w) \<or>
      (\<not> timed_out \<and> processBatchQuery env (ts i) (qs ! i) h w = Some (r, h2, w2))"
    using "2.prems" by (auto split: if_splits option.splits dest: processBatchQuery_for)
  then have "length results1 = length (results[i := r]) \<and>
     (\<forall>j < length (results[i := r]). result_for (qs ! j) (results[i := r] ! j) \<or> j \<in> fst ` set sched \<longrightarrow>
      result_for (qs ! j) (results1 ! j))"
    using "2.IH" by blast
  moreover have "result_for (qs ! j) (results[i := r] ! j)"
    if "j = i \<or> result_for (qs ! j) (results ! j)" "j < length results" for j
    using that step by (cases "j = i") auto
  ultimately show ?case by auto
qed simp

lemma batch_stats_count:
  "batch_stats results n =
     \<lparr>bt_Total = n, bt_Success = length (filter (\<lambda>r. br_Error r = []) results),
      bt_Errors = length (filter (\<lambda>r. br_Error r \<noteq> []) results),
      bt_CacheHits = length (filter br_Cached results)\<rparr>"
  unfolding batch_stats_def
  by (induction results rule: rev_induct) auto

lemma batch_stats_ok:
  assumes "\<forall>r \<in> set results. br_Cached r \<longrightarrow> br_Error r = []"
  shows "bt_Success (batch_stats results n) + bt_Errors (batch_stats results n) = length results \<and>
    bt_CacheHits (batch_stats results n) \<le> bt_Success (batch_stats results n)"
proof -
  have "filter br_Cached results = filter br_Cached (filter (\<lambda>r. br_Error r = []) results)"
    using assms by (induction results) auto
  then have "length (filter br_Cached results) \<le> length (filter (\<lambda>r. br_Error r = []) results)"
    by (metis length_filter_le)
  moreover have "length (filter (\<lambda>r. br_Error r = []) results) + length (filter (\<lambda>r. br_Error r \<noteq> []) results) =
      length results"
    by (rule sum_length_filter_compl)
  ultimately show ?thesis by (simp add: batch_stats_count)
qed

end
