(* ===== verification/Wire.thy ===== *)
theory Wire
  imports Public_Types Api_Lookup "HOL-Library.Monad_Syntax"
begin

text \<open>
  The JSON documents that the server and the REST client exchange, at the level of fields: what the struct
  tags of \<open>internal/schema\<close>, \<open>internal/api/lookup.go\<close> and \<open>pkg/rdaplookup/types.go\<close> make of the values on
  one side and read on the other.  \<open>json.Marshal\<close> leaves out empty \<open>omitempty\<close> fields, \<open>json.Unmarshal\<close>
  leaves a field without a value at zero, ignores unknown fields and refuses a value of another kind.
  The text of a document (quoting, replacement of invalid UTF-8) is not modelled.
\<close>

section \<open>Documents\<close>

datatype doc =
    DStr string | DNum nat | DBool bool | DList "doc list" | DObj "(string \<times> doc) list"

type_synonym fields = "(string \<times> doc) list"

definition opt_str :: "string \<Rightarrow> string \<Rightarrow> fields" where
  "opt_str name s = (if s = [] then [] else [(name, DStr s)])"

definition opt_num :: "string \<Rightarrow> 32 word \<Rightarrow> fields" where
  "opt_num name n = (if n = 0 then [] else [(name, DNum (unat n))])"

definition opt_list :: "string \<Rightarrow> doc list \<Rightarrow> fields" where
  "opt_list name ds = (if ds = [] then [] else [(name, DList ds)])"

definition opt_doc :: "string \<Rightarrow> doc option \<Rightarrow> fields" where
  "opt_doc name d = (case d of None \<Rightarrow> [] | Some x \<Rightarrow> [(name, x)])"

definition get_str :: "fields \<Rightarrow> string \<Rightarrow> string option" where
  "get_str fs name =
     (case map_of fs name of None \<Rightarrow> Some [] | Some (DStr s) \<Rightarrow> Some s | _ \<Rightarrow> None)"

definition get_num :: "fields \<Rightarrow> string \<Rightarrow> 32 word option" where
  "get_num fs name =
     (case map_of fs name of
        None \<Rightarrow> Some 0
      | Some (DNum n) \<Rightarrow> if n < 2 ^ 32 then Some (of_nat n) else None
      | _ \<Rightarrow> None)"

definition get_bool :: "fields \<Rightarrow> string \<Rightarrow> bool option" where
  "get_bool fs name =
     (case map_of fs name of None \<Rightarrow> Some False | Some (DBool b) \<Rightarrow> Some b | _ \<Rightarrow> None)"

fun all_some :: "'a option list \<Rightarrow> 'a list option" where
  "all_some [] = Some []"
| "all_some (None # xs) = None"
| "all_some (Some x # xs) = map_option (Cons x) (all_some xs)"

definition get_list :: "(doc \<Rightarrow> 'a option) \<Rightarrow> fields \<Rightarrow> string \<Rightarrow> 'a list option" where
  "get_list dec fs name =
     (case map_of fs name of
        None \<Rightarrow> Some []
      | Some (DList ds) \<Rightarrow> all_some (map dec ds)
      | _ \<Rightarrow> None)"

definition get_ptr :: "(doc \<Rightarrow> 'a option) \<Rightarrow> fields \<Rightarrow> string \<Rightarrow> 'a option option" where
  "get_ptr dec fs name =
     (case map_of fs name of None \<Rightarrow> Some None | Some d \<Rightarrow> map_option Some (dec d))"

definition dec_str :: "doc \<Rightarrow> string option" where
  "dec_str d = (case d of DStr s \<Rightarrow> Some s | _ \<Rightarrow> None)"

definition dec_obj :: "(fields \<Rightarrow> 'a option) \<Rightarrow> doc \<Rightarrow> 'a option" where
  "dec_obj f d = (case d of DObj fs \<Rightarrow> f fs | _ \<Rightarrow> None)"

section \<open>Responses of the server\<close>

definition encode_contact :: "SimpleEntity \<Rightarrow> doc" where
  "encode_contact e = DObj
     (opt_str ''handle'' (se_Handle e) @ opt_str ''name'' (se_Name e) @
      opt_str ''organization'' (se_Organization e) @ opt_str ''email'' (se_Email e) @
      opt_str ''phone'' (se_Phone e) @ opt_str ''address'' (se_Address e) @
      opt_str ''country'' (se_Country e) @ opt_list ''roles'' (map DStr (se_Roles e)))"

definition encode_ns :: "SimpleNS \<Rightarrow> doc" where
  "encode_ns ns = DObj
     ((''name'', DStr (ns_Name ns)) # opt_str ''unicode_name'' (ns_UnicodeName ns) @
      opt_list ''ipv4'' (map DStr (ns_IPv4 ns)) @ opt_list ''ipv6'' (map DStr (ns_IPv6 ns)))"

definition encode_dnssec :: "SimpleDNSSEC \<Rightarrow> doc" where
  "encode_dnssec d = DObj
     [(''signed'', DBool (ds_Signed d)), (''delegation_signed'', DBool (ds_DelegationSigned d))]"

definition encode_domain :: "SimpleDomain \<Rightarrow> fields" where
  "encode_domain d =
     (''name'', DStr (sd_Name d)) # opt_str ''unicode_name'' (sd_UnicodeName d) @
     opt_list ''status'' (map DStr (sd_Status d)) @
     opt_doc ''registrar'' (map_option encode_contact (sd_Registrar d)) @
     opt_doc ''registrant'' (map_option encode_contact (sd_Registrant d)) @
     opt_doc ''admin_contact'' (map_option encode_contact (sd_AdminContact d)) @
     opt_doc ''tech_contact'' (map_option encode_contact (sd_TechContact d)) @
     opt_list ''nameservers'' (map encode_ns (sd_Nameservers d)) @
     opt_str ''created_date'' (sd_CreatedDate d) @ opt_str ''updated_date'' (sd_UpdatedDate d) @
     opt_str ''expiration_date'' (sd_ExpirationDate d) @
     opt_doc ''dnssec'' (map_option encode_dnssec (sd_DNSSEC d)) @
     [(''data_source'', DStr (sd_DataSource d))] @ opt_str ''rdap_server'' (sd_RDAPServer d) @
     opt_str ''whois_server'' (sd_WHOISServer d) @ opt_str ''confidence'' (sd_Confidence d)"

definition encode_asn :: "SimpleASN \<Rightarrow> fields" where
  "encode_asn a =
     (''asn'', DNum (unat (sa_ASN a))) # opt_num ''start_asn'' (sa_StartASN a) @
     opt_num ''end_asn'' (sa_EndASN a) @ opt_str ''name'' (sa_Name a) @ opt_str ''type'' (sa_Type a) @
     opt_str ''country'' (sa_Country a) @ opt_str ''handle'' (sa_Handle a) @
     opt_list ''status'' (map DStr (sa_Status a)) @
     opt_doc ''registrant'' (map_option encode_contact (sa_Registrant a)) @
     opt_doc ''admin_contact'' (map_option encode_contact (sa_AdminContact a)) @
     opt_doc ''tech_contact'' (map_option encode_contact (sa_TechContact a)) @
     opt_doc ''abuse_contact'' (map_option encode_contact (sa_AbuseContact a)) @
     opt_str ''created_date'' (sa_CreatedDate a) @ opt_str ''updated_date'' (sa_UpdatedDate a) @
     opt_str ''rdap_server'' (sa_RDAPServer a)"

definition encode_ip :: "SimpleIP \<Rightarrow> fields" where
  "encode_ip a =
     [(''start_address'', DStr (si_StartAddress a)), (''end_address'', DStr (si_EndAddress a))] @
     opt_list ''cidr'' (map DStr (si_CIDR a)) @ [(''ip_version'', DStr (si_IPVersion a))] @
     opt_str ''name'' (si_Name a) @ opt_str ''type'' (si_Type a) @ opt_str ''country'' (si_Country a) @
     opt_str ''handle'' (si_Handle a) @ opt_str ''parent_handle'' (si_ParentHandle a) @
     opt_list ''status'' (map DStr (si_Status a)) @
     opt_doc ''registrant'' (map_option encode_contact (si_Registrant a)) @
     opt_doc ''admin_contact'' (map_option encode_contact (si_AdminContact a)) @
     opt_doc ''tech_contact'' (map_option encode_contact (si_TechContact a)) @
     opt_doc ''abuse_contact'' (map_option encode_contact (si_AbuseContact a)) @
     opt_str ''created_date'' (si_CreatedDate a) @ opt_str ''updated_date'' (si_UpdatedDate a) @
     opt_str ''rdap_server'' (si_RDAPServer a)"

definition encode_ip_summary :: "SimpleIPSummary \<Rightarrow> doc" where
  "encode_ip_summary n = DObj
     (opt_str ''handle'' (su_Handle n) @ opt_str ''start_address'' (su_StartAddress n) @
      opt_str ''end_address'' (su_EndAddress n) @ opt_str ''name'' (su_Name n) @ opt_str ''country'' (su_Country n))"

definition encode_asn_summary :: "SimpleASNSummary \<Rightarrow> doc" where
  "encode_asn_summary a = DObj
     (opt_num ''asn'' (sn_ASN a) @ opt_str ''handle'' (sn_Handle a) @ opt_str ''name'' (sn_Name a) @
      opt_str ''country'' (sn_Country a))"

definition encode_entity :: "SimpleEntityFull \<Rightarrow> fields" where
  "encode_entity e =
     (''handle'', DStr (sf_Handle e)) # opt_str ''name'' (sf_Name e) @ opt_str ''organization'' (sf_Organization e) @
     opt_str ''email'' (sf_Email e) @ opt_str ''phone'' (sf_Phone e) @ opt_str ''address'' (sf_Address e) @
     opt_str ''country'' (sf_Country e) @ opt_list ''roles'' (map DStr (sf_Roles e)) @
     opt_list ''status'' (map DStr (sf_Status e)) @ opt_str ''created_date'' (sf_CreatedDate e) @
     opt_str ''updated_date'' (sf_UpdatedDate e) @
     opt_list ''related_ip_networks'' (map encode_ip_summary (sf_RelatedIPNets e)) @
     opt_list ''related_asns'' (map encode_asn_summary (sf_RelatedASNs e)) @ opt_str ''rdap_server'' (sf_RDAPServer e)"

section \<open>What the REST client reads\<close>

definition decode_contact :: "doc \<Rightarrow> SimpleContact option" where
  "decode_contact = dec_obj (\<lambda>fs. do {
     handle \<leftarrow> get_str fs ''handle''; name \<leftarrow> get_str fs ''name'';
     org \<leftarrow> get_str fs ''organization''; email \<leftarrow> get_str fs ''email'';
     phone \<leftarrow> get_str fs ''phone''; address \<leftarrow> get_str fs ''address'';
     country \<leftarrow> get_str fs ''country''; roles \<leftarrow> get_list dec_str fs ''roles'';
     Some \<lparr>ct_Handle = handle, ct_Name = name, ct_Organization = org, ct_Email = email,
       ct_Phone = phone, ct_Address = address, ct_Country = country, ct_Roles = roles\<rparr> })"

definition decode_ns :: "doc \<Rightarrow> PublicNS option" where
  "decode_ns = dec_obj (\<lambda>fs. do {
     name \<leftarrow> get_str fs ''name''; uname \<leftarrow> get_str fs ''unicode_name'';
     ipv4 \<leftarrow> get_list dec_str fs ''ipv4''; ipv6 \<leftarrow> get_list dec_str fs ''ipv6'';
     Some \<lparr>pn_Name = name, pn_UnicodeName = uname, pn_IPv4 = ipv4, pn_IPv6 = ipv6\<rparr> })"

definition decode_dnssec :: "doc \<Rightarrow> PublicDNSSEC option" where
  "decode_dnssec = dec_obj (\<lambda>fs. do {
     signed \<leftarrow> get_bool fs ''signed''; delegation \<leftarrow> get_bool fs ''delegation_signed'';
     Some \<lparr>pk_Signed = signed, pk_DelegationSigned = delegation\<rparr> })"

definition decode_domain :: "fields \<Rightarrow> DomainResponse option" where
  "decode_domain fs = do {
     name \<leftarrow> get_str fs ''name''; uname \<leftarrow> get_str fs ''unicode_name'';
     status \<leftarrow> get_list dec_str fs ''status'';
     created \<leftarrow> get_str fs ''created_date''; updated \<leftarrow> get_str fs ''updated_date'';
     expiration \<leftarrow> get_str fs ''expiration_date'';
     registrar \<leftarrow> get_ptr decode_contact fs ''registrar'';
     registrant \<leftarrow> get_ptr decode_contact fs ''registrant'';
     admin \<leftarrow> get_ptr decode_contact fs ''admin_contact'';
     tech \<leftarrow> get_ptr decode_contact fs ''tech_contact'';
     nameservers \<leftarrow> get_list decode_ns fs ''nameservers'';
     dnssec \<leftarrow> get_ptr decode_dnssec fs ''dnssec'';
     country \<leftarrow> get_str fs ''country''; server \<leftarrow> get_str fs ''rdap_server'';
     cached \<leftarrow> get_bool fs ''cached'';
     Some \<lparr>dr_Name = name, dr_UnicodeName = uname, dr_Status = status, dr_CreatedDate = created,
       dr_UpdatedDate = updated, dr_ExpirationDate = expiration, dr_Registrar = registrar,
       dr_Registrant = registrant, dr_AdminContact = admin, dr_TechContact = tech,
       dr_Nameservers = nameservers, dr_DNSSEC = dnssec, dr_Country = country,
       dr_RDAPServer = server, dr_Cached = cached\<rparr> }"

definition decode_public_entity :: "doc \<Rightarrow> PublicEntity option" where
  "decode_public_entity = dec_obj (\<lambda>fs. do {
     handle \<leftarrow> get_str fs ''handle''; name \<leftarrow> get_str fs ''name'';
     org \<leftarrow> get_str fs ''organization''; email \<leftarrow> get_str fs ''email'';
     phone \<leftarrow> get_str fs ''phone''; roles \<leftarrow> get_list dec_str fs ''roles'';
     country \<leftarrow> get_str fs ''country'';
     Some \<lparr>pu_Handle = handle, pu_Name = name, pu_Organization = org, pu_Email = email,
       pu_Phone = phone, pu_Roles = roles, pu_Country = country\<rparr> })"

definition decode_asn :: "fields \<Rightarrow> ASNResponse option" where
  "decode_asn fs = do {
     start \<leftarrow> get_num fs ''start_autnum''; stop \<leftarrow> get_num fs ''end_autnum'';
     handle \<leftarrow> get_str fs ''handle''; name \<leftarrow> get_str fs ''name''; kind \<leftarrow> get_str fs ''type'';
     status \<leftarrow> get_list dec_str fs ''status''; country \<leftarrow> get_str fs ''country'';
     created \<leftarrow> get_str fs ''created_date''; updated \<leftarrow> get_str fs ''updated_date'';
     entities \<leftarrow> get_list decode_public_entity fs ''entities'';
     server \<leftarrow> get_str fs ''rdap_server''; cached \<leftarrow> get_bool fs ''cached'';
     Some \<lparr>nr_StartAutnum = start, nr_EndAutnum = stop, nr_Handle = handle, nr_Name = name,
       nr_Type = kind, nr_Status = status, nr_Country = country, nr_CreatedDate = created,
       nr_UpdatedDate = updated, nr_Entities = entities, nr_RDAPServer = server, nr_Cached = cached\<rparr> }"

definition decode_ip :: "fields \<Rightarrow> IPResponse option" where
  "decode_ip fs = do {
     start \<leftarrow> get_str fs ''start_address''; stop \<leftarrow> get_str fs ''end_address'';
     cidr \<leftarrow> get_list dec_str fs ''cidr''; version \<leftarrow> get_str fs ''ip_version'';
     handle \<leftarrow> get_str fs ''handle''; name \<leftarrow> get_str fs ''name''; kind \<leftarrow> get_str fs ''type'';
     parent \<leftarrow> get_str fs ''parent_handle''; status \<leftarrow> get_list dec_str fs ''status'';
     country \<leftarrow> get_str fs ''country'';
     registrant \<leftarrow> get_ptr decode_contact fs ''registrant'';
     admin \<leftarrow> get_ptr decode_contact fs ''admin_contact'';
     tech \<leftarrow> get_ptr decode_contact fs ''tech_contact'';
     abuse \<leftarrow> get_ptr decode_contact fs ''abuse_contact'';
     created \<leftarrow> get_str fs ''created_date''; updated \<leftarrow> get_str fs ''updated_date'';
     server \<leftarrow> get_str fs ''rdap_server''; cached \<leftarrow> get_bool fs ''cached'';
     Some \<lparr>ir_StartAddress = start, ir_EndAddress = stop, ir_CIDR = cidr, ir_IPVersion = version,
       ir_Handle = handle, ir_Name = name, ir_Type = kind, ir_ParentHandle = parent, ir_Status = status,
       ir_Country = country, ir_Registrant = registrant, ir_AdminContact = admin, ir_TechContact = tech,
       ir_AbuseContact = abuse, ir_CreatedDate = created, ir_UpdatedDate = updated, ir_RDAPServer = server,
       ir_Cached = cached\<rparr> }"

definition decode_ip_net :: "doc \<Rightarrow> SimpleIPNet option" where
  "decode_ip_net = dec_obj (\<lambda>fs. do {
     handle \<leftarrow> get_str fs ''handle''; start \<leftarrow> get_str fs ''start_address'';
     stop \<leftarrow> get_str fs ''end_address''; name \<leftarrow> get_str fs ''name''; country \<leftarrow> get_str fs ''country'';
     Some \<lparr>nt_Handle = handle, nt_StartAddress = start, nt_EndAddress = stop, nt_Name = name, nt_Country = country\<rparr> })"

definition decode_asn_entry :: "doc \<Rightarrow> SimpleASNEntry option" where
  "decode_asn_entry = dec_obj (\<lambda>fs. do {
     asn \<leftarrow> get_num fs ''asn''; handle \<leftarrow> get_str fs ''handle''; name \<leftarrow> get_str fs ''name'';
     country \<leftarrow> get_str fs ''country'';
     Some \<lparr>ae_ASN = asn, ae_Handle = handle, ae_Name = name, ae_Country = country\<rparr> })"

definition decode_entity :: "fields \<Rightarrow> EntityResponse option" where
  "decode_entity fs = do {
     handle \<leftarrow> get_str fs ''handle''; name \<leftarrow> get_str fs ''name''; org \<leftarrow> get_str fs ''organization'';
     email \<leftarrow> get_str fs ''email''; phone \<leftarrow> get_str fs ''phone''; address \<leftarrow> get_str fs ''address'';
     country \<leftarrow> get_str fs ''country''; roles \<leftarrow> get_list dec_str fs ''roles'';
     status \<leftarrow> get_list dec_str fs ''status'';
     created \<leftarrow> get_str fs ''created_date''; updated \<leftarrow> get_str fs ''updated_date'';
     nets \<leftarrow> get_list decode_ip_net fs ''related_ip_networks'';
     asns \<leftarrow> get_list decode_asn_entry fs ''related_asns'';
     server \<leftarrow> get_str fs ''rdap_server''; cached \<leftarrow> get_bool fs ''cached'';
     Some \<lparr>xr_Handle = handle, xr_Name = name, xr_Organization = org, xr_Email = email, xr_Phone = phone,
       xr_Address = address, xr_Country = country, xr_Roles = roles, xr_Status = status,
       xr_CreatedDate = created, xr_UpdatedDate = updated, xr_RelatedIPNets = nets, xr_RelatedASNs = asns,
       xr_RDAPServer = server, xr_Cached = cached\<rparr> }"

section \<open>Batch queries\<close>

definition encode_batch_query :: "PublicBatchQuery \<Rightarrow> fields" where
  "encode_batch_query q =
     [(''type'', DStr (pq_Type q)), (''value'', DStr (pq_Value q))] @ opt_str ''server_url'' (pq_ServerURL q)"

definition decode_batch_query :: "fields \<Rightarrow> BatchQuery option" where
  "decode_batch_query fs = do {
     kind \<leftarrow> get_str fs ''type''; v \<leftarrow> get_str fs ''value''; server \<leftarrow> get_str fs ''server'';
     Some \<lparr>bq_Type = kind, bq_Value = v, bq_Server = server\<rparr> }"

section \<open>Lemmas\<close>

text \<open>A field is looked up past the fields of other names.\<close>

lemma map_of_opt:
  "m \<noteq> n \<Longrightarrow> map_of (opt_str n s @ fs) m = map_of fs m"
  "m \<noteq> n \<Longrightarrow> map_of (opt_num n w @ fs) m = map_of fs m"
  "m \<noteq> n \<Longrightarrow> map_of (opt_list n ds @ fs) m = map_of fs m"
  "m \<noteq> n \<Longrightarrow> map_of (opt_doc n d @ fs) m = map_of fs m"
  "m \<noteq> n \<Longrightarrow> map_of (opt_str n s) m = None"
  "m \<noteq> n \<Longrightarrow> map_of (opt_list n ds) m = None"
  "map_of (opt_str n s @ fs) n = (if s = [] then map_of fs n else Some (DStr s))"
  "map_of (opt_list n ds @ fs) n = (if ds = [] then map_of fs n else Some (DList ds))"
  "map_of (opt_doc n d @ fs) n = (case d of None \<Rightarrow> map_of fs n | Some x \<Rightarrow> Some x)"
  "map_of (opt_str n s) n = (if s = [] then None else Some (DStr s))"
  "map_of (opt_list n ds) n = (if ds = [] then None else Some (DList ds))"
  by (auto simp: opt_str_def opt_num_def opt_list_def opt_doc_def split: option.split)

lemma all_some_map: "(\<And>x. x \<in> set xs \<Longrightarrow> dec (enc x) = Some (f x)) \<Longrightarrow> all_some (map dec (map enc xs)) = Some (map f xs)"
  by (induction xs) auto

lemma all_some_strings [simp]: "all_some (map (dec_str \<circ> DStr) xs) = Some xs"
  by (induction xs) (auto simp: dec_str_def)

lemmas get_defs = get_str_def get_num_def get_bool_def get_list_def get_ptr_def map_of_opt

lemma decode_encode_contact: "decode_contact (encode_contact e) = contactFromSchema (Some e)"
  by (auto simp: decode_contact_def encode_contact_def dec_obj_def get_defs contactFromSchema_def simp del: map_of_append)

lemma decode_encode_ns:
  "decode_ns (encode_ns ns) =
     Some \<lparr>pn_Name = ns_Name ns, pn_UnicodeName = ns_UnicodeName ns, pn_IPv4 = ns_IPv4 ns, pn_IPv6 = ns_IPv6 ns\<rparr>"
  by (auto simp: decode_ns_def encode_ns_def dec_obj_def get_defs simp del: map_of_append)

lemma decode_encode_dnssec:
  "decode_dnssec (encode_dnssec d) = Some \<lparr>pk_Signed = ds_Signed d, pk_DelegationSigned = ds_DelegationSigned d\<rparr>"
  by (auto simp: decode_dnssec_def encode_dnssec_def dec_obj_def get_defs simp del: map_of_append)

lemma decode_encode_nss:
  "all_some (map decode_ns (map encode_ns nss)) =
     Some (map (\<lambda>ns. \<lparr>pn_Name = ns_Name ns, pn_UnicodeName = ns_UnicodeName ns, pn_IPv4 = ns_IPv4 ns,
       pn_IPv6 = ns_IPv6 ns\<rparr>) nss)"
  by (rule all_some_map) (rule decode_encode_ns)

text \<open>Reading one field of the document of a domain.\<close>

lemma domain_fields:
  "get_str (encode_domain d) ''name'' = Some (sd_Name d)"
  "get_str (encode_domain d) ''unicode_name'' = Some (sd_UnicodeName d)"
  "get_str (encode_domain d) ''created_date'' = Some (sd_CreatedDate d)"
  "get_str (encode_domain d) ''updated_date'' = Some (sd_UpdatedDate d)"
  "get_str (encode_domain d) ''expiration_date'' = Some (sd_ExpirationDate d)"
  "get_str (encode_domain d) ''rdap_server'' = Some (sd_RDAPServer d)"
  "get_str (encode_domain d) ''country'' = Some []"
  "get_bool (encode_domain d) ''cached'' = Some False"
  "get_list dec_str (encode_domain d) ''status'' = Some (sd_Status d)"
  by (auto simp: encode_domain_def get_defs simp del: map_of_append split: option.split)

lemma domain_pointers:
  "get_ptr decode_contact (encode_domain d) ''registrar'' = Some (contactFromSchema (sd_Registrar d))"
  "get_ptr decode_contact (encode_domain d) ''registrant'' = Some (contactFromSchema (sd_Registrant d))"
  "get_ptr decode_contact (encode_domain d) ''admin_contact'' = Some (contactFromSchema (sd_AdminContact d))"
  "get_ptr decode_contact (encode_domain d) ''tech_contact'' = Some (contactFromSchema (sd_TechContact d))"
  "get_ptr decode_dnssec (encode_domain d) ''dnssec'' =
     Some (map_option (\<lambda>x. \<lparr>pk_Signed = ds_Signed x, pk_DelegationSigned = ds_DelegationSigned x\<rparr>) (sd_DNSSEC d))"
  by (auto simp: encode_domain_def get_defs decode_encode_contact decode_encode_dnssec contactFromSchema_def
      simp del: map_of_append split: option.split)

lemma domain_nameservers:
  "get_list decode_ns (encode_domain d) ''nameservers'' =
     Some (map (\<lambda>ns. \<lparr>pn_Name = ns_Name ns, pn_UnicodeName = ns_UnicodeName ns, pn_IPv4 = ns_IPv4 ns,
       pn_IPv6 = ns_IPv6 ns\<rparr>) (sd_Nameservers d))"
  using decode_encode_nss [of "sd_Nameservers d"]
  by (auto simp: encode_domain_def get_defs simp del: map_of_append split: option.split)

text \<open>The REST client reads what the standalone client makes, but for the country.\<close>

lemma decode_encode_domain:
  "decode_domain (encode_domain d) = map_option (\<lambda>r. r\<lparr>dr_Country := []\<rparr>) (domainFromSchema (Some d))"
  by (simp add: decode_domain_def domain_fields domain_pointers domain_nameservers domainFromSchema_def)

lemma asn_fields:
  "get_num (encode_asn a) ''start_autnum'' = Some 0"
  "get_num (encode_asn a) ''end_autnum'' = Some 0"
  "get_list decode_public_entity (encode_asn a) ''entities'' = Some []"
  "get_str (encode_asn a) ''handle'' = Some (sa_Handle a)"
  "get_str (encode_asn a) ''name'' = Some (sa_Name a)"
  "get_str (encode_asn a) ''type'' = Some (sa_Type a)"
  "get_str (encode_asn a) ''country'' = Some (sa_Country a)"
  "get_str (encode_asn a) ''created_date'' = Some (sa_CreatedDate a)"
  "get_str (encode_asn a) ''updated_date'' = Some (sa_UpdatedDate a)"
  "get_str (encode_asn a) ''rdap_server'' = Some (sa_RDAPServer a)"
  "get_list dec_str (encode_asn a) ''status'' = Some (sa_Status a)"
  "get_bool (encode_asn a) ''cached'' = Some False"
  by (auto simp: encode_asn_def get_defs simp del: map_of_append split: option.split)

lemma decode_encode_asn:
  "decode_asn (encode_asn a) =
     map_option (\<lambda>r. r\<lparr>nr_StartAutnum := 0, nr_EndAutnum := 0, nr_Entities := []\<rparr>) (asnFromSchema (Some a))"
  by (simp add: decode_asn_def asn_fields asnFromSchema_def)

lemma ip_fields:
  "get_str (encode_ip a) ''start_address'' = Some (si_StartAddress a)"
  "get_str (encode_ip a) ''end_address'' = Some (si_EndAddress a)"
  "get_list dec_str (encode_ip a) ''cidr'' = Some (si_CIDR a)"
  "get_str (encode_ip a) ''ip_version'' = Some (si_IPVersion a)"
  "get_str (encode_ip a) ''handle'' = Some (si_Handle a)"
  "get_str (encode_ip a) ''name'' = Some (si_Name a)"
  "get_str (encode_ip a) ''type'' = Some (si_Type a)"
  "get_str (encode_ip a) ''parent_handle'' = Some (si_ParentHandle a)"
  "get_list dec_str (encode_ip a) ''status'' = Some (si_Status a)"
  "get_str (encode_ip a) ''country'' = Some (si_Country a)"
  "get_str (encode_ip a) ''created_date'' = Some (si_CreatedDate a)"
  "get_str (encode_ip a) ''updated_date'' = Some (si_UpdatedDate a)"
  "get_str (encode_ip a) ''rdap_server'' = Some (si_RDAPServer a)"
  "get_bool (encode_ip a) ''cached'' = Some False"
  by (auto simp: encode_ip_def get_defs simp del: map_of_append split: option.split)

lemma ip_pointers:
  "get_ptr decode_contact (encode_ip a) ''registrant'' = Some (contactFromSchema (si_Registrant a))"
  "get_ptr decode_contact (encode_ip a) ''admin_contact'' = Some (contactFromSchema (si_AdminContact a))"
  "get_ptr decode_contact (encode_ip a) ''tech_contact'' = Some (contactFromSchema (si_TechContact a))"
  "get_ptr decode_contact (encode_ip a) ''abuse_contact'' = Some (contactFromSchema (si_AbuseContact a))"
  by (auto simp: encode_ip_def get_defs decode_encode_contact contactFromSchema_def
      simp del: map_of_append split: option.split)

lemma decode_encode_ip: "decode_ip (encode_ip a) = ipFromSchema (Some a)"
  by (simp add: decode_ip_def ip_fields ip_pointers ipFromSchema_def)

lemma map_of_opt_num: "map_of (opt_num n w @ fs) n = (if w = 0 then map_of fs n else Some (DNum (unat w)))"
  by (simp add: opt_num_def)

lemma decode_encode_summary:
  "decode_ip_net (encode_ip_summary n) =
     Some \<lparr>nt_Handle = su_Handle n, nt_StartAddress = su_StartAddress n, nt_EndAddress = su_EndAddress n,
       nt_Name = su_Name n, nt_Country = su_Country n\<rparr>"
  "decode_asn_entry (encode_asn_summary a) =
     Some \<lparr>ae_ASN = sn_ASN a, ae_Handle = sn_Handle a, ae_Name = sn_Name a, ae_Country = sn_Country a\<rparr>"
  using unsigned_less [of "sn_ASN a"]
  by (auto simp: decode_ip_net_def encode_ip_summary_def decode_asn_entry_def encode_asn_summary_def dec_obj_def
      map_of_opt_num get_defs simp del: map_of_append)

lemma entity_fields:
  "get_str (encode_entity e) ''handle'' = Some (sf_Handle e)"
  "get_str (encode_entity e) ''name'' = Some (sf_Name e)"
  "get_str (encode_entity e) ''organization'' = Some (sf_Organization e)"
  "get_str (encode_entity e) ''email'' = Some (sf_Email e)"
  "get_str (encode_entity e) ''phone'' = Some (sf_Phone e)"
  "get_str (encode_entity e) ''address'' = Some (sf_Address e)"
  "get_str (encode_entity e) ''country'' = Some (sf_Country e)"
  "get_list dec_str (encode_entity e) ''roles'' = Some (sf_Roles e)"
  "get_list dec_str (encode_entity e) ''status'' = Some (sf_Status e)"
  "get_str (encode_entity e) ''created_date'' = Some (sf_CreatedDate e)"
  "get_str (encode_entity e) ''updated_date'' = Some (sf_UpdatedDate e)"
  "get_str (encode_entity e) ''rdap_server'' = Some (sf_RDAPServer e)"
  "get_bool (encode_entity e) ''cached'' = Some False"
  by (auto simp: encode_entity_def get_defs simp del: map_of_append split: option.split)

lemma entity_lists:
  "get_list decode_ip_net (encode_entity e) ''related_ip_networks'' =
     Some (map (\<lambda>n. \<lparr>nt_Handle = su_Handle n, nt_StartAddress = su_StartAddress n, nt_EndAddress = su_EndAddress n,
       nt_Name = su_Name n, nt_Country = su_Country n\<rparr>) (sf_RelatedIPNets e))"
  "get_list decode_asn_entry (encode_entity e) ''related_asns'' =
     Some (map (\<lambda>a. \<lparr>ae_ASN = sn_ASN a, ae_Handle = sn_Handle a, ae_Name = sn_Name a, ae_Country = sn_Country a\<rparr>)
       (sf_RelatedASNs e))"
  using all_some_map [where dec = decode_ip_net and enc = encode_ip_summary and xs = "sf_RelatedIPNets e", OF decode_encode_summary(1)]
    all_some_map [where dec = decode_asn_entry and enc = encode_asn_summary and xs = "sf_RelatedASNs e", OF decode_encode_summary(2)]
  by (auto simp: encode_entity_def get_defs simp del: map_of_append split: option.split)

lemma decode_encode_entity: "decode_entity (encode_entity e) = entityFromSchema (Some e)"
  by (simp add: decode_entity_def entity_fields entity_lists entityFromSchema_def)

text \<open>The server does not read the server URL that the REST client writes.\<close>

lemma decode_encode_batch_query:
  "decode_batch_query (encode_batch_query q) = Some \<lparr>bq_Type = pq_Type q, bq_Value = pq_Value q, bq_Server = []\<rparr>"
  by (auto simp: decode_batch_query_def encode_batch_query_def get_defs simp del: map_of_append)

end
