(* ===== verification/Public_Client.thy ===== *)
theory Public_Client
  imports GoUrl GoIO Public_Types Config Bootstrap_Loader
begin

text \<open>
  \<open>pkg/rdaplookup/client.go\<close>: the client of the REST API.  The HTTP client, the wait of the backoff and JSON
  are parameters.  A value of Go type \<open>any\<close> that a response is decoded into is carried through the
  attempts: \<open>json.Unmarshal\<close> stores into it also when it fails.
\<close>

section \<open>The client\<close>

text \<open>The request as the server sees it; \<open>None\<close> for a header that is not set.\<close>

record api_request =
  aq_Method :: string
  aq_URL :: string
  aq_UserAgent :: "string option"
  aq_Body :: "string option"

text \<open>The HTTP client: its timeout, and what it does with a request under a timeout.\<close>

record 'w api_http =
  hc_Timeout :: int
  hc_Do :: "int \<Rightarrow> 'w \<Rightarrow> api_request \<Rightarrow> http_outcome \<times> 'w"

record 'w api_client =
  ac_baseURL :: string
  ac_httpClient :: "'w api_http"
  ac_maxRetries :: int
  ac_maxResponseSize :: int
  ac_userAgent :: string
  ac_normalizeDomains :: bool

type_synonym 'w api_option = "'w api_client \<Rightarrow> 'w api_client"

definition WithTimeout :: "int \<Rightarrow> 'w api_option" where
  "WithTimeout d c = c\<lparr>ac_httpClient := (ac_httpClient c)\<lparr>hc_Timeout := d\<rparr>\<rparr>"

definition Api_WithHTTPClient :: "'w api_http \<Rightarrow> 'w api_option" where
  "Api_WithHTTPClient client c = c\<lparr>ac_httpClient := client\<rparr>"

definition Api_WithMaxRetries :: "int \<Rightarrow> 'w api_option" where
  "Api_WithMaxRetries n c = c\<lparr>ac_maxRetries := n\<rparr>"

definition Api_WithUserAgent :: "string \<Rightarrow> 'w api_option" where
  "Api_WithUserAgent ua c = c\<lparr>ac_userAgent := ua\<rparr>"

definition WithMaxResponseSize :: "int \<Rightarrow> 'w api_option" where
  "WithMaxResponseSize n c = c\<lparr>ac_maxResponseSize := n\<rparr>"

definition WithDomainNormalization :: "bool \<Rightarrow> 'w api_option" where
  "WithDomainNormalization enabled c = c\<lparr>ac_normalizeDomains := enabled\<rparr>"

definition DefaultTimeout :: int where "DefaultTimeout = seconds 30"
definition DefaultMaxRetries :: int where "DefaultMaxRetries = 2"
definition Api_DefaultMaxResponseSize :: int where "Api_DefaultMaxResponseSize = 10 * 1024 * 1024"

text \<open>\<open>transport\<close> is what \<open>http.DefaultTransport\<close> does.\<close>

definition Api_NewClient ::
  "(int \<Rightarrow> 'w \<Rightarrow> api_request \<Rightarrow> http_outcome \<times> 'w) \<Rightarrow> string \<Rightarrow> 'w api_option list \<Rightarrow>
   pub_error + 'w api_client" where
  "Api_NewClient transport baseURL0 opts =
     (let baseURL = trim_right_set baseURL0 ''/'' in
      case url_Parse baseURL of
        None \<Rightarrow> Inl (PWrap ''invalid base URL'' (PGo (OtherError ''parse'')))
      | Some _ \<Rightarrow>
          Inr (foldl (\<lambda>c opt. opt c)
            \<lparr>ac_baseURL = baseURL, ac_httpClient = \<lparr>hc_Timeout = DefaultTimeout, hc_Do = transport\<rparr>,
             ac_maxRetries = DefaultMaxRetries, ac_maxResponseSize = Api_DefaultMaxResponseSize,
             ac_userAgent = ''rdaplookup-client/1.0'', ac_normalizeDomains = True\<rparr> opts))"

section \<open>One request\<close>

text \<open>
  \<open>ae_error\<close> decodes an error body into the code and the message of its \<open>Error\<close> field, if it has one.
\<close>

record 'w api_env =
  ae_wait :: "'w \<Rightarrow> int \<Rightarrow> go_error option \<times> 'w"
  ae_error :: "string \<Rightarrow> (string \<times> string) option"

text \<open>\<open>Unmarshal\<close> into a value: the value after it, and whether it failed.\<close>

type_synonym 'a unmarshal = "string \<Rightarrow> 'a \<Rightarrow> go_error option \<times> 'a"

definition api_error :: "'w api_env \<Rightarrow> nat \<Rightarrow> string \<Rightarrow> pub_error" where
  "api_error env status body =
     (case ae_error env body of
        Some (code, message) \<Rightarrow> PApi status code message
      | None \<Rightarrow> PApi status [] body)"

text \<open>What \<open>doSingleRequest\<close> makes of the outcome of \<open>Do\<close>; without a result nothing is decoded.\<close>

definition api_reply ::
  "'w api_env \<Rightarrow> 'w api_client \<Rightarrow> 'a unmarshal option \<Rightarrow> http_outcome \<Rightarrow> 'a \<Rightarrow> pub_error option \<times> 'a" where
  "api_reply env c un resp result =
     (case ho_error resp of
        Some err \<Rightarrow> (Some (PWrap ''request failed'' (PGo err)), result)
      | None \<Rightarrow>
          (case limit_reader (nat (ac_maxResponseSize c)) (ho_body resp) of
             (_, Some err) \<Rightarrow> (Some (PWrap ''failed to read response'' (PGo err)), result)
           | (body, None) \<Rightarrow>
               if ho_status resp \<ge> 400 then (Some (api_error env (ho_status resp) body), result)
               else (case un of
                       None \<Rightarrow> (None, result)
                     | Some f \<Rightarrow>
                         if body = [] then (None, result)
                         else (case f body result of
                                 (Some err, r) \<Rightarrow> (Some (PWrap ''failed to parse response'' (PGo err)), r)
                               | (None, r) \<Rightarrow> (None, r)))))"

definition api_req :: "'w api_client \<Rightarrow> string \<Rightarrow> string \<Rightarrow> string option \<Rightarrow> api_request" where
  "api_req c method path body =
     \<lparr>aq_Method = method, aq_URL = ac_baseURL c @ path,
      aq_UserAgent = (if ac_userAgent c = [] then None else Some (ac_userAgent c)), aq_Body = body\<rparr>"

definition doSingleRequest ::
  "'w api_env \<Rightarrow> 'w api_client \<Rightarrow> 'a unmarshal option \<Rightarrow> api_request \<Rightarrow> 'a \<Rightarrow> 'w \<Rightarrow>
   pub_error option \<times> 'a \<times> 'w" where
  "doSingleRequest env c un req result w =
     (case url_Parse (aq_URL req) of
        None \<Rightarrow> (Some (PWrap ''failed to create request'' (PGo (OtherError ''parse''))), result, w)
      | Some _ \<Rightarrow>
          (let (resp, w1) = hc_Do (ac_httpClient c) (hc_Timeout (ac_httpClient c)) w req;
               (err, result1) = api_reply env c un resp result
           in (err, result1, w1)))"

section \<open>Retries\<close>

text \<open>\<open>time.Duration (100 << (attempt - 1)) * time.Millisecond\<close>: both operations wrap.\<close>

definition api_backoff :: "nat \<Rightarrow> int" where
  "api_backoff attempt = int64 (int64 (100 * 2 ^ (attempt - 1)) * 10 ^ 6)"

definition client_error :: "pub_error \<Rightarrow> bool" where
  "client_error err =
     (case as_api_error err of Some (status, _, _) \<Rightarrow> status \<ge> 400 \<and> status < 500 | None \<Rightarrow> False)"

fun api_attempts ::
  "'w api_env \<Rightarrow> 'w api_client \<Rightarrow> 'a unmarshal option \<Rightarrow> api_request \<Rightarrow> nat \<Rightarrow> nat \<Rightarrow> pub_error option \<Rightarrow> 'a \<Rightarrow> 'w \<Rightarrow>
   pub_error option \<times> 'a \<times> 'w" where
  "api_attempts env c un req attempt 0 lastErr result w = (lastErr, result, w)"
| "api_attempts env c un req attempt (Suc left) lastErr result w =
     (let (ctxErr, w1) = (if attempt > 0 then ae_wait env w (api_backoff attempt) else (None, w)) in
      case ctxErr of
        Some err \<Rightarrow> (Some (PGo err), result, w1)
      | None \<Rightarrow>
          (case doSingleRequest env c un req result w1 of
             (None, result1, w2) \<Rightarrow> (None, result1, w2)
           | (Some err, result1, w2) \<Rightarrow>
               if client_error err then (Some err, result1, w2)
               else api_attempts env c un req (Suc attempt) left (Some err) result1 w2))"

text \<open>The body is what \<open>json.Marshal\<close> gives, which is the same for every attempt.\<close>

definition doRequest ::
  "'w api_env \<Rightarrow> 'w api_client \<Rightarrow> string \<Rightarrow> string \<Rightarrow> (go_error + string) option \<Rightarrow> 'a unmarshal option \<Rightarrow> 'a \<Rightarrow> 'w \<Rightarrow>
   pub_error option \<times> 'a \<times> 'w" where
  "doRequest env c method path body un result w =
     (case body of
        Some (Inl err) \<Rightarrow> (Some (PWrap ''failed to marshal request body'' (PGo err)), result, w)
      | Some (Inr data) \<Rightarrow>
          api_attempts env c un (api_req c method path (Some data)) 0 (nat (ac_maxRetries c + 1)) None result w
      | None \<Rightarrow>
          api_attempts env c un (api_req c method path None) 0 (nat (ac_maxRetries c + 1)) None result w)"

section \<open>Operations\<close>

definition apiV1Prefix :: string where "apiV1Prefix = ''/api/v1''"

text \<open>A lookup returns the value it decoded into; \<open>zero\<close> is the value before it.\<close>

definition api_value :: "pub_error option \<times> 'a \<times> 'w \<Rightarrow> (pub_error + 'a) \<times> 'w" where
  "api_value r = (case r of (Some err, _, w) \<Rightarrow> (Inl err, w) | (None, result, w) \<Rightarrow> (Inr result, w))"

definition Api_LookupDomain ::
  "'w api_env \<Rightarrow> suffix_list \<Rightarrow> 'w api_client \<Rightarrow> 'a unmarshal \<Rightarrow> 'a \<Rightarrow> string \<Rightarrow> 'w \<Rightarrow> (pub_error + 'a) \<times> 'w" where
  "Api_LookupDomain env ps c un zero name0 w =
     (let name = (if ac_normalizeDomains c then NormalizeDomain ps name0 else name0) in
      api_value (doRequest env c ''GET'' (apiV1Prefix @ ''/domain/'' @ PathEscape name) None (Some un) zero w))"

definition Api_LookupIP ::
  "'w api_env \<Rightarrow> 'w api_client \<Rightarrow> 'a unmarshal \<Rightarrow> 'a \<Rightarrow> string \<Rightarrow> 'w \<Rightarrow> (pub_error + 'a) \<times> 'w" where
  "Api_LookupIP env c un zero addr w =
     api_value (doRequest env c ''GET'' (apiV1Prefix @ ''/ip/'' @ PathEscape addr) None (Some un) zero w)"

definition Api_LookupASN ::
  "'w api_env \<Rightarrow> 'w api_client \<Rightarrow> 'a unmarshal \<Rightarrow> 'a \<Rightarrow> string \<Rightarrow> 'w \<Rightarrow> (pub_error + 'a) \<times> 'w" where
  "Api_LookupASN env c un zero asn w =
     api_value (doRequest env c ''GET'' (apiV1Prefix @ ''/asn/'' @ PathEscape asn) None (Some un) zero w)"

definition Api_LookupEntity ::
  "'w api_env \<Rightarrow> 'w api_client \<Rightarrow> 'a unmarshal \<Rightarrow> 'a \<Rightarrow> string \<Rightarrow> string \<Rightarrow> 'w \<Rightarrow> (pub_error + 'a) \<times> 'w" where
  "Api_LookupEntity env c un zero handle serverURL w =
     (let path = apiV1Prefix @ ''/entity/'' @ PathEscape handle;
          path = (if serverURL \<noteq> [] then path @ ''?server='' @ QueryEscape serverURL else path) in
      api_value (doRequest env c ''GET'' path None (Some un) zero w))"

definition normalize_query :: "suffix_list \<Rightarrow> PublicBatchQuery \<Rightarrow> PublicBatchQuery" where
  "normalize_query ps q =
     (if pq_Type q = ''domain'' then q\<lparr>pq_Value := NormalizeDomain ps (pq_Value q)\<rparr> else q)"

text \<open>
  \<open>marshal\<close> encodes a request, also a nil pointer; with the normalisation a nil request is dereferenced
  (\<open>None\<close>).
\<close>

definition Api_BatchLookup ::
  "'w api_env \<Rightarrow> suffix_list \<Rightarrow> 'w api_client \<Rightarrow> (PublicBatchQuery list option \<Rightarrow> go_error + string) \<Rightarrow> 'a unmarshal \<Rightarrow>
   'a \<Rightarrow> PublicBatchQuery list option \<Rightarrow> 'w \<Rightarrow> ((pub_error + 'a) \<times> 'w) option" where
  "Api_BatchLookup env ps c marshal un zero req w =
     (let send = (\<lambda>r. Some (api_value (doRequest env c ''POST'' (apiV1Prefix @ ''/batch'') (Some (marshal r)) (Some un) zero w))) in
      if ac_normalizeDomains c then
        (case req of None \<Rightarrow> None | Some qs \<Rightarrow> send (Some (map (normalize_query ps) qs)))
      else send req)"

definition Api_Health :: "'w api_env \<Rightarrow> 'w api_client \<Rightarrow> 'w \<Rightarrow> pub_error option \<times> 'w" where
  "Api_Health env c w =
     (case doRequest env c ''GET'' ''/healthz'' None None () w of (err, _, w1) \<Rightarrow> (err, w1))"

definition Api_Ready :: "'w api_env \<Rightarrow> 'w api_client \<Rightarrow> 'w \<Rightarrow> pub_error option \<times> 'w" where
  "Api_Ready env c w =
     (case doRequest env c ''GET'' ''/ready'' None None () w of (err, _, w1) \<Rightarrow> (err, w1))"

definition Api_Meta ::
  "'w api_env \<Rightarrow> 'w api_client \<Rightarrow> 'a unmarshal \<Rightarrow> 'a \<Rightarrow> 'w \<Rightarrow> (pub_error + 'a) \<times> 'w" where
  "Api_Meta env c un zero w = api_value (doRequest env c ''GET'' ''/meta'' None (Some un) zero w)"

definition Api_Close :: "'w api_client \<Rightarrow> pub_error option" where
  "Api_Close c = None"

section \<open>Which requests are made\<close>

lemma api_attempts_step:
  assumes "(if a > 0 then ae_wait env w (api_backoff a) else (None, w)) = (e, w1)"
  shows "api_attempts env c un req a (Suc n) lastErr r w =
    (case e of
       Some err \<Rightarrow> (Some (PGo err), r, w1)
     | None \<Rightarrow>
         (case doSingleRequest env c un req r w1 of
            (None, r1, w2) \<Rightarrow> (None, r1, w2)
          | (Some err, r1, w2) \<Rightarrow>
              if client_error err then (Some err, r1, w2)
              else api_attempts env c un req (Suc a) n (Some err) r1 w2))"
  by (simp only: api_attempts.simps assms Let_def case_prod_conv)

declare api_attempts.simps(2) [simp del]

text \<open>A negative number of retries makes no attempt, and no attempt is no error.\<close>

lemma doRequest_negative:
  "\<lbrakk>ac_maxRetries c < 0; \<forall>err. body \<noteq> Some (Inl err)\<rbrakk> \<Longrightarrow> doRequest env c method path body un result w = (None, result, w)"
  by (auto simp: doRequest_def split: option.split sum.split)

lemma doRequest_simps:
  "doRequest env c method path None un result w =
     api_attempts env c un (api_req c method path None) 0 (nat (ac_maxRetries c + 1)) None result w"
  "doRequest env c method path (Some (Inr data)) un result w =
     api_attempts env c un (api_req c method path (Some data)) 0 (nat (ac_maxRetries c + 1)) None result w"
  by (simp_all add: doRequest_def)

text \<open>\<open>log\<close> records the requests.\<close>

definition api_traced :: "'w api_env \<Rightarrow> 'w api_client \<Rightarrow> ('w \<Rightarrow> api_request list) \<Rightarrow> bool" where
  "api_traced env c log \<longleftrightarrow>
     (\<forall>t w req. log (snd (hc_Do (ac_httpClient c) t w req)) = log w @ [req]) \<and>
     (\<forall>w d. log (snd (ae_wait env w d)) = log w)"

lemma doSingleRequest_log:
  "\<lbrakk>api_traced env c log; doSingleRequest env c un req r w = (e, r1, w1)\<rbrakk> \<Longrightarrow>
   log w1 = log w @ (if url_Parse (aq_URL req) = None then [] else [req])"
  by (auto simp: doSingleRequest_def api_traced_def split: option.splits prod.splits) (metis snd_conv)

lemma api_wait_log:
  "\<lbrakk>api_traced env c log; (if a > 0 then ae_wait env w d else (None, w)) = (e, w1)\<rbrakk> \<Longrightarrow> log w1 = log w"
  unfolding api_traced_def by (metis prod.inject snd_conv)

lemma api_attempts_log:
  assumes "api_traced env c log"
  shows "api_attempts env c un req a n lastErr r w = (e, r1, w1) \<Longrightarrow>
    \<exists>k \<le> n. log w1 = log w @ replicate k req"
proof (induction n arbitrary: a lastErr r w)
  case (Suc n)
  obtain e0 w0 where wait: "(if a > 0 then ae_wait env w (api_backoff a) else (None, w)) = (e0, w0)"
    by fastforce
  obtain e2 r2 w2 where q: "doSingleRequest env c un req r w0 = (e2, r2, w2)" by (metis prod_cases3)
  have log0: "log w0 = log w" by (rule api_wait_log [OF assms wait])
  have "\<exists>j \<le> 1. log w2 = log w @ replicate j req"
    using doSingleRequest_log [OF assms q] log0
    by (cases "url_Parse (aq_URL req) = None") (auto intro: exI [of _ 0] exI [of _ 1])
  then obtain j where j: "j \<le> 1" "log w2 = log w @ replicate j req" by blast
  consider "w1 = w0" | "w1 = w2" | err where "api_attempts env c un req (Suc a) n (Some err) r2 w2 = (e, r1, w1)"
    using Suc.prems unfolding api_attempts_step [OF wait] q by (auto split: option.splits if_splits)
  then show ?case
  proof cases
    case 1
    then show ?thesis using log0 by (intro exI [of _ 0]) simp
  next
    case 2
    then show ?thesis using j by (intro exI [of _ j]) auto
  next
    case 3
    then obtain k where "k \<le> n" "log w1 = log w2 @ replicate k req" using Suc.IH by blast
    then show ?thesis using j by (intro exI [of _ "j + k"]) (auto simp: replicate_add)
  qed
qed auto

section \<open>Conclusive replies\<close>

text \<open>A success or a client error is not tried again.\<close>

lemma api_attempts_first:
  assumes "doSingleRequest env c un req r w = (e, r1, w1)" and "e = None \<or> (\<exists>err. e = Some err \<and> client_error err)"
    and "0 \<le> ac_maxRetries c"
  shows "api_attempts env c un req 0 (nat (ac_maxRetries c + 1)) None r w = (e, r1, w1)"
proof -
  have "nat (ac_maxRetries c + 1) = Suc (nat (ac_maxRetries c))" using assms(3) by simp
  then show ?thesis
    using assms(1,2) api_attempts_step [of 0 env w None w c un req "nat (ac_maxRetries c)" None r] by auto
qed

text \<open>When every attempt fails with an error that is not the client's, the last error is returned.\<close>

lemma api_attempts_all_fail:
  assumes "\<And>r w. \<exists>w1. doSingleRequest env c un req r w = (Some err, r, w1)" and "\<not> client_error err"
    and "\<And>w d. fst (ae_wait env w d) = None"
  shows "0 < n \<or> lastErr = Some err \<Longrightarrow> \<exists>w1. api_attempts env c un req a n lastErr r w = (Some err, r, w1)"
proof (induction n arbitrary: a lastErr w)
  case (Suc n)
  obtain e0 w0 where wait: "(if a > 0 then ae_wait env w (api_backoff a) else (None, w)) = (e0, w0)"
    by fastforce
  moreover have "e0 = None" using wait assms(3) by (metis fst_conv)
  moreover obtain w2 where "doSingleRequest env c un req r w0 = (Some err, r, w2)" using assms(1) by blast
  ultimately show ?case
    using Suc.IH [of "Some err" "Suc a" w2] assms(2) by (simp add: api_attempts_step [OF wait])
qed simp

end
