(* ===== verification/End_To_End.thy ===== *)
theory End_To_End
  imports Wire Public_Client
begin

text \<open>
  The REST client against the handlers: a response of \<open>internal/api\<close>, sent over HTTP, as
  \<open>pkg/rdaplookup/client.go\<close> and \<open>errors.go\<close> read it.  The text of a body is a parameter.
\<close>

definition rendered :: "(http_body \<Rightarrow> string) \<Rightarrow> http_response \<Rightarrow> http_outcome" where
  "rendered render resp = \<lparr>ho_error = None, ho_status = hr_status resp, ho_body = ([render (hr_body resp)], None)\<rparr>"

text \<open>
  The server answers each request with the same response, whose text the client can read back within its
  limit, and the waits are not cut short.
\<close>

definition answers ::
  "'w api_env \<Rightarrow> 'w api_client \<Rightarrow> (http_body \<Rightarrow> string) \<Rightarrow> http_response \<Rightarrow> bool" where
  "answers env c render resp \<longleftrightarrow>
     (\<forall>t w req. fst (hc_Do (ac_httpClient c) t w req) = rendered render resp) \<and>
     (\<forall>w d. fst (ae_wait env w d) = None) \<and>
     (\<forall>code msg. ae_error env (render (ErrorBody code msg)) = Some (code, msg)) \<and>
     length (render (hr_body resp)) \<le> nat (ac_maxResponseSize c)"

lemma api_reply_error:
  assumes "answers env c render (error_response status code msg)" "400 \<le> status"
  shows "api_reply env c un (rendered render (error_response status code msg)) r = (Some (PApi status code msg), r)"
  using assms
  by (simp add: answers_def api_reply_def rendered_def error_response_def limit_reader_def api_error_def Let_def)

lemma doSingleRequest_error:
  assumes "answers env c render (error_response status code msg)" "400 \<le> status" "url_Parse (aq_URL req) \<noteq> None"
  shows "\<exists>w1. doSingleRequest env c un req r w = (Some (PApi status code msg), r, w1)"
proof -
  obtain w1 where "hc_Do (ac_httpClient c) (hc_Timeout (ac_httpClient c)) w req =
      (rendered render (error_response status code msg), w1)"
    using assms(1) by (metis answers_def prod.collapse)
  then show ?thesis
    using assms(3) api_reply_error [OF assms(1,2), of un r] by (auto simp: doSingleRequest_def)
qed

text \<open>An error response is what the client returns, after one attempt or after all of them.\<close>

lemma doRequest_error:
  assumes "answers env c render (error_response status code msg)" "400 \<le> status"
    and "url_Parse (ac_baseURL c @ path) \<noteq> None" "0 \<le> ac_maxRetries c"
  shows "\<exists>w1. doRequest env c method path None un result w = (Some (PApi status code msg), result, w1)"
proof -
  let ?req = "api_req c method path None"
  have single: "\<exists>w1. doSingleRequest env c un ?req r w = (Some (PApi status code msg), r, w1)" for r w
    using assms(1-3) by (intro doSingleRequest_error) (simp_all add: api_req_def)
  show ?thesis
  proof (cases "client_error (PApi status code msg)")
    case True
    obtain w1 where "doSingleRequest env c un ?req result w = (Some (PApi status code msg), result, w1)"
      using single by blast
    from api_attempts_first [OF this _ assms(4)] True show ?thesis by (simp add: doRequest_simps)
  next
    case False
    have "\<exists>w1. api_attempts env c un ?req 0 (nat (ac_maxRetries c + 1)) None result w =
        (Some (PApi status code msg), result, w1)"
      using single False assms(1,4) by (intro api_attempts_all_fail) (auto simp: answers_def)
    then show ?thesis by (simp add: doRequest_simps)
  qed
qed

text \<open>How the public predicates see the errors of the handlers.\<close>

definition seen_not_found :: "go_error \<Rightarrow> bool" where
  "seen_not_found err \<longleftrightarrow>
     error_is err Rdap_ErrNotFound \<or>
     (error_is err Bootstrap_ErrNotFound \<and> \<not> error_is err Rdap_ErrRateLimited \<and> \<not> error_is err Bootstrap_ErrInvalidInput)"

definition seen_rate_limited :: "go_error \<Rightarrow> bool" where
  "seen_rate_limited err \<longleftrightarrow> error_is err Rdap_ErrRateLimited \<and> \<not> error_is err Rdap_ErrNotFound"

lemma handleError_seen:
  "\<exists>status code msg. handleError err q = error_response status code msg \<and> 400 \<le> status \<and>
     (IsNotFoundError (PApi status code msg) \<longleftrightarrow> seen_not_found err) \<and>
     (IsRateLimitedError (PApi status code msg) \<longleftrightarrow> seen_rate_limited err) \<and>
     (IsServerErrorFunc (PApi status code msg) \<longleftrightarrow>
        \<not> seen_not_found err \<and> \<not> seen_rate_limited err \<and> \<not> error_is err Bootstrap_ErrInvalidInput)"
  unfolding handleError_def seen_not_found_def seen_rate_limited_def
  by (auto simp: error_response_def IsNotFoundError_def IsNotFound_def IsRateLimitedError_def IsRateLimited_def
      IsServerErrorFunc_def IsServerError_def)

end
