(* ===== verification/Http_Server.thy ===== *)
theory Http_Server
  imports Api_Lookup Rate_Limiter
begin

text \<open>
  \<open>internal/api/server.go\<close>, \<open>health.go\<close>, \<open>meta.go\<close>, \<open>security.go\<close>, \<open>internal/logging\<close> and
  \<open>cmd/rdap-lookup/main.go\<close>: the server around the handlers, and how the program puts it together.  Echo's
  router and its extraction of client addresses are parameters; its other middleware (panic recovery,
  headers, body limit, request ids) and the Prometheus middleware are left out.
\<close>

section \<open>Logging\<close>

datatype log_level = LevelDebug | LevelInfo | LevelWarn | LevelError

datatype log_handler = TextHandler | JSONHandler

definition parseLevel :: "string \<Rightarrow> log_level" where
  "parseLevel level =
     (if level = ''debug'' then LevelDebug
      else if level = ''warn'' then LevelWarn
      else if level = ''error'' then LevelError
      else LevelInfo)"

definition SetupWithWriter :: "string \<Rightarrow> string \<Rightarrow> log_handler \<times> log_level" where
  "SetupWithWriter level format = (if format = ''text'' then TextHandler else JSONHandler, parseLevel level)"

section \<open>Health\<close>

record HealthChecker =
  hk_ready :: bool
  hk_l2Cache :: bool

definition NewHealthChecker :: HealthChecker where
  "NewHealthChecker = \<lparr>hk_ready = False, hk_l2Cache = False\<rparr>"

definition SetL2Cache :: "HealthChecker \<Rightarrow> HealthChecker" where
  "SetL2Cache h = h\<lparr>hk_l2Cache := True\<rparr>"

definition SetReady :: "bool \<Rightarrow> HealthChecker \<Rightarrow> HealthChecker" where
  "SetReady ready h = h\<lparr>hk_ready := ready\<rparr>"

record HealthStatus =
  hs_Status :: string
  hs_L2CacheStatus :: string

text \<open>\<open>ping\<close> is what \<open>Ping\<close> of the second level returns.\<close>

definition ReadinessHandler :: "go_error option \<Rightarrow> HealthChecker \<Rightarrow> nat \<times> HealthStatus" where
  "ReadinessHandler ping h =
     (if \<not> hk_ready h then (503, \<lparr>hs_Status = ''not ready'', hs_L2CacheStatus = []\<rparr>)
      else (200, \<lparr>hs_Status = ''ready'',
        hs_L2CacheStatus =
          (if hk_l2Cache h then (case ping of Some err \<Rightarrow> ''degraded'' | None \<Rightarrow> ''healthy'') else [])\<rparr>))"

definition LivenessHandler :: "nat \<times> HealthStatus" where
  "LivenessHandler = (200, \<lparr>hs_Status = ''healthy'', hs_L2CacheStatus = []\<rparr>)"

section \<open>Metadata\<close>

record BuildInfo =
  bi_Version :: string
  bi_GitCommit :: string

record MetaResponse =
  me_Service :: string
  me_Version :: string
  me_GitCommit :: string
  me_Hostname :: string
  me_Uptime :: string
  me_StartTime :: string

record MetaHandler =
  mh_buildInfo :: BuildInfo
  mh_startTime :: int

definition NewMetaHandler :: "int \<Rightarrow> BuildInfo \<Rightarrow> MetaHandler" where
  "NewMetaHandler now info = \<lparr>mh_buildInfo = info, mh_startTime = now\<rparr>"

definition Meta_Handle ::
  "string \<Rightarrow> int \<Rightarrow> MetaHandler \<Rightarrow> MetaResponse" where
  "Meta_Handle hostname now h =
     \<lparr>me_Service = ''rdap-lookup'', me_Version = bi_Version (mh_buildInfo h),
      me_GitCommit = bi_GitCommit (mh_buildInfo h), me_Hostname = hostname,
      me_Uptime = Duration_String (duration_round (10 ^ 9) (now - mh_startTime h)),
      me_StartTime = format_rfc3339 (mh_startTime h div 10 ^ 9, nat (mh_startTime h mod 10 ^ 9))\<rparr>"

section \<open>Security events\<close>

record SecurityEvent =
  sy_Type :: string
  sy_RequestID :: string
  sy_RemoteIP :: string
  sy_Path :: string
  sy_Details :: "(string \<times> string) list"

text \<open>The attributes of the log line; the type is also the label of the counter.\<close>

definition LogSecurityEvent :: "SecurityEvent \<Rightarrow> (string \<times> string) list \<times> string" where
  "LogSecurityEvent event =
     ([(''event_type'', sy_Type event), (''remote_ip'', sy_RemoteIP event), (''path'', sy_Path event)] @
      (if sy_RequestID event \<noteq> [] then [(''request_id'', sy_RequestID event)] else []) @ sy_Details event,
      sy_Type event)"

section \<open>The server\<close>

definition operationalEndpoints :: "string set" where
  "operationalEndpoints = {''/healthz'', ''/ready'', ''/metrics'', ''/meta''}"

text \<open>\<open>ws_done\<close>: the channel that stops the cleanup of the limiter is closed.\<close>

record ('f, 'l, 'w, 'r, 'a, 'b) Server =
  ws_cfg :: "'f Config"
  ws_healthChecker :: HealthChecker
  ws_metaHandler :: MetaHandler
  ws_lookupHandler :: "('w, 'r, 'a, 'b) LookupHandler option"
  ws_rateLimiter :: "('f, 'l) IPRateLimiter option"
  ws_done :: bool

definition NewServer ::
  "'f Config \<Rightarrow> int \<Rightarrow> BuildInfo \<Rightarrow> ('w, 'r, 'a, 'b) LookupHandler option \<Rightarrow> ('f, 'l, 'w, 'r, 'a, 'b) Server" where
  "NewServer cfg now buildInfo deps =
     \<lparr>ws_cfg = cfg, ws_healthChecker = NewHealthChecker, ws_metaHandler = NewMetaHandler now buildInfo,
      ws_lookupHandler = deps,
      ws_rateLimiter =
        (if rl_Enabled (cg_RateLimit cfg)
         then Some (NewIPRateLimiter (rl_RPS (cg_RateLimit cfg)) (rl_Burst (cg_RateLimit cfg))) else None),
      ws_done = False\<rparr>"

datatype endpoint =
    EP_Health | EP_Ready | EP_Meta | EP_Metrics | EP_Domain | EP_IP | EP_ASN | EP_Entity | EP_Batch

type_synonym route_table = "(string \<times> string \<times> endpoint) list"

definition server_prefix :: string where "server_prefix = ''/api/v1''"

definition setupRoutes :: "('f, 'l, 'w, 'r, 'a, 'b) Server \<Rightarrow> route_table" where
  "setupRoutes s =
     [(''GET'', ''/healthz'', EP_Health), (''GET'', ''/ready'', EP_Ready), (''GET'', ''/meta'', EP_Meta),
      (''GET'', ''/metrics'', EP_Metrics)] @
     (if ws_lookupHandler s = None then []
      else [(''GET'', server_prefix @ ''/domain/:name'', EP_Domain), (''GET'', server_prefix @ ''/ip/:addr'', EP_IP),
            (''GET'', server_prefix @ ''/asn/:asn'', EP_ASN), (''GET'', server_prefix @ ''/entity/:handle'', EP_Entity),
            (''POST'', server_prefix @ ''/batch'', EP_Batch)])"

text \<open>A request, with what \<open>Bind\<close> makes of its body.\<close>

record request =
  rq_Method :: string
  rq_Path :: string
  rq_RequestID :: string
  rq_RemoteAddr :: string
  rq_Forwarded :: string
  rq_Server :: string
  rq_Batch :: "BatchQuery list option"

text \<open>
  The parameters: the router, which finds the endpoint of a request and its path parameter in the table;
  the two extractions of the client address; the token bucket; what \<open>/meta\<close> and \<open>/ready\<close> ask the system for.
\<close>

record ('f, 'l) server_env =
  se_route :: "route_table \<Rightarrow> request \<Rightarrow> (endpoint \<times> string) option"
  se_ExtractIPDirect :: "request \<Rightarrow> string"
  se_ExtractIPFromXFF :: "request \<Rightarrow> string"
  se_bucket :: "('f, 'l) bucket_ops"
  se_hostname :: string
  se_ping :: "go_error option"

definition RealIP :: "('f, 'l) server_env \<Rightarrow> ('f, 'l, 'w, 'r, 'a, 'b) Server \<Rightarrow> request \<Rightarrow> string" where
  "RealIP se s rq =
     (if sv_TrustProxy (cg_Server (ws_cfg s)) then se_ExtractIPFromXFF se rq else se_ExtractIPDirect se rq)"

text \<open>The limiter in front of the handlers: a refusal with its security event, or nothing.\<close>

definition rateLimitMiddlewareWithLogging ::
  "('f, 'l) server_env \<Rightarrow> int \<Rightarrow> request \<Rightarrow> ('f, 'l, 'w, 'r, 'a, 'b) Server \<Rightarrow>
   (http_response \<times> SecurityEvent) option \<times> ('f, 'l, 'w, 'r, 'a, 'b) Server" where
  "rateLimitMiddlewareWithLogging se now rq s =
     (case ws_rateLimiter s of
        None \<Rightarrow> (None, s)
      | Some rl \<Rightarrow>
          if rq_Path rq \<in> operationalEndpoints then (None, s)
          else (let ip = RealIP se s rq; (ok, rl1) = RateLimitMiddleware (se_bucket se) now ip rl;
                    s1 = s\<lparr>ws_rateLimiter := Some rl1\<rparr> in
                if ok then (None, s1)
                else (Some (error_response 429 ''RATE_LIMITED'' ''Too many requests'',
                        \<lparr>sy_Type = ''rate_limited'', sy_RequestID = rq_RequestID rq, sy_RemoteIP = ip,
                         sy_Path = rq_Path rq, sy_Details = []\<rparr>), s1)))"

datatype server_response =
    SR_Api http_response | SR_Health nat HealthStatus | SR_Meta MetaResponse | SR_Metrics | SR_Unrouted

text \<open>The handler of an endpoint; without a lookup handler its endpoints are not in the table.\<close>

definition dispatch ::
  "('f, 'l) server_env \<Rightarrow> ('w, 'r, 'a, 'b) lookup_env \<Rightarrow> (nat \<Rightarrow> lookup_times) \<Rightarrow> schedule \<Rightarrow> int \<Rightarrow> request \<Rightarrow>
   endpoint \<times> string \<Rightarrow> ('f, 'l, 'w, 'r, 'a, 'b) Server \<Rightarrow> 'w \<Rightarrow>
   (server_response \<times> ('f, 'l, 'w, 'r, 'a, 'b) Server \<times> 'w) option" where
  "dispatch se env ts sched now rq target s w =
     (let (ep, param) = target;
          lookup = (\<lambda>f. case ws_lookupHandler s of
              None \<Rightarrow> Some (SR_Unrouted, s, w)
            | Some h \<Rightarrow> map_option (\<lambda>(resp, h1, w1). (SR_Api resp, s\<lparr>ws_lookupHandler := Some h1\<rparr>, w1)) (f h w)) in
      case ep of
        EP_Health \<Rightarrow> Some ((case LivenessHandler of (st, b) \<Rightarrow> SR_Health st b), s, w)
      | EP_Ready \<Rightarrow> Some ((case ReadinessHandler (se_ping se) (ws_healthChecker s) of (st, b) \<Rightarrow> SR_Health st b), s, w)
      | EP_Meta \<Rightarrow>
          Some (SR_Meta (Meta_Handle (se_hostname se) now (ws_metaHandler s)), s, w)
      | EP_Metrics \<Rightarrow> Some (SR_Metrics, s, w)
      | EP_Domain \<Rightarrow> lookup (LookupDomain env (ts 0) param)
      | EP_IP \<Rightarrow> lookup (LookupIP env (ts 0) param)
      | EP_ASN \<Rightarrow> lookup (LookupASN env (ts 0) param)
      | EP_Entity \<Rightarrow> lookup (LookupEntity env (ts 0) param (rq_Server rq))
      | EP_Batch \<Rightarrow> lookup (LookupBatch env ts sched (rq_Batch rq)))"

definition serve ::
  "('f, 'l) server_env \<Rightarrow> ('w, 'r, 'a, 'b) lookup_env \<Rightarrow> (nat \<Rightarrow> lookup_times) \<Rightarrow> schedule \<Rightarrow> int \<Rightarrow> request \<Rightarrow>
   ('f, 'l, 'w, 'r, 'a, 'b) Server \<Rightarrow> 'w \<Rightarrow> (server_response \<times> ('f, 'l, 'w, 'r, 'a, 'b) Server \<times> 'w) option" where
  "serve se env ts sched now rq s w =
     (case rateLimitMiddlewareWithLogging se now rq s of
        (Some (resp, _), s1) \<Rightarrow> Some (SR_Api resp, s1, w)
      | (None, s1) \<Rightarrow>
          (case se_route se (setupRoutes s1) rq of
             None \<Rightarrow> Some (SR_Unrouted, s1, w)
           | Some target \<Rightarrow> dispatch se env ts sched now rq target s1 w))"

text \<open>The level at which the request is logged, and whether with its details.\<close>

definition loggingMiddleware :: "request \<Rightarrow> log_level" where
  "loggingMiddleware rq = (if rq_Path rq \<in> operationalEndpoints then LevelDebug else LevelInfo)"

definition Server_Start :: "('f, 'l, 'w, 'r, 'a, 'b) Server \<Rightarrow> ('f, 'l, 'w, 'r, 'a, 'b) Server" where
  "Server_Start s = s\<lparr>ws_healthChecker := SetReady True (ws_healthChecker s)\<rparr>"

text \<open>Stopping the limiter closes its channel: a second time panics (\<open>None\<close>).\<close>

definition Shutdown :: "('f, 'l, 'w, 'r, 'a, 'b) Server \<Rightarrow> ('f, 'l, 'w, 'r, 'a, 'b) Server option" where
  "Shutdown s =
     (let s1 = s\<lparr>ws_healthChecker := SetReady False (ws_healthChecker s)\<rparr> in
      if ws_rateLimiter s = None then Some s1
      else if ws_done s then None
      else Some (s1\<lparr>ws_done := True\<rparr>))"

section \<open>The program\<close>

text \<open>
  \<open>run\<close> up to the start of the server.  Parameters: the first load of the bootstrap data, the construction of
  the HTTP client and of the two caches, the order in which a set of servers is listed, and the clock.
\<close>

record ('w, 'r, 'a, 'b) app_env =
  ap_loaded :: "go_error + 'r Bootstrap"
  ap_http :: "int \<Rightarrow> (nat \<Rightarrow> go_error option) \<Rightarrow> 'w http_client"
  ap_NewMemoryCache :: "int \<Rightarrow> int \<Rightarrow> go_error + 'a"
  ap_NewRedisCache :: "RedisConfig \<Rightarrow> go_error + 'b"
  ap_list :: "string set \<Rightarrow> string list"
  ap_now :: int

definition started_service :: "'r Bootstrap \<Rightarrow> 'r service" where
  "started_service b = (service_refresh (Inr b) NewService)\<lparr>bv_running := True, bv_loops := 1\<rparr>"

definition cache_config :: "'f Config \<Rightarrow> TieredCacheConfig" where
  "cache_config cfg =
     \<lparr>cf_DefaultTTL = ca_TTL (cg_Cache cfg), cf_NegativeTTL = ca_NegativeTTL (cg_Cache cfg),
      cf_L1PromotionTTL = 5 * 60 * 1000000000, cf_EnableL2Writes = True, cf_FetchTimeout = 0\<rparr>"

text \<open>The first level has a number of entries and a size, the second may be missing.\<close>

definition NewTieredCache ::
  "('w, 'r, 'a, 'b) app_env \<Rightarrow> int \<times> int \<Rightarrow> RedisConfig option \<Rightarrow> TieredCacheConfig \<Rightarrow>
   go_error + ('a, 'b) TieredCache" where
  "NewTieredCache ap L1Config L2Config cfg =
     (case ap_NewMemoryCache ap (fst L1Config) (snd L1Config) of
        Inl err \<Rightarrow> Inl err
      | Inr l1 \<Rightarrow>
          (case L2Config of
             None \<Rightarrow> Inr (NewTieredCacheWithBackends l1 None cfg)
           | Some redis \<Rightarrow>
               (case ap_NewRedisCache ap redis of
                  Inl err \<Rightarrow> Inl err
                | Inr l2 \<Rightarrow> Inr (NewTieredCacheWithBackends l1 (Some l2) cfg))))"

definition app_setup ::
  "'f \<Rightarrow> 'f environment \<Rightarrow> string \<Rightarrow> string \<Rightarrow> ('w, 'r, 'a, 'b) app_env \<Rightarrow>
   go_error + ('f, 'l, 'w, 'r, 'a, 'b) Server" where
  "app_setup rps ev Version GitCommit ap =
     (case Load rps ev of
        Inl err \<Rightarrow> Inl (Wrapped ''failed to load config'' [err])
      | Inr cfg \<Rightarrow>
          (case ap_loaded ap of
             Inl err \<Rightarrow> Inl (Wrapped ''failed to start bootstrap service'' [err])
           | Inr b \<Rightarrow>
               (let bs = started_service b;
                    client = rdap_NewClient (ap_http ap) (cg_RDAPTimeout cfg)
                      [WithMaxRetries (cg_MaxRetries cfg), WithUserAgent (''rdap-lookup/'' @ Version),
                       WithResolver (bv_resolver bs)] in
                case NewTieredCache ap (10000, ram_MaxSize (ca_RAM (cg_Cache cfg)))
                    (if rd_Enabled (ca_Redis (cg_Cache cfg)) then Some (ca_Redis (cg_Cache cfg)) else None)
                    (cache_config cfg) of
                  Inl err \<Rightarrow> Inl (Wrapped ''failed to create cache'' [err])
                | Inr c \<Rightarrow>
                    (let handler =
                       (if wh_Enabled (cg_WHOIS cfg) then
                          NewLookupHandlerWithWHOIS (ap_list ap) (ap_now ap) client bs c (cg_Batch cfg)
                            (sv_WriteTimeout (cg_Server cfg)) (cg_WHOIS cfg)
                        else
                          NewLookupHandler (ap_list ap) (ap_now ap) client bs c (cg_Batch cfg)
                            (sv_WriteTimeout (cg_Server cfg)))
                     in Inr (NewServer cfg (ap_now ap) \<lparr>bi_Version = Version, bi_GitCommit = GitCommit\<rparr>
                               (Some handler))))))"

section \<open>The server answers every request\<close>

definition server_ok :: "('f, 'l, 'w, 'r, 'a, 'b) Server \<Rightarrow> bool" where
  "server_ok s \<longleftrightarrow>
     (\<forall>h. ws_lookupHandler s = Some h \<longrightarrow> IsReady (lh_bootstrap h)) \<and>
     (\<forall>rl. ws_rateLimiter s = Some rl \<longrightarrow> counted rl)"

text \<open>What a request may not change: the configuration, the health and the allowlist.\<close>

definition same_server :: "('f, 'l, 'w, 'r, 'a, 'b) Server \<Rightarrow> ('f, 'l, 'w, 'r, 'a, 'b) Server \<Rightarrow> bool" where
  "same_server s s1 \<longleftrightarrow>
     ws_cfg s1 = ws_cfg s \<and> ws_healthChecker s1 = ws_healthChecker s \<and> ws_metaHandler s1 = ws_metaHandler s \<and>
     ws_done s1 = ws_done s \<and>
     rel_option same_setup (ws_lookupHandler s) (ws_lookupHandler s1)"

lemma rel_option_refl_setup [simp]: "rel_option same_setup x x"
  by (cases x) simp_all

lemma same_server_refl [simp]: "same_server s s"
  by (simp add: same_server_def)

lemma same_server_trans: "\<lbrakk>same_server s s1; same_server s1 s2\<rbrakk> \<Longrightarrow> same_server s s2"
  unfolding same_server_def
  by (cases "ws_lookupHandler s"; cases "ws_lookupHandler s1"; cases "ws_lookupHandler s2")
     (auto dest: same_setup_trans)

definition proper_server_response :: "server_response \<Rightarrow> bool" where
  "proper_server_response r =
     (case r of
        SR_Api resp \<Rightarrow> hr_status resp \<in> {200, 400, 404, 429, 502}
      | SR_Health st _ \<Rightarrow> st \<in> {200, 503}
      | _ \<Rightarrow> True)"

lemma proper_status: "proper_response q resp \<Longrightarrow> hr_status resp \<in> {200, 400, 404, 429, 502}"
  by (auto simp: proper_response_def fixed_errors_def error_response_def respondWithData_def)

lemma limit_ok:
  assumes "server_ok s" "rateLimitMiddlewareWithLogging se now rq s = (r, s1)"
  shows "server_ok s1 \<and> same_server s s1 \<and> (\<forall>resp ev. r = Some (resp, ev) \<longrightarrow> hr_status resp = 429)"
proof (cases "ws_rateLimiter s")
  case (Some rl)
  obtain ok rl1 where m: "RateLimitMiddleware (se_bucket se) now (RealIP se s rq) rl = (ok, rl1)" by fastforce
  then have "counted rl1"
    using RateLimitMiddleware_counted [of rl "se_bucket se" now "RealIP se s rq"] assms(1) Some
    by (simp add: server_ok_def)
  then show ?thesis
    using assms Some m
    by (auto simp: rateLimitMiddlewareWithLogging_def server_ok_def same_server_def error_response_def Let_def
        split: if_splits)
qed (use assms in \<open>auto simp: rateLimitMiddlewareWithLogging_def\<close>)

text \<open>A handler that is ready answers, and stays ready.\<close>

lemma lookup_handlers_ok:
  assumes "IsReady (lh_bootstrap h)"
  shows "\<exists>resp h1 w1. LookupDomain env t p h w = Some (resp, h1, w1) \<and> proper_response ''domain'' resp \<and> same_setup h h1"
    and "\<exists>resp h1 w1. LookupIP env t p h w = Some (resp, h1, w1) \<and> proper_response ''ip'' resp \<and> same_setup h h1"
    and "\<exists>resp h1 w1. LookupASN env t p h w = Some (resp, h1, w1) \<and> proper_response ''asn'' resp \<and> same_setup h h1"
    and "\<exists>resp h1 w1. LookupEntity env t p u h w = Some (resp, h1, w1) \<and> proper_response ''entity'' resp \<and> same_setup h h1"
proof -
  note simps = LookupDomain_def LookupIP_def LookupASN_def LookupEntity_def Let_def
  show "\<exists>resp h1 w1. LookupDomain env t p h w = Some (resp, h1, w1) \<and> proper_response ''domain'' resp \<and> same_setup h h1"
    using refuse_proper answer_proper [OF fetchers_ok(1) assms]
    by (auto simp: simps split: option.split)
  show "\<exists>resp h1 w1. LookupIP env t p h w = Some (resp, h1, w1) \<and> proper_response ''ip'' resp \<and> same_setup h h1"
    using refuse_proper answer_proper [OF fetchers_ok(2) assms]
    by (auto simp: simps split: option.split)
  show "\<exists>resp h1 w1. LookupASN env t p h w = Some (resp, h1, w1) \<and> proper_response ''asn'' resp \<and> same_setup h h1"
    using refuse_proper answer_proper [OF fetchers_ok(3) assms]
    by (auto simp: simps split: option.split)
  show "\<exists>resp h1 w1. LookupEntity env t p u h w = Some (resp, h1, w1) \<and> proper_response ''entity'' resp \<and> same_setup h h1"
    using refuse_proper answer_proper [OF fetchers_ok(4) assms]
    by (auto simp: simps split: option.split)
qed

lemma run_batch_setup:
  "run_batch env ts qs sched results h w = Some (results1, h1, w1) \<Longrightarrow> same_setup h h1"
proof (induction env ts qs sched results h w rule: run_batch.induct)
  case (2 env ts qs i timed_out sched results h w)
  then show ?case
    by (auto split: if_splits option.splits dest: processBatchQuery_setup intro: same_setup_trans)
qed simp

lemma LookupBatch_ok:
  assumes "IsReady (lh_bootstrap h)"
  shows "\<exists>resp h1 w1. LookupBatch env ts sched req h w = Some (resp, h1, w1) \<and>
      hr_status resp \<in> {200, 400} \<and> same_setup h h1"
proof (cases req)
  case (Some queries)
  obtain results h1 w1 where run: "run_batch env ts queries sched (replicate (length queries) empty_result) h w =
      Some (results, h1, w1)"
    using run_batch_ready [OF assms] by (metis not_None_eq prod_cases3)
  then show ?thesis
    using Some run_batch_setup [OF run] by (simp add: LookupBatch_def refuse_def error_response_def)
qed (simp add: LookupBatch_def refuse_def error_response_def)

text \<open>The setup of the handler is what keeps the server in order.\<close>

lemma server_ok_handler:
  assumes "server_ok s" "ws_lookupHandler s = Some h" "same_setup h h1"
  shows "server_ok (s\<lparr>ws_lookupHandler := Some h1\<rparr>) \<and> same_server s (s\<lparr>ws_lookupHandler := Some h1\<rparr>)"
  using assms by (auto simp: server_ok_def same_server_def same_setup_def)

lemma dispatch_ok:
  assumes "server_ok s"
  shows "\<exists>r s1 w1. dispatch se env ts sched now rq target s w = Some (r, s1, w1) \<and>
      proper_server_response r \<and> server_ok s1 \<and> same_server s s1"
proof -
  obtain ep p where t: "target = (ep, p)" by fastforce
  show ?thesis
  proof (cases "ws_lookupHandler s")
    case None
    then show ?thesis
      using assms by (cases ep) (auto simp: t dispatch_def Let_def proper_server_response_def LivenessHandler_def
        ReadinessHandler_def)
  next
    case (Some h)
    then have ready: "IsReady (lh_bootstrap h)" using assms by (simp add: server_ok_def)
    note handlers = lookup_handlers_ok [OF ready, where env = env and t = "ts 0" and p = p and w = w]
      LookupBatch_ok [OF ready, where env = env and ts = ts and sched = sched and req = "rq_Batch rq" and w = w]
    have handled: "\<exists>r s1 w1. map_option (\<lambda>(resp, h1, w1). (SR_Api resp, s\<lparr>ws_lookupHandler := Some h1\<rparr>, w1)) x =
          Some (r, s1, w1) \<and> proper_server_response r \<and> server_ok s1 \<and> same_server s s1"
      if "\<exists>resp h1 w1. x = Some (resp, h1, w1) \<and> hr_status resp \<in> {200, 400, 404, 429, 502} \<and> same_setup h h1" for x
      using that server_ok_handler [OF assms Some] by (auto simp: proper_server_response_def)
    show ?thesis
    proof (cases ep)
      case EP_Domain
      show ?thesis unfolding t dispatch_def Let_def prod.case Some option.case EP_Domain endpoint.case
        by (rule handled) (use handlers(1) proper_status in metis)
    next
      case EP_IP
      show ?thesis unfolding t dispatch_def Let_def prod.case Some option.case EP_IP endpoint.case
        by (rule handled) (use handlers(2) proper_status in metis)
    next
      case EP_ASN
      show ?thesis unfolding t dispatch_def Let_def prod.case Some option.case EP_ASN endpoint.case
        by (rule handled) (use handlers(3) proper_status in metis)
    next
      case EP_Entity
      show ?thesis unfolding t dispatch_def Let_def prod.case Some option.case EP_Entity endpoint.case
        by (rule handled) (use handlers(4) proper_status in metis)
    next
      case EP_Batch
      show ?thesis unfolding t dispatch_def Let_def prod.case Some option.case EP_Batch endpoint.case
        by (rule handled) (use handlers(5) in auto)
    qed (use assms in \<open>auto simp: t dispatch_def Let_def proper_server_response_def LivenessHandler_def
        ReadinessHandler_def\<close>)
  qed
qed

lemma serve_ok:
  assumes "server_ok s"
  shows "\<exists>r s1 w1. serve se env ts sched now rq s w = Some (r, s1, w1) \<and>
      proper_server_response r \<and> server_ok s1 \<and> same_server s s1"
proof -
  obtain lim s2 where l: "rateLimitMiddlewareWithLogging se now rq s = (lim, s2)" by fastforce
  note ok = limit_ok [OF assms l]
  show ?thesis
  proof (cases lim)
    case None
    then have sv: "serve se env ts sched now rq s w =
        (case se_route se (setupRoutes s2) rq of
           None \<Rightarrow> Some (SR_Unrouted, s2, w) | Some target \<Rightarrow> dispatch se env ts sched now rq target s2 w)"
      by (simp add: serve_def l)
    show ?thesis
    proof (cases "se_route se (setupRoutes s2) rq")
      case (Some target)
      obtain r s1 w1 where "dispatch se env ts sched now rq target s2 w = Some (r, s1, w1)"
          "proper_server_response r" "server_ok s1" "same_server s2 s1"
        using dispatch_ok [of s2] ok by blast
      then show ?thesis using Some ok same_server_trans [of s s2 s1] by (auto simp: sv)
    qed (use ok in \<open>simp add: sv proper_server_response_def\<close>)
  next
    case (Some x)
    then show ?thesis using ok l by (cases x) (simp add: serve_def proper_server_response_def)
  qed
qed

text \<open>Requests served one after the other; each brings the time, the clock readings and the order of its batch.\<close>

fun serve_all ::
  "('f, 'l) server_env \<Rightarrow> ('w, 'r, 'a, 'b) lookup_env \<Rightarrow> (int \<times> (nat \<Rightarrow> lookup_times) \<times> schedule \<times> request) list \<Rightarrow>
   ('f, 'l, 'w, 'r, 'a, 'b) Server \<Rightarrow> 'w \<Rightarrow> (server_response list \<times> ('f, 'l, 'w, 'r, 'a, 'b) Server \<times> 'w) option" where
  "serve_all se env [] s w = Some ([], s, w)"
| "serve_all se env ((now, ts, sched, rq) # rqs) s w =
     (case serve se env ts sched now rq s w of
        None \<Rightarrow> None
      | Some (r, s1, w1) \<Rightarrow> map_option (\<lambda>(rs, s2, w2). (r # rs, s2, w2)) (serve_all se env rqs s1 w1))"

lemma serve_all_ok:
  "server_ok s \<Longrightarrow> \<exists>rs s1 w1. serve_all se env rqs s w = Some (rs, s1, w1) \<and> length rs = length rqs \<and>
     list_all proper_server_response rs \<and> server_ok s1 \<and> same_server s s1"
proof (induction rqs arbitrary: s w)
  case (Cons x rqs)
  obtain now ts sched rq where x: "x = (now, ts, sched, rq)" by (cases x)
  obtain r s1 w1 where one: "serve se env ts sched now rq s w = Some (r, s1, w1)" "proper_server_response r"
      "server_ok s1" "same_server s s1"
    using serve_ok [OF Cons.prems] by blast
  moreover obtain rs s2 w2 where "serve_all se env rqs s1 w1 = Some (rs, s2, w2)" "length rs = length rqs"
      "list_all proper_server_response rs" "server_ok s2" "same_server s1 s2"
    using Cons.IH [OF one(3)] by blast
  ultimately show ?case using same_server_trans [of s s1 s2] by (simp add: x)
qed simp

text \<open>The program starts with a server in order, and starting it keeps it so.\<close>

lemma app_setup_ok:
  assumes "app_setup rps ev Version GitCommit ap = Inr s"
  shows "server_ok s \<and> ws_lookupHandler s \<noteq> None \<and> \<not> ws_done s \<and> \<not> hk_ready (ws_healthChecker s)"
  using assms
  by (auto simp: app_setup_def NewServer_def server_ok_def counted_New NewLookupHandler_def
      NewLookupHandlerWithWHOIS_def started_service_def service_refresh_def IsReady_def NewHealthChecker_def Let_def
      split: sum.splits if_splits)

lemma server_ok_Start: "server_ok s \<Longrightarrow> server_ok (Server_Start s)"
  by (simp add: server_ok_def Server_Start_def)

text \<open>A server is stopped once: the first shutdown succeeds, a second one panics exactly when there is a limiter.\<close>

lemma Shutdown_twice:
  assumes "\<not> ws_done s"
  shows "\<exists>s1. Shutdown s = Some s1 \<and> \<not> hk_ready (ws_healthChecker s1) \<and>
    (Shutdown s1 = None \<longleftrightarrow> ws_rateLimiter s \<noteq> None)"
  using assms by (simp add: Shutdown_def Let_def SetReady_def)

end
