(* ===== verification/Rdap_Interface.thy ===== *)
theory Rdap_Interface
  imports Standalone Public_Client
begin

text \<open>
  \<open>pkg/rdaplookup/interface.go\<close>: the interface \<open>RDAPClient\<close> that both clients implement, so that the programs can
  use either.  It is a record of operations on the client's state; what its users rely on is a locale,
  interpreted for the standalone client, for the REST client and for a value that is one or the other.
\<close>

section \<open>Batches, as the interface has them\<close>

text \<open>The data of a result: a response of the standalone client, or what the REST client decoded.\<close>

datatype batch_data = BD_Typed lookup_data | BD_Decoded string

record ClientBatchResult =
  cb_Type :: string
  cb_Value :: string
  cb_Data :: "batch_data option"
  cb_Cached :: bool
  cb_Error :: string

record ClientBatchStats =
  kt_Total :: int
  kt_Success :: int
  kt_Errors :: int
  kt_CacheHits :: int
  kt_DurationMs :: int

record BatchResponse =
  bq_Results :: "ClientBatchResult list"
  bq_Stats :: "ClientBatchStats option"

section \<open>The interface\<close>

text \<open>An operation may panic (\<open>None\<close>); the response of a lookup is a pointer.\<close>

type_synonym ('s, 'w, 'a) client_call = "'s \<Rightarrow> 'w \<Rightarrow> ((pub_error + 'a) \<times> 's \<times> 'w) option"

record ('s, 'w) RDAPClient =
  cl_LookupDomain :: "string \<Rightarrow> ('s, 'w, DomainResponse option) client_call"
  cl_LookupIP :: "string \<Rightarrow> ('s, 'w, IPResponse option) client_call"
  cl_LookupASN :: "string \<Rightarrow> ('s, 'w, ASNResponse option) client_call"
  cl_LookupEntity :: "string \<Rightarrow> string \<Rightarrow> ('s, 'w, EntityResponse option) client_call"
  cl_BatchLookup :: "PublicBatchQuery list \<Rightarrow> ('s, 'w, BatchResponse) client_call"
  cl_Close :: "'s \<Rightarrow> 's"

definition completes :: "('s \<Rightarrow> bool) \<Rightarrow> ((pub_error + 'a) \<times> 's \<times> 'w) option \<Rightarrow> bool" where
  "completes ok x \<longleftrightarrow> (\<exists>r s1 w1. x = Some (r, s1, w1) \<and> ok s1)"

text \<open>A lookup that succeeds has a response.\<close>

definition responds :: "('s \<Rightarrow> bool) \<Rightarrow> ((pub_error + 'a option) \<times> 's \<times> 'w) option \<Rightarrow> bool" where
  "responds ok x \<longleftrightarrow> (\<exists>r s1 w1. x = Some (r, s1, w1) \<and> r \<noteq> Inr None \<and> ok s1)"

lemma respondsE:
  assumes "responds ok x"
  obtains r s1 w1 where "x = Some (r, s1, w1)" "r \<noteq> Inr None" "ok s1"
  using assms by (auto simp: responds_def)

locale rdap_client =
  fixes ops :: "('s, 'w) RDAPClient" and ok :: "'s \<Rightarrow> bool"
  assumes domain_responds: "ok s \<Longrightarrow> responds ok (cl_LookupDomain ops name s w)"
    and ip_responds: "ok s \<Longrightarrow> responds ok (cl_LookupIP ops addr s w)"
    and asn_responds: "ok s \<Longrightarrow> responds ok (cl_LookupASN ops asn s w)"
    and entity_responds: "ok s \<Longrightarrow> responds ok (cl_LookupEntity ops handle serverURL s w)"
    and batch_answers: "ok s \<Longrightarrow> completes ok (cl_BatchLookup ops queries s w)"
    and close_ok: "ok s \<Longrightarrow> ok (cl_Close ops s)"
    and close_again: "cl_Close ops (cl_Close ops s) = cl_Close ops s"

section \<open>The standalone client\<close>

definition standalone_batch_result :: "PublicBatchResult \<Rightarrow> ClientBatchResult" where
  "standalone_batch_result r =
     \<lparr>cb_Type = pb_Type r, cb_Value = pb_Value r, cb_Data = map_option BD_Typed (pb_Data r), cb_Cached = pb_Cached r,
      cb_Error = pb_Error r\<rparr>"

definition standalone_batch_response :: "int \<Rightarrow> PublicBatchResult list \<times> PublicBatchStats \<Rightarrow> BatchResponse" where
  "standalone_batch_response ms r =
     \<lparr>bq_Results = map standalone_batch_result (fst r),
      bq_Stats = Some \<lparr>kt_Total = int (bs_Total (snd r)), kt_Success = int (bs_Success (snd r)),
        kt_Errors = int (bs_Errors (snd r)), kt_CacheHits = int (bs_CacheHits (snd r)), kt_DurationMs = ms\<rparr>\<rparr>"

text \<open>\<open>order n\<close> is the order in which the goroutines of \<open>n\<close> queries run, \<open>ms\<close> how long they take.\<close>

definition standalone_ops ::
  "('w, 'r, 'c) standalone_env \<Rightarrow> codecs \<Rightarrow> (pub_error \<Rightarrow> string) \<Rightarrow> (nat \<Rightarrow> nat list) \<Rightarrow> int \<Rightarrow>
   (('w, 'r, 'c) StandaloneClient, 'w) RDAPClient" where
  "standalone_ops env cs text order ms =
     \<lparr>cl_LookupDomain = Standalone_LookupDomain env (co_domain cs),
      cl_LookupIP = Standalone_LookupIP env (co_ip cs),
      cl_LookupASN = Standalone_LookupASN env (co_asn cs),
      cl_LookupEntity = Standalone_LookupEntity env (co_entity cs),
      cl_BatchLookup = (\<lambda>qs c w.
        map_option (\<lambda>(r, c1, w1). (map_sum id (standalone_batch_response (if qs = [] then 0 else ms)) r, c1, w1))
          (Standalone_BatchLookup env cs text (order (length qs)) (Some qs) c w)),
      cl_Close = Standalone_Close (sn_cache env)\<rparr>"

text \<open>Once the bootstrap has succeeded the client has a resolver.\<close>

definition standalone_ok :: "('w, 'r, 'c) StandaloneClient \<Rightarrow> bool" where
  "standalone_ok c \<longleftrightarrow> (st_once c = Some None \<longrightarrow> rc_resolver (st_client c) \<noteq> None)"

text \<open>\<open>Unmarshal\<close> into a response that exists, and marking it, give a response.\<close>

definition codec_ok :: "'a option codec \<Rightarrow> bool" where
  "codec_ok cd \<longleftrightarrow> (\<forall>v r. cd_Unmarshal cd v = Some r \<longrightarrow> cd_mark cd r \<noteq> None)"

definition codecs_ok :: "codecs \<Rightarrow> bool" where
  "codecs_ok cs \<longleftrightarrow> codec_ok (co_domain cs) \<and> codec_ok (co_ip cs) \<and> codec_ok (co_asn cs) \<and> codec_ok (co_entity cs)"

lemma standalone_ok_cache [simp]: "standalone_ok (c\<lparr>st_cache := m\<rparr>) = standalone_ok c"
  by (simp add: standalone_ok_def)

lemma standalone_ok_store [simp]: "standalone_ok (cache_store env key v ttl neg c) = standalone_ok c"
  by (simp add: cache_store_def)

lemma codec_okD: "\<lbrakk>codec_ok cd; cd_Unmarshal cd v = Some r; cd_mark cd r = None\<rbrakk> \<Longrightarrow> False"
  unfolding codec_ok_def by metis

lemma cache_probe_cases:
  assumes "cache_probe env cd key c = (r, c1)"
  shows "(standalone_ok c1 \<longleftrightarrow> standalone_ok c) \<and> st_client c1 = st_client c \<and> (codec_ok cd \<longrightarrow> r \<noteq> Some (Inr None))"
  using assms
  by (auto simp: cache_probe_def Let_def dest: codec_okD split: option.splits prod.splits sum.splits if_splits)

lemma cached_query_responds:
  assumes "standalone_ok c" "codec_ok cd" "\<And>c1 w. st_client c1 = st_client c \<Longrightarrow> query c1 w \<noteq> None"
    and "\<And>c1 raw. convert c1 raw \<noteq> None"
  shows "responds standalone_ok (cached_query env cd key query convert c w)"
proof -
  obtain r c1 where p: "cache_probe env cd key c = (r, c1)" by fastforce
  note facts = cache_probe_cases [OF p]
  show ?thesis
  proof (cases r)
    case None
    obtain res w1 where q: "query c1 w = Some (res, w1)" using assms(3) facts by (metis not_None_eq prod.exhaust)
    then show ?thesis
      using None p facts assms(1,4)
      by (auto simp: cached_query_def responds_def Let_def split: sum.split option.split)
  next
    case (Some res)
    then show ?thesis using p facts assms(1,2) by (auto simp: cached_query_def responds_def)
  qed
qed

lemma with_bootstrap_responds:
  assumes "standalone_ok c"
    and "\<And>c1 w. \<lbrakk>standalone_ok c1; rc_resolver (st_client c1) \<noteq> None\<rbrakk> \<Longrightarrow> responds standalone_ok (k c1 w)"
  shows "responds standalone_ok (with_bootstrap env k c w)"
  using assms
  by (auto simp: with_bootstrap_def ensureBootstrap_def loadBootstrap_def use_resolver_def Client_SetResolver_def
      standalone_ok_def responds_def Let_def split: option.splits sum.splits)

lemma converted:
  "domainFromSchema (TransformDomain (Some d) u) \<noteq> None" "ipFromSchema (TransformIP (Some n) u) \<noteq> None"
  "asnFromSchema (TransformASN (Some a) u) \<noteq> None" "entityFromSchema (TransformEntityResponse (Some e) u) \<noteq> None"
  by (simp_all add: domainFromSchema_def TransformDomain_def ipFromSchema_def TransformIP_def asnFromSchema_def
      TransformASN_def entityFromSchema_def TransformEntityResponse_def Let_def split: prod.split)

lemma queries_answer:
  assumes "rc_resolver c \<noteq> None"
  shows "QueryDomain env c dmn w \<noteq> None" "QueryIP ops env c ip w \<noteq> None" "QueryASN env c asn w \<noteq> None"
  using assms by (auto simp: QueryDomain_def QueryIP_def QueryASN_def query_servers_def Let_def)

lemma refused_responds: "standalone_ok c \<Longrightarrow> responds standalone_ok (Some (Inl err, c, w))"
  by (simp add: responds_def)

lemma standalone_lookups_respond:
  assumes "standalone_ok c" "codecs_ok cs"
  shows "responds standalone_ok (Standalone_LookupDomain env (co_domain cs) name c w)"
    and "responds standalone_ok (Standalone_LookupIP env (co_ip cs) addr c w)"
    and "responds standalone_ok (Standalone_LookupASN env (co_asn cs) asn c w)"
    and "responds standalone_ok (Standalone_LookupEntity env (co_entity cs) handle serverURL c w)"
  using assms(2) unfolding standalone_lookups codecs_ok_def
  by (intro with_bootstrap_responds [OF assms(1)],
      simp add: refused_responds cached_query_responds queries_answer converted Let_def split: option.split)+

lemma put_result_answers:
  "responds ok x \<Longrightarrow> \<exists>r c1 w1. put_result text q data x = Some (r, c1, w1) \<and> ok c1"
  by (auto simp: responds_def put_result_def Let_def split: sum.split option.split)

lemma standalone_query_answers:
  assumes "standalone_ok c" "codecs_ok cs"
  shows "\<exists>r c1 w1. standalone_query env cs text q c w = Some (r, c1, w1) \<and> standalone_ok c1"
  using standalone_lookups_respond [OF assms, THEN put_result_answers] assms(1) by (simp add: standalone_query_def)

lemma standalone_batch_answers:
  assumes "codecs_ok cs"
  shows "standalone_ok c \<Longrightarrow>
    \<exists>rs c1 w1. standalone_batch env cs text qs order results c w = Some (rs, c1, w1) \<and> standalone_ok c1"
proof (induction order arbitrary: results c w)
  case (Cons i order)
  obtain r c1 w1 where "standalone_query env cs text (qs ! i) c w = Some (r, c1, w1)" "standalone_ok c1"
    using standalone_query_answers [OF Cons.prems assms] by blast
  then show ?case using Cons.IH by simp
qed simp

lemma standalone_batch_response_answers:
  assumes "standalone_ok c" "codecs_ok cs"
  shows "\<exists>r c1 w1. Standalone_BatchLookup env cs text order req c w = Some (r, c1, w1) \<and> standalone_ok c1"
proof -
  let ?qs = "case req of None \<Rightarrow> [] | Some qs \<Rightarrow> qs"
  obtain rs c1 w1 where "standalone_batch env cs text ?qs order (replicate (length ?qs)
      \<lparr>pb_Type = [], pb_Value = [], pb_Data = None, pb_Cached = False, pb_Error = []\<rparr>) c w = Some (rs, c1, w1)"
      "standalone_ok c1"
    using standalone_batch_answers [OF assms(2,1)] by blast
  then show ?thesis using assms(1) by (simp add: Standalone_BatchLookup_def Let_def)
qed

lemma standalone_client_contract:
  assumes "codecs_ok cs"
  shows "rdap_client (standalone_ops env cs text order ms) standalone_ok"
proof (unfold_locales, goal_cases)
  case (5 c qs w)
  then show ?case
    using standalone_batch_response_answers [OF "5" assms]
    by (fastforce simp: standalone_ops_def completes_def)
qed (auto simp: standalone_ops_def standalone_lookups_respond assms standalone_ok_def Standalone_Close_def)

section \<open>The REST client\<close>

text \<open>Encoding a batch request, decoding a response.\<close>

record rest_codecs =
  rj_domain :: "DomainResponse unmarshal"
  rj_ip :: "IPResponse unmarshal"
  rj_asn :: "ASNResponse unmarshal"
  rj_entity :: "EntityResponse unmarshal"
  rj_batch :: "BatchResponse unmarshal"
  rj_marshal :: "PublicBatchQuery list option \<Rightarrow> go_error + string"

definition zero_domain :: DomainResponse where
  "zero_domain = \<lparr>dr_Name = [], dr_UnicodeName = [], dr_Status = [], dr_CreatedDate = [], dr_UpdatedDate = [],
     dr_ExpirationDate = [], dr_Registrar = None, dr_Registrant = None, dr_AdminContact = None, dr_TechContact = None,
     dr_Nameservers = [], dr_DNSSEC = None, dr_Country = [], dr_RDAPServer = [], dr_Cached = False\<rparr>"

definition zero_ip :: IPResponse where
  "zero_ip = \<lparr>ir_StartAddress = [], ir_EndAddress = [], ir_CIDR = [], ir_IPVersion = [], ir_Handle = [], ir_Name = [],
     ir_Type = [], ir_ParentHandle = [], ir_Status = [], ir_Country = [], ir_Registrant = None, ir_AdminContact = None,
     ir_TechContact = None, ir_AbuseContact = None, ir_CreatedDate = [], ir_UpdatedDate = [], ir_RDAPServer = [],
     ir_Cached = False\<rparr>"

definition zero_asn :: ASNResponse where
  "zero_asn = \<lparr>nr_StartAutnum = 0, nr_EndAutnum = 0, nr_Handle = [], nr_Name = [], nr_Type = [], nr_Status = [],
     nr_Country = [], nr_CreatedDate = [], nr_UpdatedDate = [], nr_Entities = [], nr_RDAPServer = [], nr_Cached = False\<rparr>"

definition zero_entity :: EntityResponse where
  "zero_entity = \<lparr>xr_Handle = [], xr_Name = [], xr_Organization = [], xr_Email = [], xr_Phone = [], xr_Address = [],
     xr_Country = [], xr_Roles = [], xr_Status = [], xr_CreatedDate = [], xr_UpdatedDate = [], xr_RelatedIPNets = [],
     xr_RelatedASNs = [], xr_RDAPServer = [], xr_Cached = False\<rparr>"

text \<open>A response is a pointer to the value that was decoded into.\<close>

definition rest_response :: "'s \<Rightarrow> (pub_error + 'a) \<times> 'w \<Rightarrow> ((pub_error + 'a option) \<times> 's \<times> 'w) option" where
  "rest_response s x = (case x of (r, w) \<Rightarrow> Some (map_sum id Some r, s, w))"

definition rest_ops ::
  "'w api_env \<Rightarrow> suffix_list \<Rightarrow> rest_codecs \<Rightarrow> ('w api_client, 'w) RDAPClient" where
  "rest_ops env ps rj =
     \<lparr>cl_LookupDomain = (\<lambda>name c w. rest_response c (Api_LookupDomain env ps c (rj_domain rj) zero_domain name w)),
      cl_LookupIP = (\<lambda>addr c w. rest_response c (Api_LookupIP env c (rj_ip rj) zero_ip addr w)),
      cl_LookupASN = (\<lambda>asn c w. rest_response c (Api_LookupASN env c (rj_asn rj) zero_asn asn w)),
      cl_LookupEntity = (\<lambda>handle u c w. rest_response c (Api_LookupEntity env c (rj_entity rj) zero_entity handle u w)),
      cl_BatchLookup = (\<lambda>qs c w.
        map_option (\<lambda>(r, w1). (r, c, w1))
          (Api_BatchLookup env ps c (rj_marshal rj) (rj_batch rj) \<lparr>bq_Results = [], bq_Stats = None\<rparr> (Some qs) w)),
      cl_Close = (\<lambda>c. c)\<rparr>"

lemma rest_response_responds: "responds (\<lambda>_. True) (rest_response s x)"
  by (cases x; cases "fst x") (auto simp: rest_response_def responds_def)

interpretation rest: rdap_client "rest_ops env ps rj" "\<lambda>_. True"
  by unfold_locales (auto simp: rest_ops_def rest_response_responds Api_BatchLookup_def completes_def)

section \<open>A value of the interface type\<close>

text \<open>Which of two clients a value of the interface type holds decides which method is called.\<close>

definition relabel ::
  "('s \<Rightarrow> 't) \<Rightarrow> ((pub_error + 'a) \<times> 's \<times> 'w) option \<Rightarrow> ((pub_error + 'a) \<times> 't \<times> 'w) option" where
  "relabel f = map_option (\<lambda>(r, s, w). (r, f s, w))"

definition either_ops :: "('s, 'w) RDAPClient \<Rightarrow> ('t, 'w) RDAPClient \<Rightarrow> ('s + 't, 'w) RDAPClient" where
  "either_ops a b =
     \<lparr>cl_LookupDomain = (\<lambda>name c w. case c of
          Inl s \<Rightarrow> relabel Inl (cl_LookupDomain a name s w) | Inr t \<Rightarrow> relabel Inr (cl_LookupDomain b name t w)),
       cl_LookupIP = (\<lambda>addr c w. case c of
          Inl s \<Rightarrow> relabel Inl (cl_LookupIP a addr s w) | Inr t \<Rightarrow> relabel Inr (cl_LookupIP b addr t w)),
       cl_LookupASN = (\<lambda>asn c w. case c of
          Inl s \<Rightarrow> relabel Inl (cl_LookupASN a asn s w) | Inr t \<Rightarrow> relabel Inr (cl_LookupASN b asn t w)),
       cl_LookupEntity = (\<lambda>handle u c w. case c of
          Inl s \<Rightarrow> relabel Inl (cl_LookupEntity a handle u s w) | Inr t \<Rightarrow> relabel Inr (cl_LookupEntity b handle u t w)),
       cl_BatchLookup = (\<lambda>qs c w. case c of
          Inl s \<Rightarrow> relabel Inl (cl_BatchLookup a qs s w) | Inr t \<Rightarrow> relabel Inr (cl_BatchLookup b qs t w)),
       cl_Close = map_sum (cl_Close a) (cl_Close b)\<rparr>"

lemma relabel_either:
  "responds ok_a x \<Longrightarrow> responds (case_sum ok_a ok_b) (relabel Inl x)"
  "responds ok_b y \<Longrightarrow> responds (case_sum ok_a ok_b) (relabel Inr y)"
  "completes ok_a z \<Longrightarrow> completes (case_sum ok_a ok_b) (relabel Inl z)"
  "completes ok_b v \<Longrightarrow> completes (case_sum ok_a ok_b) (relabel Inr v)"
  by (auto simp: responds_def completes_def relabel_def)

lemma either_client:
  assumes "rdap_client a ok_a" "rdap_client b ok_b"
  shows "rdap_client (either_ops a b) (case_sum ok_a ok_b)"
proof -
  note laws = rdap_client.domain_responds rdap_client.ip_responds rdap_client.asn_responds
    rdap_client.entity_responds rdap_client.batch_answers rdap_client.close_ok rdap_client.close_again
  note la = laws [OF assms(1)] and lb = laws [OF assms(2)]
  have close: "map_sum (cl_Close a) (cl_Close b) (map_sum (cl_Close a) (cl_Close b) s) = map_sum (cl_Close a) (cl_Close b) s" for s
    by (cases s) (simp_all add: la lb)
  show ?thesis
    by unfold_locales (auto simp: either_ops_def relabel_either close la lb split: sum.splits)
qed

text \<open>The clients of the programs: either one, in order from the start.\<close>

definition client_ok :: "('w, 'r, 'c) StandaloneClient + 'w api_client \<Rightarrow> bool" where
  "client_ok = case_sum standalone_ok (\<lambda>_. True)"

lemma client_contract:
  "codecs_ok cs \<Longrightarrow> rdap_client (either_ops (standalone_ops env cs text order ms) (rest_ops aenv ps rj)) client_ok"
  unfolding client_ok_def by (intro either_client standalone_client_contract rest.rdap_client_axioms)

lemma NewStandaloneClient_ok: "NewStandaloneClient mk new_cache opts = Inr c \<Longrightarrow> standalone_ok c"
  by (auto simp: NewStandaloneClient_def standalone_ok_def Let_def split: if_splits sum.splits)

lemma client_ok_standalone: "\<lbrakk>map_sum f Inl x = Inr c; \<And>s. x = Inr s \<Longrightarrow> standalone_ok s\<rbrakk> \<Longrightarrow> client_ok c"
  by (cases x) (auto simp: client_ok_def)

lemma client_ok_rest: "map_sum f Inr x = Inr c \<Longrightarrow> client_ok c"
  by (cases x) (auto simp: client_ok_def)

end
