(* ===== verification/Rdap_Cli.thy ===== *)
theory Rdap_Cli
  imports Rdap_Interface Whois_Discovery
begin

text \<open>
  \<open>cmd/rdap-client/main.go\<close>: the command line client.  A command is a function from its arguments, the
  environment variables, the files and the outside world to what it prints or the error it exits with.
  Parameters: what the two clients need, JSON, and the text of an error.  The help texts are named, not spelled
  out, and the messages that quote an argument carry it as it is.
\<close>

section \<open>Environment\<close>

text \<open>What is encoded to JSON.\<close>

datatype cli_data =
    CD_Domain "DomainResponse option" | CD_IP "IPResponse option" | CD_ASN "ASNResponse option"
  | CD_Entity "EntityResponse option" | CD_Batch BatchResponse

text \<open>\<open>MetaResponse\<close> of the public package.\<close>

record PublicMeta =
  mp_Component :: string
  mp_Version :: string
  mp_Hostname :: string

record ('w, 'r, 'c) cli_env =
  ce_getenv :: "string \<Rightarrow> string"
  ce_float :: float_fraction
  ce_http :: "int \<Rightarrow> (nat \<Rightarrow> go_error option) \<Rightarrow> 'w http_client"
  ce_NewMemoryCache :: "int \<Rightarrow> go_error + 'c"
  ce_standalone :: "('w, 'r, 'c) standalone_env"
  ce_codecs :: codecs
  ce_error_text :: "pub_error \<Rightarrow> string"
  ce_order :: "nat \<Rightarrow> nat list"
  ce_batch_ms :: int
  ce_transport :: "int \<Rightarrow> 'w \<Rightarrow> api_request \<Rightarrow> http_outcome \<times> 'w"
  ce_api :: "'w api_env"
  ce_rest :: rest_codecs
  ce_meta :: "PublicMeta unmarshal"
  ce_json :: "cli_data \<Rightarrow> go_error + string"
  ce_stdin :: "string \<times> go_error option"
  ce_stat :: "string \<Rightarrow> bool"
  ce_open :: "string \<Rightarrow> go_error + string \<times> go_error option"

definition getEnvOrDefault :: "('w, 'r, 'c) cli_env \<Rightarrow> string \<Rightarrow> string \<Rightarrow> string" where
  "getEnvOrDefault env key defaultValue = (let v = ce_getenv env key in if v \<noteq> [] then v else defaultValue)"

definition parseDurationOrDefault :: "float_fraction \<Rightarrow> string \<Rightarrow> int \<Rightarrow> int" where
  "parseDurationOrDefault fl s defaultValue = (case ParseDuration fl s of None \<Rightarrow> defaultValue | Some d \<Rightarrow> d)"

definition parseBoolOrDefault :: "string \<Rightarrow> bool \<Rightarrow> bool" where
  "parseBoolOrDefault s defaultValue =
     (let l = to_lower s in
      if l \<in> {''1'', ''true'', ''yes'', ''on''} then True
      else if l \<in> {''0'', ''false'', ''no'', ''off''} then False
      else defaultValue)"

section \<open>Sizes\<close>

definition size_suffixes :: "(string \<times> int) list" where
  "size_suffixes =
     [(''GB'', 1024 * 1024 * 1024), (''MB'', 1024 * 1024), (''KB'', 1024), (''G'', 1024 * 1024 * 1024),
      (''M'', 1024 * 1024), (''K'', 1024), (''B'', 1)]"

text \<open>The first suffix that matches decides; the product wraps at 64 bits.\<close>

fun cut_size :: "(string \<times> int) list \<Rightarrow> string \<Rightarrow> go_error + int" where
  "cut_size [] s =
     (case parse_int 64 s of None \<Rightarrow> Inl (OtherError (''parsing '' @ s)) | Some n \<Rightarrow> Inr n)"
| "cut_size ((sfx, multiplier) # rest) s =
     (if has_suffix s sfx then
        (case parse_int 64 (take (length s - length sfx) s) of
           None \<Rightarrow> Inl (OtherError (''invalid size: '' @ s))
         | Some num \<Rightarrow> Inr (int64 (num * multiplier)))
      else cut_size rest s)"

definition parseSize :: "string \<Rightarrow> go_error + int" where
  "parseSize s0 =
     (let s = trim_space (to_upper s0) in
      if s = [] then Inl (OtherError ''empty size string'') else cut_size size_suffixes s)"

definition parseSizeOrDefault :: "string \<Rightarrow> int \<Rightarrow> int" where
  "parseSizeOrDefault s defaultValue = (case parseSize s of Inl _ \<Rightarrow> defaultValue | Inr v \<Rightarrow> v)"

section \<open>Options\<close>

record CliConfig =
  cl_ServerURL :: string
  cl_Timeout :: int
  cl_Output :: string
  cl_Quiet :: bool
  cl_Standalone :: bool
  cl_CacheSize :: int
  cl_CacheTTL :: int
  cl_NegativeTTL :: int
  cl_NoCache :: bool
  cl_NormalizeDomain :: bool

definition cli_defaults :: "('w, 'r, 'c) cli_env \<Rightarrow> CliConfig" where
  "cli_defaults env =
     \<lparr>cl_ServerURL = getEnvOrDefault env ''RDAP_SERVER_URL'' ''http://localhost:8080'',
      cl_Timeout = parseDurationOrDefault (ce_float env) (getEnvOrDefault env ''RDAP_TIMEOUT'' ''30s'') (seconds 30),
      cl_Output = ''json'', cl_Quiet = False,
      cl_Standalone = parseBoolOrDefault (getEnvOrDefault env ''RDAP_STANDALONE'' []) False,
      cl_CacheSize = parseSizeOrDefault (getEnvOrDefault env ''RDAP_CACHE_SIZE'' []) (50 * 1024 * 1024),
      cl_CacheTTL = parseDurationOrDefault (ce_float env) (getEnvOrDefault env ''RDAP_CACHE_TTL'' []) (hours 24),
      cl_NegativeTTL = parseDurationOrDefault (ce_float env) (getEnvOrDefault env ''RDAP_NEGATIVE_TTL'' []) (hours 1),
      cl_NoCache = False, cl_NormalizeDomain = True\<rparr>"

definition cli_error :: "string \<Rightarrow> pub_error" where
  "cli_error msg = PGo (OtherError msg)"

text \<open>The options with a value, and what they set.\<close>

definition value_options :: "string set" where
  "value_options = {''-s'', ''--server'', ''-t'', ''--timeout'', ''-o'', ''--output'', ''--cache-size'', ''--cache-ttl'',
     ''--negative-ttl''}"

definition duration_option ::
  "float_fraction \<Rightarrow> string \<Rightarrow> string \<Rightarrow> (int \<Rightarrow> CliConfig) \<Rightarrow> pub_error + CliConfig" where
  "duration_option fl what v upd =
     (case ParseDuration fl v of
        None \<Rightarrow> Inl (PWrap (''invalid '' @ what) (cli_error (''time: invalid duration '' @ v)))
      | Some d \<Rightarrow> Inr (upd d))"

definition set_option :: "float_fraction \<Rightarrow> string \<Rightarrow> string \<Rightarrow> CliConfig \<Rightarrow> pub_error + CliConfig" where
  "set_option fl arg v cfg =
     (if arg = ''-s'' \<or> arg = ''--server'' then Inr (cfg\<lparr>cl_ServerURL := v\<rparr>)
      else if arg = ''-t'' \<or> arg = ''--timeout'' then duration_option fl ''timeout'' v (\<lambda>d. cfg\<lparr>cl_Timeout := d\<rparr>)
      else if arg = ''-o'' \<or> arg = ''--output'' then
        (if v \<noteq> ''json'' \<and> v \<noteq> ''table'' then Inl (cli_error (''invalid output format: '' @ v @ '' (use 'json' or 'table')''))
         else Inr (cfg\<lparr>cl_Output := v\<rparr>))
      else if arg = ''--cache-size'' then
        (case parseSize v of Inl err \<Rightarrow> Inl (PWrap ''invalid cache size'' (PGo err))
         | Inr sz \<Rightarrow> Inr (cfg\<lparr>cl_CacheSize := sz\<rparr>))
      else if arg = ''--cache-ttl'' then duration_option fl ''cache TTL'' v (\<lambda>d. cfg\<lparr>cl_CacheTTL := d\<rparr>)
      else duration_option fl ''negative TTL'' v (\<lambda>d. cfg\<lparr>cl_NegativeTTL := d\<rparr>))"

text \<open>
  The loop over the arguments: \<open>remaining\<close> collects those that are not options.  The result is an error, the
  request for help (\<open>Inr None\<close>), or the configuration with the remaining arguments.
\<close>

fun parse_args ::
  "float_fraction \<Rightarrow> string list \<Rightarrow> CliConfig \<Rightarrow> string list \<Rightarrow> pub_error + (CliConfig \<times> string list) option" where
  "parse_args fl [] cfg remaining = Inr (Some (cfg, remaining))"
| "parse_args fl (arg # args) cfg remaining =
     (if arg \<in> value_options then
        (case args of
           [] \<Rightarrow> Inl (cli_error (''missing value for '' @ arg))
         | v # args1 \<Rightarrow>
             (case set_option fl arg v cfg of
                Inl err \<Rightarrow> Inl err
              | Inr cfg1 \<Rightarrow> parse_args fl args1 cfg1 remaining))
      else if arg = ''-q'' \<or> arg = ''--quiet'' then parse_args fl args (cfg\<lparr>cl_Quiet := True\<rparr>) remaining
      else if arg = ''-S'' \<or> arg = ''--standalone'' then parse_args fl args (cfg\<lparr>cl_Standalone := True\<rparr>) remaining
      else if arg = ''--no-cache'' then parse_args fl args (cfg\<lparr>cl_NoCache := True\<rparr>) remaining
      else if arg = ''--no-normalize'' then parse_args fl args (cfg\<lparr>cl_NormalizeDomain := False\<rparr>) remaining
      else if arg = ''-h'' \<or> arg = ''--help'' then Inr None
      else if has_prefix arg ''-'' then Inl (cli_error (''unknown option: '' @ arg))
      else parse_args fl args cfg (remaining @ [arg]))"

definition parseConfig ::
  "('w, 'r, 'c) cli_env \<Rightarrow> string list \<Rightarrow> pub_error + (CliConfig \<times> string list) option" where
  "parseConfig env args = parse_args (ce_float env) args (cli_defaults env) []"

section \<open>Clients\<close>

type_synonym ('w, 'r, 'c) any_client = "('w, 'r, 'c) StandaloneClient + 'w api_client"

definition createClient :: "('w, 'r, 'c) cli_env \<Rightarrow> CliConfig \<Rightarrow> pub_error + ('w, 'r, 'c) any_client" where
  "createClient env cfg =
     (if cl_Standalone cfg then
        (let opts = [WithStandaloneTimeout (cl_Timeout cfg), WithStandaloneDomainNormalization (cl_NormalizeDomain cfg)] @
               (if cl_NoCache cfg then [WithoutCache]
                else [WithCacheSize (cl_CacheSize cfg), WithCacheTTL (cl_CacheTTL cfg), WithNegativeTTL (cl_NegativeTTL cfg)])
         in map_sum PGo Inl (NewStandaloneClient (ce_http env) (ce_NewMemoryCache env) opts))
      else map_sum id Inr (Api_NewClient (ce_transport env) (cl_ServerURL cfg) [WithTimeout (cl_Timeout cfg)]))"

definition any_ops :: "('w, 'r, 'c) cli_env \<Rightarrow> (('w, 'r, 'c) any_client, 'w) RDAPClient" where
  "any_ops env = either_ops
     (standalone_ops (ce_standalone env) (ce_codecs env) (ce_error_text env) (ce_order env) (ce_batch_ms env))
     (rest_ops (ce_api env) (sn_suffixes (ce_standalone env)) (ce_rest env))"

section \<open>Output\<close>

definition line :: "string \<Rightarrow> string" where
  "line s = s @ [CHR 0x0A]"

text \<open>A line that is left out when its value is empty.\<close>

definition opt_line :: "string \<Rightarrow> string \<Rightarrow> string" where
  "opt_line label v = (if v \<noteq> [] then line (label @ v) else [])"

definition show_bool :: "bool \<Rightarrow> string" where
  "show_bool b = (if b then ''true'' else ''false'')"

definition show_int :: "int \<Rightarrow> string" where
  "show_int n = (if n < 0 then CHR ''-'' # show_nat (nat (- n)) else show_nat (nat n))"

definition formatDomainTable :: "DomainResponse \<Rightarrow> string" where
  "formatDomainTable d =
     line (''Domain: '' @ dr_Name d) @ line (''Status: '' @ join_with '', '' (dr_Status d)) @
     opt_line ''Created: '' (dr_CreatedDate d) @ opt_line ''Expires: '' (dr_ExpirationDate d) @
     (case dr_Registrar d of None \<Rightarrow> [] | Some r \<Rightarrow> opt_line ''Registrar: '' (ct_Name r)) @
     opt_line ''Country: '' (dr_Country d) @
     (if dr_Nameservers d \<noteq> [] then line ''Nameservers:'' @ concat (map (\<lambda>ns. line (''  - '' @ pn_Name ns)) (dr_Nameservers d))
      else []) @
     (case dr_DNSSEC d of
        Some k \<Rightarrow> line (''DNSSEC: signed='' @ show_bool (pk_Signed k) @ '' delegation_signed='' @ show_bool (pk_DelegationSigned k))
      | None \<Rightarrow> line ''DNSSEC: none'')"

definition formatIPTable :: "IPResponse \<Rightarrow> string" where
  "formatIPTable d =
     (if ir_CIDR d \<noteq> [] then line (''Network: '' @ join_with '', '' (ir_CIDR d))
      else line (''Range: '' @ ir_StartAddress d @ '' - '' @ ir_EndAddress d)) @
     opt_line ''Name: '' (ir_Name d) @ opt_line ''Handle: '' (ir_Handle d) @ opt_line ''Country: '' (ir_Country d) @
     (case ir_Registrant d of None \<Rightarrow> [] | Some c \<Rightarrow> opt_line ''Registrant: '' (ct_Name c)) @
     (case ir_AbuseContact d of None \<Rightarrow> [] | Some c \<Rightarrow> opt_line ''Abuse Contact: '' (ct_Email c))"

definition formatASNTable :: "ASNResponse \<Rightarrow> string" where
  "formatASNTable d =
     line (''ASN: '' @ show_nat (unat (nr_StartAutnum d))) @
     opt_line ''Name: '' (nr_Name d) @ opt_line ''Handle: '' (nr_Handle d) @ opt_line ''Country: '' (nr_Country d) @
     (if nr_Entities d \<noteq> [] then
        line ''Entities:'' @
        concat (map (\<lambda>e. line (''  - '' @ pu_Name e @ '' ('' @ join_with '', '' (pu_Roles e) @ '')'')) (nr_Entities d))
      else [])"

definition formatEntityTable :: "EntityResponse \<Rightarrow> string" where
  "formatEntityTable d =
     line (''Handle: '' @ xr_Handle d) @
     opt_line ''Name: '' (xr_Name d) @ opt_line ''Organization: '' (xr_Organization d) @
     opt_line ''Email: '' (xr_Email d) @ opt_line ''Phone: '' (xr_Phone d) @ opt_line ''Country: '' (xr_Country d) @
     (if xr_Roles d \<noteq> [] then line (''Roles: '' @ join_with '', '' (xr_Roles d)) else [])"

definition batch_line :: "ClientBatchResult \<Rightarrow> string" where
  "batch_line r =
     line (''['' @ cb_Type r @ ''] '' @ cb_Value r @ '': '' @
       (if cb_Error r \<noteq> [] then ''ERROR - '' @ cb_Error r else ''OK'' @ (if cb_Cached r then '' (cached)'' else [])))"

definition formatBatchTable :: "BatchResponse \<Rightarrow> string" where
  "formatBatchTable d =
     concat (map batch_line (bq_Results d)) @
     (case bq_Stats d of
        None \<Rightarrow> []
      | Some k \<Rightarrow> line [] @ line (''Stats: '' @ show_int (kt_Total k) @ '' total, '' @ show_int (kt_Success k) @ '' success, '' @
          show_int (kt_Errors k) @ '' errors, '' @ show_int (kt_CacheHits k) @ '' cache hits, '' @
          show_int (kt_DurationMs k) @ ''ms''))"

text \<open>The table of a response that is nil dereferences it (\<open>None\<close>).\<close>

definition table_of :: "cli_data \<Rightarrow> string option" where
  "table_of d =
     (case d of
        CD_Domain r \<Rightarrow> map_option formatDomainTable r
      | CD_IP r \<Rightarrow> map_option formatIPTable r
      | CD_ASN r \<Rightarrow> map_option formatASNTable r
      | CD_Entity r \<Rightarrow> map_option formatEntityTable r
      | CD_Batch r \<Rightarrow> Some (formatBatchTable r))"

definition outputResult :: "('w, 'r, 'c) cli_env \<Rightarrow> cli_data \<Rightarrow> string \<Rightarrow> (pub_error + string) option" where
  "outputResult env d format =
     (if format = ''table'' then map_option Inr (table_of d) else Some (map_sum PGo line (ce_json env d)))"

definition formatError :: "pub_error \<Rightarrow> pub_error" where
  "formatError err =
     (if IsNotFoundError err then cli_error ''not found''
      else if IsRateLimitedError err then cli_error ''rate limited - try again later''
      else err)"

section \<open>Commands\<close>

datatype cli_output = Usage | Version_Text | Help string | Printed string

type_synonym 'w command_result = "((pub_error + cli_output) \<times> 'w) option"

text \<open>
  What the commands have in common: the client is made, asked once, and its answer is printed.  The deadline
  of the call is part of the outside world.
\<close>

definition ask_client ::
  "('w, 'r, 'c) cli_env \<Rightarrow> CliConfig \<Rightarrow> (('w, 'r, 'c) any_client, 'w, 'a) client_call \<Rightarrow> ('a \<Rightarrow> cli_data) \<Rightarrow> 'w \<Rightarrow>
   'w command_result" where
  "ask_client env cfg call data w =
     (case createClient env cfg of
        Inl err \<Rightarrow> Some (Inl err, w)
      | Inr c \<Rightarrow>
          (case call c w of
             None \<Rightarrow> None
           | Some (Inl err, _, w1) \<Rightarrow> Some (Inl (formatError err), w1)
           | Some (Inr resp, _, w1) \<Rightarrow>
               map_option (\<lambda>r. (map_sum id Printed r, w1)) (outputResult env (data resp) (cl_Output cfg))))"

definition with_config ::
  "('w, 'r, 'c) cli_env \<Rightarrow> string \<Rightarrow> string list \<Rightarrow> (CliConfig \<Rightarrow> string list \<Rightarrow> 'w \<Rightarrow> 'w command_result) \<Rightarrow> 'w \<Rightarrow>
   'w command_result" where
  "with_config env cmd args k w =
     (case parseConfig env args of
        Inl err \<Rightarrow> Some (Inl err, w)
      | Inr None \<Rightarrow> Some (Inr (Help cmd), w)
      | Inr (Some (cfg, remaining)) \<Rightarrow> k cfg remaining w)"

definition first_word ::
  "string \<Rightarrow> (CliConfig \<Rightarrow> string \<Rightarrow> 'w \<Rightarrow> 'w command_result) \<Rightarrow> CliConfig \<Rightarrow> string list \<Rightarrow> 'w \<Rightarrow> 'w command_result" where
  "first_word missing k cfg remaining w =
     (case remaining of [] \<Rightarrow> Some (Inl (cli_error missing), w) | v # _ \<Rightarrow> k cfg v w)"

definition runDomain :: "('w, 'r, 'c) cli_env \<Rightarrow> string list \<Rightarrow> 'w \<Rightarrow> 'w command_result" where
  "runDomain env args = with_config env ''domain'' args (first_word ''missing domain name''
     (\<lambda>cfg dmn. ask_client env cfg (cl_LookupDomain (any_ops env) dmn) CD_Domain))"

definition runIP :: "('w, 'r, 'c) cli_env \<Rightarrow> string list \<Rightarrow> 'w \<Rightarrow> 'w command_result" where
  "runIP env args = with_config env ''ip'' args (first_word ''missing IP address''
     (\<lambda>cfg addr. ask_client env cfg (cl_LookupIP (any_ops env) addr) CD_IP))"

definition runASN :: "('w, 'r, 'c) cli_env \<Rightarrow> string list \<Rightarrow> 'w \<Rightarrow> 'w command_result" where
  "runASN env args = with_config env ''asn'' args (first_word ''missing ASN number''
     (\<lambda>cfg asn. ask_client env cfg (cl_LookupASN (any_ops env) asn) CD_ASN))"

text \<open>The search for \<open>--rdap-server\<close> in the remaining arguments: the handle and the server.\<close>

fun entity_args :: "string list \<Rightarrow> string \<Rightarrow> string \<Rightarrow> string \<times> string" where
  "entity_args [] handle server = (handle, server)"
| "entity_args [a] handle server = (if has_prefix a ''-'' then (handle, server) else (a, server))"
| "entity_args (a # b # rest) handle server =
     (if a = ''--rdap-server'' then entity_args rest handle b
      else if \<not> has_prefix a ''-'' then entity_args (b # rest) a server
      else entity_args (b # rest) handle server)"

definition runEntity :: "('w, 'r, 'c) cli_env \<Rightarrow> string list \<Rightarrow> 'w \<Rightarrow> 'w command_result" where
  "runEntity env args = with_config env ''entity'' args (\<lambda>cfg remaining w.
     let (handle, server) = entity_args remaining [] [] in
     if handle = [] then Some (Inl (cli_error ''missing entity handle''), w)
     else if server = [] then Some (Inl (cli_error ''missing --rdap-server (required for entity lookups)''), w)
     else ask_client env cfg (cl_LookupEntity (any_ops env) handle server) CD_Entity w)"

section \<open>Batches\<close>

definition parseBatchQuery :: "string \<Rightarrow> pub_error + PublicBatchQuery" where
  "parseBatchQuery s =
     (case cut_at CHR '':'' s of
        None \<Rightarrow> Inl (cli_error (''expected format 'type:value'' @ [CHR 0x27]))
      | Some (a, b) \<Rightarrow>
          (let qType = to_lower (trim_space a); v = trim_space b in
           if qType = ''domain'' \<or> qType = ''ip'' \<or> qType = ''asn'' then
             Inr \<lparr>pq_Type = qType, pq_Value = v, pq_ServerURL = []\<rparr>
           else Inl (cli_error (''unsupported query type: '' @ qType))))"

text \<open>
  The loop over the lines of a \<open>bufio.Scanner\<close> with its default buffer.  \<open>what\<close> names the source in the error.
\<close>

definition max_scan_token :: nat where "max_scan_token = 64 * 1024"

fun read_queries ::
  "string \<Rightarrow> string list \<Rightarrow> go_error option \<Rightarrow> PublicBatchQuery list \<Rightarrow> pub_error + PublicBatchQuery list" where
  "read_queries what [] end queries =
     (case end of Some err \<Rightarrow> Inl (PWrap (''error reading '' @ what) (PGo err)) | None \<Rightarrow> Inr queries)"
| "read_queries what (l # ls) end queries =
     (if max_scan_token \<le> length l then Inl (PWrap (''error reading '' @ what) (PGo (Sentinel Bufio_ErrTooLong)))
      else (let t = trim_space (drop_cr l) in
            if t = [] \<or> has_prefix t ''#'' then read_queries what ls end queries
            else (case parseBatchQuery t of
                    Inl err \<Rightarrow> Inl (PWrap (''invalid query '' @ t) err)
                  | Inr q \<Rightarrow> read_queries what ls end (queries @ [q]))))"

definition scan_queries :: "string \<Rightarrow> string \<times> go_error option \<Rightarrow> pub_error + PublicBatchQuery list" where
  "scan_queries what reader = read_queries what (split_on CHR 0x0A (fst reader)) (snd reader) []"

fun inline_queries :: "string list \<Rightarrow> pub_error + PublicBatchQuery list" where
  "inline_queries [] = Inr []"
| "inline_queries (arg # args) =
     (case parseBatchQuery arg of
        Inl err \<Rightarrow> Inl (PWrap (''invalid query '' @ arg) err)
      | Inr q \<Rightarrow> map_sum id ((#) q) (inline_queries args))"

text \<open>\<open>filepath.Clean\<close>.\<close>

fun clean_elements :: "bool \<Rightarrow> string list \<Rightarrow> string list \<Rightarrow> string list" where
  "clean_elements rooted acc [] = rev acc"
| "clean_elements rooted acc (e # es) =
     (if e = [] \<or> e = ''.'' then clean_elements rooted acc es
      else if e = ''..'' then
        (case acc of
           [] \<Rightarrow> clean_elements rooted (if rooted then [] else [''..'']) es
         | x # xs \<Rightarrow> clean_elements rooted (if x = ''..'' then ''..'' # acc else xs) es)
      else clean_elements rooted (e # acc) es)"

definition filepath_Clean :: "string \<Rightarrow> string" where
  "filepath_Clean path =
     (let rooted = has_prefix path ''/'';
          s = join_with ''/'' (clean_elements rooted [] (split_on CHR ''/'' path)) in
      if rooted then CHR ''/'' # s else if s = [] then ''.'' else s)"

definition resolveBatchFile :: "('w, 'r, 'c) cli_env \<Rightarrow> string \<Rightarrow> string option" where
  "resolveBatchFile env arg = (let p = filepath_Clean arg in if ce_stat env p then Some p else None)"

definition collect_queries :: "('w, 'r, 'c) cli_env \<Rightarrow> string list \<Rightarrow> pub_error + PublicBatchQuery list" where
  "collect_queries env remaining =
     (if hd remaining = ''-'' then scan_queries ''stdin'' (ce_stdin env)
      else (case resolveBatchFile env (hd remaining) of
              Some batchPath \<Rightarrow>
                (case ce_open env batchPath of
                   Inl err \<Rightarrow> Inl (PWrap ''failed to open file'' (PGo err))
                 | Inr reader \<Rightarrow> scan_queries ''file'' reader)
            | None \<Rightarrow> inline_queries remaining))"

definition runBatch :: "('w, 'r, 'c) cli_env \<Rightarrow> string list \<Rightarrow> 'w \<Rightarrow> 'w command_result" where
  "runBatch env args = with_config env ''batch'' args (\<lambda>cfg remaining w.
     if remaining = [] then Some (Inl (cli_error ''missing input (file, '-' for stdin, or inline queries)''), w)
     else (case collect_queries env remaining of
             Inl err \<Rightarrow> Some (Inl err, w)
           | Inr queries \<Rightarrow>
               if queries = [] then Some (Inl (cli_error ''no queries provided''), w)
               else ask_client env cfg (cl_BatchLookup (any_ops env) queries) CD_Batch w))"

section \<open>Health\<close>

definition health_text :: "PublicMeta \<Rightarrow> string" where
  "health_text meta =
     line ''Server is healthy and ready'' @ line (''  Component: '' @ mp_Component meta) @
     line (''  Version:   '' @ mp_Version meta) @ opt_line ''  Hostname:  '' (mp_Hostname meta)"

definition runHealth :: "('w, 'r, 'c) cli_env \<Rightarrow> string list \<Rightarrow> 'w \<Rightarrow> 'w command_result" where
  "runHealth env args = with_config env ''health'' args (\<lambda>cfg remaining w.
     if cl_Standalone cfg then Some (Inl (cli_error ''health command is only available in REST mode (remove --standalone)''), w)
     else (case Api_NewClient (ce_transport env) (cl_ServerURL cfg) [WithTimeout (cl_Timeout cfg)] of
             Inl err \<Rightarrow> Some (Inl err, w)
           | Inr client \<Rightarrow>
               (case Api_Health (ce_api env) client w of
                  (Some err, w1) \<Rightarrow> Some (Inl (PWrap ''server unhealthy'' err), w1)
                | (None, w1) \<Rightarrow>
                    (case Api_Ready (ce_api env) client w1 of
                       (Some err, w2) \<Rightarrow> Some (Inl (PWrap ''server not ready'' err), w2)
                     | (None, w2) \<Rightarrow>
                         (case Api_Meta (ce_api env) client (ce_meta env)
                             \<lparr>mp_Component = [], mp_Version = [], mp_Hostname = []\<rparr> w2 of
                            (Inl err, w3) \<Rightarrow> Some (Inr (Printed (line ''Server is healthy and ready'')), w3)
                          | (Inr meta, w3) \<Rightarrow> Some (Inr (Printed (health_text meta)), w3))))))"

section \<open>The program\<close>

text \<open>\<open>run\<close>, on the arguments after the name of the program.\<close>

definition cli_run :: "('w, 'r, 'c) cli_env \<Rightarrow> string list \<Rightarrow> 'w \<Rightarrow> 'w command_result" where
  "cli_run env args w =
     (case args of
        [] \<Rightarrow> Some (Inr Usage, w)
      | cmd # rest \<Rightarrow>
          if cmd \<in> {''help'', ''-h'', ''--help''} then Some (Inr Usage, w)
          else if cmd \<in> {''version'', ''-v'', ''--version''} then Some (Inr Version_Text, w)
          else if cmd = ''domain'' then runDomain env rest w
          else if cmd = ''ip'' then runIP env rest w
          else if cmd = ''asn'' then runASN env rest w
          else if cmd = ''entity'' then runEntity env rest w
          else if cmd = ''batch'' then runBatch env rest w
          else if cmd = ''health'' then runHealth env rest w
          else Some (Inl (cli_error (''unknown command: '' @ cmd)), w))"

section \<open>What the options mean\<close>

text \<open>What remains are words: an argument with a leading hyphen is an option or an error.\<close>

definition word :: "string \<Rightarrow> bool" where
  "word a \<longleftrightarrow> \<not> has_prefix a ''-''"

lemma parse_args_words:
  "\<lbrakk>parse_args fl args cfg remaining = Inr (Some (cfg1, remaining1)); list_all word remaining\<rbrakk> \<Longrightarrow>
   list_all word remaining1"
  by (induction fl args cfg remaining rule: parse_args.induct)
     (auto simp: word_def split: if_splits list.splits sum.splits)

lemma parseConfig_words: "parseConfig env args = Inr (Some (cfg, remaining)) \<Longrightarrow> list_all word remaining"
  unfolding parseConfig_def by (erule parse_args_words) simp

text \<open>The server of an entity is never found among words.\<close>

lemma entity_args_words: "list_all word args \<Longrightarrow> snd (entity_args args handle server) = server"
  by (induction args handle server rule: entity_args.induct) (auto simp: word_def has_prefix_def)

lemma runEntity_never_asks:
  "\<exists>res. runEntity env args w = Some (res, w) \<and> (\<forall>out. res = Inr out \<longrightarrow> out = Help ''entity'')"
proof (cases "parseConfig env args")
  case (Inr r)
  show ?thesis
  proof (cases r)
    case (Some x)
    obtain cfg remaining where x: "x = (cfg, remaining)" by fastforce
    then have "snd (entity_args remaining [] []) = []"
      using parseConfig_words [of env args cfg remaining] Inr Some by (simp add: entity_args_words)
    then show ?thesis
      using Inr Some x by (auto simp: runEntity_def with_config_def Let_def split: prod.split)
  qed (simp add: Inr runEntity_def with_config_def)
qed (simp add: runEntity_def with_config_def)

text \<open>A batch never reads its standard input: the argument that asks for it is taken for an option.\<close>

lemma stdin_parts:
  "createClient (env\<lparr>ce_stdin := input\<rparr>) = createClient env" "outputResult (env\<lparr>ce_stdin := input\<rparr>) = outputResult env"
  "ce_open (env\<lparr>ce_stdin := input\<rparr>) = ce_open env"
  by (intro ext; simp add: createClient_def outputResult_def)+

lemma stdin_unused [simp]:
  "parseConfig (env\<lparr>ce_stdin := input\<rparr>) args = parseConfig env args"
  "ask_client (env\<lparr>ce_stdin := input\<rparr>) cfg call data w = ask_client env cfg call data w"
  "any_ops (env\<lparr>ce_stdin := input\<rparr>) = any_ops env"
  "resolveBatchFile (env\<lparr>ce_stdin := input\<rparr>) arg = resolveBatchFile env arg"
  unfolding ask_client_def stdin_parts
  by (simp_all add: parseConfig_def cli_defaults_def getEnvOrDefault_def any_ops_def resolveBatchFile_def Let_def)

lemma collect_queries_words:
  "\<lbrakk>list_all word remaining; remaining \<noteq> []\<rbrakk> \<Longrightarrow>
   collect_queries (env\<lparr>ce_stdin := input\<rparr>) remaining = collect_queries env remaining"
  unfolding collect_queries_def stdin_parts stdin_unused
  by (cases remaining) (auto simp: word_def has_prefix_def)

lemma runBatch_ignores_stdin: "runBatch (env\<lparr>ce_stdin := input\<rparr>) args w = runBatch env args w"
  using parseConfig_words [of env args]
  by (auto simp: runBatch_def with_config_def collect_queries_words split: sum.split option.split)

section \<open>Options are read back\<close>

text \<open>The arguments that set a configuration.\<close>

definition flag :: "string \<Rightarrow> bool \<Rightarrow> string list" where
  "flag name b = (if b then [name] else [])"

definition config_args :: "CliConfig \<Rightarrow> string list" where
  "config_args c =
     [''-s'', cl_ServerURL c, ''-t'', Duration_String (cl_Timeout c), ''-o'', cl_Output c,
      ''--cache-size'', show_int (cl_CacheSize c), ''--cache-ttl'', Duration_String (cl_CacheTTL c),
      ''--negative-ttl'', Duration_String (cl_NegativeTTL c)] @
     flag ''-q'' (cl_Quiet c) @ flag ''-S'' (cl_Standalone c) @ flag ''--no-cache'' (cl_NoCache c) @
     flag ''--no-normalize'' (\<not> cl_NormalizeDomain c)"

definition in_int64 :: "int \<Rightarrow> bool" where
  "in_int64 n \<longleftrightarrow> - (2 ^ 63) \<le> n \<and> n < 2 ^ 63"

definition settable :: "CliConfig \<Rightarrow> bool" where
  "settable c \<longleftrightarrow> in_int64 (cl_Timeout c) \<and> in_int64 (cl_CacheTTL c) \<and> in_int64 (cl_NegativeTTL c) \<and>
     0 \<le> cl_CacheSize c \<and> cl_CacheSize c < 2 ^ 63 \<and> cl_Output c \<in> {''json'', ''table''}"

lemma duration_option_String:
  "in_int64 d \<Longrightarrow> duration_option fl what (Duration_String d) upd = Inr (upd d)"
  by (simp add: duration_option_def in_int64_def ParseDuration_String)

lemma has_suffix_snoc: "has_suffix (s @ [c]) (p @ [d]) = (c = d \<and> has_suffix s p)"
  by (simp add: has_suffix_def has_prefix_def)

lemma has_suffix_digits:
  assumes "all_digits ds" "\<not> is_digit d"
  shows "\<not> has_suffix ds (p @ [d])"
proof -
  obtain cs c where ds: "ds = cs @ [c]" using assms(1) by (cases ds rule: rev_cases) (auto simp: all_digits_def)
  then have "is_digit c" using assms(1) by (simp add: all_digits_def)
  then show ?thesis using assms(2) by (auto simp: ds has_suffix_snoc)
qed

lemma cut_size_digits:
  assumes "all_digits ds"
  shows "cut_size size_suffixes ds = cut_size [] ds"
proof -
  note no = has_suffix_digits [OF assms, of _ "[_]"] has_suffix_digits [OF assms, of _ "[]"]
  show ?thesis by (simp add: size_suffixes_def no [simplified])
qed

lemma parse_int_show: "n < 2 ^ 63 \<Longrightarrow> parse_int 64 (show_nat n) = Some (int n)"
  using all_digits_show_nat [of n] dec_value_show_nat [of n]
  by (cases "show_nat n") (auto simp: parse_int_def all_digits_def Let_def simp del: dec_value.simps)

lemma parseSize_show:
  assumes "n < 2 ^ 63"
  shows "parseSize (show_nat n) = Inr (int n)"
proof -
  note ds = digits_plain [OF all_digits_show_nat [of n]]
  have "trim_space (to_upper (show_nat n)) = show_nat n"
    using ds by (simp add: to_upper_def trim_space_clean clean_def)
  then show ?thesis
    using assms by (simp add: parseSize_def cut_size_digits [OF all_digits_show_nat] parse_int_show)
qed

lemma parse_args_plain:
  "list_all word words \<Longrightarrow> parse_args fl words cfg remaining = Inr (Some (cfg, remaining @ words))"
proof (induction words arbitrary: remaining)
  case (Cons a words)
  have "a \<notin> value_options \<and> a \<noteq> ''-q'' \<and> a \<noteq> ''--quiet'' \<and> a \<noteq> ''-S'' \<and> a \<noteq> ''--standalone'' \<and> a \<noteq> ''--no-cache'' \<and>
      a \<noteq> ''--no-normalize'' \<and> a \<noteq> ''-h'' \<and> a \<noteq> ''--help''"
    using Cons.prems by (auto simp: word_def has_prefix_def value_options_def)
  then show ?case using Cons by (simp add: word_def)
qed simp

lemma parse_args_value:
  "arg \<in> value_options \<Longrightarrow> set_option fl arg v cfg = Inr cfg1 \<Longrightarrow>
   parse_args fl (arg # v # args) cfg remaining = parse_args fl args cfg1 remaining"
  by simp

lemma parse_args_flags:
  "parse_args fl (flag ''-q'' q @ flag ''-S'' sa @ flag ''--no-cache'' nc @ flag ''--no-normalize'' nn @ words) cfg remaining =
   parse_args fl words
     (cfg\<lparr>cl_Quiet := cl_Quiet cfg \<or> q, cl_Standalone := cl_Standalone cfg \<or> sa, cl_NoCache := cl_NoCache cfg \<or> nc,
         cl_NormalizeDomain := cl_NormalizeDomain cfg \<and> \<not> nn\<rparr>) remaining"
  by (cases q; cases sa; cases nc; cases nn) (simp_all add: flag_def value_options_def)

lemma set_options:
  "set_option fl ''-s'' v cfg = Inr (cfg\<lparr>cl_ServerURL := v\<rparr>)"
  "in_int64 d \<Longrightarrow> set_option fl ''-t'' (Duration_String d) cfg = Inr (cfg\<lparr>cl_Timeout := d\<rparr>)"
  "v \<in> {''json'', ''table''} \<Longrightarrow> set_option fl ''-o'' v cfg = Inr (cfg\<lparr>cl_Output := v\<rparr>)"
  "0 \<le> n \<Longrightarrow> n < 2 ^ 63 \<Longrightarrow> set_option fl ''--cache-size'' (show_int n) cfg = Inr (cfg\<lparr>cl_CacheSize := n\<rparr>)"
  "in_int64 d \<Longrightarrow> set_option fl ''--cache-ttl'' (Duration_String d) cfg = Inr (cfg\<lparr>cl_CacheTTL := d\<rparr>)"
  "in_int64 d \<Longrightarrow> set_option fl ''--negative-ttl'' (Duration_String d) cfg = Inr (cfg\<lparr>cl_NegativeTTL := d\<rparr>)"
  using parseSize_show [of "nat n"] by (auto simp: set_option_def duration_option_String show_int_def)

text \<open>Whatever the starting configuration, unless it has a flag set that no option can clear.\<close>

lemma parse_config_args:
  assumes "settable c" "list_all word words"
    and "\<not> cl_Quiet cfg" "\<not> cl_NoCache cfg" "cl_NormalizeDomain cfg" "cl_Standalone cfg \<longrightarrow> cl_Standalone c"
  shows "parse_args fl (config_args c @ words) cfg [] = Inr (Some (c, words))"
proof -
  have step: "parse_args fl (config_args c @ words) cfg [] =
      parse_args fl (flag ''-q'' (cl_Quiet c) @ flag ''-S'' (cl_Standalone c) @ flag ''--no-cache'' (cl_NoCache c) @
        flag ''--no-normalize'' (\<not> cl_NormalizeDomain c) @ words)
        (cfg\<lparr>cl_ServerURL := cl_ServerURL c, cl_Timeout := cl_Timeout c, cl_Output := cl_Output c,
          cl_CacheSize := cl_CacheSize c, cl_CacheTTL := cl_CacheTTL c, cl_NegativeTTL := cl_NegativeTTL c\<rparr>) []"
    using assms(1) by (simp add: config_args_def value_options_def settable_def set_options del: Duration_String_def)
  show ?thesis
    unfolding step parse_args_flags parse_args_plain [OF assms(2)]
    using assms(3-6) by (cases "cl_Standalone cfg") (auto intro: CliConfig.equality)
qed

text \<open>Options in front of the command are not understood.\<close>

lemma option_first:
  assumes "has_prefix opt ''-''" "opt \<notin> {''-h'', ''--help'', ''-v'', ''--version''}"
  shows "cli_run env (opt # args) w = Some (Inl (cli_error (''unknown command: '' @ opt)), w)"
proof -
  obtain t where "opt = CHR ''-'' # t" using assms(1) by (cases opt) (auto simp: has_prefix_def split: if_splits)
  then show ?thesis using assms(2) by (simp add: cli_run_def)
qed

section \<open>A batch file is read back\<close>

text \<open>A query as a line of a batch file, and the queries that can be written so.\<close>

definition query_line :: "PublicBatchQuery \<Rightarrow> string" where
  "query_line q = pq_Type q @ '':'' @ pq_Value q"

definition writable_query :: "PublicBatchQuery \<Rightarrow> bool" where
  "writable_query q \<longleftrightarrow> pq_Type q \<in> {''domain'', ''ip'', ''asn''} \<and> pq_ServerURL q = [] \<and> clean (pq_Value q) \<and>
     CHR 0x0A \<notin> set (pq_Value q) \<and> length (query_line q) < max_scan_token"

lemma solid_ends: "solid_char CHR '':'' \<and> solid_char CHR ''d'' \<and> solid_char CHR ''i'' \<and> solid_char CHR ''a''"
  by code_simp

lemma query_line_clean:
  assumes "writable_query q"
  shows "clean (query_line q)" "query_line q \<noteq> []" "\<not> has_prefix (query_line q) ''#''" "CHR 0x0A \<notin> set (query_line q)"
  using assms solid_ends
  by (auto simp: writable_query_def query_line_def clean_def has_prefix_def)

lemma drop_cr_clean: "clean s \<Longrightarrow> drop_cr s = s"
  by (cases s rule: rev_cases) (auto simp: drop_cr_def trim_suffix_def clean_def solid_char_def ascii_space_def has_suffix_def has_prefix_def)

lemma parseBatchQuery_line:
  assumes "writable_query q"
  shows "parseBatchQuery (query_line q) = Inr q"
proof -
  have types: "CHR '':'' \<notin> set t \<and> to_lower (trim_space t) = t" if "t \<in> {''domain'', ''ip'', ''asn''}" for t
    using that by (elim insertE emptyE) (simp_all, code_simp+)
  have t: "pq_Type q \<in> {''domain'', ''ip'', ''asn''}" "clean (pq_Value q)" "pq_ServerURL q = []"
    using assms by (simp_all add: writable_query_def)
  have "cut_at CHR '':'' (query_line q) = Some (pq_Type q, pq_Value q)"
    using types [OF t(1)] by (simp add: query_line_def cut_at_append)
  then show ?thesis
    using types [OF t(1)] t by (auto simp: parseBatchQuery_def trim_space_clean Let_def)
qed

lemma read_queries_lines:
  "list_all writable_query qs \<Longrightarrow> read_queries what (map query_line qs @ [[]]) None acc = Inr (acc @ qs)"
proof (induction qs arbitrary: acc)
  case (Cons q qs)
  then have q: "writable_query q" "length (query_line q) < max_scan_token" by (simp_all add: writable_query_def)
  then show ?case
    using Cons by (simp add: query_line_clean drop_cr_clean trim_space_clean parseBatchQuery_line)
qed (simp add: max_scan_token_def drop_cr_def trim_suffix_def has_suffix_def has_prefix_def Let_def)

lemma scan_queries_lines:
  assumes "list_all writable_query qs"
  shows "scan_queries what (concat (map (\<lambda>q. line (query_line q)) qs), None) = Inr qs"
proof -
  have "\<forall>l \<in> set (map query_line qs). CHR 0x0A \<notin> set l"
    using assms query_line_clean(4) by (auto simp: list_all_iff)
  from split_on_lines [OF this] have "split_on CHR 0x0A (concat (map (\<lambda>q. line (query_line q)) qs)) = map query_line qs @ [[]]"
    by (simp add: line_def o_def)
  then show ?thesis using read_queries_lines [OF assms, of what "[]"] by (simp add: scan_queries_def)
qed

section \<open>A command always ends\<close>

text \<open>With either client every command ends with an error or an output; no response is dereferenced in vain.\<close>

lemma any_client_contract: "codecs_ok (ce_codecs env) \<Longrightarrow> rdap_client (any_ops env) client_ok"
  unfolding any_ops_def by (rule client_contract)

lemma created_ok: "createClient env cfg = Inr c \<Longrightarrow> client_ok c"
  by (auto simp: createClient_def Let_def intro: client_ok_standalone client_ok_rest NewStandaloneClient_ok split: if_splits)

context rdap_client
begin

text \<open>What a user of the interface relies on: a first lookup on a client in order ends with a response or an error.\<close>

lemma first_lookup:
  assumes "ok s"
  shows "\<exists>r s1 w1. cl_LookupDomain ops a s w = Some (r, s1, w1) \<and> r \<noteq> Inr None"
    and "\<exists>r s1 w1. cl_LookupIP ops a s w = Some (r, s1, w1) \<and> r \<noteq> Inr None"
    and "\<exists>r s1 w1. cl_LookupASN ops a s w = Some (r, s1, w1) \<and> r \<noteq> Inr None"
    and "\<exists>r s1 w1. cl_LookupEntity ops a b s w = Some (r, s1, w1) \<and> r \<noteq> Inr None"
    and "\<exists>r s1 w1. cl_BatchLookup ops qs s w = Some (r, s1, w1)"
  using domain_responds [OF assms, of a w] ip_responds [OF assms, of a w] asn_responds [OF assms, of a w]
    entity_responds [OF assms, of a b w] batch_answers [OF assms, of qs w]
  by (auto simp: responds_def completes_def)

end

lemma ask_client_ends:
  assumes "\<And>c. client_ok c \<Longrightarrow> \<exists>r c1 w1. call c w = Some (r, c1, w1) \<and> r \<noteq> bad"
    and "\<And>x. Inr x \<noteq> bad \<Longrightarrow> table_of (data x) \<noteq> None"
  shows "ask_client env cfg call data w \<noteq> None"
proof (cases "createClient env cfg")
  case (Inr c)
  then obtain r c1 w1 where "call c w = Some (r, c1, w1)" "r \<noteq> bad" using assms(1) created_ok by blast
  then show ?thesis
    using Inr assms(2) by (cases r) (auto simp: ask_client_def outputResult_def)
qed (simp add: ask_client_def)

lemma with_config_ends:
  "(\<And>cfg remaining. k cfg remaining w \<noteq> None) \<Longrightarrow> with_config env cmd args k w \<noteq> None"
  by (auto simp: with_config_def split: sum.split option.split)

lemma first_word_ends: "(\<And>v. k cfg v w \<noteq> None) \<Longrightarrow> first_word missing k cfg remaining w \<noteq> None"
  by (auto simp: first_word_def split: list.split)

lemma commands_end:
  assumes "codecs_ok (ce_codecs env)"
  shows "runDomain env args w \<noteq> None" "runIP env args w \<noteq> None" "runASN env args w \<noteq> None" "runBatch env args w \<noteq> None"
proof -
  note lookups = rdap_client.first_lookup [OF any_client_contract [OF assms]]
  show "runDomain env args w \<noteq> None" unfolding runDomain_def
    by (intro with_config_ends first_word_ends ask_client_ends [where bad = "Inr None"] lookups) (auto simp: table_of_def)
  show "runIP env args w \<noteq> None" unfolding runIP_def
    by (intro with_config_ends first_word_ends ask_client_ends [where bad = "Inr None"] lookups) (auto simp: table_of_def)
  show "runASN env args w \<noteq> None" unfolding runASN_def
    by (intro with_config_ends first_word_ends ask_client_ends [where bad = "Inr None"] lookups) (auto simp: table_of_def)
  have batch: "ask_client env cfg (cl_BatchLookup (any_ops env) qs) CD_Batch w \<noteq> None" for cfg qs
  proof (cases "createClient env cfg")
    case (Inr c)
    obtain r c1 w1 where "cl_BatchLookup (any_ops env) qs c w = Some (r, c1, w1)"
      using lookups(5) [OF created_ok [OF Inr]] by blast
    then show ?thesis using Inr by (cases r) (auto simp: ask_client_def outputResult_def table_of_def)
  qed (simp add: ask_client_def)
  show "runBatch env args w \<noteq> None"
    unfolding runBatch_def using batch by (intro with_config_ends) (simp split: sum.split)
qed

lemma runHealth_ends: "runHealth env args w \<noteq> None"
  unfolding runHealth_def
  by (intro with_config_ends) (auto split: sum.split prod.split option.split)

lemma cli_run_ends:
  assumes "codecs_ok (ce_codecs env)"
  shows "cli_run env args w \<noteq> None"
proof -
  have "runEntity env rest w \<noteq> None" for rest using runEntity_never_asks [of env rest w] by auto
  then show ?thesis
    using commands_end [OF assms] runHealth_ends [of env] by (simp add: cli_run_def split: list.split)
qed

end
