(* ===== verification/Phish_Analyzer.thy ===== *)
theory Phish_Analyzer
  imports Rdap_Interface "HOL-Library.Multiset"
begin

text \<open>
  \<open>cmd/phishstats-analyzer/phishstats.go\<close>, \<open>analyzer.go\<close> and \<open>main.go\<close>: the tool that fetches phishing URLs,
  extracts their domains and looks them up with a client of either kind.  Parameters: the HTTP client, JSON,
  the clock, and the order in which a Go map is ranged over.
\<close>

section \<open>Fetching the URLs\<close>

text \<open>The score is a floating-point number of type \<open>'f\<close> that is only passed on.\<close>

record 'f PhishingEntry =
  py_ID :: int
  py_URL :: string
  py_IP :: string
  py_CountryCode :: string
  py_ASN :: string
  py_TLD :: string
  py_Date :: string
  py_Title :: string
  py_Score :: 'f

record ('w, 'f) phish_env =
  pv_Do :: "'w \<Rightarrow> string \<Rightarrow> string \<Rightarrow> http_outcome \<times> 'w"
  pv_Decode :: "string \<times> go_error option \<Rightarrow> go_error + 'f PhishingEntry list"

definition phishStatsAPIURL :: string where "phishStatsAPIURL = ''https://api.phishstats.info/api/phishing''"
definition phish_maxResponseSize :: nat where "phish_maxResponseSize = 10 * 1024 * 1024"

definition clamp_count :: "int \<Rightarrow> int" where
  "clamp_count n0 = (let n = (if n0 > 100 then 100 else n0) in if n < 1 then 1 else n)"

definition phish_userAgent :: string where "phish_userAgent = ''rdap-lookup-debug-tool/1.0''"

text \<open>\<open>Values.Encode\<close> sorts by key; neither value needs escaping.\<close>

definition phish_url :: "int \<Rightarrow> string" where
  "phish_url n = phishStatsAPIURL @ ''?_size='' @ show_nat (nat (clamp_count n)) @ ''&_sort='' @ QueryEscape ''-date''"

definition FetchPhishingURLs ::
  "('w, 'f) phish_env \<Rightarrow> int \<Rightarrow> 'w \<Rightarrow> (go_error + 'f PhishingEntry list) \<times> 'w" where
  "FetchPhishingURLs env n w =
     (if url_Parse (phish_url n) = None then (Inl (Wrapped ''create request'' [OtherError ''parse'']), w)
      else (case pv_Do env w (phish_url n) phish_userAgent of
              (resp, w1) \<Rightarrow>
                (case ho_error resp of
                   Some err \<Rightarrow> (Inl (Wrapped ''fetch phishing data'' [err]), w1)
                 | None \<Rightarrow>
                     if ho_status resp \<noteq> 200 then (Inl (OtherError (''API returned status '' @ show_nat (ho_status resp))), w1)
                     else (case pv_Decode env (limit_reader phish_maxResponseSize (ho_body resp)) of
                             Inl err \<Rightarrow> (Inl (Wrapped ''decode response'' [err]), w1)
                           | Inr entries \<Rightarrow> (Inr entries, w1)))))"

section \<open>Domains and addresses\<close>

definition hex_or_separator :: "char \<Rightarrow> bool" where
  "hex_or_separator c \<longleftrightarrow> c = CHR ''.'' \<or> c = CHR '':'' \<or> is_digit c \<or> (97 \<le> byte c \<and> byte c \<le> 102) \<or> (65 \<le> byte c \<and> byte c \<le> 70)"

text \<open>A byte of a rune above 0x7F fails the test, as the rune does.\<close>

definition isIPAddress :: "string \<Rightarrow> bool" where
  "isIPAddress s \<longleftrightarrow> list_all hex_or_separator s \<and> (contains s ''.'' \<or> contains s '':'')"

text \<open>\<open>URL.Hostname\<close>.\<close>

definition Hostname :: "go_url \<Rightarrow> string" where
  "Hostname u =
     (let hp = u_Host u;
          host = (case last_index_char hp CHR '':'' of
                    Some i \<Rightarrow> if valid_port (drop i hp) then take i hp else hp
                  | None \<Rightarrow> hp) in
      if has_prefix host ''['' \<and> has_suffix host '']'' then butlast (tl host) else host)"

text \<open>The domain an entry stands for, or nothing: a URL that does not parse, no host, an address.\<close>

definition entry_domain :: "suffix_list \<Rightarrow> string \<Rightarrow> string option" where
  "entry_domain ps rawurl =
     (case url_Parse rawurl of
        None \<Rightarrow> None
      | Some parsed \<Rightarrow>
          (let host = to_lower (Hostname parsed) in
           if host = [] then None
           else (let n = NormalizeDomain ps host; normalized = (if n = [] then host else n) in
                 if isIPAddress normalized then None else Some normalized)))"

text \<open>A Go map filled on first sight of a key: its entries in the order in which they were made.\<close>

definition put_new :: "'k \<Rightarrow> 'v \<Rightarrow> ('k \<times> 'v) list \<Rightarrow> ('k \<times> 'v) list" where
  "put_new k v m = (if k \<in> fst ` set m then m else m @ [(k, v)])"

definition first_seen :: "('e \<Rightarrow> ('k \<times> 'v) option) \<Rightarrow> 'e list \<Rightarrow> ('k \<times> 'v) list" where
  "first_seen f es = foldl (\<lambda>m e. case f e of None \<Rightarrow> m | Some (k, v) \<Rightarrow> put_new k v m) [] es"

definition extractUniqueDomains :: "suffix_list \<Rightarrow> 'f PhishingEntry list \<Rightarrow> (string \<times> string) list" where
  "extractUniqueDomains ps = first_seen (\<lambda>e. map_option (\<lambda>d. (d, py_URL e)) (entry_domain ps (py_URL e)))"

text \<open>An entry whose URL does not parse does not claim its address.\<close>

definition unique_ips :: "'f PhishingEntry list \<Rightarrow> (string \<times> string) list" where
  "unique_ips = first_seen (\<lambda>e.
     if py_IP e \<noteq> [] \<and> \<not> has_prefix (py_IP e) ''0.'' then
       map_option (\<lambda>parsed. (py_IP e, Hostname parsed)) (url_Parse (py_URL e))
     else None)"

section \<open>Lookups\<close>

record LookupResult =
  lr_Domain :: string
  lr_SourceURL :: string
  lr_Response :: "DomainResponse option"
  lr_Error :: "pub_error option"
  lr_Duration :: int
  lr_Cached :: bool
  lr_Timestamp :: int

record IPLookupResult =
  il_IP :: string
  il_Domain :: string
  il_Response :: "IPResponse option"
  il_Error :: "pub_error option"
  il_Duration :: int

text \<open>The response and the error of a call, as the two values Go returns.\<close>

definition both :: "pub_error + 'a option \<Rightarrow> 'a option \<times> pub_error option" where
  "both r = (case r of Inl err \<Rightarrow> (None, Some err) | Inr resp \<Rightarrow> (resp, None))"

text \<open>\<open>clock i\<close>: the readings before and after the lookup number \<open>i\<close>, and the one of its time stamp.\<close>

fun lookupDomains ::
  "('s, 'w) RDAPClient \<Rightarrow> (nat \<Rightarrow> int \<times> int \<times> int) \<Rightarrow> (string \<times> string) list \<Rightarrow> nat \<Rightarrow> 's \<Rightarrow> 'w \<Rightarrow>
   (LookupResult list \<times> 's \<times> 'w) option" where
  "lookupDomains ops clock [] i s w = Some ([], s, w)"
| "lookupDomains ops clock ((dmn, sourceURL) # domains) i s w =
     (case cl_LookupDomain ops dmn s w of
        None \<Rightarrow> None
      | Some (r, s1, w1) \<Rightarrow>
          (let (start, stop, stamp) = clock i; (resp, err) = both r;
               res = \<lparr>lr_Domain = dmn, lr_SourceURL = sourceURL, lr_Response = resp, lr_Error = err,
                 lr_Duration = stop - start,
                 lr_Cached = (case resp of None \<Rightarrow> False | Some d \<Rightarrow> dr_Cached d), lr_Timestamp = stamp\<rparr> in
           map_option (\<lambda>(rs, s2, w2). (res # rs, s2, w2)) (lookupDomains ops clock domains (Suc i) s1 w1)))"

fun lookup_ips ::
  "('s, 'w) RDAPClient \<Rightarrow> (nat \<Rightarrow> int \<times> int \<times> int) \<Rightarrow> (string \<times> string) list \<Rightarrow> nat \<Rightarrow> 's \<Rightarrow> 'w \<Rightarrow>
   (IPLookupResult list \<times> 's \<times> 'w) option" where
  "lookup_ips ops clock [] i s w = Some ([], s, w)"
| "lookup_ips ops clock ((ip, dmn) # ips) i s w =
     (case cl_LookupIP ops ip s w of
        None \<Rightarrow> None
      | Some (r, s1, w1) \<Rightarrow>
          (let (start, stop, _) = clock i; (resp, err) = both r;
               res = \<lparr>il_IP = ip, il_Domain = dmn, il_Response = resp, il_Error = err, il_Duration = stop - start\<rparr> in
           map_option (\<lambda>(rs, s2, w2). (res # rs, s2, w2)) (lookup_ips ops clock ips (Suc i) s1 w1)))"

section \<open>The analysis\<close>

datatype ClientMode = ModeStandalone | ModeServer

record AnalysisConfig =
  ax_Count :: int
  ax_Timeout :: int
  ax_CacheSize :: int
  ax_CacheTTL :: int
  ax_NoCache :: bool
  ax_IPLookup :: bool
  ax_ServerURL :: string

definition Mode :: "AnalysisConfig \<Rightarrow> ClientMode" where
  "Mode c = (if ax_ServerURL c \<noteq> [] then ModeServer else ModeStandalone)"

record 'f AnalysisReport =
  ar_GeneratedAt :: int
  ar_PhishingURLCount :: nat
  ar_UniqueDomainCount :: nat
  ar_ClientMode :: ClientMode
  ar_ServerURL :: string
  ar_BootstrapDuration :: int
  ar_TotalDuration :: int
  ar_CacheSize :: int
  ar_CacheTTL :: int
  ar_CacheEnabled :: bool
  ar_DomainResults :: "LookupResult list"
  ar_IPResults :: "IPLookupResult list"
  ar_PhishingEntries :: "'f PhishingEntry list"
  ar_FetchError :: "go_error option"

text \<open>What the clients need, and the readings of the clock.\<close>

record ('w, 'r, 'c) analyzer_env =
  az_http :: "int \<Rightarrow> (nat \<Rightarrow> go_error option) \<Rightarrow> 'w http_client"
  az_NewMemoryCache :: "int \<Rightarrow> go_error + 'c"
  az_transport :: "int \<Rightarrow> 'w \<Rightarrow> api_request \<Rightarrow> http_outcome \<times> 'w"
  az_ops :: "(('w, 'r, 'c) StandaloneClient + 'w api_client, 'w) RDAPClient"
  az_suffixes :: suffix_list
  az_range :: "(string \<times> string) list \<Rightarrow> (string \<times> string) list"
  az_clock :: "nat \<Rightarrow> int \<times> int \<times> int"
  az_ip_clock :: "nat \<Rightarrow> int \<times> int \<times> int"
  az_generated :: int
  az_bootstrap :: "int \<times> int"
  az_total :: "int \<times> int"

definition analyzer_createClient ::
  "('w, 'r, 'c) analyzer_env \<Rightarrow> AnalysisConfig \<Rightarrow> pub_error + (('w, 'r, 'c) StandaloneClient + 'w api_client)" where
  "analyzer_createClient env c =
     (if ax_ServerURL c \<noteq> [] then
        map_sum (PWrap ''create REST API client'') Inr
          (Api_NewClient (az_transport env) (ax_ServerURL c) [WithTimeout (ax_Timeout c)])
      else
        map_sum (\<lambda>err. PWrap ''create standalone client'' (PGo err)) Inl
          (NewStandaloneClient (az_http env) (az_NewMemoryCache env)
            ([WithStandaloneTimeout (ax_Timeout c), WithCacheSize (ax_CacheSize c), WithCacheTTL (ax_CacheTTL c)] @
             (if ax_NoCache c then [WithoutCache] else []))))"

definition empty_report :: "int \<Rightarrow> AnalysisConfig \<Rightarrow> 'f AnalysisReport" where
  "empty_report now c =
     \<lparr>ar_GeneratedAt = now, ar_PhishingURLCount = 0, ar_UniqueDomainCount = 0, ar_ClientMode = Mode c,
      ar_ServerURL = ax_ServerURL c, ar_BootstrapDuration = 0, ar_TotalDuration = 0, ar_CacheSize = ax_CacheSize c,
      ar_CacheTTL = ax_CacheTTL c, ar_CacheEnabled = (\<not> ax_NoCache c), ar_DomainResults = [], ar_IPResults = [],
      ar_PhishingEntries = [], ar_FetchError = None\<rparr>"

text \<open>\<open>Run\<close>: the report, the error it ends with, and the world.\<close>

definition Analyzer_Run ::
  "('w, 'f) phish_env \<Rightarrow> ('w, 'r, 'c) analyzer_env \<Rightarrow> AnalysisConfig \<Rightarrow> 'w \<Rightarrow>
   ('f AnalysisReport \<times> pub_error option \<times> 'w) option" where
  "Analyzer_Run pv env c w =
     (let report = empty_report (az_generated env) c in
      case FetchPhishingURLs pv (ax_Count c) w of
        (Inl err, w1) \<Rightarrow> Some (report\<lparr>ar_FetchError := Some err\<rparr>, Some (PGo err), w1)
      | (Inr entries, w1) \<Rightarrow>
          (let domains = extractUniqueDomains (az_suffixes env) entries;
               report = report\<lparr>ar_PhishingEntries := entries, ar_PhishingURLCount := length entries,
                 ar_UniqueDomainCount := length domains\<rparr> in
           case analyzer_createClient env c of
             Inl err \<Rightarrow> Some (report, Some err, w1)
           | Inr client \<Rightarrow>
               (case lookupDomains (az_ops env) (az_clock env) (az_range env domains) 0 client w1 of
                  None \<Rightarrow> None
                | Some (domain_results, client1, w2) \<Rightarrow>
                    (let report = report\<lparr>ar_BootstrapDuration := snd (az_bootstrap env) - fst (az_bootstrap env),
                           ar_DomainResults := domain_results\<rparr> in
                     case (if ax_IPLookup c then
                             lookup_ips (az_ops env) (az_ip_clock env) (az_range env (unique_ips entries)) 0 client1 w2
                           else Some ([], client1, w2)) of
                       None \<Rightarrow> None
                     | Some (ip_results, _, w3) \<Rightarrow>
                         Some (report\<lparr>ar_IPResults := ip_results,
                                 ar_TotalDuration := snd (az_total env) - fst (az_total env)\<rparr>, None, w3)))))"

definition countSuccess :: "LookupResult list \<Rightarrow> nat" where
  "countSuccess results = foldl (\<lambda>n r. if lr_Error r = None then Suc n else n) 0 results"

definition countErrors :: "LookupResult list \<Rightarrow> nat" where
  "countErrors results = foldl (\<lambda>n r. if lr_Error r \<noteq> None then Suc n else n) 0 results"

text \<open>\<open>main\<close>: the size of the cache is given in megabytes.\<close>

definition cache_bytes :: "int \<Rightarrow> int" where
  "cache_bytes cacheSizeMB = int64 (cacheSizeMB * 1024 * 1024)"

section \<open>What is looked up\<close>

lemma clamp_count_range: "1 \<le> clamp_count n \<and> clamp_count n \<le> 100 \<and> (1 \<le> n \<and> n \<le> 100 \<longrightarrow> clamp_count n = n)"
  by (simp add: clamp_count_def Let_def)

lemma map_of_put_new:
  "map_of (put_new k v m) x = (case map_of m x of Some y \<Rightarrow> Some y | None \<Rightarrow> if x = k then Some v else None)"
proof (cases "k \<in> fst ` set m")
  case True
  then have "map_of m k \<noteq> None" by (simp add: map_of_eq_None_iff)
  then show ?thesis using True by (auto simp: put_new_def split: option.split)
next
  case False
  then have "map_of m k = None" by (simp add: map_of_eq_None_iff)
  then show ?thesis using False by (auto simp: put_new_def map_add_def split: option.split)
qed

lemma distinct_put_new: "distinct (map fst m) \<Longrightarrow> distinct (map fst (put_new k v m))"
  by (auto simp: put_new_def)

lemma foldl_put_new:
  "distinct (map fst m) \<Longrightarrow>
   distinct (map fst (foldl (\<lambda>m e. case f e of None \<Rightarrow> m | Some (k, v) \<Rightarrow> put_new k v m) m es)) \<and>
   (\<forall>k. map_of (foldl (\<lambda>m e. case f e of None \<Rightarrow> m | Some (k, v) \<Rightarrow> put_new k v m) m es) k =
     (case map_of m k of Some v \<Rightarrow> Some v
      | None \<Rightarrow> map_option snd (find (\<lambda>p. fst p = k) (List.map_filter f es))))"
proof (induction es arbitrary: m)
  case (Cons e es)
  show ?case
  proof (cases "f e")
    case (Some p)
    obtain k v where p: "p = (k, v)" by fastforce
    show ?thesis
      using Cons.IH [OF distinct_put_new [OF Cons.prems, of k v]] Some p
      by (auto simp: map_filter_simps map_of_put_new split: option.splits)
  next
    case None
    then have mf: "List.map_filter f (e # es) = List.map_filter f es" by (simp add: map_filter_simps)
    show ?thesis unfolding mf using Cons None by simp
  qed
qed (simp add: map_filter_simps split: option.split)

text \<open>The map holds each key once, with the value of the first element that has it.\<close>

lemma first_seen:
  "distinct (map fst (first_seen f es))"
  "map_of (first_seen f es) k = map_option snd (find (\<lambda>p. fst p = k) (List.map_filter f es))"
  using foldl_put_new [of "[]" f es] by (simp_all add: first_seen_def)

lemma find_SomeD: "find P xs = Some x \<Longrightarrow> x \<in> set xs \<and> P x"
  by (induction xs) (auto split: if_splits)

lemma first_seen_key:
  assumes "(k, v) \<in> set (first_seen f es)"
  shows "\<exists>e \<in> set es. f e = Some (k, v)"
proof -
  have "map_option snd (find (\<lambda>p. fst p = k) (List.map_filter f es)) = Some v"
    using map_of_is_SomeI [OF first_seen(1) assms] first_seen(2) [of f es k] by simp
  then obtain p where p: "find (\<lambda>p. fst p = k) (List.map_filter f es) = Some p" "v = snd p" by blast
  then have "(k, v) \<in> set (List.map_filter f es)" using find_SomeD [OF p(1)] by (cases p) simp
  then show ?thesis by (auto simp: map_filter_def)
qed

lemma entry_domain_no_ip: "entry_domain ps u = Some d \<Longrightarrow> \<not> isIPAddress d \<and> d \<noteq> []"
  by (auto simp: entry_domain_def Let_def split: option.splits if_splits)

lemma find_map_filter:
  "find P (List.map_filter f es) = Some y \<longleftrightarrow>
     (\<exists>i < length es. f (es ! i) = Some y \<and> P y \<and> (\<forall>j < i. \<forall>z. f (es ! j) = Some z \<longrightarrow> \<not> P z))"
proof (induction es)
  case (Cons e es)
  have split: "(\<exists>i < length (e # es). Q i) \<longleftrightarrow> Q 0 \<or> (\<exists>i < length es. Q (Suc i))" for Q
    using Ex_less_Suc2 [of "length es" Q] by simp
  show ?case
    unfolding split All_less_Suc2 nth_Cons_0 nth_Cons_Suc using Cons
    by (cases "f e") (auto simp: map_filter_simps)
qed (simp add: map_filter_simps)

lemma extractUniqueDomains_distinct: "distinct (map fst (extractUniqueDomains ps es))"
  by (simp add: extractUniqueDomains_def first_seen)

lemma extractUniqueDomains_set:
  "set (extractUniqueDomains ps es) =
     {(d, u). \<exists>i < length es. py_URL (es ! i) = u \<and> entry_domain ps u = Some d \<and>
        (\<forall>j < i. entry_domain ps (py_URL (es ! j)) \<noteq> Some d)}"
proof -
  have "(d, u) \<in> set (extractUniqueDomains ps es) \<longleftrightarrow>
      find (\<lambda>p. fst p = d) (List.map_filter (\<lambda>e. map_option (\<lambda>d. (d, py_URL e)) (entry_domain ps (py_URL e))) es) = Some (d, u)"
    for d u
    using find_SomeD by (force simp: extractUniqueDomains_def map_of_eq_Some_iff [OF first_seen(1), symmetric] first_seen(2))
  moreover have "map_option (\<lambda>d. (d, v)) x = Some (d, u) \<longleftrightarrow> x = Some d \<and> v = u"
    and "(\<forall>z. map_option (\<lambda>d. (d, v)) x = Some z \<longrightarrow> fst z \<noteq> d) \<longleftrightarrow> x \<noteq> Some d" for x :: "string option" and d u v :: string
    by (cases x; auto)+
  ultimately have "(d, u) \<in> set (extractUniqueDomains ps es) \<longleftrightarrow>
      (\<exists>i < length es. (entry_domain ps (py_URL (es ! i)) = Some d \<and> py_URL (es ! i) = u) \<and>
        (\<forall>j < i. entry_domain ps (py_URL (es ! j)) \<noteq> Some d))" for d u
    by (simp add: find_map_filter)
  then show ?thesis by (intro set_eqI) (simp add: split_paired_all conj_ac cong: conj_cong)
qed

text \<open>Domains that are spelled with the letters a to f and digits are taken for addresses.\<close>

lemma isIPAddress_letters:
  "\<lbrakk>list_all hex_or_separator d; CHR ''.'' \<in> set d\<rbrakk> \<Longrightarrow> isIPAddress d"
proof -
  assume d: "list_all hex_or_separator d" "CHR ''.'' \<in> set d"
  then obtain a b where "d = a @ ''.'' @ b" by (metis append_Cons append_Nil split_list)
  then show ?thesis using d(1) by (auto simp: isIPAddress_def contains_iff)
qed

section \<open>The lookups\<close>

context rdap_client
begin

lemma lookupDomains_all:
  "ok s \<Longrightarrow> \<exists>rs s1 w1. lookupDomains ops clock domains i s w = Some (rs, s1, w1) \<and> ok s1 \<and>
     map (\<lambda>r. (lr_Domain r, lr_SourceURL r)) rs = domains \<and>
     list_all (\<lambda>r. (lr_Error r = None) \<longleftrightarrow> (lr_Response r \<noteq> None)) rs"
proof (induction domains arbitrary: i s w)
  case (Cons p domains)
  obtain dmn u where p: "p = (dmn, u)" by fastforce
  obtain r s1 w1 where one: "cl_LookupDomain ops dmn s w = Some (r, s1, w1)" "r \<noteq> Inr None" "ok s1"
    using domain_responds [OF Cons.prems] by (rule respondsE)
  obtain rs s2 w2 where rest: "lookupDomains ops clock domains (Suc i) s1 w1 = Some (rs, s2, w2)" "ok s2"
      "map (\<lambda>r. (lr_Domain r, lr_SourceURL r)) rs = domains"
      "list_all (\<lambda>r. (lr_Error r = None) \<longleftrightarrow> (lr_Response r \<noteq> None)) rs"
    using Cons.IH [OF one(3)] by blast
  show ?case
    using one rest by (cases r; cases "clock i") (auto simp: p both_def)
qed simp

lemma lookup_ips_all:
  "ok s \<Longrightarrow> \<exists>rs s1 w1. lookup_ips ops clock ips i s w = Some (rs, s1, w1) \<and> ok s1 \<and>
     map (\<lambda>r. (il_IP r, il_Domain r)) rs = ips \<and>
     list_all (\<lambda>r. (il_Error r = None) \<longleftrightarrow> (il_Response r \<noteq> None)) rs"
proof (induction ips arbitrary: i s w)
  case (Cons p ips)
  obtain ip dmn where p: "p = (ip, dmn)" by fastforce
  obtain r s1 w1 where one: "cl_LookupIP ops ip s w = Some (r, s1, w1)" "r \<noteq> Inr None" "ok s1"
    using ip_responds [OF Cons.prems] by (rule respondsE)
  obtain rs s2 w2 where rest: "lookup_ips ops clock ips (Suc i) s1 w1 = Some (rs, s2, w2)" "ok s2"
      "map (\<lambda>r. (il_IP r, il_Domain r)) rs = ips"
      "list_all (\<lambda>r. (il_Error r = None) \<longleftrightarrow> (il_Response r \<noteq> None)) rs"
    using Cons.IH [OF one(3)] by blast
  show ?case
    using one rest by (cases r; cases "clock i") (auto simp: p both_def)
qed simp

end

lemma analyzer_created_ok: "analyzer_createClient env c = Inr client \<Longrightarrow> client_ok client"
  by (auto simp: analyzer_createClient_def intro: client_ok_standalone client_ok_rest NewStandaloneClient_ok split: if_splits)

lemma counts_step:
  "foldl (\<lambda>n r. if lr_Error r = None then Suc n else n) a rs + foldl (\<lambda>n r. if lr_Error r \<noteq> None then Suc n else n) b rs =
   a + b + length rs"
  by (induction rs arbitrary: a b) simp_all

lemma counts_add_up: "countSuccess rs + countErrors rs = length rs"
  using counts_step [of 0 rs 0] by (simp add: countSuccess_def countErrors_def)

text \<open>When the entries are there and a client can be made, the analysis runs to its end.\<close>

lemma Analyzer_Run_complete:
  assumes "rdap_client (az_ops env) client_ok" "FetchPhishingURLs pv (ax_Count c) w = (Inr entries, w1)"
    and "analyzer_createClient env c = Inr client"
  shows "\<exists>report w2. Analyzer_Run pv env c w = Some (report, None, w2) \<and>
    ar_PhishingEntries report = entries \<and>
    ar_UniqueDomainCount report = length (extractUniqueDomains (az_suffixes env) entries) \<and>
    map (\<lambda>r. (lr_Domain r, lr_SourceURL r)) (ar_DomainResults report) =
      az_range env (extractUniqueDomains (az_suffixes env) entries) \<and>
    list_all (\<lambda>r. (lr_Error r = None) \<longleftrightarrow> (lr_Response r \<noteq> None)) (ar_DomainResults report) \<and>
    list_all (\<lambda>r. (il_Error r = None) \<longleftrightarrow> (il_Response r \<noteq> None)) (ar_IPResults report)"
proof -
  let ?domains = "extractUniqueDomains (az_suffixes env) entries"
  obtain rs client1 w2 where l: "lookupDomains (az_ops env) (az_clock env) (az_range env ?domains) 0 client w1 = Some (rs, client1, w2)"
      "client_ok client1" "map (\<lambda>r. (lr_Domain r, lr_SourceURL r)) rs = az_range env ?domains"
      "list_all (\<lambda>r. (lr_Error r = None) \<longleftrightarrow> (lr_Response r \<noteq> None)) rs"
    using rdap_client.lookupDomains_all [OF assms(1) analyzer_created_ok [OF assms(3)]] by blast
  obtain irs client2 w3 where i: "lookup_ips (az_ops env) (az_ip_clock env) (az_range env (unique_ips entries)) 0 client1 w2 =
      Some (irs, client2, w3)" "list_all (\<lambda>r. (il_Error r = None) \<longleftrightarrow> (il_Response r \<noteq> None)) irs"
    using rdap_client.lookup_ips_all [OF assms(1) l(2)] by blast
  show ?thesis
    using assms(2,3) l i by (simp add: Analyzer_Run_def Let_def)
qed

end
