(* ===== verification/Phish_Report.thy ===== *)
theory Phish_Report
  imports Phish_Analyzer Rdap_Cli GoTime "HOL-Library.Char_ord" "HOL-Library.List_Lexorder"
begin

text \<open>
  \<open>cmd/phishstats-analyzer/report.go\<close>: the report of an analysis, as data and as text.  Parameters: the text of an
  error, floating-point numbers with one decimal, the order in which a map is ranged over, and \<open>sort.Slice\<close>, which
  is any permutation in order (the locale \<open>count_sort\<close>).
\<close>

section \<open>Data\<close>

record TLDStat =
  ts_TLD :: string
  ts_Count :: nat
  ts_AvgTime :: string
  ts_SuccessRate :: nat

record 'f Distribution =
  db_TLD :: string
  db_Country :: string
  db_Count :: nat
  db_Percentage :: 'f

record SuccessResult =
  sx_Domain :: string
  sx_Registrar :: string
  sx_Created :: string
  sx_Expires :: string
  sx_Country :: string
  sx_DNSSEC :: bool
  sx_Nameservers :: string
  sx_Duration :: string
  sx_Cached :: bool
  sx_RDAPServer :: string
  sx_SourceURL :: string

record FailedResult =
  fx_Domain :: string
  fx_Error :: string
  fx_SourceURL :: string
  fx_Duration :: string

record ErrorSummaryItem =
  es_Type :: string
  es_Count :: nat
  es_Examples :: string

record TimingEntry =
  te_Domain :: string
  te_DurationMs :: int
  te_Status :: string
  te_Cached :: bool

record 'f PhishEntry =
  ph_URL :: string
  ph_TLD :: string
  ph_Score :: 'f
  ph_Date :: string

record IPResult =
  ix_IP :: string
  ix_Domain :: string
  ix_RIR :: string
  ix_Country :: string
  ix_CIDR :: string

record 'f TemplateData =
  td_GeneratedAt :: int
  td_PhishingURLCount :: nat
  td_UniqueDomainCount :: nat
  td_BootstrapDuration :: string
  td_TotalDuration :: string
  td_CacheEnabled :: bool
  td_CacheSizeMB :: int
  td_CacheTTL :: string
  td_ClientMode :: ClientMode
  td_ServerURL :: string
  td_SuccessCount :: nat
  td_ErrorCount :: nat
  td_CacheHits :: nat
  td_AvgLookupTime :: string
  td_P50 :: string
  td_P95 :: string
  td_P99 :: string
  td_MaxTime :: string
  td_MinTime :: string
  td_TLDStats :: "TLDStat list"
  td_TLDDistribution :: "'f Distribution list"
  td_CountryDistribution :: "'f Distribution list"
  td_SuccessfulResults :: "SuccessResult list"
  td_FailedResults :: "FailedResult list"
  td_ErrorSummary :: "ErrorSummaryItem list"
  td_AllTimings :: "TimingEntry list"
  td_PhishEntries :: "'f PhishEntry list"
  td_IPResults :: "IPResult list"

section \<open>Helpers\<close>

definition millisecond :: int where "millisecond = 10 ^ 6"

definition show_ms :: "int \<Rightarrow> string" where
  "show_ms d = Duration_String (duration_round millisecond d)"

text \<open>Division of Go: towards zero.\<close>

definition go_div :: "int \<Rightarrow> int \<Rightarrow> int" where
  "go_div a b = (if a < 0 then - ((- a) div b) else a div b)"

definition percentile :: "int list \<Rightarrow> nat \<Rightarrow> string" where
  "percentile durations p =
     (if durations = [] then ''N/A''
      else (let i = length durations * p div 100;
                idx = (if i \<ge> length durations then length durations - 1 else i) in show_ms (durations ! idx)))"

definition classifyError :: "string \<Rightarrow> string" where
  "classifyError errStr =
     (if contains errStr ''not found'' then ''NOT_FOUND''
      else if contains errStr ''timeout'' then ''TIMEOUT''
      else if contains errStr ''rate limit'' then ''RATE_LIMITED''
      else if contains errStr ''no RDAP server'' then ''NO_SERVER''
      else ''OTHER'')"

definition getRegistrarName :: "DomainResponse \<Rightarrow> string" where
  "getRegistrarName r =
     (case dr_Registrar r of None \<Rightarrow> ''Unknown'' | Some c \<Rightarrow> if ct_Name c \<noteq> [] then ct_Name c else ''Unknown'')"

definition getDNSSECSigned :: "PublicDNSSEC option \<Rightarrow> bool" where
  "getDNSSECSigned dnssec = (case dnssec of None \<Rightarrow> False | Some k \<Rightarrow> pk_Signed k \<or> pk_DelegationSigned k)"

definition formatCIDRList :: "string list \<Rightarrow> string" where
  "formatCIDRList cidrs = (if cidrs = [] then ''N/A'' else join_with '', '' cidrs)"

text \<open>The date as it is written, in the zone of the text.\<close>

definition formatDate :: "string \<Rightarrow> string" where
  "formatDate date =
     (if date = [] then ''N/A''
      else (case parse_items (layout_items RFC3339) date empty_fields of
              None \<Rightarrow> date
            | Some f \<Rightarrow>
                if finish_time f = None then date
                else show_year (tp_year f) @ ''-'' @ pad 2 (tp_month f) @ ''-'' @ pad 2 (tp_day f)))"

definition first_three :: "string list \<Rightarrow> string" where
  "first_three names = join_with '', '' (take 3 names) @ (if length names > 3 then ''...'' else [])"

definition formatNameservers :: "PublicNS list \<Rightarrow> string" where
  "formatNameservers ns = (if ns = [] then ''N/A'' else first_three (map pn_Name ns))"

text \<open>\<open>maxLen\<close> is 60 or 80.\<close>

definition truncateURL :: "string \<Rightarrow> nat \<Rightarrow> string" where
  "truncateURL urlStr maxLen = (if length urlStr \<le> maxLen then urlStr else take (maxLen - 3) urlStr @ ''...'')"

definition extractRIR :: "string \<Rightarrow> string" where
  "extractRIR server =
     (if contains server ''arin'' then ''ARIN''
      else if contains server ''ripe'' then ''RIPE''
      else if contains server ''apnic'' then ''APNIC''
      else if contains server ''lacnic'' then ''LACNIC''
      else if contains server ''afrinic'' then ''AFRINIC''
      else ''Unknown'')"

section \<open>The loop over the results\<close>

text \<open>The maps and lists that the loop fills.\<close>

record report_acc =
  rp_durations :: "int list"
  rp_tldCounts :: "string \<rightharpoonup> nat"
  rp_tldSuccess :: "string \<rightharpoonup> nat"
  rp_tldTimes :: "string \<rightharpoonup> int list"
  rp_countryCounts :: "string \<rightharpoonup> nat"
  rp_errorCounts :: "string \<rightharpoonup> string list"
  rp_successes :: "SuccessResult list"
  rp_failures :: "FailedResult list"
  rp_timings :: "TimingEntry list"
  rp_SuccessCount :: nat
  rp_ErrorCount :: nat
  rp_CacheHits :: nat

definition at_key :: "'v \<Rightarrow> (string \<rightharpoonup> 'v) \<Rightarrow> string \<Rightarrow> 'v" where
  "at_key zero m k = (case m k of None \<Rightarrow> zero | Some v \<Rightarrow> v)"

definition bump :: "string \<Rightarrow> (string \<rightharpoonup> nat) \<Rightarrow> (string \<rightharpoonup> nat)" where
  "bump k m = m(k \<mapsto> at_key 0 m k + 1)"

definition push :: "string \<Rightarrow> 'v \<Rightarrow> (string \<rightharpoonup> 'v list) \<Rightarrow> (string \<rightharpoonup> 'v list)" where
  "push k v m = m(k \<mapsto> at_key [] m k @ [v])"

definition result_tld :: "LookupResult \<Rightarrow> string" where
  "result_tld r = last (split_on CHR ''.'' (lr_Domain r))"

definition result_country :: "DomainResponse \<Rightarrow> string" where
  "result_country d = (if dr_Country d = [] then ''Unknown'' else dr_Country d)"

definition success_result :: "LookupResult \<Rightarrow> DomainResponse \<Rightarrow> SuccessResult" where
  "success_result r d =
     \<lparr>sx_Domain = lr_Domain r, sx_Registrar = getRegistrarName d, sx_Created = formatDate (dr_CreatedDate d),
      sx_Expires = formatDate (dr_ExpirationDate d), sx_Country = result_country d,
      sx_DNSSEC = getDNSSECSigned (dr_DNSSEC d), sx_Nameservers = formatNameservers (dr_Nameservers d),
      sx_Duration = show_ms (lr_Duration r), sx_Cached = lr_Cached r, sx_RDAPServer = dr_RDAPServer d,
      sx_SourceURL = truncateURL (lr_SourceURL r) 60\<rparr>"

definition result_status :: "(pub_error \<Rightarrow> string) \<Rightarrow> LookupResult \<Rightarrow> string" where
  "result_status text r = (case lr_Error r of None \<Rightarrow> ''OK'' | Some err \<Rightarrow> classifyError (text err))"

definition add_outcome :: "(pub_error \<Rightarrow> string) \<Rightarrow> LookupResult \<Rightarrow> report_acc \<Rightarrow> report_acc" where
  "add_outcome text r a =
     (case lr_Error r of
        Some err \<Rightarrow>
          a\<lparr>rp_errorCounts := push (result_status text r) (lr_Domain r) (rp_errorCounts a),
            rp_ErrorCount := rp_ErrorCount a + 1,
            rp_failures := rp_failures a @
              [\<lparr>fx_Domain = lr_Domain r, fx_Error = text err, fx_SourceURL = truncateURL (lr_SourceURL r) 60,
                fx_Duration = show_ms (lr_Duration r)\<rparr>]\<rparr>
      | None \<Rightarrow>
          (let a1 = a\<lparr>rp_SuccessCount := rp_SuccessCount a + 1, rp_tldSuccess := bump (result_tld r) (rp_tldSuccess a)\<rparr> in
           case lr_Response r of
             None \<Rightarrow> a1
           | Some d \<Rightarrow> a1\<lparr>rp_countryCounts := bump (result_country d) (rp_countryCounts a1),
                          rp_successes := rp_successes a1 @ [success_result r d]\<rparr>))"

definition add_result :: "(pub_error \<Rightarrow> string) \<Rightarrow> report_acc \<Rightarrow> LookupResult \<Rightarrow> report_acc" where
  "add_result text a r =
     (let a1 = a\<lparr>rp_durations := rp_durations a @ [lr_Duration r],
            rp_tldCounts := bump (result_tld r) (rp_tldCounts a),
            rp_tldTimes := push (result_tld r) (lr_Duration r) (rp_tldTimes a)\<rparr>;
          a2 = add_outcome text r a1;
          a3 = (if lr_Cached r then a2\<lparr>rp_CacheHits := rp_CacheHits a2 + 1\<rparr> else a2) in
      a3\<lparr>rp_timings := rp_timings a3 @
           [\<lparr>te_Domain = lr_Domain r, te_DurationMs = go_div (lr_Duration r) millisecond,
             te_Status = result_status text r, te_Cached = lr_Cached r\<rparr>]\<rparr>)"

definition empty_acc :: report_acc where
  "empty_acc =
     \<lparr>rp_durations = [], rp_tldCounts = Map.empty, rp_tldSuccess = Map.empty, rp_tldTimes = Map.empty,
      rp_countryCounts = Map.empty, rp_errorCounts = Map.empty, rp_successes = [], rp_failures = [], rp_timings = [],
      rp_SuccessCount = 0, rp_ErrorCount = 0, rp_CacheHits = 0\<rparr>"

definition collect :: "(pub_error \<Rightarrow> string) \<Rightarrow> LookupResult list \<Rightarrow> report_acc" where
  "collect text results = foldl (add_result text) empty_acc results"

section \<open>The data of the report\<close>

text \<open>\<open>pe_range\<close> lists the keys of a map; \<open>pe_percent n m\<close> is \<open>n * 100 / m\<close> as a floating-point number.\<close>

record 'f report_env =
  pe_text :: "pub_error \<Rightarrow> string"
  pe_range :: "string set \<Rightarrow> string list"
  pe_percent :: "nat \<Rightarrow> nat \<Rightarrow> 'f"
  pe_zero :: 'f
  pe_show1 :: "'f \<Rightarrow> string"
  pe_sort_stats :: "TLDStat list \<Rightarrow> TLDStat list"
  pe_sort_dist :: "'f Distribution list \<Rightarrow> 'f Distribution list"
  pe_sort_errors :: "ErrorSummaryItem list \<Rightarrow> ErrorSummaryItem list"

text \<open>The sum of durations wraps at 64 bits.\<close>

definition total_duration :: "int list \<Rightarrow> int" where
  "total_duration ds = foldl (\<lambda>t d. int64 (t + d)) 0 ds"

definition average :: "int list \<Rightarrow> string" where
  "average ds = show_ms (go_div (total_duration ds) (int (length ds)))"

definition tld_stats :: "'f report_env \<Rightarrow> report_acc \<Rightarrow> TLDStat list" where
  "tld_stats env a =
     map (\<lambda>tld. let n = at_key 0 (rp_tldCounts a) tld in
         \<lparr>ts_TLD = tld, ts_Count = n, ts_AvgTime = average (at_key [] (rp_tldTimes a) tld),
          ts_SuccessRate = (if n > 0 then at_key 0 (rp_tldSuccess a) tld * 100 div n else 0)\<rparr>)
       (pe_range env (dom (rp_tldCounts a)))"

definition share :: "'f report_env \<Rightarrow> nat \<Rightarrow> nat \<Rightarrow> 'f" where
  "share env n whole = (if whole > 0 then pe_percent env n whole else pe_zero env)"

definition tld_distribution :: "'f report_env \<Rightarrow> nat \<Rightarrow> report_acc \<Rightarrow> 'f Distribution list" where
  "tld_distribution env whole a =
     map (\<lambda>tld. let n = at_key 0 (rp_tldCounts a) tld in
         \<lparr>db_TLD = tld, db_Country = [], db_Count = n, db_Percentage = share env n whole\<rparr>)
       (pe_range env (dom (rp_tldCounts a)))"

definition country_distribution :: "'f report_env \<Rightarrow> report_acc \<Rightarrow> 'f Distribution list" where
  "country_distribution env a =
     map (\<lambda>country. let n = at_key 0 (rp_countryCounts a) country in
         \<lparr>db_TLD = [], db_Country = country, db_Count = n, db_Percentage = share env n (rp_SuccessCount a)\<rparr>)
       (pe_range env (dom (rp_countryCounts a)))"

definition error_summary :: "'f report_env \<Rightarrow> report_acc \<Rightarrow> ErrorSummaryItem list" where
  "error_summary env a =
     map (\<lambda>t. let domains = at_key [] (rp_errorCounts a) t in
         \<lparr>es_Type = t, es_Count = length domains, es_Examples = first_three domains\<rparr>)
       (pe_range env (dom (rp_errorCounts a)))"

definition ip_result :: "IPLookupResult \<Rightarrow> IPResult option" where
  "ip_result r =
     (case (il_Error r, il_Response r) of
        (None, Some d) \<Rightarrow>
          Some \<lparr>ix_IP = il_IP r, ix_Domain = il_Domain r, ix_RIR = extractRIR (ir_RDAPServer d),
                ix_Country = ir_Country d, ix_CIDR = formatCIDRList (ir_CIDR d)\<rparr>
      | _ \<Rightarrow> None)"

definition prepareTemplateData :: "'f report_env \<Rightarrow> 'f AnalysisReport \<Rightarrow> 'f TemplateData" where
  "prepareTemplateData env report =
     (let a = collect (pe_text env) (ar_DomainResults report);
          durations = sort (rp_durations a);
          none = (durations = []) in
      \<lparr>td_GeneratedAt = ar_GeneratedAt report, td_PhishingURLCount = ar_PhishingURLCount report,
       td_UniqueDomainCount = ar_UniqueDomainCount report,
       td_BootstrapDuration = show_ms (ar_BootstrapDuration report),
       td_TotalDuration = show_ms (ar_TotalDuration report), td_CacheEnabled = ar_CacheEnabled report,
       td_CacheSizeMB = go_div (ar_CacheSize report) (1024 * 1024), td_CacheTTL = Duration_String (ar_CacheTTL report),
       td_ClientMode = ar_ClientMode report, td_ServerURL = ar_ServerURL report,
       td_SuccessCount = rp_SuccessCount a, td_ErrorCount = rp_ErrorCount a, td_CacheHits = rp_CacheHits a,
       td_AvgLookupTime = (if none then ''N/A'' else average durations),
       td_P50 = percentile durations 50, td_P95 = percentile durations 95, td_P99 = percentile durations 99,
       td_MaxTime = (if none then ''N/A'' else show_ms (last durations)),
       td_MinTime = (if none then ''N/A'' else show_ms (hd durations)),
       td_TLDStats = pe_sort_stats env (tld_stats env a),
       td_TLDDistribution = pe_sort_dist env (tld_distribution env (length (ar_DomainResults report)) a),
       td_CountryDistribution = pe_sort_dist env (country_distribution env a),
       td_SuccessfulResults = rp_successes a, td_FailedResults = rp_failures a,
       td_ErrorSummary = pe_sort_errors env (error_summary env a), td_AllTimings = rp_timings a,
       td_PhishEntries = map (\<lambda>e. \<lparr>ph_URL = truncateURL (py_URL e) 80, ph_TLD = py_TLD e, ph_Score = py_Score e,
         ph_Date = py_Date e\<rparr>) (ar_PhishingEntries report),
       td_IPResults = List.map_filter ip_result (ar_IPResults report)\<rparr>)"

section \<open>The text\<close>

text \<open>Each section is the list of what is written by one call; the headings of tables are abbreviated to their text.\<close>

definition nl :: string where "nl = [CHR 0x0A]"

definition row :: "string list \<Rightarrow> string" where
  "row cells = ''| '' @ join_with '' | '' cells @ '' |'' @ nl"

definition header_chunks :: "'f TemplateData \<Rightarrow> string list" where
  "header_chunks d =
     [''# PhishStats Domain Analysis Report'' @ nl @ nl @ ''Generated: '' @
        format_rfc3339 (td_GeneratedAt d div 10 ^ 9, nat (td_GeneratedAt d mod 10 ^ 9)) @ nl @ nl]"

definition summary_chunks :: "'f TemplateData \<Rightarrow> string list" where
  "summary_chunks d =
     [''## Executive Summary'' @ nl @ nl @ row [''Metric'', ''Value''] @ ''|--------|-------|'' @ nl @
      row [''Phishing URLs fetched'', show_nat (td_PhishingURLCount d)] @
      row [''Unique domains'', show_nat (td_UniqueDomainCount d)] @
      row [''Successful lookups'', show_nat (td_SuccessCount d)] @
      row [''Failed lookups'', show_nat (td_ErrorCount d)] @
      row [''Cache hits'', show_nat (td_CacheHits d)] @
      row [''Total duration'', td_TotalDuration d] @
      row [''Average lookup time'', td_AvgLookupTime d] @ nl]"

definition mode_text :: "ClientMode \<Rightarrow> string" where
  "mode_text m = (case m of ModeStandalone \<Rightarrow> ''standalone'' | ModeServer \<Rightarrow> ''server'')"

definition library_chunks :: "'f TemplateData \<Rightarrow> string list" where
  "library_chunks d =
     [''## Library Information'' @ nl @ nl @ row [''Property'', ''Value''] @ ''|----------|-------|'' @ nl,
      row [''Client Mode'', mode_text (td_ClientMode d)]] @
     (if td_ServerURL d \<noteq> [] then [row [''Server URL'', td_ServerURL d]] else []) @
     (if td_ClientMode d = ModeStandalone then
        [row [''Cache Enabled'', show_bool (td_CacheEnabled d)], row [''Cache Size'', show_int (td_CacheSizeMB d) @ ''MB''],
         row [''Cache TTL'', td_CacheTTL d]] else []) @
     [row [''Init Time'', td_BootstrapDuration d] @ nl]"

definition timing_chunks :: "'f TemplateData \<Rightarrow> string list" where
  "timing_chunks d =
     [''## Timing Analysis'' @ nl @ nl @ ''### Lookup Performance'' @ nl @ nl @ row [''Percentile'', ''Time''] @
      ''|------------|------|'' @ nl @ row [''P50'', td_P50 d] @ row [''P95'', td_P95 d] @ row [''P99'', td_P99 d] @
      row [''Max'', td_MaxTime d] @ row [''Min'', td_MinTime d] @ nl @ ''### By TLD'' @ nl @ nl @
      row [''TLD'', ''Count'', ''Avg Time'', ''Success Rate''] @ ''|-----|-------|----------|--------------|'' @ nl] @
     map (\<lambda>t. row [CHR ''.'' # ts_TLD t, show_nat (ts_Count t), ts_AvgTime t, show_nat (ts_SuccessRate t) @ ''%''])
       (td_TLDStats d) @ [nl]"

definition success_chunk :: "SuccessResult \<Rightarrow> string" where
  "success_chunk r =
     nl @ ''### '' @ sx_Domain r @ nl @ nl @ row [''Property'', ''Value''] @ ''|----------|-------|'' @ nl @
     row [''Registrar'', sx_Registrar r] @ row [''Created'', sx_Created r] @ row [''Expires'', sx_Expires r] @
     row [''Country'', sx_Country r] @ row [''DNSSEC'', show_bool (sx_DNSSEC r)] @
     row [''Nameservers'', sx_Nameservers r] @ row [''Lookup Time'', sx_Duration r] @
     row [''Cached'', show_bool (sx_Cached r)] @ row [''RDAP Server'', sx_RDAPServer r] @
     row [''Source URL'', sx_SourceURL r] @ nl"

definition success_chunks :: "'f TemplateData \<Rightarrow> string list" where
  "success_chunks d = [''## Successful Lookups'' @ nl] @ map success_chunk (td_SuccessfulResults d)"

definition failed_chunks :: "'f TemplateData \<Rightarrow> string list" where
  "failed_chunks d =
     (if td_FailedResults d = [] then []
      else [''## Failed Lookups'' @ nl,
            nl @ ''### Error Summary'' @ nl @ nl @ row [''Error Type'', ''Count'', ''Examples''] @
              ''|------------|-------|----------|'' @ nl] @
        map (\<lambda>e. row [es_Type e, show_nat (es_Count e), es_Examples e]) (td_ErrorSummary d) @
        [nl @ ''### Detailed Errors'' @ nl] @
        map (\<lambda>r. nl @ ''#### '' @ fx_Domain r @ nl @ nl @ ''- **Error**: '' @ fx_Error r @ nl @ ''- **Source URL**: '' @
              fx_SourceURL r @ nl @ ''- **Duration**: '' @ fx_Duration r @ nl @ nl) (td_FailedResults d))"

definition distribution_chunks :: "'f report_env \<Rightarrow> 'f TemplateData \<Rightarrow> string list" where
  "distribution_chunks env d =
     [''## TLD Distribution'' @ nl @ nl @ row [''TLD'', ''Count'', ''Percentage''] @ ''|-----|-------|------------|'' @ nl] @
     map (\<lambda>t. row [CHR ''.'' # db_TLD t, show_nat (db_Count t), pe_show1 env (db_Percentage t) @ ''%'']) (td_TLDDistribution d) @
     [nl @ ''## Country Distribution'' @ nl @ nl @ row [''Country'', ''Count'', ''Percentage''] @
        ''|---------|-------|------------|'' @ nl] @
     map (\<lambda>t. row [db_Country t, show_nat (db_Count t), pe_show1 env (db_Percentage t) @ ''%'']) (td_CountryDistribution d) @
     [nl]"

definition ip_chunks :: "'f TemplateData \<Rightarrow> string list" where
  "ip_chunks d =
     (if td_IPResults d = [] then []
      else [''## IP Analysis'' @ nl @ nl @ row [''IP'', ''Domain'', ''RIR'', ''Country'', ''CIDR''] @
              ''|----|--------|-----|---------|------|'' @ nl] @
        map (\<lambda>r. row [ix_IP r, ix_Domain r, ix_RIR r, ix_Country r, ix_CIDR r]) (td_IPResults d) @ [nl])"

definition raw_chunks :: "'f report_env \<Rightarrow> 'f TemplateData \<Rightarrow> string list" where
  "raw_chunks env d =
     [''## Raw Data'' @ nl @ nl @ ''<details>'' @ nl @ ''<summary>All Lookup Timings (click to expand)</summary>'' @ nl @ nl @
      row [''Domain'', ''Time (ms)'', ''Status'', ''Cached''] @ ''|--------|-----------|--------|--------|'' @ nl] @
     map (\<lambda>t. row [te_Domain t, show_int (te_DurationMs t), te_Status t, show_bool (te_Cached t)]) (td_AllTimings d) @
     [nl @ ''</details>'' @ nl @ nl @ ''<details>'' @ nl @ ''<summary>PhishStats Entries (click to expand)</summary>'' @ nl @ nl @
      row [''URL'', ''TLD'', ''Score'', ''Date''] @ ''|-----|-----|-------|------|'' @ nl] @
     map (\<lambda>e. row [ph_URL e, ph_TLD e, pe_show1 env (ph_Score e), ph_Date e]) (td_PhishEntries d) @
     [nl @ ''</details>'' @ nl]"

definition report_chunks :: "'f report_env \<Rightarrow> 'f TemplateData \<Rightarrow> string list" where
  "report_chunks env d =
     header_chunks d @ summary_chunks d @ library_chunks d @ timing_chunks d @ success_chunks d @ failed_chunks d @
     distribution_chunks env d @ ip_chunks d @ raw_chunks env d"

text \<open>A writer; the first write that fails ends the report.\<close>

fun write_chunks ::
  "('v \<Rightarrow> string \<Rightarrow> go_error option \<times> 'v) \<Rightarrow> string list \<Rightarrow> 'v \<Rightarrow> go_error option \<times> 'v" where
  "write_chunks wr [] v = (None, v)"
| "write_chunks wr (c # cs) v =
     (case wr v c of (Some err, v1) \<Rightarrow> (Some err, v1) | (None, v1) \<Rightarrow> write_chunks wr cs v1)"

definition Generate ::
  "'f report_env \<Rightarrow> ('v \<Rightarrow> string \<Rightarrow> go_error option \<times> 'v) \<Rightarrow> 'f AnalysisReport \<Rightarrow> 'v \<Rightarrow> go_error option \<times> 'v" where
  "Generate env wr report v = write_chunks wr (report_chunks env (prepareTemplateData env report)) v"

section \<open>Ranging and sorting\<close>

definition range_ok :: "(string set \<Rightarrow> string list) \<Rightarrow> bool" where
  "range_ok rng \<longleftrightarrow> (\<forall>S. finite S \<longrightarrow> set (rng S) = S \<and> distinct (rng S))"

lemma range_ok_sorted: "range_ok sorted_list_of_set"
  by (simp add: range_ok_def)

locale count_sort =
  fixes srt :: "'x list \<Rightarrow> 'x list" and key :: "'x \<Rightarrow> nat"
  assumes sort_perm: "mset (srt xs) = mset xs"
    and sort_order: "sorted_wrt (\<lambda>x y. key y \<le> key x) (srt xs)"
begin

lemma set_srt: "set (srt xs) = set xs"
  using sort_perm by (rule mset_eq_setD)

lemma sum_srt: "sum_list (map f (srt xs)) = (sum_list (map f xs) :: nat)"
  by (metis mset_map sort_perm sum_mset_sum_list)

lemma first_is_largest: "srt xs = x # ys \<Longrightarrow> y \<in> set xs \<Longrightarrow> key y \<le> key x"
  using sort_order [of xs] set_srt [of xs] by auto

end

definition by_count :: "('x \<Rightarrow> nat) \<Rightarrow> 'x list \<Rightarrow> 'x list" where
  "by_count key = sort_key (\<lambda>x. - int (key x))"

interpretation stable_count: count_sort "by_count key" key for key
proof
  show "mset (by_count key xs) = mset xs" for xs by (simp add: by_count_def)
  have "sorted (map (\<lambda>x. - int (key x)) (by_count key xs))" for xs by (simp add: by_count_def)
  then show "sorted_wrt (\<lambda>x y. key y \<le> key x) (by_count key xs)" for xs by (simp add: sorted_map)
qed

section \<open>What the loop collects\<close>

definition num_of :: "('x \<Rightarrow> bool) \<Rightarrow> 'x list \<Rightarrow> nat" where
  "num_of P xs = length (filter P xs)"

lemma num_of_snoc: "num_of P (xs @ [x]) = num_of P xs + (if P x then 1 else 0)"
  by (simp add: num_of_def)

lemma num_of_Nil: "num_of P [] = 0"
  by (simp add: num_of_def)

lemma at_key_empty: "at_key z Map.empty x = z"
  by (simp add: at_key_def)

lemma at_key_bump: "at_key 0 (bump k m) x = at_key 0 m x + (if x = k then 1 else 0)"
  by (simp add: at_key_def bump_def)

lemma at_key_push: "at_key [] (push k v m) x = (if x = k then at_key [] m x @ [v] else at_key [] m x)"
  by (simp add: at_key_def push_def)

lemma dom_bump_push: "dom (bump k m) = insert k (dom m)" "dom (push k v l) = insert k (dom l)"
  by (auto simp: bump_def push_def)

definition succeeded :: "LookupResult \<Rightarrow> bool" where "succeeded r \<longleftrightarrow> lr_Error r = None"

definition country_of :: "LookupResult \<Rightarrow> string option" where
  "country_of r = (if succeeded r then map_option result_country (lr_Response r) else None)"

lemma add_outcome_fields:
  "rp_durations (add_outcome txt r a) = rp_durations a"
  "rp_tldCounts (add_outcome txt r a) = rp_tldCounts a"
  "rp_tldTimes (add_outcome txt r a) = rp_tldTimes a"
  "rp_CacheHits (add_outcome txt r a) = rp_CacheHits a"
  "rp_tldSuccess (add_outcome txt r a) =
     (if succeeded r then bump (result_tld r) (rp_tldSuccess a) else rp_tldSuccess a)"
  "rp_countryCounts (add_outcome txt r a) =
     (case country_of r of None \<Rightarrow> rp_countryCounts a | Some c \<Rightarrow> bump c (rp_countryCounts a))"
  "rp_errorCounts (add_outcome txt r a) =
     (if succeeded r then rp_errorCounts a else push (result_status txt r) (lr_Domain r) (rp_errorCounts a))"
  "rp_SuccessCount (add_outcome txt r a) =
     rp_SuccessCount a + (if succeeded r then 1 else 0)"
  "rp_ErrorCount (add_outcome txt r a) =
     rp_ErrorCount a + (if succeeded r then 0 else 1)"
  by (simp_all add: add_outcome_def succeeded_def country_of_def Let_def split: option.split)

lemma add_result_fields:
  "rp_durations (add_result txt a r) = rp_durations a @ [lr_Duration r]"
  "rp_tldCounts (add_result txt a r) = bump (result_tld r) (rp_tldCounts a)"
  "rp_tldTimes (add_result txt a r) =
     push (result_tld r) (lr_Duration r) (rp_tldTimes a)"
  "rp_tldSuccess (add_result txt a r) =
     (if succeeded r then bump (result_tld r) (rp_tldSuccess a) else rp_tldSuccess a)"
  "rp_countryCounts (add_result txt a r) =
     (case country_of r of None \<Rightarrow> rp_countryCounts a | Some c \<Rightarrow> bump c (rp_countryCounts a))"
  "rp_errorCounts (add_result txt a r) =
     (if succeeded r then rp_errorCounts a else push (result_status txt r) (lr_Domain r) (rp_errorCounts a))"
  "rp_SuccessCount (add_result txt a r) =
     rp_SuccessCount a + (if succeeded r then 1 else 0)"
  "rp_ErrorCount (add_result txt a r) =
     rp_ErrorCount a + (if succeeded r then 0 else 1)"
  "rp_CacheHits (add_result txt a r) =
     rp_CacheHits a + (if lr_Cached r then 1 else 0)"
  by (simp_all add: add_result_def Let_def add_outcome_fields split: option.split)

lemma collect_Nil: "collect txt [] = empty_acc"
  by (simp add: collect_def)

lemma collect_snoc: "collect txt (rs @ [r]) = add_result txt (collect txt rs) r"
  by (simp add: collect_def)

lemmas collect_rules = collect_Nil collect_snoc add_result_fields num_of_snoc num_of_Nil at_key_empty at_key_bump
  at_key_push dom_bump_push

lemma collected_durations: "rp_durations (collect txt rs) = map lr_Duration rs"
  by (induction rs rule: rev_induct) (simp_all add: collect_rules empty_acc_def)

lemma collected_tlds:
  "at_key 0 (rp_tldCounts (collect txt rs)) t = num_of (\<lambda>r. result_tld r = t) rs"
  "at_key 0 (rp_tldSuccess (collect txt rs)) t = num_of (\<lambda>r. result_tld r = t \<and> succeeded r) rs"
  "dom (rp_tldCounts (collect txt rs)) = result_tld ` set rs"
  by (induction rs rule: rev_induct) (auto simp add: collect_rules empty_acc_def)

lemma collected_countries:
  "at_key 0 (rp_countryCounts (collect txt rs)) c = num_of (\<lambda>r. country_of r = Some c) rs"
  "dom (rp_countryCounts (collect txt rs)) = {c. \<exists>r \<in> set rs. country_of r = Some c}"
  by (induction rs rule: rev_induct)
     (auto simp add: collect_rules empty_acc_def split: option.splits)

lemma collected_errors:
  "at_key [] (rp_errorCounts (collect txt rs)) t =
     map lr_Domain (filter (\<lambda>r. \<not> succeeded r \<and> result_status txt r = t) rs)"
  "dom (rp_errorCounts (collect txt rs)) = result_status txt ` {r \<in> set rs. \<not> succeeded r}"
  by (induction rs rule: rev_induct) (auto simp add: collect_rules empty_acc_def)

lemma collected_counts:
  "rp_SuccessCount (collect txt rs) = num_of succeeded rs"
  "rp_ErrorCount (collect txt rs) = num_of (\<lambda>r. \<not> succeeded r) rs"
  "rp_CacheHits (collect txt rs) = num_of lr_Cached rs"
  by (induction rs rule: rev_induct) (simp_all add: collect_rules empty_acc_def)


section \<open>The counts of a report\<close>

lemma sum_indicator: "distinct ks \<Longrightarrow> (\<Sum>k\<leftarrow>ks. if k = a then 1 else 0) = (if a \<in> set ks then 1 else (0::nat))"
  by (induction ks) auto

text \<open>A list counted by one of its keys: every element that has a key is counted once.\<close>

lemma num_of_by_key:
  assumes ks: "distinct ks"
  shows "(\<And>x k. x \<in> set xs \<Longrightarrow> f x = Some k \<Longrightarrow> k \<in> set ks) \<Longrightarrow>
    (\<Sum>k\<leftarrow>ks. num_of (\<lambda>x. f x = Some k) xs) = num_of (\<lambda>x. f x \<noteq> None) xs"
proof (induction xs)
  case Nil
  show ?case by (simp add: num_of_def)
next
  case (Cons x xs)
  have one: "num_of P (x # xs) = num_of P xs + (if P x then 1 else 0)" for P by (simp add: num_of_def)
  have keyed: "(\<Sum>k\<leftarrow>ks. if f x = Some k then 1 else 0) = (if f x \<noteq> None then 1 else (0::nat))"
  proof (cases "f x")
    case (Some a)
    then have "f x = Some k \<longleftrightarrow> k = a" for k by auto
    with Some show ?thesis using sum_indicator [OF ks, of a] Cons.prems [of x a] by simp
  qed simp
  have rest: "(\<Sum>k\<leftarrow>ks. num_of (\<lambda>x. f x = Some k) xs) = num_of (\<lambda>x. f x \<noteq> None) xs"
    by (rule Cons.IH) (use Cons.prems in auto)
  show ?case by (simp only: one sum_list_addf keyed rest)
qed

lemma num_of_mono: "(\<And>x. P x \<Longrightarrow> Q x) \<Longrightarrow> num_of P xs \<le> num_of Q xs"
  unfolding num_of_def by (induction xs) (auto simp: le_SucI)

lemma num_of_not: "num_of P xs + num_of (\<lambda>x. \<not> P x) xs = length xs"
  by (simp add: num_of_def sum_length_filter_compl)

lemma num_of_le: "num_of P xs \<le> length xs"
  by (simp add: num_of_def)

lemma stats_counts:
  assumes rng: "range_ok (pe_range env)"
  shows "(\<Sum>t\<leftarrow>tld_stats env (collect txt rs). ts_Count t) = length rs"
    "(\<Sum>t\<leftarrow>tld_distribution env n (collect txt rs). db_Count t) = length rs"
    "(\<Sum>t\<leftarrow>country_distribution env (collect txt rs). db_Count t) = num_of (\<lambda>r. country_of r \<noteq> None) rs"
    "(\<Sum>t\<leftarrow>error_summary env (collect txt rs). es_Count t) = num_of (\<lambda>r. \<not> succeeded r) rs"
proof -
  have keys: "set (pe_range env S) = S \<and> distinct (pe_range env S)" if "finite S" for S
    using rng that by (simp add: range_ok_def)
  let ?tlds = "pe_range env (result_tld ` set rs)" and ?cs = "{c. \<exists>r \<in> set rs. country_of r = Some c}"
  let ?es = "result_status txt ` {r \<in> set rs. \<not> succeeded r}"
  have "?cs \<subseteq> (\<lambda>r. the (country_of r)) ` set rs" by force
  then have fin: "finite ?cs" by (rule finite_surj [OF finite_set])
  have tlds: "(\<Sum>t\<leftarrow>?tlds. num_of (\<lambda>r. result_tld r = t) rs) = length rs"
    using num_of_by_key [of ?tlds rs "\<lambda>r. Some (result_tld r)"] keys [of "result_tld ` set rs"]
    by (auto simp: num_of_def)
  show "(\<Sum>t\<leftarrow>tld_stats env (collect txt rs). ts_Count t) = length rs"
    using tlds by (simp add: tld_stats_def Let_def o_def collected_tlds)
  show "(\<Sum>t\<leftarrow>tld_distribution env n (collect txt rs). db_Count t) = length rs"
    using tlds by (simp add: tld_distribution_def Let_def o_def collected_tlds)
  show "(\<Sum>t\<leftarrow>country_distribution env (collect txt rs). db_Count t) = num_of (\<lambda>r. country_of r \<noteq> None) rs"
    using num_of_by_key [of "pe_range env ?cs" rs country_of] keys [OF fin]
    by (auto simp add: country_distribution_def Let_def o_def collected_countries)
  have "(\<Sum>t\<leftarrow>pe_range env ?es. num_of (\<lambda>r. (if succeeded r then None else Some (result_status txt r)) = Some t) rs)
      = num_of (\<lambda>r. (if succeeded r then None else Some (result_status txt r)) \<noteq> None) rs"
    by (rule num_of_by_key) (use keys [of ?es] in \<open>auto split: if_splits\<close>)
  moreover have "(if succeeded r then None else Some (result_status txt r)) = Some t \<longleftrightarrow>
      \<not> succeeded r \<and> result_status txt r = t" for r t by simp
  moreover have "(if succeeded r then None else Some (result_status txt r)) \<noteq> None \<longleftrightarrow> \<not> succeeded r" for r by simp
  ultimately show "(\<Sum>t\<leftarrow>error_summary env (collect txt rs). es_Count t) = num_of (\<lambda>r. \<not> succeeded r) rs"
    by (simp add: error_summary_def Let_def o_def collected_errors num_of_def)
qed

lemma success_rate_le: "t \<in> set (tld_stats env (collect txt rs)) \<Longrightarrow> ts_SuccessRate t \<le> 100"
proof -
  have rate: "m * 100 div n \<le> 100" if "m \<le> n" for m n :: nat
    using that div_le_mono [of "m * 100" "n * 100" n] by (cases "n = 0") auto
  assume "t \<in> set (tld_stats env (collect txt rs))"
  then show ?thesis
    by (auto simp: tld_stats_def Let_def collected_tlds intro!: rate num_of_mono)
qed

section \<open>Percentiles\<close>

lemma percentile_value:
  assumes ds: "sorted ds" "ds \<noteq> []" and p: "p < 100"
  shows "\<exists>x \<in> set ds. percentile ds p = show_ms x \<and>
    100 * num_of (\<lambda>d. d < x) ds \<le> length ds * p \<and> length ds * p < 100 * num_of (\<lambda>d. d \<le> x) ds"
proof -
  let ?n = "length ds" and ?i = "length ds * p div 100"
  have i: "?i < ?n" using p ds(2) by (simp add: less_mult_imp_div_less)
  have below: "filter (\<lambda>d. d < ds ! ?i) (drop ?i ds) = []"
  proof -
    have "\<not> d < ds ! ?i" if d: "d \<in> set (drop ?i ds)" for d
    proof -
      obtain j where "j < length (drop ?i ds)" "d = drop ?i ds ! j" using d by (metis in_set_conv_nth)
      then have "?i + j < ?n" "d = ds ! (?i + j)" by simp_all
      then show ?thesis using sorted_nth_mono [OF ds(1), of ?i "?i + j"] by linarith
    qed
    then show ?thesis by (simp add: filter_empty_conv)
  qed
  have "num_of (\<lambda>d. d < ds ! ?i) ds = length (filter (\<lambda>d. d < ds ! ?i) (take ?i ds @ drop ?i ds))"
    by (simp add: num_of_def)
  also have "\<dots> \<le> ?i" unfolding filter_append below using length_filter_le [of _ "take ?i ds"] i
    by (metis append.right_neutral length_take less_imp_le min.absorb4)
  finally have less: "100 * num_of (\<lambda>d. d < ds ! ?i) ds \<le> ?n * p" by linarith
  have all: "filter (\<lambda>d. d \<le> ds ! ?i) (take (Suc ?i) ds) = take (Suc ?i) ds"
    using ds(1) i by (auto simp: filter_id_conv in_set_conv_nth intro!: sorted_nth_mono)
  have "Suc ?i = length (filter (\<lambda>d. d \<le> ds ! ?i) (take (Suc ?i) ds))" using i by (simp add: all)
  also have "\<dots> \<le> length (filter (\<lambda>d. d \<le> ds ! ?i) (take (Suc ?i) ds @ drop (Suc ?i) ds))"
    unfolding filter_append by simp
  finally have le: "?n * p < 100 * num_of (\<lambda>d. d \<le> ds ! ?i) ds"
    unfolding append_take_drop_id num_of_def by linarith
  show ?thesis using i less le ds(2) by (intro bexI [of _ "ds ! ?i"]) (auto simp: percentile_def Let_def)
qed

lemma num_of_sort: "num_of P (sort (map f xs)) = num_of (\<lambda>x. P (f x)) xs"
proof -
  have "num_of P (sort (map f xs)) = num_of P (map f xs)"
    unfolding num_of_def by (metis mset_filter mset_sort size_mset)
  then show ?thesis by (simp add: num_of_def filter_map o_def)
qed

lemma prepared:
  "td_SuccessCount (prepareTemplateData env report) = rp_SuccessCount (collect (pe_text env) (ar_DomainResults report))"
  "td_ErrorCount (prepareTemplateData env report) = rp_ErrorCount (collect (pe_text env) (ar_DomainResults report))"
  "td_TLDStats (prepareTemplateData env report) =
     pe_sort_stats env (tld_stats env (collect (pe_text env) (ar_DomainResults report)))"
  "td_TLDDistribution (prepareTemplateData env report) =
     pe_sort_dist env (tld_distribution env (length (ar_DomainResults report))
       (collect (pe_text env) (ar_DomainResults report)))"
  "td_CountryDistribution (prepareTemplateData env report) =
     pe_sort_dist env (country_distribution env (collect (pe_text env) (ar_DomainResults report)))"
  "td_ErrorSummary (prepareTemplateData env report) =
     pe_sort_errors env (error_summary env (collect (pe_text env) (ar_DomainResults report)))"
  "td_P50 (prepareTemplateData env report) =
     percentile (sort (rp_durations (collect (pe_text env) (ar_DomainResults report)))) 50"
  "td_P95 (prepareTemplateData env report) =
     percentile (sort (rp_durations (collect (pe_text env) (ar_DomainResults report)))) 95"
  "td_P99 (prepareTemplateData env report) =
     percentile (sort (rp_durations (collect (pe_text env) (ar_DomainResults report)))) 99"
  by (simp_all add: prepareTemplateData_def Let_def)

section \<open>Writing\<close>

lemma write_chunks_all:
  "(\<And>v c. wr v c = (None, v @ c)) \<Longrightarrow> write_chunks wr cs v = (None, v @ concat cs)"
  by (induction cs arbitrary: v) simp_all

lemma Generate_writes:
  "(\<And>v c. wr v c = (None, v @ c)) \<Longrightarrow>
   Generate env wr report v = (None, v @ concat (report_chunks env (prepareTemplateData env report)))"
  by (simp add: Generate_def write_chunks_all)

text \<open>The sections are written one after the other; the first error is the result.\<close>

lemma write_chunks_app:
  "write_chunks wr (cs @ ds) v =
     (case write_chunks wr cs v of (Some err, v1) \<Rightarrow> (Some err, v1) | (None, v1) \<Rightarrow> write_chunks wr ds v1)"
  by (induction cs arbitrary: v) (auto split: prod.split option.split)

end
