(* ===== verification/GoFlag.thy ===== *)
theory GoFlag
  imports GoStrings
begin

text \<open>
  The parts of Go's \<open>flag\<close> package and of \<open>strconv.ParseInt\<close> with base 0 that the command line of the analyzer
  uses: integers in any of Go's notations, and the loop over the arguments of a set of flags.
\<close>

section \<open>Integers in any base\<close>

definition base_digit :: "char \<Rightarrow> nat option" where
  "base_digit c =
     (let n = of_char c :: nat in
      if 48 \<le> n \<and> n \<le> 57 then Some (n - 48)
      else if 97 \<le> n \<and> n \<le> 122 then Some (n - 87)
      else if 65 \<le> n \<and> n \<le> 90 then Some (n - 55)
      else None)"

text \<open>The base that a prefix announces, and the text after the prefix.\<close>

definition base_prefix :: "string \<Rightarrow> nat \<times> string" where
  "base_prefix s =
     (case s of
        [] \<Rightarrow> (10, s)
      | z # r \<Rightarrow>
          if z \<noteq> CHR ''0'' then (10, s)
          else if length r \<ge> 2 \<and> hd r \<in> {CHR ''b'', CHR ''B''} then (2, tl r)
          else if length r \<ge> 2 \<and> hd r \<in> {CHR ''o'', CHR ''O''} then (8, tl r)
          else if length r \<ge> 2 \<and> hd r \<in> {CHR ''x'', CHR ''X''} then (16, tl r)
          else (8, r))"

text \<open>Underscores are skipped here; where they may stand is checked afterwards.\<close>

fun digits_value :: "nat \<Rightarrow> nat \<Rightarrow> string \<Rightarrow> nat option" where
  "digits_value b n [] = Some n"
| "digits_value b n (c # cs) =
     (if c = CHR ''_'' then digits_value b n cs
      else (case base_digit c of
              None \<Rightarrow> None
            | Some d \<Rightarrow> if d \<ge> b then None else digits_value b (n * b + d) cs))"

text \<open>\<open>underscoreOK\<close>, with the kind of the previous character: a digit or a prefix, an underscore, or anything else.\<close>

datatype seen = Seen_Digit | Seen_Underscore | Seen_Other

fun underscore_scan :: "bool \<Rightarrow> seen \<Rightarrow> string \<Rightarrow> bool" where
  "underscore_scan hex i [] = (i \<noteq> Seen_Underscore)"
| "underscore_scan hex i (c # cs) =
     (if is_digit c \<or> (hex \<and> (case base_digit c of None \<Rightarrow> False | Some d \<Rightarrow> 10 \<le> d \<and> d \<le> 15)) then
        underscore_scan hex Seen_Digit cs
      else if c = CHR ''_'' then i = Seen_Digit \<and> underscore_scan hex Seen_Underscore cs
      else i \<noteq> Seen_Underscore \<and> underscore_scan hex Seen_Other cs)"

definition underscoreOK :: "string \<Rightarrow> bool" where
  "underscoreOK s =
     (if length s \<ge> 2 \<and> hd s = CHR ''0'' \<and> s ! 1 \<in> set ''bBoOxX'' then
        underscore_scan (s ! 1 \<in> {CHR ''x'', CHR ''X''}) Seen_Digit (drop 2 s)
      else underscore_scan False Seen_Other s)"

definition parse_uint0 :: "string \<Rightarrow> nat option" where
  "parse_uint0 s =
     (if s = [] then None
      else (let (b, r) = base_prefix s in
            case digits_value b 0 r of
              None \<Rightarrow> None
            | Some n \<Rightarrow> if n < 2 ^ 64 \<and> (CHR ''_'' \<in> set r \<longrightarrow> underscoreOK s) then Some n else None))"

text \<open>\<open>strconv.ParseInt (s, 0, 64)\<close>.\<close>

definition parse_int0 :: "string \<Rightarrow> int option" where
  "parse_int0 s =
     (let (neg, u) =
        (case s of [] \<Rightarrow> (False, [])
         | c # cs \<Rightarrow> if c = CHR ''-'' then (True, cs) else if c = CHR ''+'' then (False, cs) else (False, s)) in
      case parse_uint0 u of
        None \<Rightarrow> None
      | Some n \<Rightarrow> if neg then (if n \<le> 2 ^ 63 then Some (- int n) else None)
                  else (if n < 2 ^ 63 then Some (int n) else None))"

section \<open>Flags\<close>

text \<open>A set of flags: the defined names, with whether each is a boolean one, and what a value sets.\<close>

record 'c flag_set =
  fs_defined :: "string \<Rightarrow> bool option"
  fs_Set :: "string \<Rightarrow> string \<Rightarrow> 'c \<Rightarrow> 'c option"

datatype flag_error =
  Bad_Syntax string
| Not_Defined string
| Needs_Argument string
| Invalid_Value string string
| Flag_Help

text \<open>The name up to the first equals sign after its first character, and the value behind it.\<close>

definition split_flag :: "string \<Rightarrow> string \<times> string option" where
  "split_flag name =
     (let n = takeWhile (\<lambda>c. c \<noteq> CHR ''='') (tl name); rest = drop (length n) (tl name) in
      if rest = [] then (name, None) else (hd name # n, Some (tl rest)))"

text \<open>
  \<open>parseOne\<close>: whether a flag was seen, the arguments behind it, and what it set.  A flag without an attached value
  takes the next argument as its value, unless it is a boolean one.
\<close>

definition flag_value :: "string \<Rightarrow> bool \<Rightarrow> string option \<Rightarrow> string list \<Rightarrow> flag_error + string \<times> string list" where
  "flag_value name is_bool val args =
     (case val of
        Some v \<Rightarrow> Inr (v, args)
      | None \<Rightarrow>
          if is_bool then Inr (''true'', args)
          else (case args of [] \<Rightarrow> Inl (Needs_Argument name) | v # rest \<Rightarrow> Inr (v, rest)))"

fun parse_one :: "'c flag_set \<Rightarrow> string list \<Rightarrow> 'c \<Rightarrow> flag_error + bool \<times> string list \<times> 'c" where
  "parse_one fs [] c = Inr (False, [], c)"
| "parse_one fs (s # args) c =
     (if length s < 2 \<or> hd s \<noteq> CHR ''-'' then Inr (False, s # args, c)
      else if s = ''--'' then Inr (False, args, c)
      else
        (let name = (if s ! 1 = CHR ''-'' then drop 2 s else drop 1 s) in
         if name = [] \<or> hd name = CHR ''-'' \<or> hd name = CHR ''='' then Inl (Bad_Syntax s)
         else
           (let (name, val) = split_flag name in
            case fs_defined fs name of
              None \<Rightarrow> Inl (if name = ''help'' \<or> name = ''h'' then Flag_Help else Not_Defined name)
            | Some is_bool \<Rightarrow>
                (case flag_value name is_bool val args of
                   Inl err \<Rightarrow> Inl err
                 | Inr (v, args1) \<Rightarrow>
                     (case fs_Set fs name v c of
                        None \<Rightarrow> Inl (Invalid_Value v name)
                      | Some c1 \<Rightarrow> Inr (True, args1, c1))))))"

lemma flag_value_rest: "flag_value name b val args = Inr (v, args1) \<Longrightarrow> \<exists>used. args = used @ args1"
  by (auto simp: flag_value_def split: option.splits if_splits list.splits)

lemma parse_one_rest:
  assumes "parse_one fs args c = Inr (seen, args1, c1)"
  shows "(\<exists>used. args = used @ args1) \<and> (seen \<longrightarrow> length args1 < length args)"
proof (cases args)
  case (Cons s rest)
  have "seen \<Longrightarrow> \<exists>used. rest = used @ args1"
    using assms flag_value_rest unfolding Cons
    by (fastforce simp: Let_def split: if_splits prod.splits option.splits sum.splits)
  moreover have "\<not> seen \<Longrightarrow> args1 = args \<or> args1 = rest"
    using assms unfolding Cons by (auto simp: Let_def split: if_splits prod.splits option.splits sum.splits)
  ultimately show ?thesis by (cases seen) (auto simp: Cons intro: exI [of _ "[s]"])
qed (use assms in simp)

text \<open>\<open>FlagSet.Parse\<close>: flags are parsed until there is none, or until the first error.\<close>

function parse_flags :: "'c flag_set \<Rightarrow> string list \<Rightarrow> 'c \<Rightarrow> flag_error + string list \<times> 'c" where
  "parse_flags fs args c =
     (case parse_one fs args c of
        Inl err \<Rightarrow> Inl err
      | Inr (seen, args1, c1) \<Rightarrow> if seen then parse_flags fs args1 c1 else Inr (args1, c1))"
  by pat_completeness auto

termination
  by (relation "measure (\<lambda>(fs, args, c). length args)") (auto dest: parse_one_rest)

declare parse_flags.simps [simp del] parse_one.simps(2) [simp del]

section \<open>Lemmas\<close>

lemma digit_cases: "is_digit c \<Longrightarrow> c \<in> set ''0123456789''"
  by (cases c) auto

lemma digit_props:
  assumes "is_digit c"
  shows "base_digit c = Some (digit_val c)" "digit_val c < 10" "c \<noteq> CHR ''_''" "c \<noteq> CHR ''-''" "c \<noteq> CHR ''+''"
  using digit_cases [OF assms] by (auto simp: base_digit_def)

lemma digits_value_decimal: "list_all is_digit ds \<Longrightarrow> digits_value 10 n ds = Some (dec_value n ds)"
proof (induction ds arbitrary: n)
  case (Cons d ds)
  then show ?case using digit_props [of d] by (auto simp: ac_simps)
qed simp

lemma hd_show_nat: "hd (show_nat n) = CHR ''0'' \<Longrightarrow> n = 0"
proof (induction n rule: show_nat.induct)
  case (1 n)
  show ?case
  proof (cases "n < 10")
    case True
    then have "n \<in> {0, 1, 2, 3, 4, 5, 6, 7, 8, 9}" by auto
    then show ?thesis using "1.prems" True by (auto simp: show_nat.simps [of n] digit_char_def)
  next
    case False
    then have "show_nat (n div 10) \<noteq> []" by (simp add: show_nat.simps [of "n div 10"])
    then have "hd (show_nat n) = hd (show_nat (n div 10))" using False by (simp add: show_nat.simps [of n])
    then show ?thesis using "1.IH" "1.prems" False by simp
  qed
qed

lemma parse_uint0_show:
  assumes "n < 2 ^ 64"
  shows "parse_uint0 (show_nat n) = Some n"
proof (cases "n = 0")
  case True
  then show ?thesis by (simp add: parse_uint0_def base_prefix_def show_nat.simps digit_char_def)
next
  case False
  have ds: "list_all is_digit (show_nat n)" "show_nat n \<noteq> []"
    using all_digits_show_nat [of n] by (auto simp: all_digits_def)
  then have "base_prefix (show_nat n) = (10, show_nat n)"
    using hd_show_nat [of n] False by (cases "show_nat n") (auto simp: base_prefix_def)
  moreover have "CHR ''_'' \<notin> set (show_nat n)" using ds digit_props(3) by (auto simp: list_all_iff)
  ultimately show ?thesis
    using assms ds by (simp add: parse_uint0_def digits_value_decimal dec_value_show_nat)
qed

text \<open>An integer in decimal notation is read back; a leading zero makes the number octal.\<close>

lemma parse_int0_show:
  assumes "n < 2 ^ 63"
  shows "parse_int0 (show_nat n) = Some (int n)"
proof -
  have ds: "list_all is_digit (show_nat n)" using all_digits_show_nat [of n] by (simp add: all_digits_def)
  have "parse_uint0 (show_nat n) = Some n" using assms by (intro parse_uint0_show) simp
  then show ?thesis
    using assms ds digit_props(4,5) [of "hd (show_nat n)"] by (cases "show_nat n") (auto simp: parse_int0_def)
qed

lemma parse_int0_minus: "n \<le> 2 ^ 63 \<Longrightarrow> parse_int0 (CHR ''-'' # show_nat n) = Some (- int n)"
  by (simp add: parse_int0_def parse_uint0_show)

lemma parse_int0_octal: "parse_int0 ''0100'' = Some 64 \<and> parse_int0 ''1_000'' = Some 1000 \<and> parse_int0 ''1__0'' = None"
  by (simp add: parse_int0_def parse_uint0_def base_prefix_def base_digit_def underscoreOK_def)

text \<open>A flag with its value in the next argument, and a boolean flag that is switched on.\<close>

definition plain_name :: "string \<Rightarrow> bool" where
  "plain_name n = (n \<noteq> [] \<and> CHR ''='' \<notin> set n \<and> hd n \<noteq> CHR ''-'')"

lemma split_plain:
  assumes "plain_name n"
  shows "split_flag n = (n, None)"
proof -
  have "takeWhile (\<lambda>c. c \<noteq> CHR ''='') (tl n) = tl n"
    using assms by (subst takeWhile_eq_all_conv) (cases n; auto simp: plain_name_def)
  then show ?thesis by (simp only: split_flag_def Let_def) simp
qed

lemma parse_one_plain:
  assumes "plain_name n" "fs_defined fs n = Some b" "flag_value n b None args = Inr (v, args1)" "fs_Set fs n v c = Some c1"
  shows "parse_one fs ((CHR ''-'' # n) # args) c = Inr (True, args1, c1)"
  using assms split_plain [OF assms(1)]
  by (cases n) (auto simp: parse_one.simps(2) plain_name_def Let_def)

lemma parse_flags_value:
  assumes "plain_name n" "fs_defined fs n = Some False" "fs_Set fs n v c = Some c1"
  shows "parse_flags fs ((CHR ''-'' # n) # v # args) c = parse_flags fs args c1"
  by (subst parse_flags.simps) (simp add: parse_one_plain [OF assms(1,2) _ assms(3)] flag_value_def)

lemma parse_flags_switch:
  assumes "plain_name n" "fs_defined fs n = Some True" "fs_Set fs n ''true'' c = Some c1"
  shows "parse_flags fs ((CHR ''-'' # n) # args) c = parse_flags fs args c1"
  by (subst parse_flags.simps) (simp add: parse_one_plain [OF assms(1,2) _ assms(3)] flag_value_def)

lemma parse_flags_Nil: "parse_flags fs [] c = Inr ([], c)"
  by (simp add: parse_flags.simps)

lemma parse_flags_stop: "s = [] \<or> hd s \<noteq> CHR ''-'' \<Longrightarrow> parse_flags fs (s # args) c = Inr (s # args, c)"
  by (cases s) (auto simp: parse_flags.simps [of fs "_ # _"] parse_one.simps(2))

text \<open>What is not parsed is a tail of the arguments.\<close>

lemma parse_flags_rest: "parse_flags fs args c = Inr (rest, c') \<Longrightarrow> \<exists>used. args = used @ rest"
proof (induction fs args c rule: parse_flags.induct)
  case (1 fs args c)
  obtain seen args1 c1 where one: "parse_one fs args c = Inr (seen, args1, c1)"
    using "1.prems" by (auto simp: parse_flags.simps [of fs args] split: sum.splits)
  obtain used where used: "args = used @ args1" using parse_one_rest [OF one] by blast
  show ?case
  proof (cases seen)
    case True
    then obtain used1 where "args1 = used1 @ rest"
      using "1.IH" [OF one refl refl True] "1.prems" by (auto simp: parse_flags.simps [of fs args] one)
    then show ?thesis using used by (metis append.assoc)
  next
    case False
    then have "rest = args1" using "1.prems" by (simp add: parse_flags.simps [of fs args] one)
    then show ?thesis using used by blast
  qed
qed

end
