(* ===== verification/Phish_Main.thy ===== *)
theory Phish_Main
  imports Phish_Report Config GoFlag
begin

text \<open>
  \<open>cmd/phishstats-analyzer/main.go\<close>: the program around the analysis.  It is a function from the arguments, the
  outside world and a file system to the exit code, what is printed on standard output, the world and the files.
  The file system is a parameter: creating directories, creating a file and writing to the file of a name.  The
  log lines and the signal that cancels the context are left out.
\<close>

section \<open>Flags\<close>

record Flags =
  fg_Count :: int
  fg_Output :: string
  fg_Timeout :: int
  fg_ServerURL :: string
  fg_CacheSizeMB :: int
  fg_CacheTTL :: int
  fg_NoCache :: bool
  fg_IPLookup :: bool
  fg_ASNLookup :: bool
  fg_Verbose :: bool
  fg_ShowVersion :: bool

definition flag_defaults :: Flags where
  "flag_defaults =
     \<lparr>fg_Count = 50, fg_Output = ''tmp/phishstats_report.md'', fg_Timeout = 10 * 10 ^ 9, fg_ServerURL = [],
      fg_CacheSizeMB = 50, fg_CacheTTL = 24 * 3600 * 10 ^ 9, fg_NoCache = False, fg_IPLookup = False,
      fg_ASNLookup = False, fg_Verbose = False, fg_ShowVersion = False\<rparr>"

definition bool_flags :: "string set" where
  "bool_flags = {''no-cache'', ''ip-lookup'', ''asn-lookup'', ''v'', ''verbose'', ''version''}"

definition value_flags :: "string set" where
  "value_flags = {''n'', ''count'', ''o'', ''output'', ''t'', ''timeout'', ''s'', ''server'', ''cache-size'', ''cache-ttl''}"

definition set_value_flag :: "float_fraction \<Rightarrow> string \<Rightarrow> string \<Rightarrow> Flags \<Rightarrow> Flags option" where
  "set_value_flag fl name v c =
     (if name = ''n'' \<or> name = ''count'' then map_option (\<lambda>n. c\<lparr>fg_Count := n\<rparr>) (parse_int0 v)
      else if name = ''o'' \<or> name = ''output'' then Some (c\<lparr>fg_Output := v\<rparr>)
      else if name = ''t'' \<or> name = ''timeout'' then map_option (\<lambda>d. c\<lparr>fg_Timeout := d\<rparr>) (ParseDuration fl v)
      else if name = ''s'' \<or> name = ''server'' then Some (c\<lparr>fg_ServerURL := v\<rparr>)
      else if name = ''cache-size'' then map_option (\<lambda>n. c\<lparr>fg_CacheSizeMB := n\<rparr>) (parse_int0 v)
      else map_option (\<lambda>d. c\<lparr>fg_CacheTTL := d\<rparr>) (ParseDuration fl v))"

definition set_bool_flag :: "string \<Rightarrow> bool \<Rightarrow> Flags \<Rightarrow> Flags" where
  "set_bool_flag name b c =
     (if name = ''no-cache'' then c\<lparr>fg_NoCache := b\<rparr>
      else if name = ''ip-lookup'' then c\<lparr>fg_IPLookup := b\<rparr>
      else if name = ''asn-lookup'' then c\<lparr>fg_ASNLookup := b\<rparr>
      else if name = ''v'' \<or> name = ''verbose'' then c\<lparr>fg_Verbose := b\<rparr>
      else c\<lparr>fg_ShowVersion := b\<rparr>)"

definition phish_flags :: "float_fraction \<Rightarrow> Flags flag_set" where
  "phish_flags fl =
     \<lparr>fs_defined = (\<lambda>name. if name \<in> bool_flags then Some True else if name \<in> value_flags then Some False else None),
      fs_Set = (\<lambda>name v c. if name \<in> bool_flags then map_option (\<lambda>b. set_bool_flag name b c) (ParseBool v)
                           else set_value_flag fl name v c)\<rparr>"

definition config_of :: "Flags \<Rightarrow> AnalysisConfig" where
  "config_of c =
     \<lparr>ax_Count = fg_Count c, ax_Timeout = fg_Timeout c, ax_CacheSize = cache_bytes (fg_CacheSizeMB c),
      ax_CacheTTL = fg_CacheTTL c, ax_NoCache = fg_NoCache c, ax_IPLookup = fg_IPLookup c, ax_ServerURL = fg_ServerURL c\<rparr>"

section \<open>The program\<close>

text \<open>\<open>filepath.Dir\<close>: what stands before the last separator.\<close>

definition filepath_Dir :: "string \<Rightarrow> string" where
  "filepath_Dir path = filepath_Clean (rev (dropWhile (\<lambda>c. c \<noteq> CHR ''/'') (rev path)))"

record ('w, 'r, 'c, 'f, 'v) main_env =
  mn_phish :: "('w, 'f) phish_env"
  mn_analyzer :: "('w, 'r, 'c) analyzer_env"
  mn_report :: "'f report_env"
  mn_float :: float_fraction
  mn_MkdirAll :: "'v \<Rightarrow> string \<Rightarrow> go_error option \<times> 'v"
  mn_Create :: "'v \<Rightarrow> string \<Rightarrow> go_error option \<times> 'v"
  mn_Write :: "string \<Rightarrow> 'v \<Rightarrow> string \<Rightarrow> go_error option \<times> 'v"

datatype main_output = Main_Nothing | Main_Usage flag_error | Main_Version | Main_Written string

text \<open>\<open>flag.Parse\<close> ends the program itself: with 0 when help was asked for, with 2 on any other error.\<close>

definition phish_run ::
  "('w, 'r, 'c, 'f, 'v) main_env \<Rightarrow> string list \<Rightarrow> 'w \<Rightarrow> 'v \<Rightarrow> (nat \<times> main_output \<times> 'w \<times> 'v) option" where
  "phish_run env args w v =
     (case parse_flags (phish_flags (mn_float env)) args flag_defaults of
        Inl err \<Rightarrow> Some (if err = Flag_Help then 0 else 2, Main_Usage err, w, v)
      | Inr (_, c) \<Rightarrow>
          if fg_ShowVersion c then Some (0, Main_Version, w, v)
          else
            (let path = filepath_Clean (fg_Output c) in
             case mn_MkdirAll env v (filepath_Dir path) of
               (Some err, v1) \<Rightarrow> Some (1, Main_Nothing, w, v1)
             | (None, v1) \<Rightarrow>
                 (case Analyzer_Run (mn_phish env) (mn_analyzer env) (config_of c) w of
                    None \<Rightarrow> None
                  | Some (report, Some err, w1) \<Rightarrow> Some (1, Main_Nothing, w1, v1)
                  | Some (report, None, w1) \<Rightarrow>
                      (case mn_Create env v1 path of
                         (Some err, v2) \<Rightarrow> Some (1, Main_Nothing, w1, v2)
                       | (None, v2) \<Rightarrow>
                           (case Generate (mn_report env) (mn_Write env path) report v2 of
                              (Some err, v3) \<Rightarrow> Some (1, Main_Nothing, w1, v3)
                            | (None, v3) \<Rightarrow> Some (0, Main_Written path, w1, v3))))))"

section \<open>The flags are read back\<close>

definition int_text :: "int \<Rightarrow> string" where
  "int_text n = (if n < 0 then CHR ''-'' # show_nat (nat (- n)) else show_nat (nat n))"

definition switch :: "string \<Rightarrow> bool \<Rightarrow> string list" where
  "switch name b = (if b then [CHR ''-'' # name] else [])"

definition phish_args :: "Flags \<Rightarrow> string list" where
  "phish_args c =
     [''-n'', int_text (fg_Count c), ''-o'', fg_Output c, ''-t'', Duration_String (fg_Timeout c), ''-s'', fg_ServerURL c,
      ''-cache-size'', int_text (fg_CacheSizeMB c), ''-cache-ttl'', Duration_String (fg_CacheTTL c)] @
     switch ''no-cache'' (fg_NoCache c) @ switch ''ip-lookup'' (fg_IPLookup c) @ switch ''asn-lookup'' (fg_ASNLookup c) @
     switch ''v'' (fg_Verbose c) @ switch ''version'' (fg_ShowVersion c)"

definition flags_fit :: "Flags \<Rightarrow> bool" where
  "flags_fit c \<longleftrightarrow> in_int64 (fg_Count c) \<and> in_int64 (fg_Timeout c) \<and> in_int64 (fg_CacheSizeMB c) \<and> in_int64 (fg_CacheTTL c)"

lemma parse_int_text: "in_int64 n \<Longrightarrow> parse_int0 (int_text n) = Some n"
  using parse_int0_show [of "nat n"] parse_int0_minus [of "nat (- n)"]
  by (auto simp: int_text_def in_int64_def)

lemma parse_value_flag:
  assumes "n \<in> value_flags" "set_value_flag fl n v c = Some c1"
  shows "parse_flags (phish_flags fl) ((CHR ''-'' # n) # v # args) c = parse_flags (phish_flags fl) args c1"
proof (rule parse_flags_value)
  show "plain_name n" using assms(1) by (auto simp: value_flags_def plain_name_def)
  have "n \<notin> bool_flags" using assms(1) by (auto simp: value_flags_def bool_flags_def)
  then show "fs_defined (phish_flags fl) n = Some False" "fs_Set (phish_flags fl) n v c = Some c1"
    using assms by (simp_all add: phish_flags_def)
qed

lemma parse_switch:
  assumes "n \<in> bool_flags"
  shows "parse_flags (phish_flags fl) (switch n b @ args) c =
    parse_flags (phish_flags fl) args (if b then set_bool_flag n True c else c)"
proof (cases b)
  case True
  have "parse_flags (phish_flags fl) ((CHR ''-'' # n) # args) c = parse_flags (phish_flags fl) args (set_bool_flag n True c)"
  proof (rule parse_flags_switch)
    show "plain_name n" using assms by (auto simp: bool_flags_def plain_name_def)
    show "fs_defined (phish_flags fl) n = Some True"
      "fs_Set (phish_flags fl) n ''true'' c = Some (set_bool_flag n True c)"
      using assms by (simp_all add: phish_flags_def ParseBool_def)
  qed
  then show ?thesis using True by (simp add: switch_def)
qed (simp add: switch_def)

lemma value_flag_texts:
  "in_int64 n \<Longrightarrow> set_value_flag fl ''n'' (int_text n) c = Some (c\<lparr>fg_Count := n\<rparr>)"
  "set_value_flag fl ''o'' v c = Some (c\<lparr>fg_Output := v\<rparr>)"
  "in_int64 d \<Longrightarrow> set_value_flag fl ''t'' (Duration_String d) c = Some (c\<lparr>fg_Timeout := d\<rparr>)"
  "set_value_flag fl ''s'' v c = Some (c\<lparr>fg_ServerURL := v\<rparr>)"
  "in_int64 n \<Longrightarrow> set_value_flag fl ''cache-size'' (int_text n) c = Some (c\<lparr>fg_CacheSizeMB := n\<rparr>)"
  "in_int64 d \<Longrightarrow> set_value_flag fl ''cache-ttl'' (Duration_String d) c = Some (c\<lparr>fg_CacheTTL := d\<rparr>)"
  using ParseDuration_String [of d fl] by (auto simp: set_value_flag_def parse_int_text in_int64_def)

text \<open>Arguments that follow the flags are left alone; the program does not look at them.\<close>

lemma phish_args_read_back:
  assumes "flags_fit c" "case rest of [] \<Rightarrow> True | s # _ \<Rightarrow> s = [] \<or> hd s \<noteq> CHR ''-''"
  shows "parse_flags (phish_flags fl) (phish_args c @ rest) flag_defaults = Inr (rest, c)"
proof -
  have named: "''n'' \<in> value_flags" "''o'' \<in> value_flags" "''t'' \<in> value_flags" "''s'' \<in> value_flags"
    "''cache-size'' \<in> value_flags" "''cache-ttl'' \<in> value_flags"
    by (simp_all add: value_flags_def)
  have bools: "''no-cache'' \<in> bool_flags" "''ip-lookup'' \<in> bool_flags" "''asn-lookup'' \<in> bool_flags"
    "''v'' \<in> bool_flags" "''version'' \<in> bool_flags"
    by (simp_all add: bool_flags_def)
  have fits: "in_int64 (fg_Count c)" "in_int64 (fg_Timeout c)" "in_int64 (fg_CacheSizeMB c)" "in_int64 (fg_CacheTTL c)"
    using assms(1) by (simp_all add: flags_fit_def)
  have rest: "parse_flags (phish_flags fl) rest x = Inr (rest, x)" for x
    using assms(2) by (cases rest) (simp_all add: parse_flags_Nil parse_flags_stop)
  note step = parse_value_flag [OF named(1) value_flag_texts(1) [OF fits(1)]]
    parse_value_flag [OF named(2) value_flag_texts(2)]
    parse_value_flag [OF named(3) value_flag_texts(3) [OF fits(2)]]
    parse_value_flag [OF named(4) value_flag_texts(4)]
    parse_value_flag [OF named(5) value_flag_texts(5) [OF fits(3)]]
    parse_value_flag [OF named(6) value_flag_texts(6) [OF fits(4)]]
  show ?thesis
    by (simp add: phish_args_def step parse_switch [OF bools(1)] parse_switch [OF bools(2)] parse_switch [OF bools(3)]
        parse_switch [OF bools(4)] parse_switch [OF bools(5)] rest set_bool_flag_def flag_defaults_def del: Duration_String_def)
qed

section \<open>What is written\<close>

text \<open>What the program expects of the files: a created file is empty, and a write appends to it.\<close>

definition files_ok :: "('w, 'r, 'c, 'f, 'v) main_env \<Rightarrow> ('v \<Rightarrow> string \<rightharpoonup> string) \<Rightarrow> bool" where
  "files_ok env content \<longleftrightarrow>
     (\<forall>v path v1. mn_Create env v path = (None, v1) \<longrightarrow> content v1 path = Some []) \<and>
     (\<forall>path v s v1 t. mn_Write env path v s = (None, v1) \<longrightarrow> content v path = Some t \<longrightarrow> content v1 path = Some (t @ s))"

lemma write_chunks_content:
  assumes "files_ok env content" "content v path = Some t" "write_chunks (mn_Write env path) cs v = (None, v1)"
  shows "content v1 path = Some (t @ concat cs)"
  using assms(2,3)
proof (induction cs arbitrary: v t)
  case (Cons s cs)
  obtain v2 where s: "mn_Write env path v s = (None, v2)" "write_chunks (mn_Write env path) cs v2 = (None, v1)"
    using Cons.prems(2) by (auto split: prod.splits option.splits)
  have "content v2 path = Some (t @ s)" using assms(1) s(1) Cons.prems(1) unfolding files_ok_def by blast
  then show ?case using Cons.IH [OF _ s(2)] by simp
qed simp

text \<open>When the program says that it has written the report, the file holds the report of a successful analysis.\<close>

lemma phish_run_written:
  assumes "files_ok env content" "phish_run env args w v = Some (code, Main_Written path, w1, v1)"
  shows "\<exists>rest c report. parse_flags (phish_flags (mn_float env)) args flag_defaults = Inr (rest, c) \<and>
    code = 0 \<and> path = filepath_Clean (fg_Output c) \<and>
    Analyzer_Run (mn_phish env) (mn_analyzer env) (config_of c) w = Some (report, None, w1) \<and>
    content v1 path = Some (concat (report_chunks (mn_report env) (prepareTemplateData (mn_report env) report)))"
proof -
  obtain rest c where flags: "parse_flags (phish_flags (mn_float env)) args flag_defaults = Inr (rest, c)"
    using assms(2) by (cases "parse_flags (phish_flags (mn_float env)) args flag_defaults") (auto simp: phish_run_def)
  have not_version: "\<not> fg_ShowVersion c" using assms(2) by (auto simp: phish_run_def flags)
  obtain res v0 where dir: "mn_MkdirAll env v (filepath_Dir (filepath_Clean (fg_Output c))) = (res, v0)" by fastforce
  have res: "res = None" using assms(2) by (cases res) (auto simp: phish_run_def flags not_version dir)
  obtain report err w2 where analysis: "Analyzer_Run (mn_phish env) (mn_analyzer env) (config_of c) w = Some (report, err, w2)"
    using assms(2) by (cases "Analyzer_Run (mn_phish env) (mn_analyzer env) (config_of c) w")
      (auto simp: phish_run_def flags not_version dir res)
  have err: "err = None" using assms(2) by (cases err) (auto simp: phish_run_def flags not_version dir res analysis)
  obtain r2 v2 r3 v3 where made: "mn_Create env v0 (filepath_Clean (fg_Output c)) = (r2, v2)"
      "Generate (mn_report env) (mn_Write env (filepath_Clean (fg_Output c))) report v2 = (r3, v3)"
    by fastforce
  have "r2 = None \<and> r3 = None \<and> v3 = v1 \<and> w2 = w1 \<and> code = 0 \<and> path = filepath_Clean (fg_Output c)"
    using assms(2)
    by (cases r2; cases r3) (auto simp: phish_run_def flags not_version dir res analysis err made)
  then have run: "parse_flags (phish_flags (mn_float env)) args flag_defaults = Inr (rest, c)"
      "Analyzer_Run (mn_phish env) (mn_analyzer env) (config_of c) w = Some (report, None, w1)"
      "mn_Create env v0 path = (None, v2)" "Generate (mn_report env) (mn_Write env path) report v2 = (None, v1)"
      "code = 0" "path = filepath_Clean (fg_Output c)"
    using flags analysis err made by simp_all
  have "content v2 path = Some []" using assms(1) run(3) unfolding files_ok_def by blast
  then have "content v1 path = Some ([] @ concat (report_chunks (mn_report env) (prepareTemplateData (mn_report env) report)))"
    using run(4) unfolding Generate_def by (rule write_chunks_content [OF assms(1)])
  then show ?thesis using run(1,2,5,6) by (intro exI [of _ rest] exI [of _ c] exI [of _ report]) simp
qed

text \<open>The exit code is 0, 1 or 2, and a file is created only after the analysis has succeeded.\<close>

lemma phish_run_code: "phish_run env args w v = Some (code, out, w1, v1) \<Longrightarrow> code \<le> 2 \<and> (code = 1) = (out = Main_Nothing)"
  by (auto simp: phish_run_def Let_def split: sum.splits prod.splits if_splits option.splits)

lemma phish_run_failed_analysis:
  assumes "parse_flags (phish_flags (mn_float env)) args flag_defaults = Inr (rest, c)" "\<not> fg_ShowVersion c"
    "Analyzer_Run (mn_phish env) (mn_analyzer env) (config_of c) w = Some (report, Some err, w1)"
    "mn_MkdirAll env v (filepath_Dir (filepath_Clean (fg_Output c))) = (res, v1)"
  shows "phish_run env args w v = Some (1, Main_Nothing, (if res = None then w1 else w), v1)"
  using assms by (cases res) (simp_all add: phish_run_def)

text \<open>The other direction: on files that do not fail, the flags that are given decide what is analysed and written.\<close>

definition files_work :: "('w, 'r, 'c, 'f, 'v) main_env \<Rightarrow> bool" where
  "files_work env \<longleftrightarrow>
     (\<forall>v path. fst (mn_MkdirAll env v path) = None) \<and> (\<forall>v path. fst (mn_Create env v path) = None) \<and>
     (\<forall>path v s. fst (mn_Write env path v s) = None)"

lemma write_chunks_work: "(\<And>v s. fst (wr v s) = None) \<Longrightarrow> fst (write_chunks wr cs v) = None"
proof (induction cs arbitrary: v)
  case (Cons c cs)
  then show ?case by (cases "wr v c") (metis (no_types, lifting) fst_conv option.simps(4) prod.case write_chunks.simps(2))
qed simp

lemma phish_run_writes:
  assumes ok: "files_ok env content" "files_work env" and c: "flags_fit c" "\<not> fg_ShowVersion c"
    and run: "Analyzer_Run (mn_phish env) (mn_analyzer env) (config_of c) w = Some (report, None, w1)"
  shows "\<exists>v1. phish_run env (phish_args c) w v = Some (0, Main_Written (filepath_Clean (fg_Output c)), w1, v1) \<and>
    content v1 (filepath_Clean (fg_Output c)) =
      Some (concat (report_chunks (mn_report env) (prepareTemplateData (mn_report env) report)))"
proof -
  let ?path = "filepath_Clean (fg_Output c)"
  have flags: "parse_flags (phish_flags (mn_float env)) (phish_args c) flag_defaults = Inr ([], c)"
    using phish_args_read_back [OF c(1), of "[]"] by simp
  obtain v0 where v0: "mn_MkdirAll env v (filepath_Dir ?path) = (None, v0)"
    using ok(2) by (metis files_work_def prod.collapse)
  obtain v2 where v2: "mn_Create env v0 ?path = (None, v2)"
    using ok(2) by (metis files_work_def prod.collapse)
  have "fst (Generate (mn_report env) (mn_Write env ?path) report v2) = None"
    using ok(2) unfolding Generate_def files_work_def by (intro write_chunks_work) blast
  then obtain v1 where v1: "Generate (mn_report env) (mn_Write env ?path) report v2 = (None, v1)"
    by (metis prod.collapse)
  have all: "phish_run env (phish_args c) w v = Some (0, Main_Written ?path, w1, v1)"
    by (simp add: phish_run_def flags c(2) v0 run v2 v1)
  obtain c' report' where "parse_flags (phish_flags (mn_float env)) (phish_args c) flag_defaults = Inr ([], c')"
    "Analyzer_Run (mn_phish env) (mn_analyzer env) (config_of c') w = Some (report', None, w1)"
    "content v1 ?path = Some (concat (report_chunks (mn_report env) (prepareTemplateData (mn_report env) report')))"
    using phish_run_written [OF ok(1) all] flags by fastforce
  then show ?thesis using all flags run by auto
qed

end
