(* ===== verification/Example_Service.thy ===== *)
theory Example_Service
  imports Http_Server
begin

text \<open>
  A small deployment on which properties are evaluated: one registry that knows every domain of .org, a
  server that answers every request, counted by the world, and a memory cache.
\<close>

definition demo_entity :: rdap_entity where
  "demo_entity = RdapEntity ''H'' [''registrant''] None [] [] [] [] []"

definition demo_domain :: rdap_domain where
  "demo_domain = \<lparr>rd_LDHName = ''x.org'', rd_UnicodeName = [], rd_Status = [], rd_Events = [],
     rd_Entities = [demo_entity], rd_Nameservers = [], rd_SecureDNS = None\<rparr>"

definition counting_http :: "nat http_client" where
  "counting_http n url ua =
     (\<lparr>ho_error = None, ho_status = 200,
       ho_body = ([if contains url ''/entity/'' then ''e'' else ''d''], None)\<rparr>, Suc n)"

definition demo_rdap :: "'w rdap_env" where
  "demo_rdap = \<lparr>re_wait = (\<lambda>w d. (None, w)),
     re_decode = (\<lambda>body. if body = ''e'' then Inr (Obj_Entity demo_entity) else Inr (Obj_Domain demo_domain))\<rparr>"

definition demo_client :: "'w http_client \<Rightarrow> ('w, unit) rdap_client" where
  "demo_client http = \<lparr>rc_httpClient = http, rc_resolver = None, rc_maxRetries = 2, rc_userAgent = ''ua''\<rparr>"

definition unit_ranger :: "unit ranger_ops" where
  "unit_ranger = \<lparr>cr_new = (), cr_insert = (\<lambda>_ _. Inr ()), cr_containing = (\<lambda>_ _. Inr [])\<rparr>"

definition demo_bootstrap :: "unit Bootstrap" where
  "demo_bootstrap =
     (let b = NewBootstrap unit_ranger in b\<lparr>bs_DNS := (bs_DNS b)\<lparr>dns_tldToURLs := [''org'' \<mapsto> [''https://rdap.x.org'']]\<rparr>\<rparr>)"

definition demo_service :: "unit service" where
  "demo_service = NewService\<lparr>bv_resolver := Some demo_bootstrap\<rparr>"

type_synonym list_cache = "(nat \<times> (string \<times> Entry) list) MemoryCache"

definition demo_cache :: "(list_cache, list_cache) TieredCache" where
  "demo_cache = NewTieredCacheWithBackends
     (NewMemoryCache (9, []) 10000) None
     \<lparr>cf_DefaultTTL = 100, cf_NegativeTTL = 10, cf_L1PromotionTTL = 20, cf_EnableL2Writes = True,
      cf_FetchTimeout = 0\<rparr>"

definition demo_handler :: "'w http_client \<Rightarrow> ('w, unit, list_cache, list_cache) LookupHandler" where
  "demo_handler http = NewLookupHandler (\<lambda>_. [''https://rdap.x.org'']) 0 (demo_client http) demo_service demo_cache
     \<lparr>ba_Concurrency = 10, ba_Timeout = 1\<rparr> 0"

definition demo_net :: network where
  "demo_net addr timeout = \<lparr>cn_dial = Some (OtherError ''refused''), cn_deadline = None, cn_write = (\<lambda>_. None),
     cn_reply = (\<lambda>_. ([], None))\<rparr>"

definition demo_env :: "('w, unit, list_cache, list_cache) lookup_env" where
  "demo_env = \<lparr>en_rdap = demo_rdap, en_ranger = unit_ranger, en_l1 = memory_ops list_lru,
     en_l2 = memory_ops list_lru, en_net = demo_net,
     en_marshal = (\<lambda>p. Inr (case p of P_Domain _ \<Rightarrow> ''domain'' | _ \<Rightarrow> ''other''))\<rparr>"

definition at_time :: "int \<Rightarrow> lookup_times" where
  "at_time n = \<lparr>lt_cache = (n, n, n), lt_ctx = None, lt_whois = (n, n, n)\<rparr>"

text \<open>A server that is down, and the requests that were made to it.\<close>

definition failing :: "nat \<Rightarrow> http_outcome" where
  "failing status = \<lparr>ho_error = None, ho_status = status, ho_body = ([], None)\<rparr>"

definition logging_http :: "string list http_client" where
  "logging_http w url ua = (failing 503, w @ [url])"

text \<open>The program with that service: nothing is configured, and the router compares paths.\<close>

definition free_bucket :: "(unit, unit) bucket_ops" where
  "free_bucket = \<lparr>bo_New = (\<lambda>_ _. ()), bo_Quarter = (\<lambda>_. ()), bo_Allow = (\<lambda>_ _. (True, ()))\<rparr>"

definition empty_environment :: "unit environment" where
  "empty_environment = \<lparr>ev_get = (\<lambda>_. []), ev_float = (\<lambda>_ _ _. 0), ev_ParseFloat = (\<lambda>_. None)\<rparr>"

definition demo_app :: "(nat, unit, list_cache, list_cache) app_env" where
  "demo_app = \<lparr>ap_loaded = Inr demo_bootstrap, ap_http = (\<lambda>_ _. counting_http),
     ap_NewMemoryCache = (\<lambda>n size. Inr (NewMemoryCache (nat n, []) size)),
     ap_NewRedisCache = (\<lambda>_. Inl (OtherError ''refused'')), ap_list = (\<lambda>_. [''https://rdap.x.org'']), ap_now = 0\<rparr>"

definition demo_route :: "route_table \<Rightarrow> request \<Rightarrow> (endpoint \<times> string) option" where
  "demo_route table rq =
     map_option (\<lambda>(_, _, ep). (ep, []))
       (find (\<lambda>(verb, path, _). verb = rq_Method rq \<and> path = rq_Path rq) table)"

definition demo_server_env :: "(unit, unit) server_env" where
  "demo_server_env = \<lparr>se_route = demo_route, se_ExtractIPDirect = rq_RemoteAddr, se_ExtractIPFromXFF = rq_Forwarded,
     se_bucket = free_bucket, se_hostname = ''host'',
     se_ping = None\<rparr>"

definition demo_request :: "string \<Rightarrow> string \<Rightarrow> request" where
  "demo_request verb path = \<lparr>rq_Method = verb, rq_Path = path, rq_RequestID = [], rq_RemoteAddr = ''192.0.2.9'',
     rq_Forwarded = [], rq_Server = [], rq_Batch = Some []\<rparr>"

section \<open>What it does\<close>

lemma demo_ready [simp]: "IsReady demo_service"
  by (simp add: IsReady_def demo_service_def)

lemma logging_traced: "rc_httpClient c = logging_http \<Longrightarrow> traced demo_rdap c (\<lambda>w. w)"
  by (simp add: traced_def logging_http_def demo_rdap_def)

lemma demo_handler_sel [simp]:
  "lh_client (demo_handler http) = demo_client http" "lh_bootstrap (demo_handler http) = demo_service"
  "lh_cache (demo_handler http) = demo_cache"
  by (simp_all add: demo_handler_def NewLookupHandler_def)

text \<open>Every request to a URL that parses is answered at once.\<close>

lemma demo_reply:
  assumes "url_Parse url \<noteq> None" "rc_httpClient c = counting_http"
  shows "rdap_doQuery demo_rdap c url n =
    (Inr (if contains url ''/entity/'' then Obj_Entity demo_entity else Obj_Domain demo_domain), Suc n)"
  using assms
  by (auto simp: rdap_doQuery_def counting_http_def reply_result_def status_error_def limit_reader_def
      maxResponseSize_def demo_rdap_def object_result_def)

lemma demo_query:
  assumes "url_Parse (base_url u @ path) \<noteq> None" "rc_httpClient c = counting_http" "rc_maxRetries c = 2"
  shows "queryWithRetry demo_rdap c (u # us) path n =
    (Inr (if contains (base_url u @ path) ''/entity/'' then Obj_Entity demo_entity else Obj_Domain demo_domain), Suc n)"
proof -
  obtain m where m: "nat (rc_maxRetries c + 1) = Suc m" using assms(3) by simp
  have "try_attempts demo_rdap c (base_url u @ path) 0 (Suc m) None n =
    (Inl (Inr (if contains (base_url u @ path) ''/entity/'' then Obj_Entity demo_entity else Obj_Domain demo_domain)), Suc n)"
    by (subst try_attempts_step [OF _ demo_reply [OF assms(1,2)]]) (simp, simp)
  then show ?thesis by (simp add: queryWithRetry_def m)
qed

lemma demo_urls:
  "url_Parse ''https://rdap.x.org/domain/x.org'' \<noteq> None"
  "url_Parse ''https://rdap.x.org/entity/H'' \<noteq> None"
  by code_simp+

lemma demo_resolve: "DNS_ResolveDomain (bs_DNS demo_bootstrap) ''x.org'' = Inr [''https://rdap.x.org'']"
proof -
  have "extractTLD ''x.org'' = ''org'' \<and> to_lower ''org'' = ''org''" by code_simp
  then show ?thesis
    by (simp add: demo_bootstrap_def DNS_ResolveDomain_def dns_empty_def Let_def)
qed

lemma demo_fetch:
  "fetchDomainData demo_env t ''x.org'' (demo_handler counting_http) n = Some (Inr ''domain'', current_resolver (demo_handler counting_http), Suc n)"
proof -
  have strs: "rdap_normalize ''x.org'' = ''x.org'' \<and> PathEscape ''x.org'' = ''x.org'' \<and>
      base_url ''https://rdap.x.org'' @ ''domain/x.org'' = ''https://rdap.x.org/domain/x.org'' \<and>
      \<not> contains ''https://rdap.x.org/domain/x.org'' ''/entity/''"
    by code_simp
  let ?c = "lh_client (current_resolver (demo_handler counting_http))"
  have c: "rc_httpClient ?c = counting_http" "rc_maxRetries ?c = 2" "rc_resolver ?c = Some demo_bootstrap"
    by (simp_all add: current_resolver_def Client_SetResolver_def demo_client_def demo_service_def)
  have "queryWithRetry demo_rdap ?c [''https://rdap.x.org''] ''domain/x.org'' n = (Inr (Obj_Domain demo_domain), Suc n)"
    using demo_query [of "''https://rdap.x.org''" "''domain/x.org''" ?c "[]" n] strs demo_urls(1) c by simp
  then have "QueryDomain demo_rdap ?c ''x.org'' n = Some (Inr demo_domain, Suc n)"
    using strs c demo_resolve by (simp add: QueryDomain_def query_servers_def expect_def as_domain_def)
  then show ?thesis
    by (simp add: fetchDomainData_def demo_env_def TransformDomain_def Let_def)
qed

text \<open>The cache is empty: it calls the fetch.\<close>

lemma demo_cache_first:
  "fst (GetOrFetchWithNegative (memory_ops list_lru) (memory_ops list_lru) demo_cache (0, 0, 0)
     (BuildKey KeyPrefixDomain ''x.org'') (Inl (OtherError [])) Rdap_ErrNotFound) = (Inl (OtherError []), False, True)"
  "fst (GetOrFetchWithNegative (memory_ops list_lru) (memory_ops list_lru) demo_cache (0, 0, 0)
     (BuildKey KeyPrefixDomain ''x.org'') (Inr ''domain'') Rdap_ErrNotFound) = (Inr ''domain'', False, True)"
  by code_simp+

lemma demo_cache_entity:
  "fst (GetOrFetchWithNegative (memory_ops list_lru) (memory_ops list_lru) demo_cache (0, 0, 0)
     (entity_key ''https://rdap.x.org'' ''443:H'') (Inl (OtherError [])) Rdap_ErrNotFound) = (Inl (OtherError []), False, True)"
  "fst (GetOrFetchWithNegative (memory_ops list_lru) (memory_ops list_lru) demo_cache (0, 0, 0)
     (entity_key ''https://rdap.x.org'' ''443:H'') (Inr ''other'') Rdap_ErrNotFound) = (Inr ''other'', False, True)"
  by code_simp+

lemma demo_env_sel [simp]:
  "en_l1 demo_env = memory_ops list_lru" "en_l2 demo_env = memory_ops list_lru" "en_rdap demo_env = demo_rdap"
  by (simp_all add: demo_env_def)

text \<open>The first lookup of a domain makes one request.\<close>

lemma demo_domain_valid: "to_lower (trim_space ''x.org'') = ''x.org'' \<and> ValidateDomain ''x.org'' = None"
  by code_simp

lemma demo_lookup:
  "\<exists>h1. LookupDomain demo_env (at_time 0) ''x.org'' (demo_handler counting_http) 0 = Some (respondWithData ''domain'' False, h1, 1)"
  using demo_cache_first demo_domain_valid demo_fetch [of "at_time 0" 0]
  by (auto simp: LookupDomain_def answer_def via_cache_def at_time_def respond_def Let_def split: prod.split)

text \<open>The allowlist holds one host.\<close>

lemma demo_allowed:
  "IsAllowed (lh_serverValidator (demo_handler http)) ''https://rdap.x.org'' = None"
  "IsAllowed (lh_serverValidator (demo_handler http)) ''https://rdap.x.org:443'' = None"
proof -
  have "lh_serverValidator (demo_handler http) = NewRDAPServerValidator 0 [''https://rdap.x.org'']"
    by (simp add: demo_handler_def NewLookupHandler_def allowlist_servers_def demo_service_def)
  moreover have "IsAllowed (NewRDAPServerValidator 0 [''https://rdap.x.org'']) ''https://rdap.x.org'' = None"
    "IsAllowed (NewRDAPServerValidator 0 [''https://rdap.x.org'']) ''https://rdap.x.org:443'' = None"
    by code_simp+
  ultimately show "IsAllowed (lh_serverValidator (demo_handler http)) ''https://rdap.x.org'' = None"
    "IsAllowed (lh_serverValidator (demo_handler http)) ''https://rdap.x.org:443'' = None"
    by simp_all
qed

text \<open>The first lookup of an entity, whose handle looks like a port.\<close>

lemma demo_entity:
  "\<exists>h1. LookupEntity demo_env (at_time 0) ''443:H'' ''https://rdap.x.org'' (demo_handler counting_http) 0 =
     Some (respondWithData ''other'' False, h1, 1)"
proof -
  have strs: "trim_space ''443:H'' = ''443:H'' \<and> PathEscape ''443:H'' = ''443:H'' \<and>
      base_url ''https://rdap.x.org'' @ ''entity/443:H'' = ''https://rdap.x.org/entity/443:H'' \<and>
      contains ''https://rdap.x.org/entity/443:H'' ''/entity/''"
    by code_simp
  have "url_Parse ''https://rdap.x.org/entity/443:H'' \<noteq> None" by code_simp
  then have "queryWithRetry demo_rdap (demo_client counting_http) [''https://rdap.x.org''] ''entity/443:H'' 0 =
      (Inr (Obj_Entity demo_entity), 1)"
    using demo_query [of "''https://rdap.x.org''" "''entity/443:H''" "demo_client counting_http" "[]" 0] strs
    by (simp add: demo_client_def)
  then have "QueryEntity demo_rdap (demo_client counting_http) ''443:H'' ''https://rdap.x.org'' 0 =
      (Inr demo_entity, 1)"
    using strs by (simp add: QueryEntity_def expect_def as_entity_def)
  then have "fetchEntityData demo_env ''443:H'' ''https://rdap.x.org'' (demo_handler counting_http) 0 =
      Some (Inr ''other'', demo_handler counting_http, 1)"
    by (simp add: fetchEntityData_def demo_env_def)
  then show ?thesis
    using demo_cache_entity strs
    by (auto simp: demo_allowed LookupEntity_def answer_def via_cache_def at_time_def respond_def Let_def split: prod.split)
qed

text \<open>The program starts.\<close>

lemma demo_app_starts: "\<exists>s. app_setup () empty_environment ''v1'' ''c1'' demo_app = Inr s \<and> ws_lookupHandler s \<noteq> None"
proof -
  obtain cfg where cfg: "Load () empty_environment = Inr cfg"
    using Load_defaults [of empty_environment "()"] by (auto simp: empty_environment_def)
  then have "cfg = read_config () empty_environment" using Load_valid [OF cfg] by simp
  then have "\<not> rd_Enabled (ca_Redis (cg_Cache cfg))"
    by (simp add: read_config_def env_readers env_or_def empty_environment_def)
  then show ?thesis
    using cfg by (simp add: app_setup_def demo_app_def NewTieredCache_def NewServer_def Let_def)
qed

end
