(* ===== verification/Example_Clients.thy ===== *)
theory Example_Clients
  imports Example_Service Phish_Report
begin

text \<open>
  The programs around the clients on concrete inputs: a standalone client whose registry is the one of
  \<open>Example_Service\<close>, a REST client whose server is down, and a feed with three phishing URLs.
\<close>

definition offline :: "(nat, unit, list_cache) StandaloneClient" where
  "offline = \<lparr>st_config = default_standalone, st_resolver = None, st_once = None, st_client = demo_client counting_http,
     st_cache = None, st_closed = False\<rparr>"

definition offline_env :: "(nat, unit, list_cache) standalone_env" where
  "offline_env = \<lparr>sn_rdap = demo_rdap, sn_ranger = unit_ranger, sn_cache = memory_ops list_lru,
     sn_load = Inl (OtherError ''dial''), sn_suffixes = \<lparr>ps_EffectiveTLDPlusOne = Some, ps_PublicSuffix = (\<lambda>s. s)\<rparr>,
     sn_list = (\<lambda>_. []), sn_now = (0, 0)\<rparr>"

definition no_codec :: "'a codec" where
  "no_codec = \<lparr>cd_Marshal = (\<lambda>_. None), cd_Unmarshal = (\<lambda>_. None), cd_mark = (\<lambda>x. x)\<rparr>"

definition no_codecs :: codecs where
  "no_codecs = \<lparr>co_domain = no_codec, co_ip = no_codec, co_asn = no_codec, co_entity = no_codec\<rparr>"

lemma no_codecs_ok [simp]: "codecs_ok no_codecs"
  by (simp add: codecs_ok_def codec_ok_def no_codecs_def no_codec_def)

definition nothing_decoded :: "'a unmarshal" where
  "nothing_decoded s v = (Some (OtherError ''invalid character''), v)"

definition demo_rest :: rest_codecs where
  "demo_rest = \<lparr>rj_domain = nothing_decoded, rj_ip = nothing_decoded, rj_asn = nothing_decoded,
     rj_entity = nothing_decoded, rj_batch = nothing_decoded, rj_marshal = (\<lambda>_. Inr ''{}'')\<rparr>"

definition demo_cli :: "(nat, unit, list_cache) cli_env" where
  "demo_cli = \<lparr>ce_getenv = (\<lambda>_. []), ce_float = (\<lambda>_ _ _. 0), ce_http = (\<lambda>_ _. counting_http),
     ce_NewMemoryCache = (\<lambda>size. Inr (NewMemoryCache (9, []) size)),
     ce_standalone = offline_env\<lparr>sn_load := Inr demo_bootstrap\<rparr>, ce_codecs = no_codecs, ce_error_text = (\<lambda>_. ''error''),
     ce_order = (\<lambda>n. [0..<n]), ce_batch_ms = 0, ce_transport = (\<lambda>_ w _. (failing 503, w)),
     ce_api = \<lparr>ae_wait = (\<lambda>w d. (None, w)), ae_error = (\<lambda>_. None)\<rparr>, ce_rest = demo_rest, ce_meta = nothing_decoded,
     ce_json = (\<lambda>_. Inr ''{}''), ce_stdin = (''domain:x.org'', None), ce_stat = (\<lambda>p. p = ''queries.txt''),
     ce_open = (\<lambda>p. Inr (''domain:x.org'' @ [CHR 0x0A] @ ''ip:192.0.2.1'' @ [CHR 0x0A], None))\<rparr>"

text \<open>Three URLs on two domains.\<close>

definition demo_entry :: "string \<Rightarrow> unit PhishingEntry" where
  "demo_entry u = \<lparr>py_ID = 1, py_URL = u, py_IP = ''192.0.2.1'', py_CountryCode = [], py_ASN = [], py_TLD = [],
     py_Date = [], py_Title = [], py_Score = ()\<rparr>"

definition demo_entries :: "unit PhishingEntry list" where
  "demo_entries = map demo_entry [''https://x.org/a'', ''https://y.org/'', ''https://x.org/b'']"

definition demo_feed :: "(nat, unit) phish_env" where
  "demo_feed = \<lparr>pv_Do = (\<lambda>w url ua. (\<lparr>ho_error = None, ho_status = 200, ho_body = ([], None)\<rparr>, w)),
     pv_Decode = (\<lambda>_. Inr demo_entries)\<rparr>"

definition demo_analyzer :: "(nat, unit, list_cache) analyzer_env" where
  "demo_analyzer = \<lparr>az_http = (\<lambda>_ _. counting_http), az_NewMemoryCache = (\<lambda>size. Inr (NewMemoryCache (9, []) size)),
     az_transport = (\<lambda>_ w _. (failing 503, w)), az_ops = any_ops demo_cli,
     az_suffixes = sn_suffixes (ce_standalone demo_cli), az_range = (\<lambda>xs. xs), az_clock = (\<lambda>i. (0, int i * 10 ^ 6, 0)),
     az_ip_clock = (\<lambda>_. (0, 0, 0)), az_generated = 0, az_bootstrap = (0, 0), az_total = (0, 0)\<rparr>"

definition demo_analysis :: AnalysisConfig where
  "demo_analysis = \<lparr>ax_Count = 3, ax_Timeout = seconds 30, ax_CacheSize = 0, ax_CacheTTL = hours 1, ax_NoCache = True,
     ax_IPLookup = False, ax_ServerURL = []\<rparr>"

lemma demo_fetched: "FetchPhishingURLs demo_feed (ax_Count demo_analysis) w = (Inr demo_entries, w)"
proof -
  have "url_Parse (phish_url 3) \<noteq> None" by code_simp
  then show ?thesis by (simp add: FetchPhishingURLs_def demo_feed_def demo_analysis_def)
qed

lemma demo_analyzer_client: "\<exists>client. analyzer_createClient demo_analyzer demo_analysis = Inr client"
  by (simp add: analyzer_createClient_def demo_analyzer_def demo_analysis_def NewStandaloneClient_def Let_def)

lemma demo_analyzer_parts:
  "az_ops demo_analyzer = any_ops demo_cli" "codecs_ok (ce_codecs demo_cli)" "mset (az_range demo_analyzer xs) = mset xs"
  by (simp_all add: demo_analyzer_def demo_cli_def)

text \<open>A report over floats that are not looked at.\<close>

definition demo_report_env :: "unit report_env" where
  "demo_report_env = \<lparr>pe_text = (\<lambda>_. ''not found''), pe_range = sorted_list_of_set, pe_percent = (\<lambda>_ _. ()), pe_zero = (),
     pe_show1 = (\<lambda>_. ''0.0''), pe_sort_stats = by_count ts_Count, pe_sort_dist = by_count db_Count,
     pe_sort_errors = by_count es_Count\<rparr>"

end
