(* ===== verification/Metrics.thy ===== *)
theory Metrics
  imports GoErrors "HOL-Library.Char_ord" "HOL-Library.List_Lexorder"
begin

text \<open>
  \<open>internal/metrics/metrics.go\<close>: the metrics of the service, their registration and the collector of the
  caches.  The Prometheus library is a parameter: a registry with an operation that adds a collector.  What a
  metric holds is kept here as the calls made on it; observed durations are in nanoseconds.
\<close>

section \<open>The metrics\<close>

datatype metric_kind = Counter | Gauge | Histogram "nat list"

text \<open>The bounds of the buckets of a histogram are in units of 0.0001.\<close>

record metric_desc =
  md_Name :: string
  md_Help :: string
  md_Labels :: "string list"
  md_Kind :: metric_kind

definition BuildFQName :: "string \<Rightarrow> string \<Rightarrow> string" where
  "BuildFQName subsystem name =
     (if name = [] then [] else if subsystem \<noteq> [] then subsystem @ ''_'' @ name else name)"

definition counter :: "string \<Rightarrow> string list \<Rightarrow> string \<Rightarrow> metric_desc" where
  "counter name labels h = \<lparr>md_Name = name, md_Help = h, md_Labels = labels, md_Kind = Counter\<rparr>"

definition gauge :: "string \<Rightarrow> string list \<Rightarrow> string \<Rightarrow> metric_desc" where
  "gauge name labels h = \<lparr>md_Name = name, md_Help = h, md_Labels = labels, md_Kind = Gauge\<rparr>"

definition histogram :: "string \<Rightarrow> string list \<Rightarrow> nat list \<Rightarrow> string \<Rightarrow> metric_desc" where
  "histogram name labels buckets h =
     \<lparr>md_Name = name, md_Help = h, md_Labels = labels, md_Kind = Histogram buckets\<rparr>"

text \<open>The fields of \<open>Metrics\<close>, and what \<open>New\<close> makes them.\<close>

datatype metric =
    HTTPRequestsInFlight | CacheHitsTotal | CacheMissesTotal
  | CacheSizeBytes | CacheEntries | CacheEvictionsTotal
  | CacheOperationDuration | CachePromotionsTotal | CachePromotionErrors
  | CacheSingleflightTotal | CacheL2WriteErrorsTotal | RDAPUpstreamRequestsTotal
  | RDAPUpstreamRequestDuration | RDAPUpstreamErrorsTotal | RDAPUpstreamResponseSize
  | RDAPUpstreamRetriesTotal | RDAPUpstreamRateLimited | RDAPClientRequestsTotal
  | RDAPClientRequestDuration | BootstrapLastRefresh | BootstrapTLDsLoaded
  | BootstrapRefreshErrors | BootstrapIPRanges | BootstrapASNRanges
  | LookupsTotal | LookupOutcomes | LookupSource
  | BatchRequestsTotal | BatchSizeHistogram | SecurityEventsTotal
  | SSRFAllowlistAge | SSRFAllowlistStale | RateLimiterEntries
  | RateLimiterAtCapacity | RateLimiterSubnetEntries | WHOISRequestsTotal
  | WHOISRequestDuration | WHOISFallbackTotal | WHOISParseErrorsTotal
  | WHOISResponseSizeBytes | WHOISDiscoveryTotal | WHOISDiscoveryDuration
  | WHOISServersCached

definition cache_metrics :: "(metric \<times> metric_desc) list" where
  "cache_metrics =
     [(HTTPRequestsInFlight, gauge (BuildFQName ''rdap'' ''http_requests_in_flight'') []
        ''Current number of HTTP requests being processed''),
      (CacheHitsTotal, counter (BuildFQName '''' ''rdap_cache_hits_total'') [''layer'']
        ''Total number of cache hits''),
      (CacheMissesTotal, counter (BuildFQName '''' ''rdap_cache_misses_total'') [''layer'']
        ''Total number of cache misses''),
      (CacheSizeBytes, gauge (BuildFQName '''' ''rdap_cache_size_bytes'') [''layer'']
        ''Current cache size in bytes''),
      (CacheEntries, gauge (BuildFQName '''' ''rdap_cache_entries'') [''layer'']
        ''Current number of cache entries''),
      (CacheEvictionsTotal, counter (BuildFQName '''' ''rdap_cache_evictions_total'') [''layer'']
        ''Total number of cache evictions''),
      (CacheOperationDuration, histogram (BuildFQName '''' ''rdap_cache_operation_duration_seconds'') [''layer'', ''operation''] [1, 5, 10, 50, 100, 500, 1000]
        ''Cache operation duration in seconds''),
      (CachePromotionsTotal, counter (BuildFQName '''' ''rdap_cache_promotions_total'') []
        ''Total number of cache promotions from L2 to L1''),
      (CachePromotionErrors, counter (BuildFQName '''' ''rdap_cache_promotion_errors_total'') []
        ''Total number of failed cache promotions from L2 to L1''),
      (CacheL2WriteErrorsTotal, counter (BuildFQName '''' ''rdap_cache_l2_write_errors_total'') []
        ''Total number of L2 cache write failures''),
      (CacheSingleflightTotal, counter (BuildFQName '''' ''rdap_cache_singleflight_total'') [''result'']
        ''Total number of singleflight operations'')]"

definition upstream_metrics :: "(metric \<times> metric_desc) list" where
  "upstream_metrics =
     [(RDAPUpstreamRequestsTotal, counter (BuildFQName '''' ''rdap_upstream_requests_total'') [''server'', ''status'']
        ''Total number of upstream RDAP requests''),
      (RDAPUpstreamRequestDuration, histogram (BuildFQName '''' ''rdap_upstream_request_duration_seconds'') [''server''] [1000, 2500, 5000, 10000, 25000, 50000, 100000]
        ''Upstream RDAP request duration in seconds''),
      (RDAPUpstreamErrorsTotal, counter (BuildFQName '''' ''rdap_upstream_errors_total'') [''server'', ''error_type'']
        ''Total number of upstream RDAP errors''),
      (RDAPUpstreamResponseSize, histogram (BuildFQName '''' ''rdap_upstream_response_size_bytes'') [''server''] [10240000, 40960000, 163840000, 655360000, 2621440000, 10485760000]
        ''Upstream RDAP response size in bytes''),
      (RDAPUpstreamRetriesTotal, counter (BuildFQName '''' ''rdap_upstream_retries_total'') [''server'']
        ''Total number of upstream RDAP request retries''),
      (RDAPUpstreamRateLimited, counter (BuildFQName '''' ''rdap_upstream_rate_limited_total'') [''server'']
        ''Total number of upstream RDAP rate limit responses (429)''),
      (RDAPClientRequestsTotal, counter (BuildFQName '''' ''rdap_client_requests_total'') [''type'', ''status'']
        ''Total number of RDAP client requests by type and status''),
      (RDAPClientRequestDuration, histogram (BuildFQName '''' ''rdap_client_request_duration_seconds'') [''type''] [1000, 2500, 5000, 10000, 25000, 50000, 100000]
        ''RDAP client request duration in seconds'')]"

definition bootstrap_metrics :: "(metric \<times> metric_desc) list" where
  "bootstrap_metrics =
     [(BootstrapLastRefresh, gauge (BuildFQName '''' ''rdap_bootstrap_last_refresh_timestamp'') []
        ''Unix timestamp of last successful bootstrap refresh''),
      (BootstrapTLDsLoaded, gauge (BuildFQName '''' ''rdap_bootstrap_tlds_loaded'') []
        ''Number of TLDs loaded from bootstrap''),
      (BootstrapRefreshErrors, counter (BuildFQName '''' ''rdap_bootstrap_refresh_errors_total'') []
        ''Total number of bootstrap refresh errors''),
      (BootstrapIPRanges, gauge (BuildFQName '''' ''rdap_bootstrap_ip_ranges_loaded'') []
        ''Number of IP ranges loaded from bootstrap''),
      (BootstrapASNRanges, gauge (BuildFQName '''' ''rdap_bootstrap_asn_ranges_loaded'') []
        ''Number of ASN ranges loaded from bootstrap'')]"

definition business_metrics :: "(metric \<times> metric_desc) list" where
  "business_metrics =
     [(LookupsTotal, counter (BuildFQName '''' ''rdap_lookups_total'') [''type'']
        ''Total number of RDAP lookups''),
      (LookupOutcomes, counter (BuildFQName '''' ''rdap_lookup_outcomes_total'') [''type'', ''outcome'']
        ''Total number of RDAP lookup outcomes''),
      (LookupSource, counter (BuildFQName '''' ''rdap_lookup_source_total'') [''type'', ''source'']
        ''Total number of RDAP lookups by data source''),
      (BatchRequestsTotal, counter (BuildFQName '''' ''rdap_batch_requests_total'') []
        ''Total number of batch lookup requests''),
      (BatchSizeHistogram, histogram (BuildFQName '''' ''rdap_batch_size'') [] [10000, 50000, 100000, 250000, 500000, 1000000]
        ''Distribution of batch request sizes''),
      (SecurityEventsTotal, counter (BuildFQName '''' ''rdap_security_events_total'') [''event_type'']
        ''Total security events by type (validation_failed, ssrf_blocked, rate_limited, invalid_server)''),
      (SSRFAllowlistAge, gauge (BuildFQName '''' ''rdap_ssrf_allowlist_age_seconds'') []
        ''Seconds since SSRF allowlist was last updated''),
      (SSRFAllowlistStale, gauge (BuildFQName '''' ''rdap_ssrf_allowlist_stale'') []
        ''1 if SSRF allowlist is stale (>2x refresh interval), 0 otherwise''),
      (RateLimiterEntries, gauge (BuildFQName '''' ''rdap_rate_limiter_entries'') []
        ''Current number of IP rate limiter entries''),
      (RateLimiterAtCapacity, counter (BuildFQName '''' ''rdap_rate_limiter_at_capacity_total'') []
        ''Number of times rate limiter reached capacity''),
      (RateLimiterSubnetEntries, gauge (BuildFQName '''' ''rdap_rate_limiter_subnet_entries'') []
        ''Current number of subnet rate limiter entries (fallback)'')]"

definition whois_metrics :: "(metric \<times> metric_desc) list" where
  "whois_metrics =
     [(WHOISRequestsTotal, counter (BuildFQName '''' ''rdap_whois_requests_total'') [''server'', ''status'']
        ''Total number of WHOIS requests''),
      (WHOISRequestDuration, histogram (BuildFQName '''' ''rdap_whois_request_duration_seconds'') [''server''] [1000, 2500, 5000, 10000, 25000, 50000, 100000]
        ''WHOIS request duration in seconds''),
      (WHOISFallbackTotal, counter (BuildFQName '''' ''rdap_whois_fallback_total'') [''tld'', ''reason'']
        ''Total number of WHOIS fallback events''),
      (WHOISParseErrorsTotal, counter (BuildFQName '''' ''rdap_whois_parse_errors_total'') [''tld'']
        ''Total number of WHOIS parse errors''),
      (WHOISResponseSizeBytes, histogram (BuildFQName '''' ''rdap_whois_response_size_bytes'') [''server''] [10240000, 20480000, 40960000, 81920000, 163840000, 327680000, 655360000]
        ''WHOIS response size in bytes''),
      (WHOISDiscoveryTotal, counter (BuildFQName '''' ''rdap_whois_discovery_total'') [''tld'', ''status'']
        ''Total number of WHOIS server discovery attempts''),
      (WHOISDiscoveryDuration, histogram (BuildFQName '''' ''rdap_whois_discovery_duration_seconds'') [] [1000, 2500, 5000, 10000, 25000, 50000, 100000]
        ''WHOIS server discovery (IANA query) duration in seconds''),
      (WHOISServersCached, gauge (BuildFQName '''' ''rdap_whois_servers_cached'') []
        ''Number of WHOIS servers in discovery cache'')]"

definition New_Metrics :: "(metric \<times> metric_desc) list" where
  "New_Metrics = cache_metrics @ upstream_metrics @ bootstrap_metrics @ business_metrics @ whois_metrics"

definition describe :: "metric \<Rightarrow> metric_desc" where
  "describe m = the (map_of New_Metrics m)"

lemma describe_simps [simp]:
  "describe HTTPRequestsInFlight = gauge (BuildFQName ''rdap'' ''http_requests_in_flight'') []
     ''Current number of HTTP requests being processed''"
  "describe CacheHitsTotal = counter (BuildFQName '''' ''rdap_cache_hits_total'') [''layer'']
     ''Total number of cache hits''"
  "describe CacheMissesTotal = counter (BuildFQName '''' ''rdap_cache_misses_total'') [''layer'']
     ''Total number of cache misses''"
  "describe CacheSizeBytes = gauge (BuildFQName '''' ''rdap_cache_size_bytes'') [''layer'']
     ''Current cache size in bytes''"
  "describe CacheEntries = gauge (BuildFQName '''' ''rdap_cache_entries'') [''layer'']
     ''Current number of cache entries''"
  "describe CacheEvictionsTotal = counter (BuildFQName '''' ''rdap_cache_evictions_total'') [''layer'']
     ''Total number of cache evictions''"
  "describe CacheOperationDuration = histogram (BuildFQName '''' ''rdap_cache_operation_duration_seconds'') [''layer'', ''operation''] [1, 5, 10, 50, 100, 500, 1000]
     ''Cache operation duration in seconds''"
  "describe CachePromotionsTotal = counter (BuildFQName '''' ''rdap_cache_promotions_total'') []
     ''Total number of cache promotions from L2 to L1''"
  "describe CachePromotionErrors = counter (BuildFQName '''' ''rdap_cache_promotion_errors_total'') []
     ''Total number of failed cache promotions from L2 to L1''"
  "describe CacheL2WriteErrorsTotal = counter (BuildFQName '''' ''rdap_cache_l2_write_errors_total'') []
     ''Total number of L2 cache write failures''"
  "describe CacheSingleflightTotal = counter (BuildFQName '''' ''rdap_cache_singleflight_total'') [''result'']
     ''Total number of singleflight operations''"
  "describe RDAPUpstreamRequestsTotal = counter (BuildFQName '''' ''rdap_upstream_requests_total'') [''server'', ''status'']
     ''Total number of upstream RDAP requests''"
  "describe RDAPUpstreamRequestDuration = histogram (BuildFQName '''' ''rdap_upstream_request_duration_seconds'') [''server''] [1000, 2500, 5000, 10000, 25000, 50000, 100000]
     ''Upstream RDAP request duration in seconds''"
  "describe RDAPUpstreamErrorsTotal = counter (BuildFQName '''' ''rdap_upstream_errors_total'') [''server'', ''error_type'']
     ''Total number of upstream RDAP errors''"
  "describe RDAPUpstreamResponseSize = histogram (BuildFQName '''' ''rdap_upstream_response_size_bytes'') [''server''] [10240000, 40960000, 163840000, 655360000, 2621440000, 10485760000]
     ''Upstream RDAP response size in bytes''"
  "describe RDAPUpstreamRetriesTotal = counter (BuildFQName '''' ''rdap_upstream_retries_total'') [''server'']
     ''Total number of upstream RDAP request retries''"
  "describe RDAPUpstreamRateLimited = counter (BuildFQName '''' ''rdap_upstream_rate_limited_total'') [''server'']
     ''Total number of upstream RDAP rate limit responses (429)''"
  "describe RDAPClientRequestsTotal = counter (BuildFQName '''' ''rdap_client_requests_total'') [''type'', ''status'']
     ''Total number of RDAP client requests by type and status''"
  "describe RDAPClientRequestDuration = histogram (BuildFQName '''' ''rdap_client_request_duration_seconds'') [''type''] [1000, 2500, 5000, 10000, 25000, 50000, 100000]
     ''RDAP client request duration in seconds''"
  "describe BootstrapLastRefresh = gauge (BuildFQName '''' ''rdap_bootstrap_last_refresh_timestamp'') []
     ''Unix timestamp of last successful bootstrap refresh''"
  "describe BootstrapTLDsLoaded = gauge (BuildFQName '''' ''rdap_bootstrap_tlds_loaded'') []
     ''Number of TLDs loaded from bootstrap''"
  "describe BootstrapRefreshErrors = counter (BuildFQName '''' ''rdap_bootstrap_refresh_errors_total'') []
     ''Total number of bootstrap refresh errors''"
  "describe BootstrapIPRanges = gauge (BuildFQName '''' ''rdap_bootstrap_ip_ranges_loaded'') []
     ''Number of IP ranges loaded from bootstrap''"
  "describe BootstrapASNRanges = gauge (BuildFQName '''' ''rdap_bootstrap_asn_ranges_loaded'') []
     ''Number of ASN ranges loaded from bootstrap''"
  "describe LookupsTotal = counter (BuildFQName '''' ''rdap_lookups_total'') [''type'']
     ''Total number of RDAP lookups''"
  "describe LookupOutcomes = counter (BuildFQName '''' ''rdap_lookup_outcomes_total'') [''type'', ''outcome'']
     ''Total number of RDAP lookup outcomes''"
  "describe LookupSource = counter (BuildFQName '''' ''rdap_lookup_source_total'') [''type'', ''source'']
     ''Total number of RDAP lookups by data source''"
  "describe BatchRequestsTotal = counter (BuildFQName '''' ''rdap_batch_requests_total'') []
     ''Total number of batch lookup requests''"
  "describe BatchSizeHistogram = histogram (BuildFQName '''' ''rdap_batch_size'') [] [10000, 50000, 100000, 250000, 500000, 1000000]
     ''Distribution of batch request sizes''"
  "describe SecurityEventsTotal = counter (BuildFQName '''' ''rdap_security_events_total'') [''event_type'']
     ''Total security events by type (validation_failed, ssrf_blocked, rate_limited, invalid_server)''"
  "describe SSRFAllowlistAge = gauge (BuildFQName '''' ''rdap_ssrf_allowlist_age_seconds'') []
     ''Seconds since SSRF allowlist was last updated''"
  "describe SSRFAllowlistStale = gauge (BuildFQName '''' ''rdap_ssrf_allowlist_stale'') []
     ''1 if SSRF allowlist is stale (>2x refresh interval), 0 otherwise''"
  "describe RateLimiterEntries = gauge (BuildFQName '''' ''rdap_rate_limiter_entries'') []
     ''Current number of IP rate limiter entries''"
  "describe RateLimiterAtCapacity = counter (BuildFQName '''' ''rdap_rate_limiter_at_capacity_total'') []
     ''Number of times rate limiter reached capacity''"
  "describe RateLimiterSubnetEntries = gauge (BuildFQName '''' ''rdap_rate_limiter_subnet_entries'') []
     ''Current number of subnet rate limiter entries (fallback)''"
  "describe WHOISRequestsTotal = counter (BuildFQName '''' ''rdap_whois_requests_total'') [''server'', ''status'']
     ''Total number of WHOIS requests''"
  "describe WHOISRequestDuration = histogram (BuildFQName '''' ''rdap_whois_request_duration_seconds'') [''server''] [1000, 2500, 5000, 10000, 25000, 50000, 100000]
     ''WHOIS request duration in seconds''"
  "describe WHOISFallbackTotal = counter (BuildFQName '''' ''rdap_whois_fallback_total'') [''tld'', ''reason'']
     ''Total number of WHOIS fallback events''"
  "describe WHOISParseErrorsTotal = counter (BuildFQName '''' ''rdap_whois_parse_errors_total'') [''tld'']
     ''Total number of WHOIS parse errors''"
  "describe WHOISResponseSizeBytes = histogram (BuildFQName '''' ''rdap_whois_response_size_bytes'') [''server''] [10240000, 20480000, 40960000, 81920000, 163840000, 327680000, 655360000]
     ''WHOIS response size in bytes''"
  "describe WHOISDiscoveryTotal = counter (BuildFQName '''' ''rdap_whois_discovery_total'') [''tld'', ''status'']
     ''Total number of WHOIS server discovery attempts''"
  "describe WHOISDiscoveryDuration = histogram (BuildFQName '''' ''rdap_whois_discovery_duration_seconds'') [] [1000, 2500, 5000, 10000, 25000, 50000, 100000]
     ''WHOIS server discovery (IANA query) duration in seconds''"
  "describe WHOISServersCached = gauge (BuildFQName '''' ''rdap_whois_servers_cached'') []
     ''Number of WHOIS servers in discovery cache''"
  unfolding describe_def New_Metrics_def cache_metrics_def upstream_metrics_def bootstrap_metrics_def
    business_metrics_def whois_metrics_def append_Cons append_Nil
  by (simp_all only: map_of.simps fun_upd_apply fst_conv snd_conv option.sel metric.distinct if_True if_False simp_thms refl)

lemmas describe_defs = counter_def gauge_def histogram_def

section \<open>Registration\<close>

text \<open>The error of \<open>prometheus.Register\<close>; a collector is the list of what it describes.\<close>

datatype register_error = AlreadyRegistered | Refused go_error

type_synonym 'p register = "'p \<Rightarrow> metric_desc list \<Rightarrow> register_error option \<times> 'p"

definition metricCollectors :: "metric list" where
  "metricCollectors =
     [HTTPRequestsInFlight, CacheHitsTotal, CacheMissesTotal, CacheSizeBytes, CacheEntries,
      CacheEvictionsTotal, CacheOperationDuration, CachePromotionsTotal, CachePromotionErrors,
      CacheL2WriteErrorsTotal, CacheSingleflightTotal, RDAPUpstreamRequestsTotal,
      RDAPUpstreamRequestDuration, RDAPUpstreamErrorsTotal, RDAPUpstreamResponseSize,
      RDAPUpstreamRetriesTotal, RDAPUpstreamRateLimited, RDAPClientRequestsTotal,
      RDAPClientRequestDuration, BootstrapLastRefresh, BootstrapTLDsLoaded, BootstrapRefreshErrors,
      BootstrapIPRanges, BootstrapASNRanges, LookupsTotal, LookupOutcomes, LookupSource,
      BatchRequestsTotal, BatchSizeHistogram, SecurityEventsTotal, SSRFAllowlistAge, SSRFAllowlistStale,
      RateLimiterEntries, RateLimiterAtCapacity, RateLimiterSubnetEntries, WHOISRequestsTotal,
      WHOISRequestDuration, WHOISFallbackTotal, WHOISParseErrorsTotal, WHOISResponseSizeBytes,
      WHOISDiscoveryTotal, WHOISDiscoveryDuration, WHOISServersCached]"

text \<open>One call, with the error that counts.\<close>

definition register_one :: "'p register \<Rightarrow> metric_desc list \<Rightarrow> 'p \<Rightarrow> go_error option \<times> 'p" where
  "register_one reg c p =
     (case reg p c of (Some (Refused err), p1) \<Rightarrow> (Some err, p1) | (_, p1) \<Rightarrow> (None, p1))"

fun register_all :: "'p register \<Rightarrow> metric_desc list list \<Rightarrow> 'p \<Rightarrow> go_error option \<times> 'p" where
  "register_all reg [] p = (None, p)"
| "register_all reg (c # cs) p =
     (case register_one reg c p of (Some err, p1) \<Rightarrow> (Some err, p1) | (None, p1) \<Rightarrow> register_all reg cs p1)"

definition Metrics_Register :: "'p register \<Rightarrow> metric_desc list \<Rightarrow> 'p \<Rightarrow> go_error option \<times> 'p" where
  "Metrics_Register reg goCollector p = register_all reg (goCollector # map (\<lambda>m. [describe m]) metricCollectors) p"

text \<open>\<open>MustRegister\<close>; \<open>None\<close> is a panic.\<close>

definition MustRegister :: "'p register \<Rightarrow> metric_desc list \<Rightarrow> 'p \<Rightarrow> 'p option" where
  "MustRegister reg goCollector p =
     (case Metrics_Register reg goCollector p of (Some err, _) \<Rightarrow> None | (None, p1) \<Rightarrow> Some p1)"

text \<open>A registry: a collector is added when no name of it is taken, and known when all of it is there.\<close>

locale prometheus =
  fixes reg :: "'p register" and held :: "'p \<Rightarrow> metric_desc set"
  assumes reg_fresh: "\<lbrakk>c \<noteq> []; \<And>x y. \<lbrakk>x \<in> set c; y \<in> held p\<rbrakk> \<Longrightarrow> md_Name x \<noteq> md_Name y; distinct (map md_Name c)\<rbrakk> \<Longrightarrow>
      \<exists>p1. reg p c = (None, p1) \<and> held p1 = held p \<union> set c"
    and reg_again: "\<lbrakk>c \<noteq> []; set c \<subseteq> held p\<rbrakk> \<Longrightarrow> reg p c = (Some AlreadyRegistered, p)"
begin

lemma register_fresh:
  "\<lbrakk>[] \<notin> set cs; distinct (map md_Name (concat cs)); \<And>x y. \<lbrakk>x \<in> set (concat cs); y \<in> held p\<rbrakk> \<Longrightarrow> md_Name x \<noteq> md_Name y\<rbrakk> \<Longrightarrow>
   \<exists>p1. register_all reg cs p = (None, p1) \<and> held p1 = held p \<union> set (concat cs)"
proof (induction cs arbitrary: p)
  case (Cons c cs)
  obtain p1 where p1: "reg p c = (None, p1)" "held p1 = held p \<union> set c"
    using reg_fresh [of c p] Cons.prems by (auto simp: distinct_append)
  have "md_Name x \<noteq> md_Name y" if "x \<in> set (concat cs)" "y \<in> held p1" for x y
  proof (cases "y \<in> held p")
    case True
    then show ?thesis using Cons.prems(3) [of x y] that(1) by auto
  next
    case False
    then have "y \<in> set c" using that(2) p1(2) by blast
    then have "md_Name y \<in> md_Name ` set c \<and> md_Name x \<in> md_Name ` set (concat cs)" using that(1) by blast
    then show ?thesis using Cons.prems(2) by (force simp: distinct_append)
  qed
  then obtain p2 where "register_all reg cs p1 = (None, p2)" "held p2 = held p1 \<union> set (concat cs)"
    using Cons.IH [of p1] Cons.prems(1,2) by (auto simp: distinct_append)
  then show ?case using p1 by (auto simp: register_one_def)
qed simp

lemma register_again: "\<lbrakk>[] \<notin> set cs; set (concat cs) \<subseteq> held p\<rbrakk> \<Longrightarrow> register_all reg cs p = (None, p)"
  by (induction cs) (auto simp: register_one_def reg_again)

end

definition list_register :: "metric_desc list register" where
  "list_register p c =
     (if set c \<subseteq> set p then (Some AlreadyRegistered, p)
      else if set (map md_Name c) \<inter> set (map md_Name p) = {} \<and> distinct (map md_Name c) then (None, c @ p)
      else (Some (Refused (OtherError ''duplicate metrics collector registration attempted'')), p))"


interpretation list_registry: prometheus list_register set
proof
  fix c :: "metric_desc list" and p :: "metric_desc list"
  assume c: "c \<noteq> []" "\<And>x y. \<lbrakk>x \<in> set c; y \<in> set p\<rbrakk> \<Longrightarrow> md_Name x \<noteq> md_Name y" "distinct (map md_Name c)"
  then have "\<not> set c \<subseteq> set p" by (cases c) auto
  moreover have "set (map md_Name c) \<inter> set (map md_Name p) = {}" using c(2) by auto
  ultimately show "\<exists>p1. list_register p c = (None, p1) \<and> set p1 = set p \<union> set c"
    using c(3) by (auto simp: list_register_def)
qed (simp add: list_register_def)

section \<open>All metrics can be registered\<close>

lemma all_metrics: "set metricCollectors = UNIV"
proof -
  have "m \<in> set metricCollectors" for m by (cases m) (simp_all add: metricCollectors_def)
  then show ?thesis by auto
qed

text \<open>In the order of their names.\<close>

definition metrics_by_name :: "metric list" where
  "metrics_by_name =
     [BatchRequestsTotal, BatchSizeHistogram, BootstrapASNRanges, BootstrapIPRanges, BootstrapLastRefresh,
      BootstrapRefreshErrors, BootstrapTLDsLoaded, CacheEntries, CacheEvictionsTotal, CacheHitsTotal,
      CacheL2WriteErrorsTotal, CacheMissesTotal, CacheOperationDuration, CachePromotionErrors,
      CachePromotionsTotal, CacheSingleflightTotal, CacheSizeBytes, RDAPClientRequestDuration,
      RDAPClientRequestsTotal, HTTPRequestsInFlight, LookupOutcomes, LookupSource, LookupsTotal,
      RateLimiterAtCapacity, RateLimiterEntries, RateLimiterSubnetEntries, SecurityEventsTotal,
      SSRFAllowlistAge, SSRFAllowlistStale, RDAPUpstreamErrorsTotal, RDAPUpstreamRateLimited,
      RDAPUpstreamRequestDuration, RDAPUpstreamRequestsTotal, RDAPUpstreamResponseSize,
      RDAPUpstreamRetriesTotal, WHOISDiscoveryDuration, WHOISDiscoveryTotal, WHOISFallbackTotal,
      WHOISParseErrorsTotal, WHOISRequestDuration, WHOISRequestsTotal, WHOISResponseSizeBytes,
      WHOISServersCached]"

lemma by_name_increasing: "successively (<) (map (\<lambda>m. md_Name (describe m)) metrics_by_name)"
  by (simp add: metrics_by_name_def describe_defs BuildFQName_def)

lemma by_name_all: "set metrics_by_name = UNIV"
proof -
  have "m \<in> set metrics_by_name" for m by (cases m) (simp_all add: metrics_by_name_def)
  then show ?thesis by auto
qed

lemma by_name_distinct: "distinct (map (\<lambda>m. md_Name (describe m)) metrics_by_name)"
  using by_name_increasing by (simp add: successively_conv_sorted_wrt strict_sorted_iff)

lemma metric_names_distinct: "distinct (map (\<lambda>m. md_Name (describe m)) metricCollectors)"
proof -
  have "inj (\<lambda>m. md_Name (describe m))" "distinct metrics_by_name"
    using by_name_distinct by (simp_all add: distinct_map by_name_all)
  moreover have "length metricCollectors = length metrics_by_name"
    by (simp add: metricCollectors_def metrics_by_name_def)
  ultimately show ?thesis
    by (metis all_metrics by_name_all card_distinct distinct_card distinct_map)
qed

lemma metric_names_prefixed: "\<exists>s. md_Name (describe m) = ''rdap_'' @ s"
  by (cases m) (simp_all add: describe_defs BuildFQName_def)

text \<open>The collector of the runtime describes metrics with other names.\<close>

definition foreign :: "metric_desc list \<Rightarrow> bool" where
  "foreign c \<longleftrightarrow> c \<noteq> [] \<and> distinct (map md_Name c) \<and> (\<forall>x \<in> set c. \<forall>s. md_Name x \<noteq> ''rdap_'' @ s)"

context prometheus
begin

lemma Register_all:
  assumes "held p = {}" "foreign go"
  shows "\<exists>p1. Metrics_Register reg go p = (None, p1) \<and> held p1 = set go \<union> range describe \<and>
    Metrics_Register reg go p1 = (None, p1)"
proof -
  let ?cs = "go # map (\<lambda>m. [describe m]) metricCollectors"
  have cs: "concat ?cs = go @ map describe metricCollectors" by (induction metricCollectors) simp_all
  have "md_Name x \<noteq> md_Name (describe m)" if "x \<in> set go" for x m
    using metric_names_prefixed [of m] assms(2) that by (auto simp: foreign_def)
  then have "distinct (map md_Name (concat ?cs))"
    using assms(2) metric_names_distinct unfolding cs by (auto simp: foreign_def o_def)
  moreover have ne: "[] \<notin> set ?cs" using assms(2) by (auto simp: foreign_def)
  ultimately obtain p1 where "register_all reg ?cs p = (None, p1)" "held p1 = set (concat ?cs)"
    using register_fresh [of ?cs p] assms(1) by auto
  moreover from this have "register_all reg ?cs p1 = (None, p1)" using register_again [OF ne, of p1] by simp
  ultimately show ?thesis unfolding cs by (auto simp: Metrics_Register_def all_metrics)
qed

end

section \<open>Calls on metrics\<close>

text \<open>
  A call names the metric, the values of its labels, and what is done; \<open>WithLabelValues\<close> panics (\<open>None\<close>) when
  their number is not the number of labels.
\<close>

datatype metric_op = Inc | Dec | SetTo int | Observe int

type_synonym metric_call = "metric \<times> string list \<times> metric_op"

definition WithLabelValues :: "metric \<Rightarrow> string list \<Rightarrow> (metric \<times> string list) option" where
  "WithLabelValues m ls = (if length ls = length (md_Labels (describe m)) then Some (m, ls) else None)"

text \<open>The value of a counter or gauge, and the observations of a histogram.\<close>

record metric_values =
  mv_value :: "metric \<Rightarrow> string list \<Rightarrow> int"
  mv_seen :: "metric \<Rightarrow> string list \<Rightarrow> int list"

definition no_values :: metric_values where
  "no_values = \<lparr>mv_value = (\<lambda>_ _. 0), mv_seen = (\<lambda>_ _. [])\<rparr>"

definition set_value :: "metric \<Rightarrow> string list \<Rightarrow> int \<Rightarrow> metric_values \<Rightarrow> metric_values" where
  "set_value m ls v s = s\<lparr>mv_value := (mv_value s)(m := (mv_value s m)(ls := v))\<rparr>"

fun metric_call :: "metric_call \<Rightarrow> metric_values \<Rightarrow> metric_values option" where
  "metric_call (m, ls, opr) s =
     map_option (\<lambda>_.
       case opr of
         Inc \<Rightarrow> set_value m ls (mv_value s m ls + 1) s
       | Dec \<Rightarrow> set_value m ls (mv_value s m ls - 1) s
       | SetTo v \<Rightarrow> set_value m ls v s
       | Observe v \<Rightarrow> s\<lparr>mv_seen := (mv_seen s)(m := (mv_seen s m)(ls := mv_seen s m ls @ [v]))\<rparr>)
     (WithLabelValues m ls)"

fun metric_calls :: "metric_call list \<Rightarrow> metric_values \<Rightarrow> metric_values option" where
  "metric_calls [] s = Some s"
| "metric_calls (c # cs) s = Option.bind (metric_call c s) (metric_calls cs)"

text \<open>A call that fits its metric: the number of labels, and the operation.\<close>

definition fits :: "metric_call \<Rightarrow> bool" where
  "fits c \<longleftrightarrow> (case c of (m, ls, opr) \<Rightarrow>
     length ls = length (md_Labels (describe m)) \<and>
     (case opr of
        Inc \<Rightarrow> md_Kind (describe m) \<in> {Counter, Gauge}
      | Dec \<Rightarrow> md_Kind (describe m) = Gauge
      | SetTo _ \<Rightarrow> md_Kind (describe m) = Gauge
      | Observe _ \<Rightarrow> md_Kind (describe m) \<notin> {Counter, Gauge}))"

lemma metric_calls_append: "metric_calls (cs @ ds) s = Option.bind (metric_calls cs s) (metric_calls ds)"
  by (induction cs arbitrary: s) (auto split: bind_split)

lemma fits_calls: "list_all fits cs \<Longrightarrow> \<exists>s1. metric_calls cs s = Some s1"
  by (induction cs arbitrary: s) (auto simp: fits_def WithLabelValues_def)

text \<open>What a counter says after calls that fit: how often it was incremented.\<close>

definition increments :: "metric \<Rightarrow> string list \<Rightarrow> metric_call list \<Rightarrow> nat" where
  "increments m ls cs = length (filter (\<lambda>c. c = (m, ls, Inc)) cs)"

lemma increments_simps [simp]:
  "increments m ls [] = 0"
  "increments m ls (c # cs) = (if c = (m, ls, Inc) then 1 else 0) + increments m ls cs"
  "increments m ls (cs @ ds) = increments m ls cs + increments m ls ds"
  by (simp_all add: increments_def)

lemma counter_value:
  "\<lbrakk>list_all fits cs; md_Kind (describe m) = Counter; metric_calls cs s = Some s1\<rbrakk> \<Longrightarrow>
   mv_value s1 m ls = mv_value s m ls + int (increments m ls cs)"
proof (induction cs arbitrary: s)
  case (Cons c cs)
  obtain m' ls' opr where c: "c = (m', ls', opr)" by (cases c) auto
  obtain s0 where s0: "metric_call c s = Some s0" "metric_calls cs s0 = Some s1"
    using Cons.prems(3) by (auto simp: bind_eq_Some_conv)
  have fit: "fits c" and rest: "list_all fits cs" using Cons.prems(1) by simp_all
  have "mv_value s0 m ls = mv_value s m ls + (if c = (m, ls, Inc) then 1 else 0)"
    using s0(1) fit Cons.prems(2) by (auto simp: c fits_def set_value_def split: metric_op.splits)
  then show ?case using Cons.IH [OF rest Cons.prems(2) s0(2)] by simp
qed simp

section \<open>The collector of the caches\<close>

text \<open>\<open>MetricsCollector\<close>, the interface the caches know, as the calls they make on it.\<close>

datatype collector_call =
    RecordHit string | RecordMiss string | RecordEviction string | SetSize string int | SetEntries string int
  | RecordOperationDuration string string int | RecordPromotion | RecordPromotionError | RecordSingleflight bool
  | RecordL2WriteError

text \<open>\<open>CacheMetricsCollector\<close>.\<close>

fun collector_metric :: "collector_call \<Rightarrow> metric_call" where
  "collector_metric (RecordHit layer) = (CacheHitsTotal, [layer], Inc)"
| "collector_metric (RecordMiss layer) = (CacheMissesTotal, [layer], Inc)"
| "collector_metric (RecordEviction layer) = (CacheEvictionsTotal, [layer], Inc)"
| "collector_metric (SetSize layer sizeBytes) = (CacheSizeBytes, [layer], SetTo sizeBytes)"
| "collector_metric (SetEntries layer n) = (CacheEntries, [layer], SetTo n)"
| "collector_metric (RecordOperationDuration layer operation d) = (CacheOperationDuration, [layer, operation], Observe d)"
| "collector_metric RecordPromotion = (CachePromotionsTotal, [], Inc)"
| "collector_metric RecordPromotionError = (CachePromotionErrors, [], Inc)"
| "collector_metric RecordL2WriteError = (CacheL2WriteErrorsTotal, [], Inc)"
| "collector_metric (RecordSingleflight shared) =
     (CacheSingleflightTotal, [if shared then ''shared'' else ''unique''], Inc)"

lemma collector_fits: "fits (collector_metric c)"
  by (cases c) (simp_all add: fits_def describe_defs)

end
