(* ===== verification/Metrics_Use.thy ===== *)
theory Metrics_Use
  imports Metrics Http_Server
begin

text \<open>
  Where the program uses its metrics: the calls that the caches, the RDAP client, the handlers, the WHOIS
  client, the rate limiter and the security log make, each next to the operation that makes them.  What the
  calls add up to is compared with what the operations do.
\<close>

section \<open>The caches\<close>

definition LayerRAM :: string where "LayerRAM = ''ram''"
definition LayerRedis :: string where "LayerRedis = ''redis''"

definition promote_calls :: "'a cache_ops \<Rightarrow> ('a, 'b) TieredCache \<Rightarrow> int \<Rightarrow> string \<Rightarrow> Entry \<Rightarrow> collector_call list" where
  "promote_calls o1 t now key entry =
     (case fst (co_Set o1 (tc_l1 t) now key (e_Value entry) (promotion_ttl (tc_config t) entry) (e_Negative entry)) of
        Some err \<Rightarrow> [RecordPromotionError]
      | None \<Rightarrow> [RecordPromotion])"

text \<open>\<open>d1\<close> and \<open>d2\<close> are how long the levels take.\<close>

definition get_calls ::
  "'a cache_ops \<Rightarrow> 'b cache_ops \<Rightarrow> ('a, 'b) TieredCache \<Rightarrow> int \<Rightarrow> int \<times> int \<Rightarrow> string \<Rightarrow> collector_call list" where
  "get_calls o1 o2 t now d key =
     (let (r1, l1) = co_Get o1 (tc_l1 t) now key; t1 = t\<lparr>tc_l1 := l1\<rparr> in
      RecordOperationDuration LayerRAM ''get'' (fst d) #
      (case r1 of
         Inr entry \<Rightarrow> [RecordHit LayerRAM]
       | Inl err \<Rightarrow>
           RecordMiss LayerRAM #
           (case tc_l2 t of
              None \<Rightarrow> []
            | Some s2 \<Rightarrow>
                (let (r2, l2) = co_Get o2 s2 now key; t2 = t1\<lparr>tc_l2 := Some l2\<rparr> in
                 RecordOperationDuration LayerRedis ''get'' (snd d) #
                 (case r2 of
                    Inl err2 \<Rightarrow> [RecordMiss LayerRedis]
                  | Inr entry \<Rightarrow> RecordHit LayerRedis # promote_calls o1 t2 now key entry)))))"

definition set_calls ::
  "'a cache_ops \<Rightarrow> 'b cache_ops \<Rightarrow> ('a, 'b) TieredCache \<Rightarrow> int \<Rightarrow> int \<times> int \<Rightarrow> string \<Rightarrow> string \<Rightarrow> int \<Rightarrow> bool \<Rightarrow>
   collector_call list" where
  "set_calls o1 o2 t now d key value ttl negative =
     (case fst (co_Set o1 (tc_l1 t) now key value ttl negative) of
        Some err \<Rightarrow> []
      | None \<Rightarrow>
          RecordOperationDuration LayerRAM ''set'' (fst d) #
          (case tc_l2 t of
             None \<Rightarrow> []
           | Some s2 \<Rightarrow>
               if cf_EnableL2Writes (tc_config t) then
                 (if fst (co_Set o2 s2 now key value ttl negative) \<noteq> None then [RecordL2WriteError] else []) @
                 [RecordOperationDuration LayerRedis ''set'' (snd d)]
               else []))"

text \<open>A sequence of uses: the calls, for each get whether it found an entry, and the cache.\<close>

datatype cache_use =
    UseGet int "int \<times> int" string
  | UseSet int "int \<times> int" string string int bool
  | UseDelete string
  | UseClear

definition use_cache ::
  "'a cache_ops \<Rightarrow> 'b cache_ops \<Rightarrow> cache_use \<Rightarrow> ('a, 'b) TieredCache \<Rightarrow>
   collector_call list \<times> bool list \<times> ('a, 'b) TieredCache" where
  "use_cache o1 o2 u t =
     (case u of
        UseGet now d key \<Rightarrow>
          (let (r, t1) = tiered_Get o1 o2 t now key in (get_calls o1 o2 t now d key, [\<not> isl r], t1))
      | UseSet now d key value ttl negative \<Rightarrow>
          (set_calls o1 o2 t now d key value ttl negative, [], snd (tiered_Set o1 o2 t now key value ttl negative))
      | UseDelete key \<Rightarrow> ([], [], snd (tiered_Delete o1 o2 t key))
      | UseClear \<Rightarrow> ([], [], snd (tiered_Clear o1 o2 t)))"

fun use_caches ::
  "'a cache_ops \<Rightarrow> 'b cache_ops \<Rightarrow> cache_use list \<Rightarrow> ('a, 'b) TieredCache \<Rightarrow>
   collector_call list \<times> bool list \<times> ('a, 'b) TieredCache" where
  "use_caches o1 o2 [] t = ([], [], t)"
| "use_caches o1 o2 (u # us) t =
     (let (cs, fs, t1) = use_cache o1 o2 u t; (cs1, fs1, t2) = use_caches o1 o2 us t1 in (cs @ cs1, fs @ fs1, t2))"


text \<open>The numbers balance: every get is a hit or a miss of the first level, every miss goes to the second.\<close>

definition balanced :: "bool \<Rightarrow> collector_call list \<Rightarrow> bool list \<Rightarrow> bool" where
  "balanced two cs fs \<longleftrightarrow>
     (let n = (\<lambda>m ls. increments m ls (map collector_metric cs)) in
      n CacheHitsTotal [LayerRAM] + n CacheMissesTotal [LayerRAM] = length fs \<and>
      n CacheHitsTotal [LayerRedis] + n CacheMissesTotal [LayerRedis] = (if two then n CacheMissesTotal [LayerRAM] else 0) \<and>
      n CachePromotionsTotal [] + n CachePromotionErrors [] = n CacheHitsTotal [LayerRedis] \<and>
      n CacheHitsTotal [LayerRAM] + n CacheHitsTotal [LayerRedis] = length (filter id fs))"

lemma balanced_append: "\<lbrakk>balanced two cs fs; balanced two cs1 fs1\<rbrakk> \<Longrightarrow> balanced two (cs @ cs1) (fs @ fs1)"
  by (auto simp: balanced_def Let_def split: if_splits)

lemma layers_differ: "LayerRAM \<noteq> LayerRedis"
  by (simp add: LayerRAM_def LayerRedis_def)

lemma get_balanced: "balanced (tc_l2 t \<noteq> None) (get_calls o1 o2 t now d key) [\<not> isl (fst (tiered_Get o1 o2 t now key))]"
  using layers_differ
  by (auto simp: balanced_def Let_def get_calls_def promote_calls_def tiered_Get_def
      split: prod.split sum.split option.split)

lemma set_balanced: "balanced two (set_calls o1 o2 t now d key value ttl negative) []"
  by (auto simp: balanced_def Let_def set_calls_def split: option.split)

lemma tiered_two:
  "tc_l2 (snd (tiered_Get o1 o2 t now key)) = None \<longleftrightarrow> tc_l2 t = None"
  "tc_l2 (snd (tiered_Set o1 o2 t now key value ttl negative)) = None \<longleftrightarrow> tc_l2 t = None"
  "tc_l2 (snd (tiered_Delete o1 o2 t key)) = None \<longleftrightarrow> tc_l2 t = None"
  "tc_l2 (snd (tiered_Clear o1 o2 t)) = None \<longleftrightarrow> tc_l2 t = None"
  by (auto simp: tiered_Get_def tiered_Set_def tiered_Delete_def tiered_Clear_def promoteToL1_def Let_def
      split: prod.split sum.split option.split)

lemma balanced_Nil: "balanced two [] []"
  by (simp add: balanced_def)

lemma use_balanced:
  assumes "use_cache o1 o2 u t = (cs, fs, t1)"
  shows "balanced (tc_l2 t \<noteq> None) cs fs" "tc_l2 t1 = None \<longleftrightarrow> tc_l2 t = None"
proof -
  have "balanced (tc_l2 t \<noteq> None) cs fs \<and> (tc_l2 t1 = None \<longleftrightarrow> tc_l2 t = None)"
  proof (cases u)
    case (UseGet now d key)
    then have "cs = get_calls o1 o2 t now d key" "fs = [\<not> isl (fst (tiered_Get o1 o2 t now key))]"
      "t1 = snd (tiered_Get o1 o2 t now key)"
      using assms by (auto simp: use_cache_def split: prod.splits)
    then show ?thesis by (simp only: get_balanced tiered_two)
  next
    case (UseSet now d key v ttl negative)
    then have "cs = set_calls o1 o2 t now d key v ttl negative" "fs = []"
      "t1 = snd (tiered_Set o1 o2 t now key v ttl negative)"
      using assms by (auto simp: use_cache_def)
    then show ?thesis by (simp only: set_balanced tiered_two)
  qed (use assms in \<open>auto simp: use_cache_def balanced_Nil tiered_two\<close>)
  then show "balanced (tc_l2 t \<noteq> None) cs fs" "tc_l2 t1 = None \<longleftrightarrow> tc_l2 t = None" by simp_all
qed

lemma uses_balanced: "use_caches o1 o2 us t = (cs, fs, t2) \<Longrightarrow> balanced (tc_l2 t \<noteq> None) cs fs"
proof (induction us arbitrary: t cs fs)
  case (Cons u us)
  obtain c f t0 where u: "use_cache o1 o2 u t = (c, f, t0)" by (cases "use_cache o1 o2 u t") auto
  obtain c1 f1 t3 where us: "use_caches o1 o2 us t0 = (c1, f1, t3)" by (cases "use_caches o1 o2 us t0") auto
  have parts: "cs = c @ c1" "fs = f @ f1" "t3 = t2" using Cons.prems u us by simp_all
  have "balanced (tc_l2 t \<noteq> None) c1 f1"
    using Cons.IH [OF us [unfolded parts(3)]] use_balanced(2) [OF u] by simp
  then show ?case unfolding parts by (rule balanced_append [OF use_balanced(1) [OF u]])
qed (simp add: balanced_Nil)


section \<open>The RDAP client\<close>

definition status_calls :: "string \<Rightarrow> nat \<Rightarrow> metric_call list" where
  "status_calls host status =
     (if status = 200 \<or> status = 404 then []
      else if status = 429 then [(RDAPUpstreamRateLimited, [host], Inc)]
      else if status = 400 then [(RDAPUpstreamErrorsTotal, [host, ''bad_request''], Inc)]
      else if status \<ge> 500 then [(RDAPUpstreamErrorsTotal, [host, ''server_error''], Inc)]
      else [(RDAPUpstreamErrorsTotal, [host, ''other''], Inc)])"

text \<open>The calls for one outcome of \<open>Do\<close>, which took \<open>d\<close>.\<close>

definition reply_calls :: "string \<Rightarrow> string \<Rightarrow> int \<Rightarrow> http_outcome \<Rightarrow> metric_call list" where
  "reply_calls queryType host d resp =
     (case ho_error resp of
        Some err \<Rightarrow>
          [(RDAPUpstreamErrorsTotal,
            [host, if error_is err Context_DeadlineExceeded then ''timeout'' else ''connection''], Inc)]
      | None \<Rightarrow>
          [(RDAPClientRequestDuration, [queryType], Observe d),
           (RDAPClientRequestsTotal, [queryType, show_nat (ho_status resp)], Inc),
           (RDAPUpstreamRequestDuration, [host], Observe d),
           (RDAPUpstreamRequestsTotal, [host, show_nat (ho_status resp)], Inc)] @
          status_calls host (ho_status resp) @
          (if ho_status resp = 200 then
             (case limit_reader maxResponseSize (ho_body resp) of
                (_, Some _) \<Rightarrow> []
              | (body, None) \<Rightarrow> [(RDAPUpstreamResponseSize, [host], Observe (int (length body)))])
           else []))"

definition doQuery_calls ::
  "('w, 'r) rdap_client \<Rightarrow> string \<Rightarrow> string \<Rightarrow> int \<Rightarrow> string \<Rightarrow> 'w \<Rightarrow> metric_call list" where
  "doQuery_calls c queryType host d queryURL w =
     (if url_Parse queryURL = None then []
      else reply_calls queryType host d (fst (rc_httpClient c w queryURL (rc_userAgent c))))"

text \<open>The attempts at one server, then the servers in turn; a retry is counted before the wait.\<close>

fun attempt_calls ::
  "'w rdap_env \<Rightarrow> ('w, 'r) rdap_client \<Rightarrow> string \<Rightarrow> string \<Rightarrow> int \<Rightarrow> string \<Rightarrow> nat \<Rightarrow> nat \<Rightarrow> 'w \<Rightarrow> metric_call list" where
  "attempt_calls env c queryType host d fullURL attempt 0 w = []"
| "attempt_calls env c queryType host d fullURL attempt (Suc left) w =
     (if attempt > 0 then [(RDAPUpstreamRetriesTotal, [host], Inc)] else []) @
     (let (ctxErr, w1) = (if attempt > 0 then re_wait env w (calculateBackoff (int attempt)) else (None, w)) in
      case ctxErr of
        Some err \<Rightarrow> []
      | None \<Rightarrow>
          doQuery_calls c queryType host d fullURL w1 @
          (let (result, w2) = rdap_doQuery env c fullURL w1 in
           case result of
             Inr obj \<Rightarrow> []
           | Inl err \<Rightarrow>
               if final_error err then []
               else attempt_calls env c queryType host d fullURL (Suc attempt) left w2))"

fun server_calls ::
  "'w rdap_env \<Rightarrow> ('w, 'r) rdap_client \<Rightarrow> string \<Rightarrow> int \<Rightarrow> string \<Rightarrow> string list \<Rightarrow> go_error option \<Rightarrow> 'w \<Rightarrow>
   metric_call list" where
  "server_calls env c queryType d path [] lastErr w = []"
| "server_calls env c queryType d path (baseURL # urls) lastErr w =
     attempt_calls env c queryType (extractServerHost (base_url baseURL)) d (base_url baseURL @ path) 0
       (nat (rc_maxRetries c + 1)) w @
     (case try_attempts env c (base_url baseURL @ path) 0 (nat (rc_maxRetries c + 1)) lastErr w of
        (Inl result, w1) \<Rightarrow> []
      | (Inr lastErr1, w1) \<Rightarrow> server_calls env c queryType d path urls lastErr1 w1)"

definition query_calls ::
  "'w rdap_env \<Rightarrow> ('w, 'r) rdap_client \<Rightarrow> string \<Rightarrow> int \<Rightarrow> string list \<Rightarrow> string \<Rightarrow> 'w \<Rightarrow> metric_call list" where
  "query_calls env c queryType d urls path w = server_calls env c queryType d path urls None w"

text \<open>A request is counted by its status, or as a failure of the connection.\<close>

definition counts_request :: "metric_call \<Rightarrow> bool" where
  "counts_request call \<longleftrightarrow>
     (case call of (m, ls, opr) \<Rightarrow>
        opr = Inc \<and> (m = RDAPUpstreamRequestsTotal \<or>
          m = RDAPUpstreamErrorsTotal \<and> (tl ls = [''timeout''] \<or> tl ls = [''connection''])))"

lemma retry_not_counted: "\<not> counts_request (RDAPUpstreamRetriesTotal, ls, opr)"
  by (simp add: counts_request_def)

lemma reply_counts: "length (filter counts_request (reply_calls queryType host d resp)) = 1"
  by (auto simp: reply_calls_def status_calls_def counts_request_def split: option.split prod.split)

lemma doQuery_counts:
  "length (filter counts_request (doQuery_calls c queryType host d url w)) = (if url_Parse url = None then 0 else 1)"
  by (simp add: doQuery_calls_def reply_counts)

declare attempt_calls.simps(2) [simp del]

lemma attempt_calls_step:
  assumes "(if a > 0 then re_wait env w (calculateBackoff (int a)) else (None, w)) = (e, w1)"
    and "rdap_doQuery env c url w1 = (r, w2)"
  shows "attempt_calls env c queryType host d url a (Suc n) w =
    (if a > 0 then [(RDAPUpstreamRetriesTotal, [host], Inc)] else []) @
    (case e of
       Some err \<Rightarrow> []
     | None \<Rightarrow>
         doQuery_calls c queryType host d url w1 @
         (case r of
            Inr obj \<Rightarrow> []
          | Inl err \<Rightarrow> if final_error err then [] else attempt_calls env c queryType host d url (Suc a) n w2))"
  by (simp only: attempt_calls.simps assms Let_def case_prod_conv)

lemma attempts_counted:
  assumes "traced env c log"
  shows "length (log (snd (try_attempts env c url a n lastErr w))) =
    length (log w) + length (filter counts_request (attempt_calls env c queryType host d url a n w))"
proof (induction n arbitrary: a lastErr w)
  case (Suc n)
  obtain e w1 where wait: "(if a > 0 then re_wait env w (calculateBackoff (int a)) else (None, w)) = (e, w1)"
    by fastforce
  obtain r w2 where q: "rdap_doQuery env c url w1 = (r, w2)" by fastforce
  have log1: "log w1 = log w" by (rule wait_log [OF assms wait])
  have log2: "log w2 = log w @ (if url_Parse url = None then [] else [url])"
    using rdap_doQuery_log [OF assms, of url w1] q log1 by simp
  show ?case
    unfolding try_attempts_step [OF wait q] attempt_calls_step [OF wait q]
    using Suc.IH log1 log2 by (auto simp: retry_not_counted doQuery_counts split: option.split sum.split)
qed simp

lemma servers_counted:
  assumes "traced env c log"
  shows "length (log (snd (try_servers env c path urls lastErr w))) =
    length (log w) + length (filter counts_request (server_calls env c queryType d path urls lastErr w))"
proof (induction urls arbitrary: lastErr w)
  case (Cons b urls)
  let ?n = "nat (rc_maxRetries c + 1)"
  obtain r w1 where t: "try_attempts env c (base_url b @ path) 0 ?n lastErr w = (r, w1)" by fastforce
  have "length (log w1) = length (log w) +
      length (filter counts_request (attempt_calls env c queryType (extractServerHost (base_url b)) d (base_url b @ path) 0 ?n w))"
    using attempts_counted [OF assms, of "base_url b @ path" 0 ?n lastErr w] t by simp
  then show ?case using Cons.IH t by (cases r) simp_all
qed simp

section \<open>The handlers\<close>

definition lookup_calls :: "string \<Rightarrow> go_error option \<Rightarrow> bool \<Rightarrow> metric_call list" where
  "lookup_calls lookupType err cached =
     (let (outcome, source) = recordLookupMetrics err cached in
      [(LookupsTotal, [lookupType], Inc), (LookupOutcomes, [lookupType, outcome], Inc)] @
      (case source of None \<Rightarrow> [] | Some s \<Rightarrow> [(LookupSource, [lookupType, s], Inc)]))"

definition fallback_calls :: "string \<Rightarrow> metric_call list" where
  "fallback_calls name = [(WHOISFallbackTotal, [ExtractTLD name, ''no_rdap_server''], Inc)]"

definition parse_error_calls :: "string \<Rightarrow> metric_call list" where
  "parse_error_calls name = [(WHOISParseErrorsTotal, [ExtractTLD name], Inc)]"

definition batch_calls :: "nat \<Rightarrow> metric_call list" where
  "batch_calls queries = [(BatchRequestsTotal, [], Inc), (BatchSizeHistogram, [], Observe (int queries))]"

definition security_calls :: "SecurityEvent \<Rightarrow> metric_call list" where
  "security_calls event = [(SecurityEventsTotal, [sy_Type event], Inc)]"

text \<open>A domain without a server is answered with 404, and counted as an error.\<close>

lemma no_server_counted_as_error:
  "recordLookupMetrics (Some (Wrapped what [Sentinel Bootstrap_ErrNotFound])) cached = (''error'', None)"
  "hr_status (handleError (Wrapped what [Sentinel Bootstrap_ErrNotFound]) ''domain'') = 404"
  by (simp_all add: recordLookupMetrics_def handleError_def error_response_def)

text \<open>A request that runs into its timeout as well: the error it becomes is not the one looked for.\<close>

lemma timeout_counted_as_error:
  assumes "ho_error resp = Some err" "error_is err Context_DeadlineExceeded"
  shows "\<exists>e. reply_result decode resp = Inl e \<and> recordLookupMetrics (Some e) cached = (''error'', None)"
  using assms by (simp add: reply_result_def recordLookupMetrics_def)

section \<open>The bootstrap service\<close>

text \<open>\<open>now\<close> is in seconds, the age of the allowlist in nanoseconds.\<close>

definition refresh_calls :: "int \<Rightarrow> go_error + 'r Bootstrap \<Rightarrow> metric_call list" where
  "refresh_calls now load =
     (case load of
        Inl err \<Rightarrow> [(BootstrapRefreshErrors, [], Inc)]
      | Inr b \<Rightarrow>
          [(BootstrapLastRefresh, [], SetTo now), (BootstrapTLDsLoaded, [], SetTo (int (TLDCount (bs_DNS b))))])"

definition checkStaleness :: "int \<Rightarrow> int \<Rightarrow> RDAPServerValidator option \<Rightarrow> metric_call list" where
  "checkStaleness now refreshInterval validator =
     (case validator of
        None \<Rightarrow> []
      | Some v \<Rightarrow>
          [(SSRFAllowlistAge, [], SetTo (StalenessAge now v)),
           (SSRFAllowlistStale, [], SetTo (if IsStale now (int64 (refreshInterval * 2)) v then 1 else 0))])"

section \<open>WHOIS\<close>

definition recordQueryMetrics :: "string \<Rightarrow> go_error option \<Rightarrow> int \<Rightarrow> metric_call list" where
  "recordQueryMetrics server err d =
     [(WHOISRequestDuration, [server], Observe d),
      (WHOISRequestsTotal,
       [server,
        case err of
          None \<Rightarrow> ''success''
        | Some e \<Rightarrow>
            if error_is e Whois_ErrQueryTimeout \<or> error_is e Context_DeadlineExceeded then ''timeout'' else ''error''],
       Inc)]"

definition response_size_calls :: "string \<Rightarrow> string \<Rightarrow> metric_call list" where
  "response_size_calls server response = [(WHOISResponseSizeBytes, [server], Observe (int (length response)))]"

definition discovery_calls ::
  "network \<Rightarrow> int option \<Rightarrow> int \<Rightarrow> int \<Rightarrow> int \<Rightarrow> Discovery \<Rightarrow> string \<Rightarrow> metric_call list" where
  "discovery_calls net ctx_remaining now later d disc tld0 =
     (let tld = normalizeTLD tld0 in
      if tld = [] then []
      else if getCached disc now tld \<noteq> [] then [(WHOISDiscoveryTotal, [tld, ''cached''], Inc)]
      else (WHOISDiscoveryDuration, [], Observe d) #
        (case queryIANA net ctx_remaining disc tld of
           Inl err \<Rightarrow> [(WHOISDiscoveryTotal, [tld, ''error''], Inc)]
         | Inr server \<Rightarrow>
             [(WHOISServersCached, [], SetTo (int (CacheSize (setCached disc later tld server)))),
              (WHOISDiscoveryTotal, [tld, ''success''], Inc)]))"

section \<open>The rate limiter and the server\<close>

definition limiter_calls :: "('f, 'l) IPRateLimiter \<Rightarrow> string \<Rightarrow> metric_call list" where
  "limiter_calls rl ip =
     [(RateLimiterEntries, [], SetTo (ip_size rl)), (RateLimiterSubnetEntries, [], SetTo (ip_subnetSize rl))] @
     (if ip_limiters rl ip = None \<and> ip_size rl \<ge> maxRateLimiterEntries then [(RateLimiterAtCapacity, [], Inc)] else [])"

definition in_flight_calls :: "metric_call list \<Rightarrow> metric_call list" where
  "in_flight_calls handler = (HTTPRequestsInFlight, [], Inc) # handler @ [(HTTPRequestsInFlight, [], Dec)]"

section \<open>Every call fits its metric\<close>

lemmas use_defs = fits_def describe_defs

lemma reply_fits: "list_all fits (reply_calls queryType host d resp)"
  by (auto simp: reply_calls_def status_calls_def use_defs split: option.split prod.split)

lemma retry_fits: "fits (RDAPUpstreamRetriesTotal, [host], Inc)"
  by (simp add: use_defs)

lemma attempt_fits: "list_all fits (attempt_calls env c queryType host d url a n w)"
proof (induction n arbitrary: a w)
  case (Suc n)
  obtain e w1 where wait: "(if a > 0 then re_wait env w (calculateBackoff (int a)) else (None, w)) = (e, w1)"
    by fastforce
  obtain r w2 where q: "rdap_doQuery env c url w1 = (r, w2)" by fastforce
  show ?case
    unfolding attempt_calls_step [OF wait q] using Suc.IH
    by (auto simp: doQuery_calls_def reply_fits retry_fits split: option.split sum.split)
qed simp

lemma server_fits: "list_all fits (server_calls env c queryType d path urls lastErr w)"
  by (induction urls arbitrary: lastErr w) (auto simp: attempt_fits split: sum.split prod.split)

lemma handler_fits:
  "list_all fits (lookup_calls lookupType err cached)" "list_all fits (fallback_calls name)"
  "list_all fits (parse_error_calls name)" "list_all fits (batch_calls n)" "list_all fits (security_calls event)"
  by (simp_all add: lookup_calls_def recordLookupMetrics_def fallback_calls_def parse_error_calls_def batch_calls_def
      security_calls_def use_defs split: option.split)

lemma whois_fits:
  "list_all fits (recordQueryMetrics server err d)" "list_all fits (response_size_calls server response)"
  "list_all fits (discovery_calls net ctx now later d disc tld)"
  by (auto simp: recordQueryMetrics_def response_size_calls_def discovery_calls_def use_defs Let_def split: sum.split)

lemma service_fits: "list_all fits (refresh_calls now load)" "list_all fits (checkStaleness now interval v)"
  by (auto simp: refresh_calls_def checkStaleness_def use_defs split: sum.split option.split)

lemma limiter_fits: "list_all fits (limiter_calls rl ip)"
  by (simp add: limiter_calls_def use_defs)

lemma in_flight_fits: "list_all fits handler \<Longrightarrow> list_all fits (in_flight_calls handler)"
  by (simp add: in_flight_calls_def use_defs)

end
