(* ===== verification/Metrics_Sound.thy ===== *)
theory Metrics_Sound
  imports Metrics_Use
begin

text \<open>
  All places where the program records metrics, as one type of recordings, and the soundness of the metrics as a
  small type system: a recording has a number of labels and an operation, its metric is declared with labels and
  a kind, and a call whose labels do not match the declaration panics.
\<close>

datatype ('w, 'r, 'f, 'l, 'b) recording =
  Rec_Cache collector_call
| Rec_Query "'w rdap_env" "('w, 'r) rdap_client" string int "string list" string 'w
| Rec_Lookup string "go_error option" bool
| Rec_Fallback string
| Rec_Parse_Error string
| Rec_Batch nat
| Rec_Security SecurityEvent
| Rec_Refresh int "go_error + 'b Bootstrap"
| Rec_Staleness int int "RDAPServerValidator option"
| Rec_Whois_Query string "go_error option" int
| Rec_Whois_Size string string
| Rec_Discovery network "int option" int int int Discovery string
| Rec_Limiter "('f, 'l) IPRateLimiter" string
| Rec_In_Flight "('w, 'r, 'f, 'l, 'b) recording list"

fun recording_calls :: "('w, 'r, 'f, 'l, 'b) recording \<Rightarrow> metric_call list" where
  "recording_calls (Rec_Cache call) = [collector_metric call]"
| "recording_calls (Rec_Query env c queryType d urls path w) = query_calls env c queryType d urls path w"
| "recording_calls (Rec_Lookup lookupType err cached) = lookup_calls lookupType err cached"
| "recording_calls (Rec_Fallback name) = fallback_calls name"
| "recording_calls (Rec_Parse_Error name) = parse_error_calls name"
| "recording_calls (Rec_Batch queries) = batch_calls queries"
| "recording_calls (Rec_Security event) = security_calls event"
| "recording_calls (Rec_Refresh now load) = refresh_calls now load"
| "recording_calls (Rec_Staleness now interval v) = checkStaleness now interval v"
| "recording_calls (Rec_Whois_Query server err d) = recordQueryMetrics server err d"
| "recording_calls (Rec_Whois_Size server response) = response_size_calls server response"
| "recording_calls (Rec_Discovery net ctx now later d disc tld) = discovery_calls net ctx now later d disc tld"
| "recording_calls (Rec_Limiter rl ip) = limiter_calls rl ip"
| "recording_calls (Rec_In_Flight handler) = in_flight_calls (concat (map recording_calls handler))"

lemmas use_fits = collector_fits server_fits handler_fits whois_fits service_fits limiter_fits in_flight_fits

lemma recording_fits: "list_all fits (recording_calls r)"
proof (induction r)
  case (Rec_In_Flight handler)
  have "list_all fits (concat (map recording_calls handler))"
    using Rec_In_Flight by (auto simp: list_all_iff)
  then show ?case by (simp add: in_flight_fits)
qed (simp_all add: query_calls_def use_fits)

lemma recordings_fit: "list_all fits (concat (map recording_calls rs))"
  by (induction rs) (simp_all add: recording_fits)

text \<open>The requests in flight are back where they were when every request has ended.\<close>

definition no_in_flight :: "metric_call list \<Rightarrow> bool" where
  "no_in_flight cs = list_all (\<lambda>c. fst c \<noteq> HTTPRequestsInFlight) cs"

lemma other_calls_keep:
  "\<lbrakk>no_in_flight cs; metric_calls cs s = Some s1\<rbrakk> \<Longrightarrow> mv_value s1 HTTPRequestsInFlight ls = mv_value s HTTPRequestsInFlight ls"
proof (induction cs arbitrary: s)
  case (Cons c cs)
  obtain m ls' opr where c: "c = (m, ls', opr)" by (cases c) auto
  obtain s0 where s0: "metric_call c s = Some s0" "metric_calls cs s0 = Some s1"
    using Cons.prems(2) by (auto simp: bind_eq_Some_conv)
  have "mv_value s0 HTTPRequestsInFlight ls = mv_value s HTTPRequestsInFlight ls"
    using s0(1) Cons.prems(1) by (auto simp: c no_in_flight_def set_value_def split: metric_op.splits)
  then show ?case using Cons.IH [OF _ s0(2)] Cons.prems(1) by (simp add: no_in_flight_def)
qed simp

lemma in_flight_balance:
  assumes "no_in_flight handler" "metric_calls (in_flight_calls handler) s = Some s1"
  shows "mv_value s1 HTTPRequestsInFlight ls = mv_value s HTTPRequestsInFlight ls"
proof -
  obtain s2 s3 where steps: "metric_call (HTTPRequestsInFlight, [], Inc) s = Some s2" "metric_calls handler s2 = Some s3"
      "metric_call (HTTPRequestsInFlight, [], Dec) s3 = Some s1"
    using assms(2) by (auto simp: in_flight_calls_def metric_calls_append bind_eq_Some_conv split: if_splits)
  have "mv_value s3 HTTPRequestsInFlight ls' = mv_value s2 HTTPRequestsInFlight ls'" for ls'
    by (rule other_calls_keep [OF assms(1) steps(2)])
  then show ?thesis using steps(1,3) by (auto simp: set_value_def)
qed

end
