(* ===== verification/Cache_Stats.thy ===== *)
theory Cache_Stats
  imports Complex_Main Tiered_Cache
begin

text \<open>
  The statistics, the shutdown and the default configurations of the caches: \<open>Stats\<close> and \<open>Close\<close> of
  \<open>internal/cache/memory.go\<close>, \<open>redis.go\<close> and \<open>tiered.go\<close>.

  A hit rate is a \<open>float64\<close> quotient of two counters; here it is the rational number that is rounded.
  What \<open>Ping\<close> and \<open>Close\<close> of the Redis client do to the connection is a parameter.
\<close>

section \<open>Configurations\<close>

record MemoryCacheConfig =
  mf_MaxEntries :: int
  mf_MaxSize :: int

definition DefaultMemoryCacheConfig :: MemoryCacheConfig where
  "DefaultMemoryCacheConfig = \<lparr>mf_MaxEntries = 10000, mf_MaxSize = 100 * 1024 * 1024\<rparr>"

record RedisCacheConfig =
  rf_Addr :: string
  rf_Password :: string
  rf_DB :: int
  rf_KeyPrefix :: string
  rf_DialTimeout :: int
  rf_ReadTimeout :: int
  rf_WriteTimeout :: int
  rf_PoolSize :: int

definition DefaultRedisCacheConfig :: RedisCacheConfig where
  "DefaultRedisCacheConfig =
     \<lparr>rf_Addr = ''localhost:6379'', rf_Password = [], rf_DB = 0, rf_KeyPrefix = [],
      rf_DialTimeout = 5 * 10 ^ 9, rf_ReadTimeout = 3 * 10 ^ 9, rf_WriteTimeout = 3 * 10 ^ 9, rf_PoolSize = 10\<rparr>"

text \<open>The configurations of the two levels, and that of the cache over them.\<close>

definition DefaultTieredCacheConfig :: "MemoryCacheConfig \<times> RedisCacheConfig option \<times> TieredCacheConfig" where
  "DefaultTieredCacheConfig =
     (DefaultMemoryCacheConfig, None,
      \<lparr>cf_DefaultTTL = 24 * 3600 * 10 ^ 9, cf_NegativeTTL = 3600 * 10 ^ 9, cf_L1PromotionTTL = 5 * 60 * 10 ^ 9,
       cf_EnableL2Writes = True, cf_FetchTimeout = 30 * 10 ^ 9\<rparr>)"

section \<open>Statistics\<close>

record Stats =
  st_Hits :: "64 word"
  st_Misses :: "64 word"
  st_Entries :: int
  st_SizeBytes :: int
  st_Evictions :: "64 word"
  st_HitRate :: rat

definition hit_rate :: "64 word \<Rightarrow> 64 word \<Rightarrow> rat" where
  "hit_rate hits misses =
     (let total = hits + misses in if total > 0 then of_nat (unat hits) / of_nat (unat total) else 0)"

definition mem_Stats :: "'l lru_ops \<Rightarrow> 'l MemoryCache \<Rightarrow> Stats" where
  "mem_Stats ops m =
     \<lparr>st_Hits = mc_hits m, st_Misses = mc_misses m, st_Entries = int (lr_Len ops (mc_cache m)),
      st_SizeBytes = mc_sizeBytes m, st_Evictions = mc_evictions m, st_HitRate = hit_rate (mc_hits m) (mc_misses m)\<rparr>"

definition redis_Stats :: "'s RedisCache \<Rightarrow> Stats" where
  "redis_Stats r =
     \<lparr>st_Hits = rc_hits r, st_Misses = rc_misses r, st_Entries = 0, st_SizeBytes = 0, st_Evictions = 0,
      st_HitRate = hit_rate (rc_hits r) (rc_misses r)\<rparr>"

record TieredStats =
  ts_L1 :: Stats
  ts_L2 :: "Stats option"
  ts_L2Available :: bool

text \<open>What the two levels offer beside the operations of \<open>Cache\<close>: the methods of \<open>L2Cache\<close>.\<close>

record 'c cache_admin =
  ca_Stats :: "'c \<Rightarrow> Stats"
  ca_Close :: "'c \<Rightarrow> go_error option \<times> 'c"
  ca_IsAvailable :: "'c \<Rightarrow> bool"

definition tiered_Stats :: "'a cache_admin \<Rightarrow> 'b cache_admin \<Rightarrow> ('a, 'b) TieredCache \<Rightarrow> TieredStats" where
  "tiered_Stats a1 a2 t =
     (let stats = \<lparr>ts_L1 = ca_Stats a1 (tc_l1 t), ts_L2 = None, ts_L2Available = False\<rparr> in
      case tc_l2 t of
        None \<Rightarrow> stats
      | Some s2 \<Rightarrow> stats\<lparr>ts_L2 := Some (ca_Stats a2 s2), ts_L2Available := ca_IsAvailable a2 s2\<rparr>)"

definition HasL2 :: "('a, 'b) TieredCache \<Rightarrow> bool" where
  "HasL2 t = (tc_l2 t \<noteq> None)"

section \<open>Shutdown\<close>

definition mem_Close :: "'l lru_ops \<Rightarrow> 'l MemoryCache \<Rightarrow> go_error option \<times> 'l MemoryCache" where
  "mem_Close ops m = mem_Clear ops m"

definition redis_Close ::
  "('s \<Rightarrow> go_error option \<times> 's) \<Rightarrow> 's RedisCache \<Rightarrow> go_error option \<times> 's RedisCache" where
  "redis_Close close r = (let (err, s) = close (rc_client r) in (err, r\<lparr>rc_client := s\<rparr>))"

definition redis_Ping :: "('s \<Rightarrow> go_error option) \<Rightarrow> 's RedisCache \<Rightarrow> go_error option" where
  "redis_Ping ping r = ping (rc_client r)"

definition redis_IsAvailable :: "('s \<Rightarrow> go_error option) \<Rightarrow> 's RedisCache \<Rightarrow> bool" where
  "redis_IsAvailable ping r = (redis_Ping ping r = None)"

text \<open>Both levels are closed, whatever the first one answers; the first error is returned.\<close>

definition tiered_Close ::
  "'a cache_admin \<Rightarrow> 'b cache_admin \<Rightarrow> ('a, 'b) TieredCache \<Rightarrow> go_error option \<times> ('a, 'b) TieredCache" where
  "tiered_Close a1 a2 t =
     (let (e1, l1) = ca_Close a1 (tc_l1 t); errs = (case e1 of None \<Rightarrow> [] | Some e \<Rightarrow> [e]); t1 = t\<lparr>tc_l1 := l1\<rparr>;
          (errs, t2) =
            (case tc_l2 t of
               None \<Rightarrow> (errs, t1)
             | Some s2 \<Rightarrow>
                 (let (e2, l2) = ca_Close a2 s2
                  in (errs @ (case e2 of None \<Rightarrow> [] | Some e \<Rightarrow> [e]), t1\<lparr>tc_l2 := Some l2\<rparr>)))
      in (if length errs > 0 then Some (hd errs) else None, t2))"

definition memory_admin :: "'l lru_ops \<Rightarrow> 'l MemoryCache cache_admin" where
  "memory_admin ops = \<lparr>ca_Stats = mem_Stats ops, ca_Close = mem_Close ops, ca_IsAvailable = (\<lambda>_. True)\<rparr>"

definition redis_admin ::
  "('s \<Rightarrow> go_error option \<times> 's) \<Rightarrow> ('s \<Rightarrow> go_error option) \<Rightarrow> 's RedisCache cache_admin" where
  "redis_admin close ping =
     \<lparr>ca_Stats = redis_Stats, ca_Close = redis_Close close, ca_IsAvailable = redis_IsAvailable ping\<rparr>"

section \<open>Counting\<close>

text \<open>
  The calls a client makes, and a cache that counts lookups: every lookup that is \<open>counted\<close> adds one to its
  hits or its misses, and nothing else touches either.
\<close>

datatype cache_call =
  is_Get: Call_Get int string
| Call_Set int string string int bool
| Call_Delete string
| Call_Clear

primrec call_cache :: "'c cache_ops \<Rightarrow> 'c \<Rightarrow> cache_call \<Rightarrow> 'c" where
  "call_cache ops c (Call_Get now k) = snd (co_Get ops c now k)"
| "call_cache ops c (Call_Set now k v ttl neg) = snd (co_Set ops c now k v ttl neg)"
| "call_cache ops c (Call_Delete k) = snd (co_Delete ops c k)"
| "call_cache ops c Call_Clear = snd (co_Clear ops c)"

fun counted_lookups :: "'c cache_ops \<Rightarrow> ('c \<Rightarrow> int \<Rightarrow> string \<Rightarrow> bool) \<Rightarrow> 'c \<Rightarrow> cache_call list \<Rightarrow> nat" where
  "counted_lookups ops counted c [] = 0"
| "counted_lookups ops counted c (x # xs) =
     (case x of Call_Get now k \<Rightarrow> of_bool (counted c now k) | _ \<Rightarrow> 0)
     + counted_lookups ops counted (call_cache ops c x) xs"

locale lookup_counter =
  fixes ops :: "'c cache_ops"
    and hits misses :: "'c \<Rightarrow> 64 word"
    and counted :: "'c \<Rightarrow> int \<Rightarrow> string \<Rightarrow> bool"
  assumes get_hit: "co_Get ops c now k = (Inr e, c') \<Longrightarrow>
      counted c now k \<and> hits c' = hits c + 1 \<and> misses c' = misses c"
    and get_error: "co_Get ops c now k = (Inl err, c') \<Longrightarrow>
      hits c' = hits c \<and> misses c' = misses c + of_bool (counted c now k)"
    and other_calls: "co_Set ops c now k v ttl neg = (res, c') \<Longrightarrow> hits c' = hits c \<and> misses c' = misses c"
      "co_Delete ops c k = (res, c') \<Longrightarrow> hits c' = hits c \<and> misses c' = misses c"
      "co_Clear ops c = (res, c') \<Longrightarrow> hits c' = hits c \<and> misses c' = misses c"
begin

lemma call_counts:
  "hits (call_cache ops c x) + misses (call_cache ops c x) =
     hits c + misses c + (case x of Call_Get now k \<Rightarrow> of_bool (counted c now k) | _ \<Rightarrow> 0)"
proof (cases x)
  case (Call_Get now k)
  obtain r c' where r: "co_Get ops c now k = (r, c')" by fastforce
  show ?thesis
    using get_hit [of c now k] get_error [of c now k] by (cases r) (simp_all add: Call_Get r algebra_simps)
next
  case (Call_Set now k v ttl neg)
  then show ?thesis using other_calls(1) [of c now k v ttl neg] by (cases "co_Set ops c now k v ttl neg") simp
next
  case (Call_Delete k)
  then show ?thesis using other_calls(2) [of c k] by (cases "co_Delete ops c k") simp
next
  case Call_Clear
  then show ?thesis using other_calls(3) [of c] by (cases "co_Clear ops c") simp
qed

text \<open>After any calls the counters have grown by the number of lookups, modulo their width.\<close>

theorem counters_count:
  "hits (foldl (call_cache ops) c xs) + misses (foldl (call_cache ops) c xs) =
     hits c + misses c + of_nat (counted_lookups ops counted c xs)"
proof (induction xs arbitrary: c)
  case (Cons x xs)
  have "of_nat (case x of Call_Get now k \<Rightarrow> of_bool (counted c now k) | _ \<Rightarrow> 0) =
      ((case x of Call_Get now k \<Rightarrow> of_bool (counted c now k) | _ \<Rightarrow> 0) :: 64 word)"
    by (cases x) simp_all
  then show ?case by (simp add: Cons.IH call_counts add.assoc del: of_nat_of_bool)
qed simp

end

lemma foldl_onEvict_counters [simp]:
  "mc_hits (foldl onEvict m xs) = mc_hits m" "mc_misses (foldl onEvict m xs) = mc_misses m"
  by (rule foldl_frame, simp add: onEvict_def)+

lemma lru_result_counters [simp]:
  "mc_hits (lru_result m r) = mc_hits m" "mc_misses (lru_result m r) = mc_misses m"
  by (simp_all add: lru_result_def)

lemma evict_loop_counters [simp]:
  "mc_hits (evict_loop ops sz n m) = mc_hits m" "mc_misses (evict_loop ops sz n m) = mc_misses m"
  by (induction n arbitrary: m) simp_all

lemma make_room_counters [simp]:
  "mc_hits (make_room ops sz k m) = mc_hits m" "mc_misses (make_room ops sz k m) = mc_misses m"
  by (simp_all add: make_room_def Let_def split: option.split)

text \<open>The memory cache counts every lookup.\<close>

interpretation memory_counter: lookup_counter "memory_ops ops" mc_hits mc_misses "\<lambda>_ _ _. True"
  by unfold_locales
    (auto simp: memory_ops_def mem_Get_def mem_Set_def mem_Delete_def mem_Clear_def Let_def
      split: prod.splits option.splits if_splits)

text \<open>The Redis cache counts a lookup when the server answers, even with no entry or with a broken one.\<close>

definition redis_answers :: "'s redis_ops \<Rightarrow> 's RedisCache \<Rightarrow> int \<Rightarrow> string \<Rightarrow> bool" where
  "redis_answers ops r now k =
     (case fst (rs_Get ops (rc_client r) now (prefixedKey r k)) of Inl err \<Rightarrow> error_is err Redis_Nil | Inr _ \<Rightarrow> True)"

interpretation redis_counter: lookup_counter "redis_cache_ops ops js" rc_hits rc_misses "redis_answers ops"
  by unfold_locales
    (auto simp: redis_cache_ops_def redis_Get_def redis_Set_def redis_Delete_def redis_Clear_def redis_miss_def
      redis_answers_def Let_def split: prod.splits option.splits sum.splits if_splits)

lemma counted_every_lookup: "counted_lookups ops (\<lambda>_ _ _. True) c xs = length (filter is_Get xs)"
  by (induction xs arbitrary: c) (auto split: cache_call.split)

section \<open>What the statistics tell\<close>

lemma hit_rate_bounds:
  assumes "unat hits + unat misses < 2 ^ 64"
  shows "0 \<le> hit_rate hits misses \<and> hit_rate hits misses \<le> 1"
proof -
  have "unat (hits + misses) = unat hits + unat misses"
    using assms by (subst unat_plus_if_size) (simp add: word_size)
  then have "hit_rate hits misses =
      (if hits + misses > 0 then of_nat (unat hits) / of_nat (unat hits + unat misses) else 0)"
    by (simp only: hit_rate_def Let_def)
  moreover have "0 \<le> of_nat h / (of_nat (h + k) :: rat) \<and> of_nat h / (of_nat (h + k) :: rat) \<le> 1" for h k :: nat
    by (cases "h + k = 0") (auto simp: divide_le_eq_1 simp flip: of_nat_add)
  ultimately show ?thesis by (metis order_refl zero_le_one)
qed

text \<open>The statistics of a new memory cache after any calls.\<close>

lemma memory_stats_count:
  "st_Hits (mem_Stats ops m) + st_Misses (mem_Stats ops m) = of_nat (length (filter is_Get xs))"
  if "m = foldl (call_cache (memory_ops ops)) (NewMemoryCache lru maxSize) xs"
  using memory_counter.counters_count [of ops "NewMemoryCache lru maxSize" xs] that
  by (simp add: mem_Stats_def NewMemoryCache_def counted_every_lookup)

lemma foldl_onEvict_evictions: "mc_evictions (foldl onEvict m xs) = mc_evictions m + of_nat (length xs)"
  by (induction xs arbitrary: m) (simp_all add: onEvict_def)

lemma lru_result_evictions: "mc_evictions (lru_result m r) = mc_evictions m + of_nat (length (fst r))"
  by (simp add: lru_result_def foldl_onEvict_evictions)

text \<open>Closing the memory cache empties it, and counts every entry that was in it as an eviction.\<close>

lemma mem_Close_empties:
  assumes "lru_ok ops items cap" "mem_Close ops m = (res, m')"
  shows "res = None \<and> st_Entries (mem_Stats ops m') = 0 \<and> st_SizeBytes (mem_Stats ops m') = 0 \<and>
    st_Evictions (mem_Stats ops m') = st_Evictions (mem_Stats ops m) + of_nat (length (mem_items items m))"
proof -
  have "res = None" "m' = (lru_result m (lr_Purge ops (mc_cache m)))\<lparr>mc_sizeBytes := 0\<rparr>"
    using assms(2) by (auto simp: mem_Close_def mem_Clear_def Let_def)
  then show ?thesis
    using lru_laws [OF assms(1)] by (simp add: mem_Stats_def mem_items_def lru_result_evictions)
qed

text \<open>The tiered cache closes both levels, and fails when one of them does.\<close>

lemma tiered_Close_levels:
  assumes "tiered_Close a1 a2 t = (res, t')"
  shows "tc_l1 t' = snd (ca_Close a1 (tc_l1 t)) \<and> tc_l2 t' = map_option (\<lambda>s. snd (ca_Close a2 s)) (tc_l2 t) \<and>
    (res = None) = (fst (ca_Close a1 (tc_l1 t)) = None \<and>
       (case tc_l2 t of None \<Rightarrow> True | Some s \<Rightarrow> fst (ca_Close a2 s) = None))"
  using assms by (auto simp: tiered_Close_def Let_def split: prod.splits option.splits)

lemma tiered_Stats_level2: "(ts_L2 (tiered_Stats a1 a2 t) \<noteq> None) = HasL2 t"
  by (simp add: tiered_Stats_def HasL2_def Let_def split: option.split)

text \<open>With a timeout in the default configuration, nothing is left to normalise.\<close>

lemma default_is_normal:
  "normalizeConfig (snd (snd DefaultTieredCacheConfig)) = snd (snd DefaultTieredCacheConfig)"
  by (simp add: normalizeConfig_def DefaultTieredCacheConfig_def)

end
