(* ===== verification/Server_Run.thy ===== *)
theory Server_Run
  imports Http_Server Cache_Stats
begin

text \<open>
  \<open>cmd/rdap-lookup/main.go\<close> after the start of the server: \<open>run\<close> waits for a signal or for the end of the
  listener, shuts the server down, and runs its deferred calls.  Parameters: what Echo's shutdown returns, and
  which errors are \<open>http.ErrServerClosed\<close>.
\<close>

text \<open>What \<open>select\<close> receives first: a signal, or the end of \<open>Start\<close> with its error.\<close>

datatype run_ending = Signalled | Listener_Ended "go_error option"

text \<open>The goroutine passes an error on, unless it says that the server was closed.\<close>

definition listener_error :: "(go_error \<Rightarrow> bool) \<Rightarrow> go_error option \<Rightarrow> go_error option" where
  "listener_error was_closed err = (case err of None \<Rightarrow> None | Some e \<Rightarrow> if was_closed e then None else Some e)"

text \<open>The result of \<open>run\<close> before its deferred calls; \<open>None\<close> is a panic.\<close>

definition run_until_end ::
  "(go_error \<Rightarrow> bool) \<Rightarrow> go_error option \<Rightarrow> run_ending \<Rightarrow> ('f, 'l, 'w, 'r, 'a, 'b) Server \<Rightarrow>
   (go_error option \<times> ('f, 'l, 'w, 'r, 'a, 'b) Server) option" where
  "run_until_end was_closed echo_shutdown ending s =
     (let failed = (case ending of Signalled \<Rightarrow> None | Listener_Ended err \<Rightarrow> listener_error was_closed err) in
      case failed of
        Some err \<Rightarrow> Some (Some (Wrapped ''server error'' [err]), s)
      | None \<Rightarrow>
          (case Shutdown s of
             None \<Rightarrow> None
           | Some s1 \<Rightarrow> Some (map_option (\<lambda>err. Wrapped ''shutdown error'' [err]) echo_shutdown, s1)))"

text \<open>
  The deferred calls, last one first: the handler and the cache are closed, then the bootstrap service is
  stopped, which is a run of its own.
\<close>

definition run_deferred ::
  "'a cache_admin \<Rightarrow> 'b cache_admin \<Rightarrow> ('w, 'r, 'a, 'b) LookupHandler \<Rightarrow> ('w, 'r, 'a, 'b) LookupHandler" where
  "run_deferred a1 a2 h =
     (let h1 = Handler_Close h in h1\<lparr>lh_cache := snd (tiered_Close a1 a2 (lh_cache h1))\<rparr>)"

section \<open>The service stops\<close>

text \<open>A service with one goroutine that has not been stopped.\<close>

definition stoppable :: "'r service \<Rightarrow> bool" where
  "stoppable v \<longleftrightarrow> bv_running v \<and> bv_loops v = 1 \<and> bv_stopping v = 0 \<and> \<not> bv_stopClosed v \<and> \<not> bv_doneClosed v \<and>
     \<not> bv_panic v"

lemma stoppable_stops:
  assumes "stoppable v"
  shows "\<exists>v1. service_run v [StopCall, LoopExit, StopReturn] v1 \<and> bv_loops v1 = 0 \<and> bv_stopping v1 = 0 \<and> \<not> bv_panic v1"
proof -
  let ?v1 = "v\<lparr>bv_running := False, bv_stopClosed := True, bv_stopping := Suc (bv_stopping v)\<rparr>"
  let ?v2 = "?v1\<lparr>bv_loops := 0, bv_doneClosed := True\<rparr>"
  let ?v3 = "?v2\<lparr>bv_stopping := 0\<rparr>"
  note s = assms [unfolded stoppable_def]
  have "service_step v StopCall ?v1" using s by (intro stop_begin) simp_all
  moreover have "service_step ?v1 LoopExit ?v2" using s by (intro loop_exit) simp_all
  moreover have "service_step ?v2 StopReturn ?v3" using s by (intro stop_return) simp_all
  ultimately have "service_run v [StopCall, LoopExit, StopReturn] ?v3" by (blast intro: run_Nil run_Cons)
  then show ?thesis using s by (intro exI [of _ ?v3]) simp
qed

text \<open>The service of a program that has started can be stopped.\<close>

lemma app_setup_stoppable:
  assumes "app_setup rps ev Version GitCommit ap = Inr s"
  shows "\<exists>h. ws_lookupHandler s = Some h \<and> stoppable (lh_bootstrap h)"
  using assms
  by (auto simp: app_setup_def NewServer_def NewLookupHandler_def NewLookupHandlerWithWHOIS_def started_service_def
      service_refresh_def NewService_def stoppable_def SetServerValidator_def Let_def split: sum.splits if_splits)

text \<open>A listener that fails ends the program with its error; nothing is shut down.\<close>

lemma failed_listener:
  "\<not> was_closed err \<Longrightarrow>
   run_until_end was_closed echo_shutdown (Listener_Ended (Some err)) s = Some (Some (Wrapped ''server error'' [err]), s)"
  by (simp add: run_until_end_def listener_error_def)

lemma run_ends:
  assumes "\<not> ws_done s" "case ending of Signalled \<Rightarrow> True | Listener_Ended err \<Rightarrow> listener_error was_closed err = None"
  shows "\<exists>s1. run_until_end was_closed echo_shutdown ending s =
      Some (map_option (\<lambda>err. Wrapped ''shutdown error'' [err]) echo_shutdown, s1) \<and>
    \<not> hk_ready (ws_healthChecker s1) \<and> ws_lookupHandler s1 = ws_lookupHandler s"
proof -
  obtain s1 where "Shutdown s = Some s1" "\<not> hk_ready (ws_healthChecker s1)" "ws_lookupHandler s1 = ws_lookupHandler s"
    using assms(1) by (cases "ws_rateLimiter s = None") (simp_all add: Shutdown_def SetReady_def Let_def)
  then show ?thesis using assms(2) by (cases ending) (simp_all add: run_until_end_def)
qed

text \<open>What is left of the cache: its first level has nothing, and the WHOIS client has forgotten its servers.\<close>

lemma run_deferred_cache:
  "tc_l1 (lh_cache (run_deferred a1 a2 h)) = snd (ca_Close a1 (tc_l1 (lh_cache h)))"
  "tc_l2 (lh_cache (run_deferred a1 a2 h)) = map_option (\<lambda>c. snd (ca_Close a2 c)) (tc_l2 (lh_cache h))"
  "lh_bootstrap (run_deferred a1 a2 h) = lh_bootstrap h"
proof -
  obtain res c where c: "tiered_Close a1 a2 (lh_cache h) = (res, c)" by fastforce
  have "run_deferred a1 a2 h = (Handler_Close h)\<lparr>lh_cache := c\<rparr>" by (simp add: run_deferred_def Handler_Close_def c Let_def)
  then show "tc_l1 (lh_cache (run_deferred a1 a2 h)) = snd (ca_Close a1 (tc_l1 (lh_cache h)))"
    "tc_l2 (lh_cache (run_deferred a1 a2 h)) = map_option (\<lambda>c. snd (ca_Close a2 c)) (tc_l2 (lh_cache h))"
    "lh_bootstrap (run_deferred a1 a2 h) = lh_bootstrap h"
    using tiered_Close_levels [OF c] by (simp_all add: Handler_Close_def)
qed

end
