(* ===== verification/Wire_Batch.thy ===== *)
theory Wire_Batch
  imports Wire Http_Server Rdap_Cli
begin

text \<open>
  The other documents between the server and the REST client: the response of a batch, the metadata and the
  errors.  The data of a batch result is text on the server's side (\<open>json.RawMessage\<close>), which is put into the
  document as it is, and any value on the client's; reading a text as a value is the parameter \<open>parse\<close>, which
  yields \<open>Some None\<close> for the text \<open>null\<close>: a null is left out here, since the client reads both alike.
\<close>

section \<open>What the server writes\<close>

type_synonym json_parser = "string \<Rightarrow> doc option option"

text \<open>A message that is no JSON makes \<open>Marshal\<close> fail.\<close>

definition encode_raw :: "json_parser \<Rightarrow> string \<Rightarrow> string \<Rightarrow> fields option" where
  "encode_raw parse name raw =
     (if raw = [] then Some [] else map_option (\<lambda>v. case v of None \<Rightarrow> [] | Some d \<Rightarrow> [(name, d)]) (parse raw))"

definition encode_batch_result :: "json_parser \<Rightarrow> BatchResult \<Rightarrow> doc option" where
  "encode_batch_result parse r =
     map_option (\<lambda>raw. DObj ([(''type'', DStr (br_Type r)), (''value'', DStr (br_Value r))] @ raw @
         opt_str ''error'' (br_Error r) @ [(''cached'', DBool (br_Cached r))]))
       (encode_raw parse ''data'' (br_Data r))"

definition encode_batch_stats :: "BatchStats \<Rightarrow> nat \<Rightarrow> doc" where
  "encode_batch_stats st ms = DObj
     [(''total'', DNum (bt_Total st)), (''success'', DNum (bt_Success st)), (''errors'', DNum (bt_Errors st)),
      (''cache_hits'', DNum (bt_CacheHits st)), (''duration_ms'', DNum ms)]"

definition encode_batch :: "json_parser \<Rightarrow> BatchResult list \<Rightarrow> BatchStats \<Rightarrow> nat \<Rightarrow> fields option" where
  "encode_batch parse results st ms =
     map_option (\<lambda>rs. [(''results'', DList rs), (''stats'', encode_batch_stats st ms)])
       (all_some (map (encode_batch_result parse) results))"

definition encode_meta :: "MetaResponse \<Rightarrow> fields" where
  "encode_meta m =
     [(''service'', DStr (me_Service m)), (''version'', DStr (me_Version m)), (''git_commit'', DStr (me_GitCommit m)),
      (''hostname'', DStr (me_Hostname m)), (''uptime'', DStr (me_Uptime m)), (''start_time'', DStr (me_StartTime m))]"

definition encode_error :: "string \<Rightarrow> string \<Rightarrow> fields" where
  "encode_error code msg = [(''error'', DObj [(''code'', DStr code), (''message'', DStr msg)])]"

section \<open>What the REST client reads\<close>

text \<open>An \<open>int\<close> or \<open>int64\<close> field; the server writes no negative number.\<close>

definition get_int :: "fields \<Rightarrow> string \<Rightarrow> int option" where
  "get_int fs name =
     (case map_of fs name of
        None \<Rightarrow> Some 0
      | Some (DNum n) \<Rightarrow> if n < 2 ^ 63 then Some (int n) else None
      | _ \<Rightarrow> None)"

record ReadBatchResult =
  wb_Type :: string
  wb_Value :: string
  wb_Data :: "doc option"
  wb_Cached :: bool
  wb_Error :: string

definition decode_batch_result :: "doc \<Rightarrow> ReadBatchResult option" where
  "decode_batch_result = dec_obj (\<lambda>fs. do {
     kind \<leftarrow> get_str fs ''type''; v \<leftarrow> get_str fs ''value''; cached \<leftarrow> get_bool fs ''cached'';
     err \<leftarrow> get_str fs ''error'';
     Some \<lparr>wb_Type = kind, wb_Value = v, wb_Data = map_of fs ''data'', wb_Cached = cached, wb_Error = err\<rparr> })"

definition decode_batch_stats :: "doc \<Rightarrow> ClientBatchStats option" where
  "decode_batch_stats = dec_obj (\<lambda>fs. do {
     total \<leftarrow> get_int fs ''total''; success \<leftarrow> get_int fs ''success''; errors \<leftarrow> get_int fs ''errors'';
     hits \<leftarrow> get_int fs ''cache_hits''; ms \<leftarrow> get_int fs ''duration_ms'';
     Some \<lparr>kt_Total = total, kt_Success = success, kt_Errors = errors, kt_CacheHits = hits, kt_DurationMs = ms\<rparr> })"

definition decode_batch :: "fields \<Rightarrow> (ReadBatchResult list \<times> ClientBatchStats option) option" where
  "decode_batch fs = do {
     results \<leftarrow> get_list decode_batch_result fs ''results''; st \<leftarrow> get_ptr decode_batch_stats fs ''stats'';
     Some (results, st) }"

definition decode_meta :: "fields \<Rightarrow> PublicMeta option" where
  "decode_meta fs = do {
     component \<leftarrow> get_str fs ''component''; version \<leftarrow> get_str fs ''version''; hostname \<leftarrow> get_str fs ''hostname'';
     Some \<lparr>mp_Component = component, mp_Version = version, mp_Hostname = hostname\<rparr> }"

definition decode_error :: "fields \<Rightarrow> (string \<times> string) option option" where
  "decode_error fs =
     get_ptr (dec_obj (\<lambda>e. do { code \<leftarrow> get_str e ''code''; msg \<leftarrow> get_str e ''message''; Some (code, msg) })) fs ''error''"

section \<open>What survives\<close>

text \<open>What the client is meant to see of a result.\<close>

definition read_result :: "json_parser \<Rightarrow> BatchResult \<Rightarrow> ReadBatchResult" where
  "read_result parse r =
     \<lparr>wb_Type = br_Type r, wb_Value = br_Value r,
      wb_Data = (if br_Data r = [] then None else Option.bind (parse (br_Data r)) id),
      wb_Cached = br_Cached r, wb_Error = br_Error r\<rparr>"

definition raw_ok :: "json_parser \<Rightarrow> BatchResult \<Rightarrow> bool" where
  "raw_ok parse r \<longleftrightarrow> (br_Data r = [] \<or> parse (br_Data r) \<noteq> None)"

lemma decode_encode_result:
  assumes "raw_ok parse r"
  shows "\<exists>d. encode_batch_result parse r = Some d \<and> decode_batch_result d = Some (read_result parse r)"
proof -
  have "\<exists>v. (br_Data r = [] \<longrightarrow> v = None) \<and> (br_Data r \<noteq> [] \<longrightarrow> parse (br_Data r) = Some v)"
    using assms by (cases "br_Data r = []") (auto simp: raw_ok_def)
  then obtain v where v: "br_Data r = [] \<Longrightarrow> v = None" "br_Data r \<noteq> [] \<Longrightarrow> parse (br_Data r) = Some v" by blast
  then have "encode_raw parse ''data'' (br_Data r) = Some (opt_doc ''data'' v)"
    by (cases "br_Data r = []") (auto simp: encode_raw_def opt_doc_def)
  moreover have "wb_Data (read_result parse r) = v" using v by (cases "br_Data r = []") (simp_all add: read_result_def)
  ultimately show ?thesis
    by (auto simp: encode_batch_result_def decode_batch_result_def dec_obj_def get_defs read_result_def
        simp del: map_of_append split: option.split)
qed

lemma decode_encode_results:
  "list_all (raw_ok parse) rs \<Longrightarrow>
   \<exists>ds. all_some (map (encode_batch_result parse) rs) = Some ds \<and>
     all_some (map decode_batch_result ds) = Some (map (read_result parse) rs)"
proof (induction rs)
  case (Cons r rs)
  then obtain d ds where "encode_batch_result parse r = Some d" "decode_batch_result d = Some (read_result parse r)"
      "all_some (map (encode_batch_result parse) rs) = Some ds"
      "all_some (map decode_batch_result ds) = Some (map (read_result parse) rs)"
    using decode_encode_result [of parse r] by auto
  then show ?case by simp
qed simp

lemma decode_encode_stats:
  assumes "bt_Total st < 2 ^ 63" "bt_Success st < 2 ^ 63" "bt_Errors st < 2 ^ 63" "bt_CacheHits st < 2 ^ 63" "ms < 2 ^ 63"
  shows "decode_batch_stats (encode_batch_stats st ms) =
    Some \<lparr>kt_Total = int (bt_Total st), kt_Success = int (bt_Success st), kt_Errors = int (bt_Errors st),
      kt_CacheHits = int (bt_CacheHits st), kt_DurationMs = int ms\<rparr>"
  using assms by (simp add: decode_batch_stats_def encode_batch_stats_def dec_obj_def get_int_def)

lemma decode_encode_batch:
  assumes "list_all (raw_ok parse) rs"
    and "bt_Total st < 2 ^ 63" "bt_Success st < 2 ^ 63" "bt_Errors st < 2 ^ 63" "bt_CacheHits st < 2 ^ 63" "ms < 2 ^ 63"
  shows "\<exists>fs. encode_batch parse rs st ms = Some fs \<and>
    decode_batch fs = Some (map (read_result parse) rs,
      Some \<lparr>kt_Total = int (bt_Total st), kt_Success = int (bt_Success st), kt_Errors = int (bt_Errors st),
        kt_CacheHits = int (bt_CacheHits st), kt_DurationMs = int ms\<rparr>)"
  using decode_encode_results [OF assms(1)] decode_encode_stats [OF assms(2-6)]
  by (auto simp: encode_batch_def decode_batch_def get_list_def get_ptr_def)

text \<open>The client looks for a component, the server names a service.\<close>

lemma meta_loses_component:
  "decode_meta (encode_meta m) = Some \<lparr>mp_Component = [], mp_Version = me_Version m, mp_Hostname = me_Hostname m\<rparr>"
  by (simp add: decode_meta_def encode_meta_def get_str_def)

lemma decode_encode_error: "decode_error (encode_error code msg) = Some (Some (code, msg))"
  by (simp add: decode_error_def encode_error_def get_ptr_def get_str_def dec_obj_def)

text \<open>The counts of a batch are those of its results.\<close>

lemma batch_stats_fold:
  "foldl (\<lambda>st r.
         let st1 = (if br_Error r = [] then st\<lparr>bt_Success := Suc (bt_Success st)\<rparr>
                    else st\<lparr>bt_Errors := Suc (bt_Errors st)\<rparr>)
         in if br_Cached r then st1\<lparr>bt_CacheHits := Suc (bt_CacheHits st1)\<rparr> else st1) st rs =
   st\<lparr>bt_Success := bt_Success st + length (filter (\<lambda>r. br_Error r = []) rs),
     bt_Errors := bt_Errors st + length (filter (\<lambda>r. br_Error r \<noteq> []) rs),
     bt_CacheHits := bt_CacheHits st + length (filter br_Cached rs)\<rparr>"
  by (induction rs arbitrary: st) (simp_all add: Let_def)

lemma batch_stats_counts:
  "batch_stats rs n = \<lparr>bt_Total = n, bt_Success = length (filter (\<lambda>r. br_Error r = []) rs),
     bt_Errors = length (filter (\<lambda>r. br_Error r \<noteq> []) rs), bt_CacheHits = length (filter br_Cached rs)\<rparr>"
  by (simp add: batch_stats_def batch_stats_fold)

end
