(* ===== verification/Spec2Isabelle.thy ===== *)
theory Spec2Isabelle
  imports Parsers_Registry Whois_Records Whois_Client Whois_Transform Schema_Country Validate_Input
    Bootstrap_Service Tiered_Cache Standalone Rate_Limiter End_To_End Http_Server Rdap_Cli Phish_Main
    Example_Clients Metrics_Sound Cache_Stats Server_Run Wire_Batch
begin

text \<open>
  A model of rdap-lookup, a lookup service for domains, IP addresses, AS numbers and entities over
  RDAP with a fall back to WHOIS, and the theorems that make it correct.

  \<^bold>\<open>How the program is put together.\<close>  A request is validated (\<open>internal/validate\<close>), its answer is
  looked up in a two-level cache (\<open>internal/cache\<close>), and on a miss fetched from an RDAP server that
  the IANA bootstrap tables name (\<open>internal/bootstrap\<close>, \<open>internal/rdap\<close>), or, for domains without
  one, over WHOIS: the server is discovered at IANA, queried over TCP, and the text is parsed by a
  parser for the top-level domain (\<open>internal/whois\<close>, \<open>internal/whois/parsers\<close>).  Either way the
  answer is reduced to a simplified record (\<open>internal/schema\<close>, \<open>internal/whois/transformer.go\<close>).

  \<^bold>\<open>Which theory models which part.\<close>
  \<^item> \<open>Prelude\<close> (results, folds, the collections \<open>step_inv\<close> and \<open>go_eval\<close>), \<open>GoUnicode\<close>, \<open>GoStrings\<close>,
    \<open>GoTime\<close>, \<open>GoDuration\<close>, \<open>GoIO\<close>, \<open>GoNet\<close>: what the code uses of Go's standard library: UTF-8 and case mapping,
    \<open>strings\<close>, \<open>strconv\<close>, \<open>time.Parse\<close> with its layouts, durations and their texts, limited readers, \<open>sort.Search\<close>,
    \<open>net/netip\<close> addresses.  Strings are byte lists.  \<open>GoErrors\<close>: the error values and \<open>errors.Is\<close>.
  \<^item> \<open>Whois_Names\<close>, \<open>Whois_Types\<close>, \<open>Whois_Parser\<close>, \<open>Whois_Generic\<close>, \<open>Parser_DE\<close>, \<open>Parser_CN\<close>,
    \<open>Parser_RU\<close>, \<open>Parser_AU\<close>, \<open>Parser_EU\<close>, \<open>Parser_IT\<close>, \<open>Parser_ES\<close>, \<open>Parser_JP\<close>,
    \<open>Parsers_Registry\<close>, \<open>Whois_Records\<close>: the WHOIS parsers, one theory each.  The interface
    \<open>Parser\<close> is the locale \<open>parser_contract\<close>, interpreted for each parser; the parsers that share
    the key-value loop are \<open>kv_parser\<close>; the registry is \<open>registry_contract\<close>.
  \<^item> \<open>Whois_Discovery\<close>, \<open>Whois_Client\<close>, \<open>Whois_Transform\<close>: discovery with its cache (the locale
    \<open>ttl_store\<close>), the TCP client, the simplified record.
  \<^item> \<open>Schema\<close>, \<open>Schema_Country\<close>: the simplified RDAP records and the search for a country.
  \<^item> \<open>Bootstrap\<close>, \<open>Bootstrap_Loader\<close>, \<open>Bootstrap_Service\<close>: the tables and the resolver, loading
    them, and the life cycle of the service as a step relation.
  \<^item> \<open>Cache\<close> (keys, entries and the interface as the locale \<open>cache_contract\<close>), \<open>Memory_Cache\<close>,
    \<open>Redis_Cache\<close>, \<open>Tiered_Cache\<close>: each cache is shown to honour the contract; the tiered cache for
    any two levels that do (\<open>two_caches\<close>).  \<open>Cache_Stats\<close>: their statistics and shutdown; every cache that
    counts its lookups is a \<open>lookup_counter\<close>.
  \<^item> \<open>Validate_Input\<close>: the validation of names, addresses, numbers and handles.  \<open>GoUrl\<close> (\<open>url.Parse\<close> and
    escaping) and \<open>Validate_Url\<close>: the allowlist of servers.
  \<^item> \<open>Rdap_Client\<close>: one request, retries and the fall-over between servers.  \<open>Config\<close>: what is read from the
    environment and checked.
  \<^item> \<open>Api_Lookup\<close>: the handlers and batches over all of these; a handler is a function on its state and on
    the outside world.  \<open>Rate_Limiter\<close>: the limiter as functions and as a step relation.
  \<^item> \<open>Http_Server\<close>: the server around the handlers (routes, limiter, health, life cycle) and how the program
    puts the parts together; \<open>Server_Run\<close>: how it ends.
  \<^item> \<open>Public_Types\<close>, \<open>Standalone\<close>, \<open>Public_Client\<close>: the public package with its two clients.  \<open>Wire\<close>,
    \<open>Wire_Batch\<close>, \<open>End_To_End\<close>: what the REST client reads of what the server writes.
  \<^item> \<open>Rdap_Interface\<close>: the interface \<open>RDAPClient\<close> as the locale \<open>rdap_client\<close>, which both clients honour.
    \<open>Rdap_Cli\<close>: the command line client (\<open>cmd/rdap-client\<close>).  \<open>Phish_Analyzer\<close>, \<open>Phish_Report\<close>: the analyzer of
    phishing URLs and its report (\<open>cmd/phishstats-analyzer\<close>).  Both use the interface only.  \<open>GoFlag\<close> and
    \<open>Phish_Main\<close>: Go's \<open>flag\<close> package and the program of the analyzer.
  \<^item> \<open>Metrics\<close> (the metrics, their registration, and calls on them) and \<open>Metrics_Use\<close> (the calls that the
    caches, the clients, the handlers and the services make, next to their operations); \<open>Metrics_Sound\<close>: all of
    these together as recordings that a small type system accepts.
  \<^item> \<open>Example_Service\<close>, \<open>Example_Clients\<close>: a small deployment and its clients, on which properties are evaluated.

  \<^bold>\<open>What the lemmas show.\<close>  Of each parser, that it always returns, keeps the raw response and never
  yields an empty name server; of the extractors, equations with the list of all values; of the
  client, that the chunks in which a response arrives do not matter; of the tables, that a binary
  search equals a linear one and that loading followed by resolving gives the owner's servers; of
  the service and of the rate limiter, invariants of all interleavings; of the caches, that nothing is
  returned that was not stored, and when something is; of the RDAP client, which reply decides and which
  requests are made; of the handlers, that they answer and what they may ask of other hosts; of the server program, that it starts,
  serves and stops; of the
  clients, what they make of the answers; of the command line, that every command ends and that options
  and batch files are read back; of the analyzer, that every domain is accounted for and the counts of
  the report add up; of its program, that the flags decide what ends up in the output file; of the metrics, that
  they agree with what was done and that no recording panics.

  \<^bold>\<open>Parameters.\<close>  Code outside the repository is an argument of the definitions: the network and
  HTTP servers, \<open>cidranger\<close> (\<open>ranger_ok\<close>), \<open>golang-lru\<close> (\<open>lru_ok\<close>), the Redis server (\<open>redis_ok\<close>), JSON
  encoding (\<open>json_ok\<close>), \<open>sort.Slice\<close> (\<open>slice_sort\<close>, \<open>count_sort\<close>), the objects \<open>openrdap\<close> decodes, the token bucket, the
  public suffix list, ranging over a map (\<open>range_ok\<close>), the registry of
  metrics (\<open>prometheus\<close>), floating-point numbers.  HTTP clients and timers act on a state of the outside world.  Each hypothesis
  about one states its documented behaviour and has a concrete instance.  Times are integers in
  nanoseconds passed to each operation.

  \<^bold>\<open>Fuel.\<close>  The eviction loop of the memory cache runs on the length of the list, which falls by one
  in each round; the layouts of \<open>time.Parse\<close> are cut up on their length.  All other loops recurse on
  their data or have a measure.

  \<^bold>\<open>Not modelled.\<close>  The output of log lines, Echo's own middleware, the signal that
  cancels an analysis, help texts, and the generated or vendored code; see the manifest for each part.
\<close>

section \<open>WHOIS parsing\<close>




text \<open>
  The key-value parsers read keys without regard to case: two records with the same values and
  keys that differ only in case are parsed to the same fields (.cn, .ru and .au).
\<close>

theorem kv_parsers_ignore_key_case:
  assumes "same_record kvs kvs'"
    and "\<forall>kv \<in> set kvs \<union> set kvs'. clean_kv CN_comment kv \<and> clean_kv RU_comment kv \<and> clean_kv AU_comment kv"
  shows "parse_kv_lines CN_comment CN_parseField pd (print_lines (map print_kv kvs)) =
      parse_kv_lines CN_comment CN_parseField pd (print_lines (map print_kv kvs')) \<and>
    parse_kv_lines RU_comment RU_parseField pd (print_lines (map print_kv kvs)) =
      parse_kv_lines RU_comment RU_parseField pd (print_lines (map print_kv kvs')) \<and>
    parse_kv_lines AU_comment AU_parseField pd (print_lines (map print_kv kvs)) =
      parse_kv_lines AU_comment AU_parseField pd (print_lines (map print_kv kvs'))"
  using assms by (auto intro!: cn_kv.print_case ru_kv.print_case au_kv.print_case)

theorem kv_parsers_ignore_key_case_witness:
  "parse_kv_lines RU_comment RU_parseField empty_domain (print_lines (map print_kv [(''Domain'', ''A.RU'')])) =
   parse_kv_lines RU_comment RU_parseField empty_domain (print_lines (map print_kv [(''DOMAIN'', ''A.RU'')]))"
  using kv_parsers_ignore_key_case [of "[(''Domain'', ''A.RU'')]" "[(''DOMAIN'', ''A.RU'')]" empty_domain]
  by (simp add: same_record_def to_lower_def is_ascii_def ascii_lower_def clean_kv_def print_kv_def
      clean_def solid_char_def ascii_space_def CN_comment_def RU_comment_def AU_comment_def
      has_prefix_def)

text \<open>
  The generic parser's extractors: the values collected by \<open>ExtractAll\<close> are distinct and not
  empty, and \<open>Extract\<close> returns the first of them, or the empty string when there is none.
\<close>

theorem extract_is_first_of_all:
  "distinct (ExtractAll f response) \<and> [] \<notin> set (ExtractAll f response) \<and>
   Extract f response = (case ExtractAll f response of [] \<Rightarrow> [] | v # _ \<Rightarrow> v)"
  using all_values_nonempty [of f response]
  by (auto simp: ExtractAll_eq_nub Extract_eq_hd_values distinct_nub_from set_nub_from split: list.split)

text \<open>
  On a printed record an extractor finds the value of the first field whose line contains one
  of its patterns followed by a colon, in any case.
\<close>

theorem extract_from_record:
  assumes "\<forall>kv \<in> set kvs. clean_kv fe_comment kv"
  shows "Extract f (print_lines (map print_kv kvs)) =
    (case find (fe_matches f) kvs of None \<Rightarrow> [] | Some kv \<Rightarrow> snd kv)"
  using assms by (rule Extract_print_lines)

theorem extract_from_record_witness:
  "Extract (newFieldExtractor [''Registrar'']) (print_lines (map print_kv
     [(''Domain'', ''a.b''), (''REGISTRAR'', ''R'')])) = ''R''"
  using extract_from_record [of "[(''Domain'', ''a.b''), (''REGISTRAR'', ''R'')]" "newFieldExtractor [''Registrar'']"]
  by (simp add: clean_kv_def print_kv_def clean_def solid_char_def ascii_space_def fe_comment_def
      has_prefix_def fe_matches_def newFieldExtractor_def contains_def to_lower_def is_ascii_def
      ascii_lower_def)

section \<open>WHOIS transport\<close>

text \<open>
  C3. \<open>readResponse\<close> depends on the bytes the server sends and on how the stream ends, never on
  how the bytes are cut into reads: more bytes than the limit give \<open>ErrResponseTooLarge\<close> (also when
  the stream would end in an error), otherwise an error that ends the stream is reported, and
  otherwise the response is exactly the bytes.
\<close>

theorem read_response_chunk_independent:
  assumes "0 \<le> wc_maxResponseSize c" "wc_maxResponseSize c < 2 ^ 63 - 1"
  shows "readResponse c (chunks, fin) server =
    (if int (length (concat chunks)) > wc_maxResponseSize c then Inl (Sentinel Whois_ErrResponseTooLarge)
     else (case fin of None \<Rightarrow> Inr (concat chunks) | Some err \<Rightarrow> Inl (WHOISError ''read'' server err)))"
  using readResponse_spec [OF assms, of "(chunks, fin)" server] by (simp add: response_spec_def)

theorem read_response_chunk_independent_witness:
  "readResponse (NewClient 10 4 None) ([''ab'', [], ''cd''], None) ''w'' = Inr ''abcd'' \<and>
   readResponse (NewClient 10 4 None) ([''abc'', ''de''], None) ''w'' = Inl (Sentinel Whois_ErrResponseTooLarge)"
  using read_response_chunk_independent [of "NewClient 10 4 None" "[''ab'', [], ''cd'']" None "''w''"]
    read_response_chunk_independent [of "NewClient 10 4 None" "[''abc'', ''de'']" None "''w''"]
  by (simp add: NewClient_def)

text \<open>
  C4. The query sent to a server is one line: it contains the domain, it ends in CR LF, and it has
  no other line feed when the domain has none.
\<close>

theorem server_query_is_one_line:
  assumes "CHR 0x0A \<notin> set dmn"
  shows "\<exists>before after. split_on CHR 0x0A (buildServerQuery dmn server) =
    [before @ dmn @ after @ [CHR 0x0D], []]"
proof -
  let ?l = "fst (query_parts server) @ dmn @ snd (query_parts server) @ [CHR 0x0D]"
  have "CHR 0x0A \<notin> set ?l" using assms query_parts_no_break [of server] by simp
  then have "split_on CHR 0x0A (?l @ CHR 0x0A # []) = ?l # split_on CHR 0x0A []"
    by (rule split_on_append)
  moreover have "buildServerQuery dmn server = ?l @ CHR 0x0A # []"
    by (simp add: buildServerQuery_form crlf_def)
  ultimately show ?thesis by auto
qed

theorem server_query_is_one_line_witness:
  "\<exists>before after. split_on CHR 0x0A (buildServerQuery ''a.de'' ''whois.denic.de'') =
    [before @ ''a.de'' @ after @ [CHR 0x0D], []]"
  by (rule server_query_is_one_line) simp

text \<open>
  C5. Discovery caches what it finds: once IANA named a server for a top-level domain, every later
  discovery of the same (normalised) domain within the cache lifetime returns that server, whatever
  the network does then, and leaves the state as it is.
\<close>

theorem discovery_is_cached:
  assumes "cache_lookup d now (normalizeTLD tld) = None"
    and "DiscoverServer net ctx now later d tld = (Inr server, d')"
    and "normalizeTLD tld' = normalizeTLD tld" "now' - later \<le> d_cacheTTL d"
  shows "DiscoverServer net' ctx' now' later' d' tld' = (Inr server, d')"
proof -
  have d': "normalizeTLD tld \<noteq> []" "d' = setCached d later (normalizeTLD tld) server" "server \<noteq> []"
    by (rule DiscoverServer_cases [where t = tld and net = net and c = ctx and now = now
          and later = later and d = d]; use assms(1,2) in simp)+
  have "cache_lookup d' now' (normalizeTLD tld) = Some server"
    unfolding d'(2) using d'(3) assms(4) by (rule servers.get_put_fresh)
  then have "cache_lookup d' now' (normalizeTLD tld') = Some server" using assms(3) by simp
  then show ?thesis using d'(1) assms(3)
    by - (rule DiscoverServer_cases [where t = tld' and net = net' and c = ctx' and now = now'
          and later = later' and d = d'], simp_all)
qed

definition example_net :: network where
  "example_net addr timeout =
     \<lparr>cn_dial = None, cn_deadline = None, cn_write = (\<lambda>_. None),
      cn_reply = (\<lambda>_. ([''whois: w.x'', [CHR 0x0A]], None))\<rparr>"

definition dead_net :: network where
  "dead_net addr timeout =
     \<lparr>cn_dial = Some (OtherError ''connection refused''), cn_deadline = None, cn_write = (\<lambda>_. None),
      cn_reply = (\<lambda>_. ([], None))\<rparr>"

lemma example_discovery:
  "normalizeTLD ''COM'' = ''com''" "normalizeTLD ''.com'' = ''com''"
  "DiscoverServer example_net None 0 5 (NewDiscovery []) ''COM'' =
     (Inr ''w.x'', setCached (NewDiscovery []) 5 ''com'' ''w.x'')"
proof -
  show com: "normalizeTLD ''COM'' = ''com''" "normalizeTLD ''.com'' = ''com''"
    by (simp_all add: normalizeTLD_def trim_prefix_def to_lower_def is_ascii_def ascii_lower_def
        trim_space_clean clean_def solid_char_def ascii_space_def isValidTLDChar_def Let_def byte_Char)
  have "trim_space ('' w.x'') = ''w.x''"
    by (simp add: trim_space_left ascii_space_def trim_space_clean clean_def solid_char_def)
  then have "queryIANA example_net None (NewDiscovery []) ''com'' = Inr ''w.x''"
    by (simp add: queryIANA_def example_net_def Let_def parseIANAResponse_def limit_reader_def
        MaxIANAResponseSize_def scan_buffer_def iana_server_def drop_cr_def trim_suffix_def
        to_lower_def is_ascii_def ascii_lower_def has_prefix_def)
  moreover have "getCached (NewDiscovery []) 0 ''com'' = []" by (simp add: getCached_def NewDiscovery_def)
  ultimately show "DiscoverServer example_net None 0 5 (NewDiscovery []) ''COM'' =
      (Inr ''w.x'', setCached (NewDiscovery []) 5 ''com'' ''w.x'')"
    by (simp add: DiscoverServer_def com)
qed

theorem discovery_is_cached_witness:
  "DiscoverServer dead_net (Some 3) 1000 2000 (setCached (NewDiscovery []) 5 ''com'' ''w.x'') ''.com'' =
     (Inr ''w.x'', setCached (NewDiscovery []) 5 ''com'' ''w.x'')"
  by (rule discovery_is_cached [where d = "NewDiscovery []" and now = 0 and later = 5 and tld = "''COM''"
        and net = example_net and ctx = None])
     (simp_all add: example_discovery, simp_all add: cache_lookup_def getCached_def NewDiscovery_def)

text \<open>
  A discovery that succeeds names a server, never the empty string, and keeps the cache sound
  (every key a valid name, every entry a non-empty server); so does every query of the client.
\<close>

theorem discovery_stays_sound:
  assumes "discovery_ok (wc_discovery c)"
  shows "discovery_ok (wc_discovery (snd (Query net ctx now later dur c dmn))) \<and>
    (\<forall>server. fst (DiscoverServer net ctx now later (wc_discovery c) tld) = Inr server \<longrightarrow> server \<noteq> [])"
  using assms Query_ok DiscoverServer_nonempty by blast

theorem discovery_stays_sound_witness:
  "discovery_ok (wc_discovery (snd (Query example_net None 0 5 1 (NewClient 10 100 (Some (NewDiscovery []))) ''a.COM'')))"
  using discovery_stays_sound [of "NewClient 10 100 (Some (NewDiscovery []))" example_net None 0 5 1 "''a.COM''"]
  by (simp add: NewClient_def discovery_ok_New)

text \<open>
  A closed client answers every query with "client closed", without the network and without
  touching its state; closing empties the discovery cache.
\<close>

theorem closed_client_refuses:
  "Query net ctx now later dur (whois_Close c) dmn =
     (Inl (WHOISError ''query'' [] (OtherError ''client closed'')), whois_Close c) \<and>
   QueryServer net ctx dur (whois_Close c) dmn server =
     Inl (WHOISError ''query'' server (OtherError ''client closed'')) \<and>
   (\<not> wc_closed c \<longrightarrow> CacheSize (wc_discovery (whois_Close c)) = 0)"
  by (simp add: Query_def QueryServer_def whois_Close_closed)
     (simp add: whois_Close_def ClearCache_def CacheSize_def)

theorem closed_client_refuses_witness:
  "CacheSize (wc_discovery (whois_Close (NewClient 10 100 None))) = 0"
  using closed_client_refuses [of dead_net None 0 0 0 "NewClient 10 100 None" "[]" "[]"]
  by (simp add: NewClient_def)

text \<open>
  The size limit wraps around at its largest value: a client with a limit of 2^63 - 1 reads
  every response as empty and reports success.
\<close>

theorem largest_limit_reads_nothing:
  "readResponse (NewClient timeout (2 ^ 63 - 1) d) reply server = Inr []"
  by (rule readResponse_wraps) (simp add: NewClient_def)

section \<open>Simplified responses\<close>

text \<open>
  The contact of a role in a simplified domain is that of the last entity with the role, and
  absent when no entity has it.
\<close>

theorem domain_contacts_by_role:
  "map_option (\<lambda>d. (sd_Registrar d, sd_Registrant d, sd_AdminContact d, sd_TechContact d))
     (TransformDomain (Some resp) server) =
   Some (role_contact ''registrar'' (rd_Entities resp), role_contact ''registrant'' (rd_Entities resp),
     role_contact ''administrative'' (rd_Entities resp), role_contact ''technical'' (rd_Entities resp))"
proof -
  obtain d where d: "TransformDomain (Some resp) server = Some d"
    by (simp add: TransformDomain_def Let_def)
  show ?thesis unfolding d using TransformDomain_contacts [OF d] by simp
qed

text \<open>
  The search for an entity's country is the first non-empty one among the countries visible
  in at most eleven levels (depths 0 to 10): an entity with a country hides those below it, and
  deeper entities are not looked at.
\<close>

theorem country_search_is_bounded:
  "extractCountryFromEntity e = first_nonempty (visible_countries 11 e)"
  using extract_depth_visible [of 0 e] by (simp add: extractCountryFromEntity_def maxEntityDepth_def eval_nat_numeral)

text \<open>
  The country of a domain is searched role by role: the result is the first non-empty country
  in the order registrant, administrative, technical, and within a role in the order of the
  entities.
\<close>

theorem domain_country_by_priority:
  "ExtractCountryFromDomain (Some resp) =
   first_nonempty (concat (map (\<lambda>role. map extractCountryFromEntity
     (filter (\<lambda>e. role \<in> set (en_Roles e)) (rd_Entities resp)))
     [''registrant'', ''administrative'', ''technical'']))"
proof -
  have "first_found (\<lambda>e. if p \<in> set (en_Roles e) then extractCountryFromEntity e else []) es =
      first_nonempty (map extractCountryFromEntity (filter (\<lambda>e. p \<in> set (en_Roles e)) es))" for p es
    by (induction es) (auto simp: first_nonempty_def)
  then show ?thesis
    by (simp add: ExtractCountryFromDomain_def country_by_priority_def country_by_priority_entity
        first_found_map [of _ "[_, _, _]"] first_nonempty_append)
qed

section \<open>Bootstrap data\<close>

text \<open>
  C23. The binary search for an AS number and the walk back from it return what a linear search
  for the last matching range returns, on a table sorted by start and by end.
\<close>

theorem resolve_asn_is_linear_search:
  assumes "asn_table_ok (ab_ranges a)" "ab_ranges a \<noteq> []" "asn \<noteq> 0"
  shows "ASN_ResolveASN a asn =
    (case linear_lookup (ab_ranges a) asn of None \<Rightarrow> Inl Bootstrap_ErrNotFound | Some urls \<Rightarrow> Inr urls)"
  using assms by (rule ResolveASN_linear)

definition example_asn :: "asnEntry list \<Rightarrow> ASNBootstrap" where
  "example_asn rs = \<lparr>ab_ranges = rs, ab_lastRefresh = None, ab_publication = [], ab_version = []\<rparr>"

theorem resolve_asn_is_linear_search_witness:
  "ASN_ResolveASN (example_asn [\<lparr>as_start = 1, as_end = 5, as_urls = [''u'']\<rparr>,
     \<lparr>as_start = 8, as_end = 9, as_urls = [''v'']\<rparr>]) 4 = Inr [''u'']"
  using resolve_asn_is_linear_search [of "example_asn [\<lparr>as_start = 1, as_end = 5, as_urls = [''u'']\<rparr>,
     \<lparr>as_start = 8, as_end = 9, as_urls = [''v'']\<rparr>]" 4]
  by (simp add: example_asn_def asn_table_ok_def linear_lookup_def in_range_def)

text \<open>
  On nested ranges the early stop of the walk misses a range that contains the number: the
  search is not complete on every table the loader may build.
\<close>

theorem resolve_asn_misses_nested:
  "let table = [\<lparr>as_start = 1, as_end = 100, as_urls = [''u'']\<rparr>,
                \<lparr>as_start = 10, as_end = 20, as_urls = [''v'']\<rparr>] in
   ASN_ResolveASN (example_asn table) 50 = Inl Bootstrap_ErrNotFound \<and>
   linear_lookup table 50 = Some [''u'']"
proof -
  have "scan_back [r, s] (Suc (Suc 0)) 50 = None" if "\<not> in_range 50 s" "as_end s < 50" for r s
    using that by (auto simp: in_range_def)
  moreover have "Search (Suc (Suc 0)) f = Suc (Suc 0)" if "\<not> f 0" "\<not> f (Suc 0)" for f
    using that by (simp add: Search_def search_between.simps)
  ultimately show ?thesis
    by (simp add: ASN_ResolveASN_def example_asn_def linear_lookup_def in_range_def Let_def)
qed

text \<open>
  C24. Once a file whose AS number ranges do not overlap is loaded, in any order and with any sort
  that puts the starts in order, every number in one of the ranges resolves to the servers of that
  range.
\<close>

theorem load_then_resolve_asn:
  assumes "slice_sort (le_sort env)" "LoadAll ops env = Inr b"
    and "load_file env ''https://data.iana.org/rdap/asn.json'' ''ASN'' = Inr file"
    and "asn_separate (asn_entries file)" "r \<in> set (asn_entries file)" "in_range asn r" "asn \<noteq> 0"
  shows "ASN_ResolveASN (bs_ASN b) asn = Inr (as_urls r)"
proof -
  have ranges: "ab_ranges (bs_ASN b) = le_sort env (asn_entries file)"
    by (rule LoadAll_tables(2) [OF assms(2,3)])
  have r: "r \<in> set (ab_ranges (bs_ASN b))"
    unfolding ranges using slice_sort.set_srt [OF assms(1)] assms(5) by blast
  have d: "asn_disjoint (ab_ranges (bs_ASN b))"
    unfolding ranges by (rule slice_sort.srt_disjoint [OF assms(1,4)])
  have "ab_ranges (bs_ASN b) \<noteq> []" using r by auto
  from ResolveASN_linear [OF asn_disjoint_table [OF d] this assms(7)] linear_lookup_disjoint [OF d r assms(6)]
  show ?thesis by simp
qed

definition example_http :: "string \<Rightarrow> http_outcome" where
  "example_http url = \<lparr>ho_error = None, ho_status = 200, ho_body = ([url], None)\<rparr>"

definition example_file :: IANABootstrapFile where
  "example_file = \<lparr>bf_Publication = [], bf_Version = ''1.0'',
     bf_Services = [[JArray [JString ''COM'', JOther], JArray [JString ''u'']],
                    [JArray [JString ''8-9''], JArray [JString ''v'']],
                    [JArray [JString ''4''], JArray [JString ''w'']], [JOther],
                    [JArray [JString ''10.0.0.0/8''], JArray [JString ''x'']]]\<rparr>"

definition example_env :: load_env where
  "example_env = \<lparr>le_http = example_http, le_decode = (\<lambda>_. Inr example_file),
     le_sort = sort_key as_start, le_now = 0\<rparr>"

lemma example_load [simp]: "length url \<le> 100 \<Longrightarrow> load_file example_env url what = Inr example_file"
  by (simp add: load_file_def fetch_def example_env_def example_http_def limit_reader_def
      maxBootstrapFileSize_def)

definition list_ranger :: "ranger_entry list ranger_ops" where
  "list_ranger = \<lparr>cr_new = [], cr_insert = (\<lambda>r e. Inr (e # filter (\<lambda>x. fst x \<noteq> fst e) r)),
     cr_containing = (\<lambda>r ip. Inr (filter (\<lambda>x. net_contains (fst x) ip \<and> map_of r (fst x) = Some (snd x)) r))\<rparr>"

lemma map_of_filter_other: "n \<noteq> m \<Longrightarrow> map_of (filter (\<lambda>x. fst x \<noteq> n) r) m = map_of r m"
  by (induction r) auto

lemma list_ranger_ok: "ranger_ok list_ranger map_of"
  unfolding ranger_ok_def list_ranger_def
  by (auto simp: fun_eq_iff map_of_filter_other dest: map_of_SomeD)

theorem load_then_resolve_asn_witness:
  "\<exists>b. LoadAll list_ranger example_env = Inr b \<and> ASN_ResolveASN (bs_ASN b) 9 = Inr [''v'']"
proof -
  have entries: "asn_entries example_file = [\<lparr>as_start = 8, as_end = 9, as_urls = [''v'']\<rparr>,
      \<lparr>as_start = 4, as_end = 4, as_urls = [''w'']\<rparr>]"
    by (simp add: asn_entries_def file_entries_def example_file_def map_filter_def parseServiceEntry_def
        json_strings_def asn_key_def parseASNRange_def parse_uint_def all_digits_def)
  obtain b where b: "LoadAll list_ranger example_env = Inr b"
    by (simp add: LoadAll_def LoadDNS_def LoadIP_def LoadASN_def split_beta Let_def)
  have "slice_sort (le_sort example_env)"
    by (simp add: example_env_def stable.slice_sort_axioms)
  from load_then_resolve_asn [OF this b, of example_file "\<lparr>as_start = 8, as_end = 9, as_urls = [''v'']\<rparr>" 9]
  show ?thesis using b by (simp add: entries asn_separate_def in_range_def)
qed

text \<open>
  C25. Once a DNS file is loaded, a domain resolves to the servers of the last well-formed entry of
  the file that lists its top-level domain in any case, and to "not found" when none does.
\<close>

theorem load_then_resolve_domain:
  assumes "LoadAll ops env = Inr b"
    and "load_file env ''https://data.iana.org/rdap/dns.json'' ''DNS'' = Inr file"
    and "file_entries file \<noteq> []" "domain \<noteq> []" "extractTLD domain \<noteq> []"
  shows "DNS_ResolveDomain (bs_DNS b) domain =
    (case find (\<lambda>e. to_lower (extractTLD domain) \<in> to_lower ` set (sv_Keys e)) (rev (file_entries file)) of
       None \<Rightarrow> Inl Bootstrap_ErrNotFound | Some e \<Rightarrow> Inr (sv_URLs e))"
proof -
  have table: "dns_tldToURLs (bs_DNS b) = dns_table file"
    by (rule LoadAll_tables(1) [OF assms(1,2)])
  obtain e where "e \<in> set (file_entries file)" using assms(3) by (cases "file_entries file") auto
  moreover from file_entries_ok [OF this] obtain k where "k \<in> set (sv_Keys e)" by (cases "sv_Keys e") auto
  ultimately have "dns_table file (to_lower k) \<noteq> None" by (auto simp: dns_table_last find_None_iff)
  then have "\<not> dns_empty (bs_DNS b)" by (auto simp: dns_empty_def table)
  then show ?thesis using assms(4,5)
    by (simp add: DNS_ResolveDomain_def Let_def table dns_table_last split: option.split)
qed

theorem load_then_resolve_domain_witness:
  "\<exists>b. LoadAll list_ranger example_env = Inr b \<and> DNS_ResolveDomain (bs_DNS b) ''a.Com'' = Inr [''u'']"
proof -
  have entries: "file_entries example_file =
      [\<lparr>sv_Keys = [''COM''], sv_URLs = [''u'']\<rparr>, \<lparr>sv_Keys = [''8-9''], sv_URLs = [''v'']\<rparr>,
       \<lparr>sv_Keys = [''4''], sv_URLs = [''w'']\<rparr>, \<lparr>sv_Keys = [''10.0.0.0/8''], sv_URLs = [''x'']\<rparr>]"
    by (simp add: file_entries_def example_file_def map_filter_def parseServiceEntry_def json_strings_def)
  have tld: "extractTLD ''a.Com'' = ''Com''"
    by (simp add: extractTLD_def trim_suffix_def last_index_char_def Let_def)
  obtain b where b: "LoadAll list_ranger example_env = Inr b"
    by (simp add: LoadAll_def LoadDNS_def LoadIP_def LoadASN_def split_beta Let_def)
  from load_then_resolve_domain [OF this, of example_file "''a.Com''"] show ?thesis
    using b by (simp add: entries tld to_lower_def is_ascii_def ascii_lower_def)
qed

definition loaded_nets :: "'r Bootstrap \<Rightarrow> ip_addr \<Rightarrow> ip_net \<rightharpoonup> string list" where
  "loaded_nets b addr = slice_nets (ib_prefixes (if is4 addr then bs_IPv4 b else bs_IPv6 b))"

text \<open>
  C26. After a load, with a prefix tree that keeps its contract, an address that some loaded prefix
  contains resolves to the servers of the longest such prefix, in the table of its version.
\<close>

theorem load_then_resolve_ip:
  assumes "ranger_ok ops nets" "LoadAll ops env = Inr b" "ParseAddr s = Some addr"
    and "loaded_nets b addr m = Some us" "net_contains m (ip_bytes addr)"
  shows "\<exists>n urls. Resolver_ResolveIP ops b s = Inr urls \<and> loaded_nets b addr n = Some urls \<and>
    net_contains n (ip_bytes addr) \<and>
    (\<forall>m us. loaded_nets b addr m = Some us \<and> net_contains m (ip_bytes addr) \<longrightarrow> snd m \<le> snd n)"
proof -
  let ?i = "if is4 addr then bs_IPv4 b else bs_IPv6 b"
  obtain r where r: "ib_ranger ?i = Some r" "nets r = slice_nets (ib_prefixes ?i)"
    using LoadIP_nets [OF assms(1) LoadAll_Inr(2) [OF assms(2)]]
      LoadIP_nets [OF assms(1) LoadAll_Inr(3) [OF assms(2)]] by (cases "is4 addr") auto
  have "ib_prefixes ?i \<noteq> []" using assms(4) by (auto simp: loaded_nets_def slice_nets_def)
  moreover have "Resolver_ResolveIP ops b s = IP_ResolveIP ops (is4 addr) ?i addr"
    using assms(3) by (simp add: Resolver_ResolveIP_def)
  ultimately show ?thesis
    using IP_ResolveIP_longest [OF assms(1) r(1) _ refl, of m us] assms(4,5)
    unfolding loaded_nets_def r(2) by simp
qed

lemma example_prefixes:
  "ParseAddr ''10.1.2.3'' = Some (IPv4 [10, 1, 2, 3])"
  "snd (ip_table list_ranger True example_file) = [((IPv4 [10, 0, 0, 0], 8), [''x''])]"
  "net_contains ([10, 0, 0, 0], 8) [10, 1, 2, 3]"
  by code_simp+

theorem load_then_resolve_ip_witness:
  "\<exists>b. LoadAll list_ranger example_env = Inr b \<and>
     Resolver_ResolveIP list_ranger b ''10.1.2.3'' = Inr [''x'']"
proof -
  obtain b where b: "LoadAll list_ranger example_env = Inr b"
    by (simp add: LoadAll_def LoadDNS_def LoadIP_def LoadASN_def split_beta Let_def)
  have "ib_prefixes (bs_IPv4 b) = [((IPv4 [10, 0, 0, 0], 8), [''x''])]"
    using LoadAll_tables(3) [OF b, of example_file] example_prefixes(2) by simp
  then have nets: "loaded_nets b (IPv4 [10, 1, 2, 3]) = [([10, 0, 0, 0], 8) \<mapsto> [''x'']]"
    by (simp add: loaded_nets_def slice_nets_def prefixToIPNet_def is4_def ip_bytes_def)
  then have "loaded_nets b (IPv4 [10, 1, 2, 3]) ([10, 0, 0, 0], 8) = Some [''x'']"
    "net_contains ([10, 0, 0, 0], 8) (ip_bytes (IPv4 [10, 1, 2, 3]))"
    using example_prefixes(3) by (simp_all add: ip_bytes_def)
  from load_then_resolve_ip [OF list_ranger_ok b example_prefixes(1) this]
  obtain n urls where "Resolver_ResolveIP list_ranger b ''10.1.2.3'' = Inr urls"
    "loaded_nets b (IPv4 [10, 1, 2, 3]) n = Some urls" by blast
  then show ?thesis using b nets by (auto split: if_splits)
qed

text \<open>
  Printing a range of AS numbers and parsing it back gives the range, over all 32 bits.
\<close>

theorem asn_range_roundtrip:
  "a \<le> b \<Longrightarrow> parseASNRange (print_range (a, b)) = Inr (a, b)"
  by (rule parse_print_range)

theorem asn_range_roundtrip_witness:
  "parseASNRange (print_range (7, - 1)) = Inr (7, - 1)"
  by (rule asn_range_roundtrip) simp



text \<open>
  C28. A start whose first load fails leaves the service marked as running without a goroutine: the
  next start does nothing, and whatever happens next short of a start, a stop never returns.
\<close>

theorem failed_start_blocks_stop:
  assumes "service_run NewService [StartCall, StartLoaded (Inl err)] s"
    and "service_run s evs s'" "StartCall \<notin> set evs"
  shows "service_step s StartCall s \<and> (\<forall>s''. \<not> service_step s' StopReturn s'')"
proof -
  have s: "bv_running s \<and> \<not> bv_panic s \<and> no_loop s"
    using assms(1) by (auto simp: NewService_def no_loop_def elim!: service_runE service_stepE)
  moreover have "no_loop s'" using service_run_no_loop [OF assms(2,3)] s by blast
  ultimately show ?thesis using start_running no_loop_stop_blocked by blast
qed

theorem failed_start_blocks_stop_witness:
  "\<exists>s s'. service_run (NewService :: nat service) [StartCall, StartLoaded (Inl (OtherError []))] s \<and>
     service_run s [StopCall] s' \<and> bv_stopping s' = 1 \<and> (\<forall>s''. \<not> service_step s' StopReturn s'')"
proof -
  let ?s = "(NewService :: nat service)\<lparr>bv_running := True\<rparr>"
  let ?l = "?s\<lparr>bv_starting := Suc 0\<rparr>"
  let ?s' = "?s\<lparr>bv_running := False, bv_stopClosed := True, bv_stopping := Suc 0\<rparr>"
  have "service_step NewService StartCall ?l" "service_step ?l (StartLoaded (Inl (OtherError []))) ?s"
    "service_step ?s StopCall ?s'"
    using start_begin [of "NewService :: nat service"] start_failed [of ?l 0 "OtherError []"] stop_begin [of ?s]
    by (simp_all add: NewService_def)
  then have runs: "service_run NewService [StartCall, StartLoaded (Inl (OtherError []))] ?s"
    "service_run ?s [StopCall] ?s'"
    by (blast intro: run_Cons run_Nil)+
  show ?thesis using failed_start_blocks_stop [OF runs] runs
    by (intro exI [of _ ?s] exI [of _ ?s']) (simp add: NewService_def)
qed

section \<open>Caches\<close>

text \<open>
  C29. A value just stored in the memory cache is found under its key, with its flag, until its
  lifetime ends and not afterwards, whatever had to be evicted for it.
\<close>

theorem memory_finds_what_was_set:
  assumes "lru_ok ops items cap" "mem_Set ops m now k v ttl neg = (r, m')"
  shows "if now' \<le> now + ttl
    then \<exists>e. fst (mem_Get ops m' now' k) = Inr e \<and> e_Value e = v \<and> e_Negative e = neg
    else fst (mem_Get ops m' now' k) = Inl (Sentinel Cache_ErrCacheMiss)"
  using mem_Get_Set [OF assms] mem_Get_expired [OF assms] by simp

definition small_memory :: "(nat \<times> (string \<times> Entry) list) MemoryCache" where
  "small_memory = NewMemoryCache (1, []) 5"

theorem memory_finds_what_was_set_witness:
  "\<exists>e. fst (mem_Get list_lru (snd (mem_Set list_lru small_memory 0 ''k'' ''vvvvvvv'' 10 False)) 10 ''k'') = Inr e \<and>
     e_Value e = ''vvvvvvv'' \<and> \<not> e_Negative e"
  using memory_finds_what_was_set [OF list_lru_ok, of small_memory 0 "''k''" "''vvvvvvv''" 10 False _ _ 10]
  by (metis add_0 order_refl prod.collapse)



text \<open>
  Deleting an entry subtracts its size twice: the counter ends below the size of the entries
  by the size of the entry deleted, so later stores may exceed the limit.
\<close>

theorem delete_subtracts_twice:
  assumes "lru_ok ops items cap" "mem_accounted items m"
    and "map_of (mem_items items m) k = Some e" "mem_Delete ops m k = (r, m')"
  shows "mc_sizeBytes m' = items_size (mem_items items m') - entry_size e"
  using assms by (rule mem_Delete_size)

definition one_entry :: Entry where
  "one_entry = \<lparr>e_Key = ''k'', e_Value = ''vvv'', e_ExpiresAt = 10, e_Negative = False\<rparr>"

theorem delete_subtracts_twice_witness:
  "mc_sizeBytes (snd (mem_Delete list_lru (small_memory\<lparr>mc_cache := (1, [(''k'', one_entry)]),
     mc_sizeBytes := 3\<rparr>) ''k'')) = - 3"
  (is "mc_sizeBytes (snd (mem_Delete list_lru ?m _)) = _")
proof -
  have acc: "mem_accounted snd ?m" "map_of (mem_items snd ?m) ''k'' = Some one_entry"
    by (simp_all add: mem_accounted_def mem_items_def items_size_def entry_size_def one_entry_def)
  obtain r m' where d: "mem_Delete list_lru ?m ''k'' = (r, m')" by fastforce
  then have "mem_items snd m' = []"
    by (auto simp: mem_Delete_def list_lru_def lru_result_def without_def mem_items_def Let_def)
  then show ?thesis using delete_subtracts_twice [OF list_lru_ok acc d] d
    by (simp add: items_size_def entry_size_def one_entry_def)
qed

text \<open>
  C31. The two-level cache in front of Redis invents nothing: after any sequence of stores into
  empty levels, an entry that a lookup returns has a value and a flag stored under that very key.
\<close>

theorem tiered_returns_what_was_stored:
  assumes "lru_ok ops items cap" "redis_ok rops contents" "json_ok js"
    and "mem_items items (tc_l1 t) = []" "tc_l2 t = Some r" "contents (rc_client r) = Map.empty"
    and "glob_free (rc_prefix r)"
    and "tiered_Get (memory_ops ops) (redis_cache_ops rops js)
      (run_sets (tiered_ops (memory_ops ops) (redis_cache_ops rops js)) t sets) now k = (Inr e, t')"
  shows "(e_Value e, e_Negative e) \<in> stored sets k"
proof -
  have "two_caches (memory_ops ops) (mem_holds items) (\<lambda>_. True)
      (redis_cache_ops rops js) (redis_holds contents js) redis_state_ok"
    by (intro two_caches.intro memory_cache_contract [OF assms(1)] redis_cache_contract [OF assms(2,3)])
  note sound = two_caches.tiered_after_sets [OF this _ _ _ assms(8)]
  have "entry_content e \<in> stored sets k"
    by (rule sound) (use assms(4-7) in \<open>auto simp: tiered_ok_def mem_holds_def redis_holds_def redis_state_ok_def\<close>)
  then show ?thesis by (simp add: entry_content_def)
qed

definition small_tiered ::
  "((nat \<times> (string \<times> Entry) list) MemoryCache, (string \<times> string) list RedisCache) TieredCache" where
  "small_tiered = NewTieredCacheWithBackends small_memory (Some (NewRedisCache [] ''p:''))
     \<lparr>cf_DefaultTTL = 100, cf_NegativeTTL = 10, cf_L1PromotionTTL = 20, cf_EnableL2Writes = True,
      cf_FetchTimeout = 0\<rparr>"

lemma small_tiered_config:
  "tc_config small_tiered = \<lparr>cf_DefaultTTL = 100, cf_NegativeTTL = 10, cf_L1PromotionTTL = 20,
     cf_EnableL2Writes = True, cf_FetchTimeout = defaultFetchTimeout\<rparr>"
  by (simp add: small_tiered_def NewTieredCacheWithBackends_def normalizeConfig_def)

lemma small_tiered_levels:
  "tc_l1 small_tiered = small_memory" "tc_l2 small_tiered = Some (NewRedisCache [] ''p:'')"
  by (simp_all add: small_tiered_def NewTieredCacheWithBackends_def)

abbreviation (input) "small_ops \<equiv> tiered_ops (memory_ops list_lru) (redis_cache_ops list_redis tag_json)"

theorem tiered_returns_what_was_stored_witness:
  "\<exists>e. fst (tiered_Get (memory_ops list_lru) (redis_cache_ops list_redis tag_json)
       (run_sets small_ops small_tiered [(0, ''a'', ''x'', 5, False), (1, ''a'', ''y'', 5, False)]) 9 ''a'') = Inr e \<and>
     (e_Value e, e_Negative e) \<in> {(''x'', False), (''y'', False)}"
proof -
  let ?sets = "[(0, ''a'', ''x'', 5, False), (1, ''a'', ''y'', 5, False)] :: (int \<times> string \<times> string \<times> int \<times> bool) list"
  let ?get = "tiered_Get (memory_ops list_lru) (redis_cache_ops list_redis tag_json)
    (run_sets small_ops small_tiered ?sets) 9 ''a''"
  have "case fst ?get of Inr e \<Rightarrow> e_Value e = ''y'' | Inl _ \<Rightarrow> False" by code_simp
  then obtain e t' where e: "?get = (Inr e, t')" by (cases ?get; cases "fst ?get") auto
  have "(e_Value e, e_Negative e) \<in> stored ?sets ''a''"
    by (rule tiered_returns_what_was_stored [OF list_lru_ok list_redis_ok tag_json_ok _ _ _ _ e,
          where r = "NewRedisCache [] ''p:''"])
       (simp_all add: small_tiered_levels small_memory_def NewMemoryCache_def mem_items_def
         NewRedisCache_def glob_free_def)
  then show ?thesis using e by (auto simp: stored_def)
qed

text \<open>
  One fetch is enough: a value that a call had to fetch is returned by every later call for
  that key within the default lifetime, from the cache, whatever a fetch would give then.
\<close>

theorem fetched_value_is_cached:
  assumes "lru_ok ops items cap"
    and "GetOrFetchWithNegative (memory_ops ops) o2 t (a1, a2, a3) k (Inr v) nf = ((r, c, True), t')"
    and "b1 \<le> a3 + cf_DefaultTTL (tc_config t)"
  shows "fst (GetOrFetchWithNegative (memory_ops ops) o2 t' (b1, b2, b3) k f nf) = (Inr v, True, False)"
  using fetch_then_hit [OF assms, of b2 b3 f] by auto

definition first_fetch ::
  "(go_error + string) \<Rightarrow> fetch_result \<times>
    ((nat \<times> (string \<times> Entry) list) MemoryCache, (string \<times> string) list RedisCache) TieredCache" where
  "first_fetch f = GetOrFetchWithNegative (memory_ops list_lru) (redis_cache_ops list_redis tag_json)
     small_tiered (0, 0, 1) ''k'' f Rdap_ErrNotFound"

theorem fetched_value_is_cached_witness:
  "fst (GetOrFetchWithNegative (memory_ops list_lru) (redis_cache_ops list_redis tag_json)
     (snd (first_fetch (Inr ''v''))) (101, 101, 101) ''k'' (Inl (OtherError [])) Rdap_ErrNotFound) =
   (Inr ''v'', True, False)"
proof (rule fetched_value_is_cached [OF list_lru_ok])
  have "fst (first_fetch (Inr ''v'')) = (Inr ''v'', False, True)" by code_simp
  then show "GetOrFetchWithNegative (memory_ops list_lru) (redis_cache_ops list_redis tag_json)
      small_tiered (0, 0, 1) ''k'' (Inr ''v'') Rdap_ErrNotFound =
      ((Inr ''v'', False, True), snd (first_fetch (Inr ''v'')))"
    by (simp add: first_fetch_def prod_eq_iff)
qed (simp add: small_tiered_config)

text \<open>
  C32. A "not found" answer is cached too, for the negative lifetime: later calls report it
  without a fetch.
\<close>

theorem not_found_is_cached:
  assumes "lru_ok ops items cap" "error_is err nf"
    and "GetOrFetchWithNegative (memory_ops ops) o2 t (a1, a2, a3) k (Inl err) nf = ((r, c, True), t')"
    and "b1 \<le> a3 + cf_NegativeTTL (tc_config t)"
  shows "fst (GetOrFetchWithNegative (memory_ops ops) o2 t' (b1, b2, b3) k f nf) =
    (Inl (Sentinel nf), True, False)"
  using fetch_not_found_then_hit [OF assms, of b2 b3 f] by auto

theorem not_found_is_cached_witness:
  "fst (GetOrFetchWithNegative (memory_ops list_lru) (redis_cache_ops list_redis tag_json)
     (snd (first_fetch (Inl (Wrapped ''domain'' [Sentinel Rdap_ErrNotFound])))) (11, 11, 11) ''k'' (Inr ''v'')
     Rdap_ErrNotFound) = (Inl (Sentinel Rdap_ErrNotFound), True, False)"
  (is "fst (GetOrFetchWithNegative _ _ (snd (first_fetch (Inl ?err))) _ _ _ _) = _")
proof (rule not_found_is_cached [OF list_lru_ok])
  show "error_is ?err Rdap_ErrNotFound" by simp
  have "fst (first_fetch (Inl ?err)) = (Inl (Sentinel Rdap_ErrNotFound), False, True)" by code_simp
  then show "GetOrFetchWithNegative (memory_ops list_lru) (redis_cache_ops list_redis tag_json)
      small_tiered (0, 0, 1) ''k'' (Inl ?err) Rdap_ErrNotFound =
      ((Inl (Sentinel Rdap_ErrNotFound), False, True), snd (first_fetch (Inl ?err)))"
    by (simp add: first_fetch_def prod_eq_iff)
qed (simp add: small_tiered_config)

text \<open>
  \<open>GetOrFetch\<close>, the variant without the negative flag, reports a cached "not found" as a
  success with the empty value the negative entry was stored with.
\<close>

theorem plain_fetch_ignores_negative:
  "fst (GetOrFetch (memory_ops list_lru) (redis_cache_ops list_redis tag_json)
     (snd (first_fetch (Inl (Sentinel Rdap_ErrNotFound)))) (11, 11, 11) ''k'' (Inl (OtherError []))) =
   (Inr [], True, False)"
  by code_simp

text \<open>
  An entry found only in the second level is copied to the first one and lives there for the
  promotion lifetime (the smaller of it and the negative lifetime for a negative entry), counted
  from the lookup, whatever remains of its lifetime in the second level.
\<close>

theorem promotion_starts_a_lifetime:
  assumes "lru_ok ops items cap"
    and "fst (mem_Get ops (tc_l1 t) now k) = Inl err" "tc_l2 t = Some s" "co_Get o2 s now k = (Inr e, s')"
    and "tiered_Get (memory_ops ops) o2 t now k = (r, t')"
    and "now' \<le> now + promotion_ttl (tc_config t) e"
  shows "\<exists>e'. fst (mem_Get ops (tc_l1 t') now' k) = Inr e' \<and> e_Value e' = e_Value e \<and>
    e_Negative e' = e_Negative e"
  using assms by (rule promotion_lifetime)

theorem promotion_starts_a_lifetime_witness:
  "\<exists>e'. fst (mem_Get list_lru (tc_l1 (snd (tiered_Get (memory_ops list_lru) (redis_cache_ops list_redis tag_json)
       (small_tiered\<lparr>tc_l2 := Some (NewRedisCache [(''p:k'', ''vx'')] ''p:'')\<rparr>) 7 ''k''))) 27 ''k'') = Inr e' \<and>
     e_Value e' = ''x''"
proof -
  let ?redis = "NewRedisCache [(''p:k'', ''vx'')] ''p:'' :: (string \<times> string) list RedisCache"
  let ?t = "small_tiered\<lparr>tc_l2 := Some ?redis\<rparr>"
  let ?e = "\<lparr>e_Key = ''k'', e_Value = ''x'', e_ExpiresAt = zero_time, e_Negative = False\<rparr>"
  have miss: "fst (mem_Get list_lru (tc_l1 ?t) 7 ''k'') = Inl (Sentinel Cache_ErrCacheMiss)"
    by (simp add: small_tiered_levels small_memory_def NewMemoryCache_def mem_Get_def list_lru_def)
  have l2: "co_Get (redis_cache_ops list_redis tag_json) ?redis 7 ''k'' = (Inr ?e, ?redis\<lparr>rc_hits := 1\<rparr>)"
    by (simp add: redis_cache_ops_def redis_Get_def NewRedisCache_def list_redis_def prefixedKey_def tag_json_def)
  obtain r t' where g: "tiered_Get (memory_ops list_lru) (redis_cache_ops list_redis tag_json) ?t 7 ''k'' = (r, t')"
    by fastforce
  show ?thesis
    using promotion_starts_a_lifetime [OF list_lru_ok miss _ l2 g, of 27] g
    by (simp add: small_tiered_config promotion_ttl_def) blast
qed

text \<open>
  Keys of different kinds or values never collide: the five prefixes are prefix-free.
\<close>

theorem keys_do_not_collide:
  assumes "p \<in> set key_prefixes" "q \<in> set key_prefixes"
  shows "BuildKey p v = BuildKey q w \<longleftrightarrow> p = q \<and> v = w"
  using assms by (rule BuildKey_inject)

theorem keys_do_not_collide_witness:
  "BuildKey KeyPrefixDomain ''a.b'' \<noteq> BuildKey KeyPrefixIP ''a.b''"
  using keys_do_not_collide [of KeyPrefixDomain KeyPrefixIP "''a.b''" "''a.b''"]
  by (simp add: key_prefixes_def KeyPrefixDomain_def KeyPrefixIP_def)

section \<open>Input\<close>

text \<open>
  \<open>ValidateDomain\<close> accepts exactly the names whose lower-case form, less one final dot, has at
  most 253 bytes and consists of labels of 1 to 63 letters, digits and inner hyphens.
\<close>

theorem valid_domains:
  "ValidateDomain name = None \<longleftrightarrow>
     name \<noteq> [] \<and> length (trim_suffix (to_lower name) ''.'') \<le> 253 \<and>
     list_all good_label (split_on CHR ''.'' (trim_suffix (to_lower name) ''.''))"
  by (simp add: ValidateDomain_None list_all_iff)

text \<open>
  A domain that passes has no control character, blank or colon in its lower-case form, so it
  can neither split a WHOIS query nor leave its path segment.
\<close>

theorem valid_domain_is_harmless:
  assumes "ValidateDomain name = None" "c \<in> set (to_lower name)"
  shows "label_alnum c \<or> c = CHR ''-'' \<or> c = CHR ''.''"
  using assms by (rule ValidateDomain_chars)

theorem valid_domain_is_harmless_witness:
  "CHR 0x0D \<notin> set (to_lower ''a.Com'')"
  using valid_domain_is_harmless [of "''a.Com''" "CHR 0x0D"]
  by (simp add: ValidateDomain_None to_lower_def is_ascii_def ascii_lower_def)

text \<open>
  The name is lower-cased with the rules of Unicode before it is checked: a name with the
  Kelvin sign (U+212A), whose lower case is the letter k, is accepted although its bytes are not
  letters, digits or hyphens.
\<close>

theorem valid_domain_may_be_non_ascii:
  "ValidateDomain [CHR 0xE2, CHR 0x84, CHR 0xAA, CHR ''.'', CHR ''e'', CHR ''u''] = None"
  (is "ValidateDomain ?name = None")
proof -
  have "runes ?name = [0x212A, 46, 101, 117]"
    by (simp add: runes.simps [of "CHR 0xE2 # _"] decode_rune_def second_ok_def is_cont_def byte_Char)
  moreover have "uni_lower 0x212A = 107" by (simp add: uni_lower_def lower_ranges_def)
  ultimately have "to_lower ?name = ''k.eu''"
    by (simp add: to_lower_def is_ascii_def is_high_iff byte_Char uni_lower_def encode_rune_def char_of_def bit_Suc_0_iff)
  then show ?thesis
    by (simp add: ValidateDomain_None trim_suffix_def good_label_def label_alnum_def)
qed

text \<open>
  An address that passes \<open>ValidateIP\<close> is one that parses to four or sixteen bytes.
\<close>

theorem valid_ip_is_an_address:
  assumes "ValidateIP s = None"
  shows "\<exists>a. ParseAddr s = Some a \<and> ip_ok a \<and> ip_zone a = []"
  using assms ParseIP_ok [of s]
  by (auto simp: ValidateIP_def ParseIP_def split: if_splits option.splits)

theorem valid_ip_is_an_address_witness:
  "\<exists>a. ParseAddr ''10.1.2.3'' = Some a \<and> ip_ok a \<and> ip_zone a = []"
proof (rule valid_ip_is_an_address)
  show "ValidateIP ''10.1.2.3'' = None"
    by (simp add: ValidateIP_def ParseIP_def example_prefixes)
qed

section \<open>Where the parsers lose data\<close>

text \<open>
  In the parser for .eu an empty field of an indented section, such as "Fax:", is taken for
  the header of an unknown section: it ends the section, and the fields that follow it are lost.
\<close>

theorem eu_empty_field_ends_section:
  "foldl EU_line (''registrant'', empty_domain) [''  Fax:'', ''  Email: a@b.c''] = ([], empty_domain) \<and>
   pd_Registrant (snd (EU_line (''registrant'', empty_domain) ''  Email: a@b.c'')) \<noteq> None"
  by code_simp

section \<open>The service, end to end\<close>





text \<open>
  C33. The key under which entities are cached joins the server and the handle with a colon, so two allowed
  pairs can share it: the second lookup is answered with the data of the first one, from another server name and for
  another handle.
\<close>

theorem entity_cache_confuses_servers:
  assumes "en_l1 env = memory_ops ops" "lru_ok ops items cap"
    and "LookupEntity env t p1 s1 h w = Some (resp, h1, w1)" "hr_status resp = 200" "w1 \<noteq> w"
    and "trim_space p2 \<noteq> []" "IsAllowed (lh_serverValidator h) s2 = None"
    and "s2 @ '':'' @ trim_space p2 = s1 @ '':'' @ trim_space p1"
    and "fst (lt_cache t') \<le> snd (snd (lt_cache t)) + cf_DefaultTTL (tc_config (lh_cache h))"
  shows "\<exists>h2. LookupEntity env t' p2 s2 h1 w' = Some (resp\<lparr>hr_cache := Some ''HIT''\<rparr>, h2, w')"
proof -
  have first: "answer ''entity'' (via_cache env t (entity_key s1 (trim_space p1))
      (fetchEntityData env (trim_space p1) s1) h w) = Some (resp, h1, w1)"
    using assms(3,4) by (auto simp: LookupEntity_def refuse_def error_response_def Let_def split: if_splits)
  have "lh_serverValidator h1 = lh_serverValidator h"
    using answer_setup [OF fetchers_ok(4) first] by (simp add: same_setup_def)
  moreover have "s2 \<noteq> []" using assms(7) by (auto simp: IsAllowed_def)
  moreover have "entity_key s2 (trim_space p2) = entity_key s1 (trim_space p1)"
    using assms(8) by (simp add: entity_key_eq_iff)
  ultimately show ?thesis
    using answer_repeat [OF assms(1,2) first assms(4,5,9)] assms(6,7) by (simp add: LookupEntity_def Let_def)
qed

theorem entity_cache_confuses_servers_witness:
  "\<exists>h1 h2. LookupEntity demo_env (at_time 0) ''443:H'' ''https://rdap.x.org'' (demo_handler counting_http) 0 =
      Some (respondWithData ''other'' False, h1, 1) \<and>
    LookupEntity demo_env (at_time 50) ''H'' ''https://rdap.x.org:443'' h1 1 = Some (respondWithData ''other'' True, h2, 1)"
proof -
  obtain h1 where h1: "LookupEntity demo_env (at_time 0) ''443:H'' ''https://rdap.x.org'' (demo_handler counting_http) 0 =
      Some (respondWithData ''other'' False, h1, 1)"
    using demo_entity by blast
  have strs: "trim_space ''443:H'' = ''443:H''" "trim_space ''H'' = ''H''" by code_simp+
  have "\<exists>h2. LookupEntity demo_env (at_time 50) ''H'' ''https://rdap.x.org:443'' h1 1 =
      Some ((respondWithData ''other'' False)\<lparr>hr_cache := Some ''HIT''\<rparr>, h2, 1)"
    by (rule entity_cache_confuses_servers [OF _ list_lru_ok h1])
       (simp_all add: demo_allowed respondWithData_def at_time_def demo_cache_def NewTieredCacheWithBackends_def
         normalizeConfig_def strs)
  with h1 show ?thesis by (auto simp: respondWithData_def)
qed



text \<open>
  C9. A batch answers every query, in any order in which its goroutines run and whichever of them time out:
  result \<open>i\<close> is for query \<open>i\<close>, and the counts add up.
\<close>

theorem batch_answers_every_query:
  assumes "IsReady (lh_bootstrap h)" "queries \<noteq> []" "length queries \<le> 100" "schedule_ok sched (length queries)"
  shows "\<exists>results stats h1 w1. LookupBatch env ts sched (Some queries) h w =
      Some (\<lparr>hr_status = 200, hr_cache = None, hr_body = BatchBody results stats\<rparr>, h1, w1) \<and>
    list_all2 result_for queries results \<and>
    bt_Total stats = length queries \<and> bt_Success stats + bt_Errors stats = bt_Total stats \<and>
    bt_CacheHits stats \<le> bt_Success stats"
proof -
  obtain results h1 w1 where run: "run_batch env ts queries sched (replicate (length queries) empty_result) h w =
      Some (results, h1, w1)"
    using run_batch_ready [OF assms(1)] by (metis not_None_eq prod_cases3)
  have all: "length results = length queries \<and> (\<forall>i < length queries. result_for (queries ! i) (results ! i))"
    using run_batch_results [OF run] assms(4) by (auto simp: schedule_ok_def)
  then have "list_all2 result_for queries results" by (simp add: list_all2_conv_all_nth)
  moreover have "\<forall>r \<in> set results. br_Cached r \<longrightarrow> br_Error r = []"
    using all by (metis in_set_conv_nth result_for_def)
  then have "bt_Success (batch_stats results (length queries)) + bt_Errors (batch_stats results (length queries)) =
      length queries \<and> bt_CacheHits (batch_stats results (length queries)) \<le> bt_Success (batch_stats results (length queries))"
    using batch_stats_ok [of results "length queries"] all by simp
  ultimately show ?thesis
    using run assms(2,3) by (simp add: LookupBatch_def batch_stats_count)
qed

theorem batch_answers_every_query_witness:
  "\<exists>results stats h1 w1. LookupBatch demo_env (\<lambda>_. at_time 0) [(1, True), (0, False)]
      (Some [\<lparr>bq_Type = ''domain'', bq_Value = ''x.org'', bq_Server = []\<rparr>,
             \<lparr>bq_Type = ''asn'', bq_Value = ''1'', bq_Server = []\<rparr>]) (demo_handler counting_http) 0 =
      Some (\<lparr>hr_status = 200, hr_cache = None, hr_body = BatchBody results stats\<rparr>, h1, w1) \<and>
    length results = 2 \<and> bt_Success stats + bt_Errors stats = 2"
proof -
  have "schedule_ok [(1, True), (0, False)] 2" by (auto simp: schedule_ok_def)
  from batch_answers_every_query [of "demo_handler counting_http"
      "[\<lparr>bq_Type = ''domain'', bq_Value = ''x.org'', bq_Server = []\<rparr>, \<lparr>bq_Type = ''asn'', bq_Value = ''1'', bq_Server = []\<rparr>]"
      "[(1, True), (0, False)]" demo_env "\<lambda>_. at_time 0" 0] this
  show ?thesis by (fastforce simp: numeral_2_eq_2 dest: list_all2_lengthD)
qed

section \<open>Upstream queries\<close>



text \<open>
  C34. The requests of a query are a prefix of a fixed list: every server in order, each one plus the number of
  retries times; nothing else is requested.
\<close>

theorem retries_are_bounded:
  assumes "traced env c logged"
  shows "\<exists>sent. logged (snd (queryWithRetry env c urls path w)) = logged w @ sent \<and>
    prefix sent (requests c urls path) \<and> length sent \<le> length urls * nat (rc_maxRetries c + 1)"
  using queryWithRetry_log [OF assms] prefix_length_le length_requests by (metis order_trans)

theorem retries_are_bounded_witness:
  "\<exists>sent. snd (queryWithRetry \<lparr>re_wait = (\<lambda>w d. (None, w)), re_decode = re_decode demo_rdap\<rparr>
        \<lparr>rc_httpClient = logging_http, rc_resolver = (None :: unit Bootstrap option), rc_maxRetries = 2, rc_userAgent = []\<rparr>
        [''https://rdap.x.org''] ''ip/1'' []) = sent \<and> length sent \<le> 3"
  using retries_are_bounded [where logged = "\<lambda>w. w" and w = "[]" and urls = "[''https://rdap.x.org'']" and path = "''ip/1''"
      and env = "\<lparr>re_wait = (\<lambda>w d. (None, w)), re_decode = re_decode demo_rdap\<rparr>"
      and c = "\<lparr>rc_httpClient = logging_http, rc_resolver = (None :: unit Bootstrap option), rc_maxRetries = 2,
        rc_userAgent = []\<rparr>"]
  by (auto simp: traced_def logging_http_def)

section \<open>Configuration and rate limits\<close>



text \<open>
  A size with a suffix stands for the product modulo 64 bits: sizes that are too large are accepted and
  wrap around.
\<close>

theorem size_variables_wrap:
  assumes "parse_int 64 ds = Some n" and "(sfx, m) \<in> {(''KB'', 1024), (''kb'', 1024), (''MB'', 1024 * 1024),
      (''mb'', 1024 * 1024), (''GB'', 1024 * 1024 * 1024), (''gb'', 1024 * 1024 * 1024)}"
    and "ev_get env key = ds @ sfx"
  shows "getSizeEnv env key d = int64 (n * m)"
  using parse_size_suffix [OF assms(1,2)] assms(2,3) by (auto simp: getSizeEnv_def env_or_def Let_def)

theorem size_variables_wrap_witness:
  "getSizeEnv (empty_environment\<lparr>ev_get := (\<lambda>_. ''17179869184GB'')\<rparr>) ''RDAP_CACHE_RAM_MAX_SIZE'' 5 = 0"
proof -
  have "parse_int 64 ''17179869184'' = Some 17179869184"
    by (simp add: parse_int_def all_digits_def)
  from size_variables_wrap [OF this, of "''GB''" "1024 * 1024 * 1024"
      "empty_environment\<lparr>ev_get := (\<lambda>_. ''17179869184GB'')\<rparr>" _ 5]
  show ?thesis by (simp add: int64_def)
qed




section \<open>Clients\<close>

text \<open>
  C20. The errors keep their meaning across the wire: when a handler answers an upstream error, the REST client
  returns, after its retries, an error that its predicates classify as the upstream error was.
\<close>

theorem upstream_error_reaches_client:
  assumes "answers env c render (handleError err q)" "url_Parse (ac_baseURL c @ path) \<noteq> None" "0 \<le> ac_maxRetries c"
  shows "\<exists>e w1. doRequest env c verb path None un result w = (Some e, result, w1) \<and>
    (IsNotFoundError e \<longleftrightarrow> seen_not_found err) \<and> (IsRateLimitedError e \<longleftrightarrow> seen_rate_limited err) \<and>
    (IsServerErrorFunc e \<longleftrightarrow>
       \<not> seen_not_found err \<and> \<not> seen_rate_limited err \<and> \<not> error_is err Bootstrap_ErrInvalidInput)"
proof -
  obtain status code msg where resp: "handleError err q = error_response status code msg" "400 \<le> status"
    and seen: "IsNotFoundError (PApi status code msg) \<longleftrightarrow> seen_not_found err"
      "IsRateLimitedError (PApi status code msg) \<longleftrightarrow> seen_rate_limited err"
      "IsServerErrorFunc (PApi status code msg) \<longleftrightarrow>
        \<not> seen_not_found err \<and> \<not> seen_rate_limited err \<and> \<not> error_is err Bootstrap_ErrInvalidInput"
    using handleError_seen by blast
  obtain w1 where "doRequest env c verb path None un result w = (Some (PApi status code msg), result, w1)"
    using doRequest_error [OF assms(1) [unfolded resp(1)] resp(2) assms(2,3), of verb un result w] by blast
  then show ?thesis using seen by blast
qed

definition counted_text :: "http_body \<Rightarrow> string" where
  "counted_text b = (case b of ErrorBody code msg \<Rightarrow> replicate (length code) CHR ''x'' @ '':'' @ code @ msg | _ \<Rightarrow> [])"

definition read_counted :: "string \<Rightarrow> (string \<times> string) option" where
  "read_counted s = (let n = length (takeWhile (\<lambda>c. c = CHR ''x'') s) in Some (take n (drop (Suc n) s), drop (Suc n + n) s))"

lemma length_counted_text: "length (counted_text (ErrorBody code msg)) = 2 * length code + 1 + length msg"
  by (simp add: counted_text_def)

lemma read_counted_text: "read_counted (counted_text (ErrorBody code msg)) = Some (code, msg)"
  by (simp add: read_counted_def counted_text_def takeWhile_append Let_def)

theorem upstream_error_reaches_client_witness:
  "\<exists>e. fst (doRequest \<lparr>ae_wait = (\<lambda>w d. (None, w)), ae_error = read_counted\<rparr>
      \<lparr>ac_baseURL = ''https://rdap.x.org'',
       ac_httpClient = \<lparr>hc_Timeout = 1, hc_Do = (\<lambda>t w req. (rendered counted_text
         (handleError (Wrapped ''resolve'' [Sentinel Bootstrap_ErrNotFound]) ''domain''), w))\<rparr>,
       ac_maxRetries = 2, ac_maxResponseSize = 1000, ac_userAgent = [], ac_normalizeDomains = True\<rparr>
      ''GET'' ''/domain/x.org'' None (None :: unit unmarshal option) () ()) = Some e \<and> IsNotFoundError e"
  (is "\<exists>e. fst (doRequest ?env ?c _ _ _ _ _ _) = _ \<and> _")
proof -
  let ?err = "Wrapped ''resolve'' [Sentinel Bootstrap_ErrNotFound]"
  have "answers ?env ?c counted_text (handleError ?err ''domain'')"
    by (simp add: answers_def read_counted_text handleError_def error_response_def length_counted_text)
  from upstream_error_reaches_client [OF this, of "''/domain/x.org''" "''GET''" "None :: unit unmarshal option" "()" "()"]
  show ?thesis using demo_urls(1) by (auto simp: seen_not_found_def)
qed

text \<open>
  C38. Entity queries that the REST client puts into a batch always fail: the server does not read the field in
  which the client sends the server URL.
\<close>

theorem rest_entity_query_fails:
  assumes "to_lower (pq_Type q) = ''entity''" "decode_batch_query (encode_batch_query q) = Some q'"
  shows "processBatchQuery env t q' h w =
    Some (batch_error q' ''server URL required for entity queries'', h, w)"
  using assms unfolding decode_encode_batch_query by (auto simp: processBatchQuery_def Let_def)

theorem rest_entity_query_fails_witness:
  "\<exists>q'. decode_batch_query (encode_batch_query
        \<lparr>pq_Type = ''Entity'', pq_Value = ''H'', pq_ServerURL = ''https://rdap.x.org''\<rparr>) = Some q' \<and>
     processBatchQuery demo_env (at_time 0) q' (demo_handler counting_http) 0 =
       Some (batch_error q' ''server URL required for entity queries'', demo_handler counting_http, 0)"
  (is "\<exists>q'. decode_batch_query (encode_batch_query ?q) = _ \<and> _")
proof -
  have "to_lower (pq_Type ?q) = ''entity''" by code_simp
  moreover obtain q' where "decode_batch_query (encode_batch_query ?q) = Some q'"
    using decode_encode_batch_query by blast
  ultimately show ?thesis
    using rest_entity_query_fails [of ?q q' demo_env "at_time 0" "demo_handler counting_http" 0] by blast
qed

text \<open>
  C39. A domain, an IP network or an entity that the server encodes and the REST client decodes is what the
  standalone client makes of the same data, except for the country of a domain, which the server does not send.
\<close>

theorem rest_and_standalone_agree:
  "decode_domain (encode_domain d) = map_option (\<lambda>r. r\<lparr>dr_Country := []\<rparr>) (domainFromSchema (Some d)) \<and>
   decode_ip (encode_ip a) = ipFromSchema (Some a) \<and>
   decode_entity (encode_entity e) = entityFromSchema (Some e)"
  by (simp add: decode_encode_domain decode_encode_ip decode_encode_entity)

text \<open>
  C40. The response of a batch is read back: every result arrives with its type, value, flag and error and with
  its data as a document, and the statistics that arrive are those of the results that arrive.
\<close>

theorem batch_response_is_read_back:
  assumes "list_all (raw_ok parse) rs" "length rs < 2 ^ 63" "ms < 2 ^ 63"
  shows "\<exists>fs st. encode_batch parse rs (batch_stats rs (length rs)) ms = Some fs \<and>
    decode_batch fs = Some (map (read_result parse) rs, Some st) \<and>
    kt_Total st = int (length rs) \<and> kt_Success st + kt_Errors st = kt_Total st \<and>
    kt_Errors st = int (length (filter (\<lambda>r. wb_Error r \<noteq> []) (map (read_result parse) rs))) \<and>
    kt_CacheHits st = int (length (filter wb_Cached (map (read_result parse) rs)))"
proof -
  have small: "length (filter P rs) < 2 ^ 63" for P
    using assms(2) by (rule le_less_trans [OF length_filter_le])
  have sum: "length (filter (\<lambda>r. br_Error r = []) rs) + length (filter (\<lambda>r. br_Error r \<noteq> []) rs) = length rs"
    by (rule sum_length_filter_compl)
  show ?thesis
    using decode_encode_batch [OF assms(1), of "batch_stats rs (length rs)" ms] assms(2,3) small sum
    by (auto simp: batch_stats_counts filter_map comp_def read_result_def simp flip: of_nat_add)
qed

definition demo_results :: "BatchResult list" where
  "demo_results =
     [empty_result\<lparr>br_Type := ''ip'', br_Data := ''x'', br_Cached := True\<rparr>, empty_result\<lparr>br_Error := ''timeout''\<rparr>]"

theorem batch_response_is_read_back_witness:
  "\<exists>fs st. encode_batch (\<lambda>s. Some (Some (DStr s))) demo_results (batch_stats demo_results (length demo_results)) 7 = Some fs \<and>
     decode_batch fs = Some (map (read_result (\<lambda>s. Some (Some (DStr s)))) demo_results, Some st) \<and>
     kt_Errors st = 1 \<and> kt_CacheHits st = 1"
proof -
  have ok: "list_all (raw_ok (\<lambda>s. Some (Some (DStr s)))) demo_results" "length demo_results < 2 ^ 63" "(7 :: nat) < 2 ^ 63"
    by (simp_all add: demo_results_def raw_ok_def)
  have counts: "length (filter (\<lambda>r. wb_Error r \<noteq> []) (map (read_result (\<lambda>s. Some (Some (DStr s)))) demo_results)) = 1"
    "length (filter wb_Cached (map (read_result (\<lambda>s. Some (Some (DStr s)))) demo_results)) = 1"
    by (simp_all add: demo_results_def read_result_def empty_result_def)
  from batch_response_is_read_back [OF ok] show ?thesis unfolding counts by auto
qed

text \<open>
  The component of the metadata is lost, the version and the host name arrive; an error arrives as it is.
\<close>

theorem meta_and_error_documents:
  "decode_meta (encode_meta m) = Some \<lparr>mp_Component = [], mp_Version = me_Version m, mp_Hostname = me_Hostname m\<rparr> \<and>
   decode_error (encode_error code msg) = Some (Some (code, msg))"
  by (simp add: meta_loses_component decode_encode_error)

text \<open>
  The REST client reads every AS number range as 0 to 0 and without its entities: the two sides name these
  fields differently.  All other fields survive.
\<close>

theorem rest_client_loses_range:
  "decode_asn (encode_asn a) =
     map_option (\<lambda>r. r\<lparr>nr_StartAutnum := 0, nr_EndAutnum := 0, nr_Entities := []\<rparr>) (asnFromSchema (Some a))"
  by (rule decode_encode_asn)

text \<open>
  When the first load of the bootstrap data fails, every later lookup of the standalone client fails the
  same way, however many refreshes succeed in between.
\<close>

theorem standalone_first_failure_is_final:
  assumes "\<not> st_closed c" "st_once c = None" "sn_load env = Inl err"
  shows "\<exists>c1. Standalone_LookupIP env cd addr c w =
      Some (Inl (PWrap ''bootstrap initialization failed'' (PWrap ''failed to load bootstrap data'' (PGo err))), c1, w) \<and>
    (\<forall>loads env' w'. let c2 = foldl (\<lambda>c load. background_tick load c) c1 loads in
       Standalone_LookupIP env' cd' addr' c2 w' =
       Some (Inl (PWrap ''bootstrap initialization failed'' (PWrap ''failed to load bootstrap data'' (PGo err))), c2, w'))"
proof -
  define c1 where "c1 = c\<lparr>st_once := Some (Some (PWrap ''failed to load bootstrap data'' (PGo err)))\<rparr>"
  have kept: "st_once (foldl (\<lambda>c load. background_tick load c) c1 loads) = st_once c1 \<and>
      st_closed (foldl (\<lambda>c load. background_tick load c) c1 loads) = st_closed c1" for loads
    by (induction loads rule: rev_induct) simp_all
  show ?thesis
    unfolding Standalone_LookupIP_def with_bootstrap_first_failure [OF assms]
    by (rule exI [of _ c1]) (use assms(1) kept in \<open>simp add: c1_def with_bootstrap_failed Let_def\<close>)
qed

theorem standalone_first_failure_is_final_witness:
  "\<exists>c1. fst (the (Standalone_LookupIP (offline_env\<lparr>sn_load := Inr demo_bootstrap\<rparr>) no_codec ''192.0.2.1''
       (background_tick (Inr demo_bootstrap) c1) 0)) =
     Inl (PWrap ''bootstrap initialization failed''
       (PWrap ''failed to load bootstrap data'' (PGo (OtherError ''dial'')))) \<and>
     Standalone_IsReady (background_tick (Inr demo_bootstrap) c1)"
proof -
  have "\<not> st_closed offline" "st_once offline = None" "sn_load offline_env = Inl (OtherError ''dial'')"
    by (simp_all add: offline_def offline_env_def)
  from standalone_first_failure_is_final [OF this, of no_codec "''192.0.2.1''" 0 no_codec "''192.0.2.1''"]
  obtain c1 :: "(nat, unit, list_cache) StandaloneClient" where "\<forall>loads env' w'. let c2 = foldl (\<lambda>c load. background_tick load c) c1 loads in
      Standalone_LookupIP env' no_codec ''192.0.2.1'' c2 w' =
      Some (Inl (PWrap ''bootstrap initialization failed''
        (PWrap ''failed to load bootstrap data'' (PGo (OtherError ''dial'')))), c2, w')"
    by blast
  from this [THEN spec, of "[Inr demo_bootstrap]"] show ?thesis
    by (auto simp: background_tick_ready Let_def intro!: exI [of _ c1])
qed

text \<open>
  The standalone client requests an entity only from the given server, only when the bootstrap data lists it,
  and at most once plus the number of retries.
\<close>

theorem standalone_entity_asks_only_listed_server:
  assumes "traced (sn_rdap env) (st_client c) logged" "st_once c \<noteq> None"
    and "Standalone_LookupEntity env cd handle serverURL c w = Some (res, c1, w1)"
  shows "\<exists>sent. logged w1 = logged w @ sent \<and> length sent \<le> nat (rc_maxRetries (st_client c) + 1) \<and>
    set sent \<subseteq> {base_url serverURL @ ''entity/'' @ PathEscape handle} \<and>
    (sent \<noteq> [] \<longrightarrow> isServerAllowed (sn_list env) serverURL c)"
  by (rule Standalone_LookupEntity_log [OF assms])

theorem standalone_entity_asks_only_listed_server_witness:
  "\<exists>c1 sent res. Standalone_LookupEntity
       \<lparr>sn_rdap = demo_rdap, sn_ranger = unit_ranger, sn_cache = memory_ops list_lru, sn_load = Inr demo_bootstrap,
        sn_suffixes = \<lparr>ps_EffectiveTLDPlusOne = Some, ps_PublicSuffix = (\<lambda>s. s)\<rparr>,
        sn_list = (\<lambda>_. [''https://rdap.x.org'']), sn_now = (0, 0)\<rparr> no_codec ''H'' ''https://RDAP.x.org/''
       \<lparr>st_config = default_standalone, st_resolver = Some demo_bootstrap, st_once = Some None,
        st_client = demo_client logging_http, st_cache = (None :: list_cache option), st_closed = False\<rparr> [] =
       Some (res, c1, sent) \<and> length sent \<le> 3 \<and>
     set sent \<subseteq> {base_url ''https://RDAP.x.org/'' @ ''entity/'' @ PathEscape ''H''}"
  (is "\<exists>c1 sent res. Standalone_LookupEntity ?env _ _ _ ?c _ = _ \<and> _")
proof -
  have "standalone_normalize ''https://rdap.x.org'' = standalone_normalize ''https://RDAP.x.org/''" by code_simp
  then have "Standalone_LookupEntity ?env no_codec ''H'' ''https://RDAP.x.org/'' ?c [] \<noteq> None"
    by (auto simp: Standalone_LookupEntity_def with_bootstrap_def ensureBootstrap_def isServerAllowed_def
        cached_query_def cache_probe_def Let_def split: prod.split sum.split)
  then obtain res c1 sent where run: "Standalone_LookupEntity ?env no_codec ''H'' ''https://RDAP.x.org/'' ?c [] =
      Some (res, c1, sent)"
    by (metis not_None_eq prod_cases3)
  have "traced (sn_rdap ?env) (st_client ?c) (\<lambda>w. w)" by (simp add: logging_traced demo_client_def)
  from standalone_entity_asks_only_listed_server [OF this _ run] run show ?thesis
    by (auto simp: demo_client_def)
qed

text \<open>
  A REST client with a negative number of retries reports success with an empty value, without a request.
\<close>

theorem negative_retries_succeed_without_request:
  assumes "ac_maxRetries c < 0"
  shows "Api_LookupIP env c un zero addr w = (Inr zero, w)"
  using assms by (simp add: Api_LookupIP_def doRequest_negative api_value_def)

theorem negative_retries_succeed_without_request_witness:
  "Api_LookupIP \<lparr>ae_wait = (\<lambda>w d. (None, w)), ae_error = (\<lambda>_. None)\<rparr>
     \<lparr>ac_baseURL = ''https://rdap.x.org'', ac_httpClient = \<lparr>hc_Timeout = 1, hc_Do = (\<lambda>t w req. (failing 503, w + 1))\<rparr>,
      ac_maxRetries = -1, ac_maxResponseSize = 1000, ac_userAgent = [], ac_normalizeDomains = True\<rparr>
     (\<lambda>s r. (None, s)) [] ''192.0.2.1'' (0 :: nat) = (Inr [], 0)"
  by (rule negative_retries_succeed_without_request) simp

text \<open>
  Every AS number but zero is read back from its decimal text, with or without the prefix, in all 32 bits.
\<close>

theorem as_number_is_read_back:
  assumes "asn \<noteq> 0" "p \<in> {[], ''AS'', ''as''}"
  shows "parseASN (p @ show_nat (unat asn)) = Some asn"
  by (rule parseASN_show [OF assms])

theorem as_number_is_read_back_witness: "parseASN (''as'' @ show_nat (unat (64500 :: 32 word))) = Some 64500"
  by (rule as_number_is_read_back) simp_all

section \<open>The server and the program\<close>

text \<open>
  C10. Once the program has started, every sequence of requests is answered, one response each, with a status
  of the API, whatever the outside world does; and no request changes the configuration, the health, the
  allowlist or the batch settings.
\<close>

theorem started_server_answers_every_request:
  assumes "app_setup rps ev Version GitCommit ap = Inr s"
  shows "\<exists>rs s1 w1. serve_all se env rqs (Server_Start s) w = Some (rs, s1, w1) \<and> length rs = length rqs \<and>
    list_all proper_server_response rs \<and> same_server (Server_Start s) s1"
proof -
  have "server_ok (Server_Start s)" using app_setup_ok [OF assms] by (simp add: server_ok_Start)
  from serve_all_ok [OF this, of se env rqs w] show ?thesis by blast
qed

theorem started_server_answers_every_request_witness:
  "\<exists>s rs s1 w1. app_setup () empty_environment ''v1'' ''c1'' demo_app = Inr s \<and>
     serve_all demo_server_env demo_env
       [(1, \<lambda>_. at_time 1, [], demo_request ''GET'' ''/ready''),
        (2, \<lambda>_. at_time 2, [], demo_request ''POST'' ''/api/v1/batch'')] (Server_Start s) 0 = Some (rs, s1, w1) \<and>
     length rs = 2 \<and> list_all proper_server_response rs"
proof -
  obtain s :: "(unit, unit, nat, unit, list_cache, list_cache) Server"
    where s: "app_setup () empty_environment ''v1'' ''c1'' demo_app = Inr s" using demo_app_starts by blast
  let ?rqs = "[(1, \<lambda>_. at_time 1, [], demo_request ''GET'' ''/ready''),
    (2, \<lambda>_. at_time 2, [], demo_request ''POST'' ''/api/v1/batch'')]"
  show ?thesis
    using started_server_answers_every_request [OF s, where se = demo_server_env and env = demo_env and rqs = ?rqs
        and w = 0] s by auto
qed



text \<open>
  The limiter stands in front of the handlers: a request it refuses is answered with 429, changes
  nothing but the limiter and reaches no other host.  Operational endpoints never meet it.
\<close>

theorem limiter_guards_the_handlers:
  assumes "rateLimitMiddlewareWithLogging se now rq s = (lmt, s1)"
  shows "(\<forall>resp ev. lmt = Some (resp, ev) \<longrightarrow>
      serve se env ts sched now rq s w = Some (SR_Api resp, s1, w) \<and> hr_status resp = 429 \<and>
      s1 = s\<lparr>ws_rateLimiter := ws_rateLimiter s1\<rparr> \<and> sy_Type ev = ''rate_limited'' \<and> sy_RemoteIP ev = RealIP se s rq) \<and>
    (rq_Path rq \<in> operationalEndpoints \<longrightarrow> lmt = None \<and> s1 = s)"
  using assms
  by (auto simp: serve_def rateLimitMiddlewareWithLogging_def error_response_def Let_def split: option.splits
      prod.splits if_splits)

theorem limiter_guards_the_handlers_witness:
  "fst (rateLimitMiddlewareWithLogging demo_server_env 0 (demo_request ''GET'' ''/ready'')
     (NewServer (read_config () empty_environment) 0 \<lparr>bi_Version = [], bi_GitCommit = []\<rparr> (Some (demo_handler counting_http)))) =
   None"
proof -
  let ?s = "NewServer (read_config () empty_environment) 0 \<lparr>bi_Version = [], bi_GitCommit = []\<rparr>
    (Some (demo_handler counting_http))"
  obtain lmt s1 where l: "rateLimitMiddlewareWithLogging demo_server_env 0 (demo_request ''GET'' ''/ready'') ?s = (lmt, s1)"
    by fastforce
  then show ?thesis
    using limiter_guards_the_handlers [OF l, of demo_env "\<lambda>_. at_time 0" "[]" 0]
    by (simp add: demo_request_def operationalEndpoints_def)
qed

text \<open>
  A server is shut down once: the first shutdown takes it out of service, a second one panics exactly
  when there is a rate limiter.
\<close>

theorem second_shutdown_panics:
  assumes "\<not> ws_done s"
  shows "\<exists>s1. Shutdown s = Some s1 \<and> fst (ReadinessHandler ping (ws_healthChecker s1)) = 503 \<and>
    (Shutdown s1 = None \<longleftrightarrow> ws_rateLimiter s \<noteq> None)"
  using Shutdown_twice [OF assms] by (auto simp: ReadinessHandler_def)

theorem second_shutdown_panics_witness:
  "\<exists>(s :: (unit, unit, nat, unit, list_cache, list_cache) Server) s1. app_setup () empty_environment ''v1'' ''c1'' demo_app = Inr s \<and> Shutdown s = Some s1 \<and>
     fst (ReadinessHandler None (ws_healthChecker s1)) = 503"
proof -
  obtain s :: "(unit, unit, nat, unit, list_cache, list_cache) Server"
    where s: "app_setup () empty_environment ''v1'' ''c1'' demo_app = Inr s" using demo_app_starts by blast
  then have "\<not> ws_done s" using app_setup_ok [OF s] by simp
  with s second_shutdown_panics [of s None] show ?thesis by blast
qed

section \<open>The command line client\<close>

text \<open>
  C21. Every command line ends with an output or an error: with either client, whatever the servers, files and
  the environment are, no command panics.
\<close>

theorem cli_command_ends:
  assumes "codecs_ok (ce_codecs env)"
  shows "\<exists>res w1. cli_run env args w = Some (res, w1)"
  using cli_run_ends [OF assms, of args w] by auto

theorem cli_command_ends_witness: "\<exists>res w1. cli_run demo_cli [''domain'', ''-S'', ''x.org''] 0 = Some (res, w1)"
  by (rule cli_command_ends) (simp add: demo_cli_def)

text \<open>
  C36. Options are read back: the arguments printed for a configuration, followed by any words, are parsed to that
  configuration and these words, whatever the environment says, unless it asks for standalone mode, which no
  option can take back.  Durations and sizes go through their text.
\<close>

theorem options_are_read_back:
  assumes "settable c" "list_all word words" "cl_Standalone (cli_defaults env) \<longrightarrow> cl_Standalone c"
  shows "parseConfig env (config_args c @ words) = Inr (Some (c, words))"
  unfolding parseConfig_def using assms by (intro parse_config_args) (simp_all add: cli_defaults_def)

definition demo_options :: CliConfig where
  "demo_options = \<lparr>cl_ServerURL = ''https://rdap.x.org'', cl_Timeout = 1500000000, cl_Output = ''table'', cl_Quiet = True,
     cl_Standalone = True, cl_CacheSize = 52428800, cl_CacheTTL = hours 24, cl_NegativeTTL = -5, cl_NoCache = False,
     cl_NormalizeDomain = False\<rparr>"

theorem options_are_read_back_witness:
  "parseConfig demo_cli (config_args demo_options @ [''x.org'']) = Inr (Some (demo_options, [''x.org'']))"
  by (rule options_are_read_back)
     (simp_all add: demo_options_def settable_def in_int64_def hours_def seconds_def word_def has_prefix_def)

text \<open>
  C37. A batch file is read back: the queries written one to a line are the queries that the batch command runs.
\<close>

theorem batch_file_is_read_back:
  assumes "list_all writable_query queries" "word path" "ce_stat env (filepath_Clean path)"
    and "ce_open env (filepath_Clean path) = Inr (concat (map (\<lambda>q. line (query_line q)) queries), None)"
  shows "collect_queries env (path # rest) = Inr queries"
  using assms scan_queries_lines [OF assms(1)]
  by (auto simp: collect_queries_def resolveBatchFile_def Let_def word_def has_prefix_def)

theorem batch_file_is_read_back_witness:
  "collect_queries demo_cli [''./a/../queries.txt''] =
     Inr [\<lparr>pq_Type = ''domain'', pq_Value = ''x.org'', pq_ServerURL = []\<rparr>,
          \<lparr>pq_Type = ''ip'', pq_Value = ''192.0.2.1'', pq_ServerURL = []\<rparr>]"
proof -
  have "filepath_Clean ''./a/../queries.txt'' = ''queries.txt''" by code_simp
  then show ?thesis
    by (intro batch_file_is_read_back)
       (simp_all add: demo_cli_def word_def has_prefix_def line_def query_line_def writable_query_def clean_def
         solid_char_def ascii_space_def max_scan_token_def)
qed

text \<open>
  The entity command never makes a request, whatever its arguments: the option that names the server is
  refused as unknown, and without it the server is missing.
\<close>

theorem entity_command_never_asks:
  "\<exists>res \<in> insert (Inr (Help ''entity'')) (range Inl). cli_run env (''entity'' # args) w = Some (res, w)"
proof -
  obtain res where res: "runEntity env args w = Some (res, w)" "\<forall>out. res = Inr out \<longrightarrow> out = Help ''entity''"
    using runEntity_never_asks [of env args w] by blast
  then have "res \<in> insert (Inr (Help ''entity'')) (range Inl)" by (cases res) auto
  then show ?thesis using res(1) by (auto simp: cli_run_def)
qed

text \<open>
  For the same reason a batch never reads its standard input, and an option in front of the command is taken for
  an unknown command.
\<close>

theorem batch_ignores_stdin: "cli_run (env\<lparr>ce_stdin := input\<rparr>) (''batch'' # args) w = cli_run env (''batch'' # args) w"
  by (simp add: cli_run_def runBatch_ignores_stdin)

theorem options_before_the_command_fail:
  "cli_run env [''-s'', ''https://rdap.x.org'', ''domain'', ''x.org''] w =
     Some (Inl (cli_error ''unknown command: -s''), w)"
  using option_first [of "''-s''"] by (simp add: has_prefix_def)

section \<open>The analyzer\<close>



text \<open>
  A domain that is spelled with the letters a to f and digits is taken for an address and left out.
\<close>

theorem hex_domains_are_skipped: "isIPAddress ''facade.de'' \<and> isIPAddress ''bad.cafe''"
  by code_simp

section \<open>The report\<close>


definition demo_result :: "string \<Rightarrow> pub_error option \<Rightarrow> DomainResponse option \<Rightarrow> int \<Rightarrow> LookupResult" where
  "demo_result name err resp dur = \<lparr>lr_Domain = name, lr_SourceURL = [], lr_Response = resp, lr_Error = err,
     lr_Duration = dur, lr_Cached = False, lr_Timestamp = 0\<rparr>"

definition demo_report :: "unit AnalysisReport" where
  "demo_report = empty_report 0 demo_analysis\<lparr>ar_DomainResults :=
     [demo_result ''x.org'' None (Some zero_domain) 3000000, demo_result ''y.org'' (Some (cli_error [])) None 1000000,
      demo_result ''z.net'' None (Some zero_domain) 2000000]\<rparr>"


text \<open>
  The percentiles of a report are durations of the results: less than p percent and one result took less
  time, and more than p percent no more; the first and the last of the sorted durations bound them all.
\<close>

theorem report_percentiles:
  assumes "ar_DomainResults report \<noteq> []" "d = prepareTemplateData env report"
    and "(p, shown) \<in> {(50, td_P50 d), (95, td_P95 d), (99, td_P99 d)}"
  shows "\<exists>x \<in> lr_Duration ` set (ar_DomainResults report). shown = show_ms x \<and>
    100 * num_of (\<lambda>r. lr_Duration r < x) (ar_DomainResults report) \<le> length (ar_DomainResults report) * p \<and>
    length (ar_DomainResults report) * p < 100 * num_of (\<lambda>r. lr_Duration r \<le> x) (ar_DomainResults report)"
proof -
  let ?rs = "ar_DomainResults report" and ?ds = "sort (map lr_Duration (ar_DomainResults report))"
  have "p < 100" "shown = percentile ?ds p" using assms(2,3) by (auto simp: prepared collected_durations)
  moreover have "?ds \<noteq> []" using assms(1) by (metis length_0_conv length_map length_sort)
  ultimately show ?thesis
    using percentile_value [of ?ds p] by (simp add: num_of_sort)
qed

theorem report_percentiles_witness:
  "\<exists>x \<in> {1000000, 2000000, 3000000}. td_P50 (prepareTemplateData demo_report_env demo_report) = show_ms x"
  using report_percentiles [OF _ refl, of demo_report 50 "td_P50 (prepareTemplateData demo_report_env demo_report)"
    demo_report_env]
  by (auto simp: demo_report_def demo_result_def)

section \<open>The program of the analyzer\<close>






text \<open>
  The field that \<open>-asn-lookup\<close> sets does not reach the analysis.
\<close>

theorem asn_lookup_has_no_effect: "config_of (c\<lparr>fg_ASNLookup := b\<rparr>) = config_of c"
  by (simp add: config_of_def)

section \<open>Metrics\<close>

text \<open>
  Registering the metrics of a new process succeeds, registers every one of them, and does no harm a second
  time: \<open>MustRegister\<close> does not panic.
\<close>

theorem metrics_are_registered:
  assumes "prometheus reg held" "held p = {}" "foreign go"
  shows "\<exists>p1. MustRegister reg go p = Some p1 \<and> held p1 = set go \<union> range describe \<and> MustRegister reg go p1 = Some p1"
  using prometheus.Register_all [OF assms] by (auto simp: MustRegister_def)

definition runtime_collector :: "metric_desc list" where
  "runtime_collector = [gauge ''go_goroutines'' [] ''Number of goroutines that currently exist.'']"

theorem metrics_are_registered_witness:
  "\<exists>p1. MustRegister list_register runtime_collector [] = Some p1 \<and> describe CacheHitsTotal \<in> set p1"
proof -
  have "foreign runtime_collector" by (simp add: runtime_collector_def foreign_def gauge_def)
  from metrics_are_registered [OF list_registry.prometheus_axioms _ this, of "[]"] show ?thesis
    by (auto simp del: describe_simps)
qed



text \<open>
  C17. The metrics of the caches balance, whatever the uses of the tiered cache: every get counts as a hit or a
  miss of the first level, every miss there as a hit or a miss of the second if there is one, every hit there as
  a promotion or a failed one, and the hits are the gets that found an entry.  No recording panics.
\<close>

theorem cache_metrics_balance:
  assumes "use_caches o1 o2 uses t = (calls, found, t1)"
  shows "\<exists>s. metric_calls (map collector_metric calls) no_values = Some s \<and>
    (let v = mv_value s in
     v CacheHitsTotal [''ram''] + v CacheMissesTotal [''ram''] = int (length found) \<and>
     v CacheHitsTotal [''redis''] + v CacheMissesTotal [''redis''] =
       (if tc_l2 t \<noteq> None then v CacheMissesTotal [''ram''] else 0) \<and>
     v CachePromotionsTotal [] + v CachePromotionErrors [] = v CacheHitsTotal [''redis''] \<and>
     v CacheHitsTotal [''ram''] + v CacheHitsTotal [''redis''] = int (length (filter id found)))"
proof -
  have fits: "list_all fits (map collector_metric calls)" by (simp add: list_all_iff collector_fits)
  then obtain s where s: "metric_calls (map collector_metric calls) no_values = Some s" using fits_calls by blast
  let ?n = "\<lambda>m ls. increments m ls (map collector_metric calls)"
  have val: "mv_value s m ls = int (?n m ls)" if "md_Kind (describe m) = Counter" for m ls
    using counter_value [OF fits that s] by (simp add: no_values_def)
  have vals: "mv_value s CacheHitsTotal = (\<lambda>ls. int (?n CacheHitsTotal ls))"
    "mv_value s CacheMissesTotal = (\<lambda>ls. int (?n CacheMissesTotal ls))"
    "mv_value s CachePromotionsTotal = (\<lambda>ls. int (?n CachePromotionsTotal ls))"
    "mv_value s CachePromotionErrors = (\<lambda>ls. int (?n CachePromotionErrors ls))"
    by (intro ext val; simp add: describe_defs)+
  show ?thesis
    using uses_balanced [OF assms] s unfolding balanced_def Let_def LayerRAM_def LayerRedis_def
    by (intro exI [of _ s] conjI) (simp_all add: vals flip: of_nat_add)
qed

theorem cache_metrics_balance_witness:
  "\<exists>s calls found t1.
     use_caches (memory_ops list_lru) (memory_ops list_lru)
       [UseSet 0 (1, 1) ''k'' ''v'' 60 False, UseGet 1 (1, 1) ''k'', UseGet 2 (1, 1) ''other''] demo_cache = (calls, found, t1) \<and>
     metric_calls (map collector_metric calls) no_values = Some s \<and>
     mv_value s CacheHitsTotal [''ram''] + mv_value s CacheMissesTotal [''ram''] = int (length found)"
proof -
  obtain calls found t1 where run: "use_caches (memory_ops list_lru) (memory_ops list_lru)
      [UseSet 0 (1, 1) ''k'' ''v'' 60 False, UseGet 1 (1, 1) ''k'', UseGet 2 (1, 1) ''other''] demo_cache = (calls, found, t1)"
    by (metis prod_cases3)
  then show ?thesis using cache_metrics_balance [OF run] by (auto simp: Let_def)
qed



text \<open>
  A domain for which there is no server is answered with 404 and counted as an error; a request that ran into its
  timeout is counted as an error as well.
\<close>

theorem no_server_is_an_error_in_metrics:
  "lookup_calls ''domain'' (Some (Wrapped ''resolve domain x.zz'' [Sentinel Bootstrap_ErrNotFound])) False =
     [(LookupsTotal, [''domain''], Inc), (LookupOutcomes, [''domain'', ''error''], Inc)] \<and>
   hr_status (handleError (Wrapped ''resolve domain x.zz'' [Sentinel Bootstrap_ErrNotFound]) ''domain'') = 404"
  by (simp add: lookup_calls_def no_server_counted_as_error)

theorem timeout_is_an_error_in_metrics:
  "ho_error resp = Some (Sentinel Context_DeadlineExceeded) \<Longrightarrow>
   \<exists>e. reply_result decode resp = Inl e \<and> recordLookupMetrics (Some e) cached = (''error'', None)"
  by (rule timeout_counted_as_error, assumption, simp)

end
